(* ===== verification/Prelude.thy ===== *)
theory Prelude
  imports Complex_Main "HOL-Library.Multiset" "HOL-Library.Code_Target_Numeral"
begin

text \<open>
  Shared vocabulary of the development: the pieces of the JavaScript standard library that
  the dashboard calls (String.prototype.trim, toLowerCase, includes, split, Array.prototype
  .sort, find, slice, join, and plain objects used as dictionaries), each as an executable
  HOL function, and the generic lemmas on them.

  Strings are HOL \<^typ>\<open>string\<close>s: lists of 8-bit characters, read as UTF-16 code units below
  256 (the Latin-1 block). White space and case mapping are those of that block.
\<close>

named_theorems js_simps \<open>unfolding rules of the JavaScript library functions\<close>
named_theorems inv_intros \<open>introduction rules of the component invariants\<close>

type_synonym 'v obj = "(string \<times> 'v) list"

section \<open>Strings\<close>

definition is_ws :: "char \<Rightarrow> bool" where
  "is_ws c \<longleftrightarrow> (of_char c :: nat) \<in> {9, 10, 11, 12, 13, 32, 160}"

definition js_trim :: "string \<Rightarrow> string" where
  "js_trim s = rev (dropWhile is_ws (rev (dropWhile is_ws s)))"

definition lower_char :: "char \<Rightarrow> char" where
  "lower_char c =
     (let n = (of_char c :: nat)
      in if (65 \<le> n \<and> n \<le> 90) \<or> (192 \<le> n \<and> n \<le> 222 \<and> n \<noteq> 215) then char_of (n + 32) else c)"

definition js_lower :: "string \<Rightarrow> string" where
  "js_lower s = map lower_char s"

fun js_startsWith :: "string \<Rightarrow> string \<Rightarrow> bool" where
  "js_startsWith s [] = True"
| "js_startsWith [] (p # ps) = False"
| "js_startsWith (c # s) (p # ps) = (c = p \<and> js_startsWith s ps)"

fun js_includes :: "string \<Rightarrow> string \<Rightarrow> bool" where
  "js_includes [] t = (t = [])"
| "js_includes (c # s) t = (js_startsWith (c # s) t \<or> js_includes s t)"

fun js_join :: "string \<Rightarrow> string list \<Rightarrow> string" where
  "js_join sep [] = []"
| "js_join sep [x] = x"
| "js_join sep (x # y # xs) = x @ sep @ js_join sep (y # xs)"

text \<open>\<open>s.split(c)\<close> for a one-character separator: always at least one piece.\<close>

fun js_split :: "char \<Rightarrow> string \<Rightarrow> string list" where
  "js_split c [] = [[]]"
| "js_split c (x # xs) =
     (if x = c then [] # js_split c xs
      else case js_split c xs of [] \<Rightarrow> [[x]] | w # ws \<Rightarrow> (x # w) # ws)"

text \<open>\<open>s.split(/[...]+/)\<close>: the separators are the maximal runs of characters in the class.\<close>

function js_split_run :: "(char \<Rightarrow> bool) \<Rightarrow> string \<Rightarrow> string list" where
  "js_split_run p s =
     (let r = dropWhile (\<lambda>c. \<not> p c) s
      in if r = [] then [s]
         else takeWhile (\<lambda>c. \<not> p c) s # js_split_run p (dropWhile p r))"
  by pat_completeness auto

lemma js_split_run_shorter:
  assumes "dropWhile (\<lambda>c. \<not> p c) s \<noteq> []"
  shows "length (dropWhile p (dropWhile (\<lambda>c. \<not> p c) s)) < length s"
proof -
  let ?r = "dropWhile (\<lambda>c. \<not> p c) s"
  obtain x xs where r: "?r = x # xs"
    using assms by (cases ?r) auto
  then have "p x"
    using hd_dropWhile [OF assms] by simp
  then have "length (dropWhile p ?r) \<le> length xs"
    using r length_dropWhile_le [of p xs] by simp
  also have "\<dots> < length ?r"
    using r by simp
  also have "\<dots> \<le> length s"
    by (rule length_dropWhile_le)
  finally show ?thesis .
qed

termination js_split_run
  by (relation "measure (\<lambda>(p, s). length s)") (auto intro: js_split_run_shorter)

declare js_split_run.simps [simp del]

text \<open>\<open>a || b\<close> on strings: the empty string is the only falsy one.\<close>

definition or_str :: "string \<Rightarrow> string \<Rightarrow> string" where
  "or_str a b = (if a = [] then b else a)"

definition or_str_opt :: "string option \<Rightarrow> string \<Rightarrow> string" where
  "or_str_opt a b = (case a of None \<Rightarrow> b | Some s \<Rightarrow> or_str s b)"

text \<open>Truthiness of an optional string field (\<open>undefined\<close> and the empty string are falsy).\<close>

definition truthy :: "string option \<Rightarrow> bool" where
  "truthy a = (case a of None \<Rightarrow> False | Some s \<Rightarrow> s \<noteq> [])"

definition nullish :: "'a option \<Rightarrow> 'a \<Rightarrow> 'a" where
  "nullish a b = (case a of None \<Rightarrow> b | Some x \<Rightarrow> x)"

lemmas js_opt_defs = or_str_def or_str_opt_def truthy_def nullish_def

declare js_opt_defs [js_simps]

lemma nullish_simps [simp]: "nullish None b = b" "nullish (Some x) b = x"
  by (simp_all add: nullish_def)

lemma truthy_simps [simp]: "truthy None = False" "truthy (Some s) = (s \<noteq> [])"
  by (simp_all add: truthy_def)

lemma or_str_simps [simp]: "or_str [] b = b" "a \<noteq> [] \<Longrightarrow> or_str a b = a"
  by (simp_all add: or_str_def)

lemma or_str_eq_Nil [simp]: "or_str a b = [] \<longleftrightarrow> a = [] \<and> b = []"
  by (simp add: or_str_def)

subsection \<open>Lemmas on strings\<close>

lemma js_startsWith_iff: "js_startsWith s p \<longleftrightarrow> (\<exists>r. s = p @ r)"
  by (induction s p rule: js_startsWith.induct) auto

lemma js_includes_iff: "js_includes s t \<longleftrightarrow> (\<exists>a b. s = a @ t @ b)"
proof (induction s t rule: js_includes.induct)
  case (1 t)
  then show ?case by auto
next
  case (2 c s t)
  have "(\<exists>a b. c # s = a @ t @ b) \<longleftrightarrow>
        (\<exists>b. c # s = t @ b) \<or> (\<exists>a b. s = a @ t @ b)" (is "?l \<longleftrightarrow> ?r")
  proof
    assume ?l
    then obtain a b where "c # s = a @ t @ b" by blast
    then show ?r by (cases a) auto
  next
    assume ?r
    then show ?l by (metis append_Cons append_Nil)
  qed
  with 2 show ?case by (simp add: js_startsWith_iff)
qed

lemma dropWhile_idem [simp]: "dropWhile P (dropWhile P xs) = dropWhile P xs"
  by (induction xs) auto

lemma dropWhile_hd: "xs = [] \<or> \<not> P (hd xs) \<Longrightarrow> dropWhile P xs = xs"
  by (cases xs) auto

lemma js_trim_hd: "js_trim s = [] \<or> \<not> is_ws (hd (js_trim s))"
proof (cases "js_trim s = []")
  case False
  let ?d = "dropWhile is_ws s"
  let ?e = "dropWhile is_ws (rev ?d)"
  have ne: "?e \<noteq> []"
    using False by (simp add: js_trim_def)
  then have "?d \<noteq> []" by (metis dropWhile.simps(1) rev.simps(1))
  then have h: "\<not> is_ws (hd ?d)" by (rule hd_dropWhile)
  have "rev ?d = takeWhile is_ws (rev ?d) @ ?e" by simp
  then have "?d = rev ?e @ rev (takeWhile is_ws (rev ?d))"
    by (metis rev_append rev_rev_ident)
  then have "hd ?d = hd (rev ?e)"
    using ne by (metis hd_append2 rev_is_Nil_conv)
  with h show ?thesis by (simp add: js_trim_def)
qed simp

lemma js_trim_last: "js_trim s = [] \<or> \<not> is_ws (last (js_trim s))"
  unfolding js_trim_def
  by (metis hd_dropWhile last_rev rev_is_Nil_conv)

lemma js_trim_id:
  assumes "s = [] \<or> (\<not> is_ws (hd s) \<and> \<not> is_ws (last s))"
  shows "js_trim s = s"
proof -
  have "dropWhile is_ws s = s"
    using assms by (intro dropWhile_hd) auto
  moreover have "dropWhile is_ws (rev s) = rev s"
    using assms by (intro dropWhile_hd) (auto simp: hd_rev)
  ultimately show ?thesis by (simp add: js_trim_def)
qed

lemma js_trim_idem [simp]: "js_trim (js_trim s) = js_trim s"
  using js_trim_hd js_trim_last by (intro js_trim_id) blast

lemma js_trim_Nil [simp]: "js_trim [] = []"
  by (simp add: js_trim_def)

lemma set_js_trim: "set (js_trim s) \<subseteq> set s"
  unfolding js_trim_def by (metis set_dropWhileD set_rev subsetI)

lemma js_split_run_pieces:
  "w \<in> set (js_split_run p s) \<Longrightarrow> (\<forall>c \<in> set w. \<not> p c) \<and> set w \<subseteq> set s"
proof (induction p s rule: js_split_run.induct)
  case (1 p s)
  let ?r = "dropWhile (\<lambda>c. \<not> p c) s"
  show ?case
  proof (cases "?r = []")
    case True
    have "js_split_run p s = [s]"
      by (subst js_split_run.simps) (simp only: Let_def True simp_thms if_True)
    then have "w = s"
      using "1.prems" by simp
    with True show ?thesis by simp
  next
    case False
    have "js_split_run p s = takeWhile (\<lambda>c. \<not> p c) s # js_split_run p (dropWhile p ?r)"
      by (subst js_split_run.simps) (simp only: Let_def False if_False)
    then consider "w = takeWhile (\<lambda>c. \<not> p c) s" | "w \<in> set (js_split_run p (dropWhile p ?r))"
      using "1.prems" by (simp only: set_simps insert_iff) blast
    then show ?thesis
    proof cases
      case 1
      then show ?thesis by (auto dest: set_takeWhileD)
    next
      case 2
      with "1.IH" [OF refl False] have "(\<forall>c\<in>set w. \<not> p c) \<and> set w \<subseteq> set (dropWhile p ?r)" by simp
      then show ?thesis by (meson set_dropWhileD subset_iff)
    qed
  qed
qed

lemma js_split_nonempty [simp]: "js_split c s \<noteq> []"
  by (induction s) (auto split: list.split)

lemma js_split_pieces: "w \<in> set (js_split c s) \<Longrightarrow> c \<notin> set w"
proof (induction s arbitrary: w)
  case Nil
  then show ?case by simp
next
  case (Cons x xs)
  obtain v vs where "js_split c xs = v # vs"
    by (cases "js_split c xs") auto
  with Cons show ?case by (auto split: if_splits)
qed

lemma js_join_Cons: "js_join sep (x # xs) = (if xs = [] then x else x @ sep @ js_join sep xs)"
  by (cases xs) auto

lemma js_split_prefix:
  assumes "c \<notin> set w"
  shows "js_split c (w @ c # s) = w # js_split c s"
  using assms by (induction w) auto

lemma js_split_none:
  assumes "c \<notin> set w"
  shows "js_split c w = [w]"
  using assms by (induction w) auto

text \<open>Splitting a joined list of separator-free pieces recovers the pieces.\<close>

lemma js_split_join:
  assumes "xs \<noteq> []" and "\<forall>x \<in> set xs. c \<notin> set x"
  shows "js_split c (js_join [c] xs) = xs"
  using assms
proof (induction xs)
  case Nil
  then show ?case by simp
next
  case (Cons x xs)
  then show ?case
    by (cases xs) (auto simp: js_split_none js_split_prefix)
qed

section \<open>Arrays\<close>

subsection \<open>Array.prototype.sort\<close>

text \<open>
  A comparator returns a number; \<open>None\<close> stands for \<open>NaN\<close>, which the specification reads as
  0. The sort is stable. On a consistent comparator every stable sort gives the same list;
  on an inconsistent one (a \<open>NaN\<close> key) the language leaves the order to the implementation
  and only \<open>mset_js_sort\<close> below is used.
\<close>

type_synonym 'a comparator = "'a \<Rightarrow> 'a \<Rightarrow> rat option"

definition cmp_pos :: "rat option \<Rightarrow> bool" where
  "cmp_pos r = (case r of None \<Rightarrow> False | Some d \<Rightarrow> d > 0)"

fun js_insert :: "'a comparator \<Rightarrow> 'a \<Rightarrow> 'a list \<Rightarrow> 'a list" where
  "js_insert cmp x [] = [x]"
| "js_insert cmp x (y # ys) = (if cmp_pos (cmp x y) then y # js_insert cmp x ys else x # y # ys)"

fun js_sort :: "'a comparator \<Rightarrow> 'a list \<Rightarrow> 'a list" where
  "js_sort cmp [] = []"
| "js_sort cmp (x # xs) = js_insert cmp x (js_sort cmp xs)"

text \<open>The two comparators of the code: by a numeric key, ascending or descending.\<close>

definition by_asc :: "('a \<Rightarrow> rat option) \<Rightarrow> 'a comparator" where
  "by_asc f = (\<lambda>l r. case (f l, f r) of (Some a, Some b) \<Rightarrow> Some (a - b) | _ \<Rightarrow> None)"

definition by_desc :: "('a \<Rightarrow> rat option) \<Rightarrow> 'a comparator" where
  "by_desc f = (\<lambda>l r. case (f l, f r) of (Some a, Some b) \<Rightarrow> Some (b - a) | _ \<Rightarrow> None)"

lemma mset_js_insert [simp]: "mset (js_insert cmp x xs) = {#x#} + mset xs"
  by (induction xs) auto

lemma mset_js_sort [simp]: "mset (js_sort cmp xs) = mset xs"
  by (induction xs) auto

lemma set_js_sort [simp]: "set (js_sort cmp xs) = set xs"
  by (metis mset_js_sort set_mset_mset)

lemma length_js_sort [simp]: "length (js_sort cmp xs) = length xs"
  by (metis mset_js_sort size_mset)

lemma distinct_map_js_sort [simp]: "distinct (map f (js_sort cmp xs)) = distinct (map f xs)"
  by (metis distinct_count_atmost_1 mset_js_sort mset_map set_js_sort set_map image_set)

lemma filter_js_insert_other: "\<not> P x \<Longrightarrow> filter P (js_insert cmp x xs) = filter P xs"
  by (induction xs) auto

text \<open>On keyed comparators the model is the library's stable sort.\<close>

lemma js_insert_asc:
  assumes "f x = Some (g x)" and "\<forall>y \<in> set ys. f y = Some (g y)"
  shows "js_insert (by_asc f) x ys = insort_key g x ys"
  using assms by (induction ys) (auto simp: by_asc_def cmp_pos_def)

lemma js_sort_asc:
  assumes "\<forall>y \<in> set ys. f y = Some (g y)"
  shows "js_sort (by_asc f) ys = sort_key g ys"
  using assms by (induction ys) (auto simp: js_insert_asc sort_key_simps)

lemma by_desc_asc: "by_desc f = by_asc (\<lambda>x. map_option uminus (f x))"
  by (auto simp: by_desc_def by_asc_def fun_eq_iff split: option.split)

lemma js_sort_desc:
  assumes "\<forall>y \<in> set ys. f y = Some (g y)"
  shows "js_sort (by_desc f) ys = sort_key (\<lambda>y. - g y) ys"
  unfolding by_desc_asc using assms by (intro js_sort_asc) auto

section \<open>Objects as dictionaries\<close>

text \<open>
  A plain object is the list of its own properties in enumeration order: the array-index
  keys in ascending numeric order, then the other keys in the order of their insertion.
  \<open>obj_set\<close> is the assignment \<open>o[k] = v\<close>.
\<close>

fun digits_value :: "nat \<Rightarrow> string \<Rightarrow> nat" where
  "digits_value acc [] = acc"
| "digits_value acc (c # cs) = digits_value (10 * acc + (of_char c - 48)) cs"

definition is_digit :: "char \<Rightarrow> bool" where
  "is_digit c \<longleftrightarrow> 48 \<le> (of_char c :: nat) \<and> (of_char c :: nat) \<le> 57"

definition is_index :: "string \<Rightarrow> bool" where
  "is_index k \<longleftrightarrow> k \<noteq> [] \<and> list_all is_digit k \<and> (hd k = CHR ''0'' \<longrightarrow> tl k = []) \<and>
     length k \<le> 10 \<and> digits_value 0 k < 4294967295"

definition key_before :: "string \<Rightarrow> string \<Rightarrow> bool" where
  "key_before a b \<longleftrightarrow>
     (if is_index a then (if is_index b then digits_value 0 a < digits_value 0 b else True)
      else False)"

fun obj_insert :: "string \<Rightarrow> 'v \<Rightarrow> 'v obj \<Rightarrow> 'v obj" where
  "obj_insert k v [] = [(k, v)]"
| "obj_insert k v ((k', v') # o') =
     (if key_before k k' then (k, v) # (k', v') # o' else (k', v') # obj_insert k v o')"

fun obj_replace :: "string \<Rightarrow> 'v \<Rightarrow> 'v obj \<Rightarrow> 'v obj" where
  "obj_replace k v [] = []"
| "obj_replace k v ((k', v') # o') = (if k = k' then (k, v) # o' else (k', v') # obj_replace k v o')"

abbreviation obj_get :: "'v obj \<Rightarrow> string \<Rightarrow> 'v option" where
  "obj_get \<equiv> map_of"

abbreviation obj_keys :: "'v obj \<Rightarrow> string list" where
  "obj_keys \<equiv> map fst"

definition obj_set :: "'v obj \<Rightarrow> string \<Rightarrow> 'v \<Rightarrow> 'v obj" where
  "obj_set o' k v = (if k \<in> set (obj_keys o') then obj_replace k v o' else obj_insert k v o')"

definition obj_delete :: "'v obj \<Rightarrow> string \<Rightarrow> 'v obj" where
  "obj_delete o' k = filter (\<lambda>(k', v). k' \<noteq> k) o'"

text \<open>\<open>{...a, ...b}\<close>\<close>

definition obj_spread :: "'v obj \<Rightarrow> 'v obj \<Rightarrow> 'v obj" where
  "obj_spread a b = foldl (\<lambda>o' (k, v). obj_set o' k v) a b"

definition obj_from_entries :: "(string \<times> 'v) list \<Rightarrow> 'v obj" where
  "obj_from_entries es = obj_spread [] es"

text \<open>The invariant of enumeration order.\<close>

definition key_le :: "string \<Rightarrow> string \<Rightarrow> bool" where
  "key_le a b \<longleftrightarrow> (is_index b \<longrightarrow> is_index a \<and> digits_value 0 a < digits_value 0 b)"

definition obj_ok :: "'v obj \<Rightarrow> bool" where
  "obj_ok o' \<longleftrightarrow> distinct (obj_keys o') \<and> sorted_wrt key_le (obj_keys o')"

lemma obj_get_replace: "k \<in> set (obj_keys o') \<Longrightarrow> obj_get (obj_replace k v o') = (obj_get o')(k \<mapsto> v)"
  by (induction o') (force simp: fun_eq_iff)+

lemma obj_keys_replace [simp]: "obj_keys (obj_replace k v o') = obj_keys o'"
  by (induction o') auto

lemma obj_get_insert: "k \<notin> set (obj_keys o') \<Longrightarrow> obj_get (obj_insert k v o') = (obj_get o')(k \<mapsto> v)"
  by (induction o') (auto simp: fun_eq_iff)

lemma set_obj_insert [simp]: "set (obj_insert k v o') = insert (k, v) (set o')"
  by (induction o') (auto split: if_splits)

lemma obj_get_set: "obj_get (obj_set o' k v) = (obj_get o')(k \<mapsto> v)"
  by (simp add: obj_set_def obj_get_replace obj_get_insert del: set_map)

lemma obj_keys_set [simp]: "set (obj_keys (obj_set o' k v)) = insert k (set (obj_keys o'))"
  by (auto simp: obj_set_def simp del: set_map) (auto simp: image_iff)

lemma obj_get_delete: "obj_get (obj_delete o' k) = (obj_get o')(k := None)"
  by (induction o') (auto simp: obj_delete_def fun_eq_iff)

lemma obj_get_spread: "obj_get (obj_spread a b) = obj_get a ++ obj_get (rev b)"
  unfolding obj_spread_def
  by (induction b arbitrary: a) (auto simp: obj_get_set map_add_def fun_eq_iff map_of_append split: option.split)

lemma distinct_obj_insert:
  "k \<notin> set (obj_keys o') \<Longrightarrow> distinct (obj_keys o') \<Longrightarrow> distinct (obj_keys (obj_insert k v o'))"
  by (induction o') auto

lemma key_le_trans: "key_le a b \<Longrightarrow> key_le b c \<Longrightarrow> key_le a c"
  by (auto simp: key_le_def)

lemma sorted_obj_insert:
  assumes "sorted_wrt key_le (obj_keys o')"
    and "\<forall>k' \<in> set (obj_keys o'). is_index k \<longrightarrow> is_index k' \<longrightarrow> digits_value 0 k' \<noteq> digits_value 0 k"
  shows "sorted_wrt key_le (obj_keys (obj_insert k v o'))"
  using assms
proof (induction o')
  case Nil
  then show ?case by simp
next
  case (Cons kv o')
  obtain k' v' where kv: "kv = (k', v')" by (cases kv)
  show ?case
  proof (cases "key_before k k'")
    case True
    then have "key_le k k'"
      by (auto simp: key_before_def key_le_def split: if_splits)
    moreover have "\<forall>j \<in> set (obj_keys o'). key_le k' j"
      using Cons.prems kv by simp
    ultimately have "\<forall>j \<in> set (obj_keys o'). key_le k j"
      by (blast intro: key_le_trans)
    with True \<open>key_le k k'\<close> Cons.prems kv show ?thesis by simp
  next
    case False
    then have "key_le k' k"
      using Cons.prems kv by (auto simp: key_before_def key_le_def split: if_splits)
    with False Cons kv show ?thesis by simp
  qed
qed

lemma obj_set_at_end:
  assumes "k \<notin> set (obj_keys o')" and "\<forall>k' \<in> set (obj_keys o'). key_le k' k"
  shows "obj_set o' k v = o' @ [(k, v)]"
proof -
  have "obj_insert k v o' = o' @ [(k, v)]"
    using assms
    by (induction o') (auto simp: key_before_def key_le_def split: if_splits)
  then show ?thesis using assms(1) by (simp add: obj_set_def)
qed

text \<open>Re-inserting the properties of an object in their order rebuilds it.\<close>

lemma obj_from_entries_ok:
  assumes "obj_ok es"
  shows "obj_from_entries es = es"
  using assms
proof (induction es rule: rev_induct)
  case Nil
  then show ?case by (simp add: obj_from_entries_def obj_spread_def)
next
  case (snoc kv es)
  obtain k v where kv: "kv = (k, v)" by (cases kv)
  have "obj_ok es" and "k \<notin> set (obj_keys es)" and "\<forall>k' \<in> set (obj_keys es). key_le k' k"
    using snoc.prems kv by (auto simp: obj_ok_def sorted_wrt_append)
  with snoc.IH kv show ?case
    by (simp add: obj_from_entries_def obj_spread_def obj_set_at_end)
qed

lemma digits_value_append:
  "digits_value a (xs @ ys) = digits_value (digits_value a xs) ys"
  by (induction xs arbitrary: a) auto

end
