(* ===== verification/JsNumber.thy ===== *)
theory JsNumber
  imports Prelude
begin

text \<open>
  Numbers and their decimal text, as the language defines them: Number::toString (used by
  \<open>String(n)\<close>, template literals and JSON.stringify), the number grammar of JSON and
  StringToNumber (\<open>Number(s)\<close>), and the rounding functions the formatters call.

  A finite Number is modelled by the rational value of the decimal its toString prints, so
  reading and printing are exact; arithmetic is exact rational arithmetic (the rounding of
  binary64 is not modelled). \<open>NaN\<close> and the infinities occur only as results of \<open>Number(s)\<close>.
\<close>

section \<open>Digits\<close>

definition digit_char :: "nat \<Rightarrow> char" where
  "digit_char n = char_of (48 + n)"

fun nat_digits :: "nat \<Rightarrow> string" where
  "nat_digits n =
     (if n < 10 then [digit_char n] else nat_digits (n div 10) @ [digit_char (n mod 10)])"

declare nat_digits.simps [simp del]

lemma of_char_digit_char: "n < 10 \<Longrightarrow> (of_char (digit_char n) :: nat) = 48 + n"
  by (simp add: digit_char_def)

lemma is_digit_digit_char [simp]: "n < 10 \<Longrightarrow> is_digit (digit_char n)"
  by (simp add: is_digit_def of_char_digit_char)

lemma digit_char_of_digit: "is_digit c \<Longrightarrow> digit_char (of_char c - 48) = c"
  by (auto simp: is_digit_def digit_char_def)

lemma digit_char_zero: "n < 10 \<Longrightarrow> digit_char n = CHR ''0'' \<longleftrightarrow> n = 0"
proof -
  assume n: "n < 10"
  have "digit_char n = CHR ''0'' \<longleftrightarrow> (of_char (digit_char n) :: nat) = of_char (CHR ''0'')"
    by (metis char_of_char)
  with n show ?thesis by (simp add: of_char_digit_char)
qed

lemma nat_digits_nonempty [simp]: "nat_digits n \<noteq> []"
  by (subst nat_digits.simps) simp

lemma nat_digits_value [simp]: "digits_value 0 (nat_digits n) = n"
proof (induction n rule: nat_digits.induct)
  case (1 n)
  show ?case
  proof (cases "n < 10")
    case True
    then show ?thesis by (subst nat_digits.simps) (simp add: of_char_digit_char)
  next
    case False
    with 1 show ?thesis
      by (subst nat_digits.simps) (simp add: digits_value_append of_char_digit_char)
  qed
qed

lemma nat_digits_all [simp]: "list_all is_digit (nat_digits n)"
proof (induction n rule: nat_digits.induct)
  case (1 n)
  then show ?case by (subst nat_digits.simps) auto
qed

lemma nat_digits_hd: "n > 0 \<Longrightarrow> hd (nat_digits n) \<noteq> CHR ''0''"
proof (induction n rule: nat_digits.induct)
  case (1 n)
  show ?case
  proof (cases "n < 10")
    case True
    with 1 show ?thesis by (subst nat_digits.simps) (simp add: digit_char_zero)
  next
    case False
    with 1 have "hd (nat_digits (n div 10)) \<noteq> CHR ''0''" by simp
    with False show ?thesis by (subst nat_digits.simps) simp
  qed
qed

lemma nat_digits_zero [simp]: "nat_digits 0 = ''0''"
  by (subst nat_digits.simps) (simp add: digit_char_zero)

lemma digits_value_pos:
  "list_all is_digit k \<Longrightarrow> k \<noteq> [] \<Longrightarrow> hd k \<noteq> CHR ''0'' \<Longrightarrow> digits_value 0 k > 0"
proof (induction k rule: rev_induct)
  case Nil
  then show ?case by simp
next
  case (snoc c k)
  show ?case
  proof (cases "k = []")
    case True
    have "(of_char c :: nat) \<noteq> of_char (CHR ''0'')"
      using snoc.prems True by (metis char_of_char hd_append append_Nil list.sel(1))
    with snoc.prems True show ?thesis by (simp add: is_digit_def)
  next
    case False
    with snoc show ?thesis by (simp add: digits_value_append)
  qed
qed

text \<open>A canonical digit string is the printed form of its value.\<close>

lemma nat_digits_digits_value:
  assumes "list_all is_digit k" and "k \<noteq> []" and "hd k = CHR ''0'' \<longrightarrow> tl k = []"
  shows "nat_digits (digits_value 0 k) = k"
  using assms
proof (induction k rule: rev_induct)
  case Nil
  then show ?case by simp
next
  case (snoc c k)
  have c: "is_digit c" using snoc.prems by simp
  then have lt: "(of_char c :: nat) - 48 < 10" by (auto simp: is_digit_def)
  show ?case
  proof (cases "k = []")
    case True
    with lt c show ?thesis
      by (subst nat_digits.simps) (simp add: digit_char_of_digit)
  next
    case False
    then have "hd k \<noteq> CHR ''0''"
      using snoc.prems by (cases k) auto
    then have "digits_value 0 k > 0"
      using snoc.prems False by (intro digits_value_pos) auto
    moreover have "nat_digits (digits_value 0 k) = k"
      using snoc False \<open>hd k \<noteq> CHR ''0''\<close> by simp
    ultimately show ?thesis
      using lt c by (subst nat_digits.simps) (simp add: digits_value_append digit_char_of_digit)
  qed
qed

lemma is_index_inject:
  "is_index a \<Longrightarrow> is_index b \<Longrightarrow> digits_value 0 a = digits_value 0 b \<Longrightarrow> a = b"
  by (metis is_index_def nat_digits_digits_value)

text \<open>Assignment keeps the enumeration order of an object.\<close>

lemma obj_ok_set:
  assumes "obj_ok o'"
  shows "obj_ok (obj_set o' k v)"
proof (cases "k \<in> set (obj_keys o')")
  case True
  with assms show ?thesis by (simp add: obj_ok_def obj_set_def)
next
  case False
  then have "\<forall>k' \<in> set (obj_keys o'). is_index k \<longrightarrow> is_index k' \<longrightarrow>
      digits_value 0 k' \<noteq> digits_value 0 k"
    using is_index_inject by blast
  with False assms show ?thesis
    by (simp add: obj_ok_def obj_set_def distinct_obj_insert sorted_obj_insert del: set_map)
qed

lemma obj_ok_Nil [simp]: "obj_ok []"
  by (simp add: obj_ok_def)

lemma obj_ok_spread: "obj_ok a \<Longrightarrow> obj_ok (obj_spread a b)"
  unfolding obj_spread_def by (induction b arbitrary: a) (auto intro: obj_ok_set)

lemma obj_ok_from_entries [simp]: "obj_ok (obj_from_entries es)"
  by (simp add: obj_from_entries_def obj_ok_spread)

section \<open>Number::toString\<close>

definition rat_is_int :: "rat \<Rightarrow> bool" where
  "rat_is_int x \<longleftrightarrow> of_int \<lfloor>x\<rfloor> = x"

text \<open>The number of decimal places of a rational, if its expansion is finite.\<close>

fun dec_scale :: "nat \<Rightarrow> rat \<Rightarrow> nat option" where
  "dec_scale 0 x = (if rat_is_int x then Some 0 else None)"
| "dec_scale (Suc f) x = (if rat_is_int x then Some 0 else map_option Suc (dec_scale f (10 * x)))"

definition dec_places :: "rat \<Rightarrow> nat option" where
  "dec_places x = dec_scale (nat (snd (quotient_of x))) x"

definition decimal :: "rat \<Rightarrow> bool" where
  "decimal x \<longleftrightarrow> dec_places x \<noteq> None"

fun strip_zeros :: "nat \<Rightarrow> nat \<times> nat" where
  "strip_zeros m =
     (if m = 0 \<or> m mod 10 \<noteq> 0 then (m, 0)
      else let (s, z) = strip_zeros (m div 10) in (s, Suc z))"

declare strip_zeros.simps [simp del]

text \<open>The layout of the significand \<open>s\<close> with value \<open>s * 10 ^ p\<close> (steps 6 to 10 of the algorithm).\<close>

definition number_layout :: "nat \<Rightarrow> int \<Rightarrow> string" where
  "number_layout s p =
     (let ds = nat_digits s; k = int (length ds); n = k + p
      in if k \<le> n \<and> n \<le> 21 then ds @ replicate (nat (n - k)) (CHR ''0'')
         else if 0 < n \<and> n \<le> 21 then take (nat n) ds @ ''.'' @ drop (nat n) ds
         else if - 6 < n \<and> n \<le> 0 then ''0.'' @ replicate (nat (- n)) (CHR ''0'') @ ds
         else (let e = n - 1;
                   ex = ''e'' @ (if e \<ge> 0 then ''+'' else ''-'') @ nat_digits (nat \<bar>e\<bar>)
               in if k = 1 then ds @ ex else take 1 ds @ ''.'' @ drop 1 ds @ ex))"

text \<open>A rational that is no finite decimal is cut after 17 significant digits.\<close>

fun scale17 :: "nat \<Rightarrow> rat \<Rightarrow> nat" where
  "scale17 0 x = 0"
| "scale17 (Suc f) x = (if x \<ge> 10 ^ 16 then 0 else Suc (scale17 f (10 * x)))"

definition pos_number_to_string :: "rat \<Rightarrow> string" where
  "pos_number_to_string x =
     (let e = (case dec_places x of Some e \<Rightarrow> e | None \<Rightarrow> scale17 400 x);
          (s, z) = strip_zeros (nat \<lfloor>x * 10 ^ e\<rfloor>)
      in number_layout s (int z - int e))"

definition number_to_string :: "rat \<Rightarrow> string" where
  "number_to_string x =
     (if x = 0 then ''0''
      else if x < 0 then ''-'' @ pos_number_to_string (- x)
      else pos_number_to_string x)"

section \<open>Reading numbers\<close>

abbreviation digits_prefix :: "string \<Rightarrow> string" where
  "digits_prefix \<equiv> takeWhile is_digit"

abbreviation digits_rest :: "string \<Rightarrow> string" where
  "digits_rest \<equiv> dropWhile is_digit"

definition dec_value :: "string \<Rightarrow> string \<Rightarrow> int \<Rightarrow> rat" where
  "dec_value ip fp e = of_nat (digits_value 0 (ip @ fp)) * 10 powi (e - int (length fp))"

text \<open>The optional exponent part: \<open>Some (e, rest)\<close>, with \<open>e = 0\<close> when there is none.\<close>

definition parse_exponent :: "string \<Rightarrow> (int \<times> string) option" where
  "parse_exponent s =
     (case s of
        [] \<Rightarrow> Some (0, [])
      | c # r \<Rightarrow>
          if c = CHR ''e'' \<or> c = CHR ''E'' then
            (let (sg, r') = (case r of
                 [] \<Rightarrow> (1, [])
               | d # r2 \<Rightarrow> if d = CHR ''-'' then (- 1, r2) else if d = CHR ''+'' then (1, r2) else (1, r))
             in if digits_prefix r' = [] then None
                else Some (sg * int (digits_value 0 (digits_prefix r')), digits_rest r'))
          else Some (0, s))"

text \<open>The number token of the JSON grammar, without its sign.\<close>

definition parse_unsigned :: "string \<Rightarrow> (rat \<times> string) option" where
  "parse_unsigned s =
     (let ip = digits_prefix s; r = digits_rest s
      in if ip = [] \<or> (hd ip = CHR ''0'' \<and> tl ip \<noteq> []) then None
         else if r \<noteq> [] \<and> hd r = CHR ''.'' then
             (if digits_prefix (tl r) = [] then None
              else map_option (\<lambda>(e, t). (dec_value ip (digits_prefix (tl r)) e, t))
                     (parse_exponent (digits_rest (tl r))))
         else map_option (\<lambda>(e, t). (dec_value ip [] e, t)) (parse_exponent r))"

definition json_number :: "string \<Rightarrow> (rat \<times> string) option" where
  "json_number s =
     (case s of
        [] \<Rightarrow> None
      | c # r \<Rightarrow> if c = CHR ''-'' then map_option (\<lambda>(x, t). (- x, t)) (parse_unsigned r)
                 else parse_unsigned s)"

section \<open>Printing and reading back\<close>

definition number_stop :: "string \<Rightarrow> bool" where
  "number_stop r \<longleftrightarrow> r = [] \<or> (\<not> is_digit (hd r) \<and> hd r \<notin> {CHR ''.'', CHR ''e'', CHR ''E''})"

lemma digits_prefix_append:
  assumes "list_all is_digit ds" and "r = [] \<or> \<not> is_digit (hd r)"
  shows "digits_prefix (ds @ r) = ds" and "digits_rest (ds @ r) = r"
proof -
  have ds: "\<And>c. c \<in> set ds \<Longrightarrow> is_digit c"
    using assms(1) by (simp add: list_all_iff)
  have "takeWhile is_digit r = []" and "dropWhile is_digit r = r"
    using assms(2) by (cases r; auto)+
  then show "digits_prefix (ds @ r) = ds" and "digits_rest (ds @ r) = r"
    by (simp_all add: takeWhile_append2 dropWhile_append2 ds)
qed

lemma digits_value_zeros: "digits_value a (replicate m (CHR ''0'')) = a * 10 ^ m"
  by (induction m arbitrary: a) auto

lemma digits_value_leading: "digits_value 0 (replicate m (CHR ''0'') @ ds) = digits_value 0 ds"
  by (simp add: digits_value_append digits_value_zeros)

lemma is_digit_zero [simp]: "is_digit (CHR ''0'')"
  by (simp add: is_digit_def)

lemma not_digit_punct [simp]:
  "\<not> is_digit (CHR ''.'')" "\<not> is_digit (CHR ''e'')" "\<not> is_digit (CHR ''E'')"
  "\<not> is_digit (CHR ''-'')" "\<not> is_digit (CHR ''+'')"
  by (simp_all add: is_digit_def)

lemma parse_exponent_stop: "number_stop r \<Longrightarrow> parse_exponent r = Some (0, r)"
  by (auto simp: parse_exponent_def number_stop_def split: list.split)

lemma number_stop_digit: "number_stop r \<Longrightarrow> r = [] \<or> \<not> is_digit (hd r)"
  by (auto simp: number_stop_def)

lemma parse_exponent_print:
  assumes "number_stop r"
  shows "parse_exponent (''e'' @ (if e \<ge> 0 then ''+'' else ''-'') @ nat_digits (nat \<bar>e\<bar>) @ r) = Some (e, r)"
proof -
  note pre = digits_prefix_append [OF nat_digits_all number_stop_digit [OF assms]]
  show ?thesis
    by (cases "e \<ge> 0") (simp_all add: parse_exponent_def pre)
qed

lemma nat_digits_take_all [simp]: "list_all is_digit (take n (nat_digits s))"
  and nat_digits_drop_all [simp]: "list_all is_digit (drop n (nat_digits s))"
  using nat_digits_all [of s] by (auto simp: list_all_iff dest: in_set_takeD in_set_dropD)

lemma parse_unsigned_int:
  assumes "list_all is_digit ip" and "ip \<noteq> []" and "hd ip \<noteq> CHR ''0'' \<or> tl ip = []"
    and "parse_exponent r = Some (e, t)" and "r = [] \<or> (\<not> is_digit (hd r) \<and> hd r \<noteq> CHR ''.'')"
  shows "parse_unsigned (ip @ r) = Some (dec_value ip [] e, t)"
proof -
  have "digits_prefix (ip @ r) = ip" "digits_rest (ip @ r) = r"
    using assms by (auto intro!: digits_prefix_append)
  with assms show ?thesis
    by (auto simp: parse_unsigned_def Let_def)
qed

lemma parse_unsigned_frac:
  assumes "list_all is_digit ip" and "ip \<noteq> []" and "hd ip \<noteq> CHR ''0'' \<or> tl ip = []"
    and "list_all is_digit fp" and "fp \<noteq> []"
    and "parse_exponent r = Some (e, t)" and "r = [] \<or> \<not> is_digit (hd r)"
  shows "parse_unsigned (ip @ ''.'' @ fp @ r) = Some (dec_value ip fp e, t)"
proof -
  have 1: "digits_prefix (ip @ ''.'' @ fp @ r) = ip" "digits_rest (ip @ ''.'' @ fp @ r) = ''.'' @ fp @ r"
    using assms by (auto intro!: digits_prefix_append)
  have 2: "digits_prefix (fp @ r) = fp" "digits_rest (fp @ r) = r"
    using assms by (auto intro!: digits_prefix_append)
  from 1 2 assms show ?thesis
    by (simp add: parse_unsigned_def Let_def)
qed

lemma dec_value_shift:
  assumes "digits_value 0 (ip @ fp) = s"
  shows "dec_value ip fp e = of_nat s * 10 powi (e - int (length fp))"
  using assms by (simp add: dec_value_def)

lemma power_int_10_nat: "(10 :: rat) powi int m = 10 ^ m"
  by simp

lemma parse_number_layout:
  assumes s: "s > 0" and r: "number_stop r"
  shows "parse_unsigned (number_layout s p @ r) = Some (of_nat s * 10 powi p, r)"
proof -
  define ds where "ds = nat_digits s"
  define k where "k = int (length ds)"
  define n where "n = k + p"
  have ds: "list_all is_digit ds" "ds \<noteq> []" "hd ds \<noteq> CHR ''0''" "digits_value 0 ds = s"
    using s by (simp_all add: ds_def nat_digits_hd)
  have k: "k > 0" using ds(2) by (simp add: k_def)
  have lay: "number_layout s p =
     (if k \<le> n \<and> n \<le> 21 then ds @ replicate (nat (n - k)) (CHR ''0'')
      else if 0 < n \<and> n \<le> 21 then take (nat n) ds @ ''.'' @ drop (nat n) ds
      else if - 6 < n \<and> n \<le> 0 then ''0.'' @ replicate (nat (- n)) (CHR ''0'') @ ds
      else if k = 1
        then ds @ ''e'' @ (if n - 1 \<ge> 0 then ''+'' else ''-'') @ nat_digits (nat \<bar>n - 1\<bar>)
        else take 1 ds @ ''.'' @ drop 1 ds @
             ''e'' @ (if n - 1 \<ge> 0 then ''+'' else ''-'') @ nat_digits (nat \<bar>n - 1\<bar>))"
    by (simp only: number_layout_def Let_def ds_def k_def n_def)
  have nd: "r = [] \<or> \<not> is_digit (hd r)" "r = [] \<or> (\<not> is_digit (hd r) \<and> hd r \<noteq> CHR ''.'')"
    using r by (auto simp: number_stop_def)
  note ex0 = parse_exponent_stop [OF r]
  consider (int) "k \<le> n" "n \<le> 21" | (frac) "0 < n" "n < k" "n \<le> 21"
    | (lead) "- 6 < n" "n \<le> 0" | (exp) "n > 21 \<or> n \<le> - 6"
    by linarith
  then show ?thesis
  proof cases
    case int
    define m where "m = nat (n - k)"
    have p: "p = int m" using int by (simp add: m_def n_def)
    have "parse_unsigned ((ds @ replicate m (CHR ''0'')) @ r)
        = Some (dec_value (ds @ replicate m (CHR ''0'')) [] 0, r)"
      using ds nd ex0 by (intro parse_unsigned_int) (auto simp: list_all_iff)
    moreover have "dec_value (ds @ replicate m (CHR ''0'')) [] 0 = of_nat s * 10 powi p"
      using ds(4) by (simp add: dec_value_def digits_value_append digits_value_zeros p)
    ultimately show ?thesis
      using int unfolding lay m_def by simp
  next
    case frac
    then have 1: "take (nat n) ds \<noteq> []" "drop (nat n) ds \<noteq> []"
      using ds(2) by (auto simp: k_def)
    have 2: "hd (take (nat n) ds) = hd ds"
      using 1 by (metis append_take_drop_id hd_append2)
    have "parse_unsigned (take (nat n) ds @ ''.'' @ drop (nat n) ds @ r)
        = Some (dec_value (take (nat n) ds) (drop (nat n) ds) 0, r)"
      using ds nd ex0 1 2 by (intro parse_unsigned_frac) (auto simp: ds_def)
    moreover have "dec_value (take (nat n) ds) (drop (nat n) ds) 0 = of_nat s * 10 powi p"
    proof -
      have "int (length (drop (nat n) ds)) = - p"
        using frac by (simp add: n_def k_def)
      with ds(4) show ?thesis by (subst dec_value_shift [where s = s]) simp_all
    qed
    ultimately show ?thesis
      using frac unfolding lay by simp
  next
    case lead
    let ?fp = "replicate (nat (- n)) (CHR ''0'') @ ds"
    have "parse_unsigned (''0'' @ ''.'' @ ?fp @ r) = Some (dec_value ''0'' ?fp 0, r)"
      using ds nd ex0 by (intro parse_unsigned_frac) (auto simp: list_all_iff)
    moreover have "dec_value ''0'' ?fp 0 = of_nat s * 10 powi p"
    proof -
      have v: "digits_value 0 (''0'' @ ?fp) = s"
        using ds(4) digits_value_leading by simp
      have "int (length ?fp) = - p"
        using lead by (simp add: n_def k_def)
      with v show ?thesis by (subst dec_value_shift [where s = s]) simp_all
    qed
    ultimately show ?thesis
      using lead k unfolding lay by simp
  next
    case exp
    define e where "e = n - 1"
    define ex where "ex = ''e'' @ (if e \<ge> 0 then ''+'' else ''-'') @ nat_digits (nat \<bar>e\<bar>)"
    have pe: "parse_exponent (ex @ r) = Some (e, r)"
      using parse_exponent_print [OF r, of e] by (simp add: ex_def)
    have hd: "ex @ r = [] \<or> (\<not> is_digit (hd (ex @ r)) \<and> hd (ex @ r) \<noteq> CHR ''.'')"
      by (simp add: ex_def)
    have lay': "number_layout s p = (if k = 1 then ds @ ex else take 1 ds @ ''.'' @ drop 1 ds @ ex)"
      using exp k unfolding lay e_def ex_def by auto
    show ?thesis
    proof (cases "k = 1")
      case True
      have "parse_unsigned (ds @ (ex @ r)) = Some (dec_value ds [] e, r)"
        using ds pe hd by (intro parse_unsigned_int) auto
      moreover have "dec_value ds [] e = of_nat s * 10 powi p"
        using ds(4) True by (subst dec_value_shift [where s = s]) (simp_all add: e_def n_def)
      ultimately show ?thesis using True lay' by simp
    next
      case False
      then have 1: "drop 1 ds \<noteq> []" "take 1 ds \<noteq> []" "hd (take 1 ds) = hd ds"
        using k ds(2) by (auto simp: k_def neq_Nil_conv)
      have "parse_unsigned (take 1 ds @ ''.'' @ drop 1 ds @ (ex @ r))
          = Some (dec_value (take 1 ds) (drop 1 ds) e, r)"
        using ds 1 pe hd by (intro parse_unsigned_frac) (auto simp: ds_def)
      moreover have "dec_value (take 1 ds) (drop 1 ds) e = of_nat s * 10 powi p"
      proof -
        have "int (length (drop 1 ds)) = k - 1"
          using k ds(2) by (cases ds) (auto simp: k_def)
        with ds(4) show ?thesis
          by (subst dec_value_shift [where s = s]) (simp_all add: e_def n_def)
      qed
      ultimately show ?thesis using False lay' by simp
    qed
  qed
qed

lemma strip_zeros_value: "strip_zeros m = (s, z) \<Longrightarrow> m = s * 10 ^ z \<and> (m > 0 \<longrightarrow> s > 0)"
proof (induction m arbitrary: s z rule: strip_zeros.induct)
  case (1 m)
  show ?case
  proof (cases "m = 0 \<or> m mod 10 \<noteq> 0")
    case True
    with "1.prems" show ?thesis by (simp add: strip_zeros.simps [of m])
  next
    case False
    then obtain s' z' where sz: "strip_zeros (m div 10) = (s', z')" "s = s'" "z = Suc z'"
      using "1.prems" by (auto simp: strip_zeros.simps [of m] split: prod.splits)
    with "1.IH" False have "m div 10 = s * 10 ^ z'" by blast
    moreover have "m = 10 * (m div 10)" using False by auto
    ultimately show ?thesis using sz by auto
  qed
qed

lemma dec_scale_int: "dec_scale f x = Some e \<Longrightarrow> rat_is_int (x * 10 ^ e)"
proof (induction f arbitrary: x e)
  case 0
  then show ?case by (auto split: if_splits)
next
  case (Suc f)
  show ?case
  proof (cases "rat_is_int x")
    case True
    with Suc.prems show ?thesis by simp
  next
    case False
    with Suc.prems obtain e' where "dec_scale f (10 * x) = Some e'" and e: "e = Suc e'"
      by auto
    then have "rat_is_int (10 * x * 10 ^ e')" using Suc.IH by blast
    with e show ?thesis by (simp add: algebra_simps)
  qed
qed

lemma pos_number_roundtrip:
  assumes "x > 0" and "decimal x" and "number_stop r"
  shows "parse_unsigned (pos_number_to_string x @ r) = Some (x, r)"
proof -
  obtain e where e: "dec_places x = Some e"
    using assms(2) by (auto simp: decimal_def)
  define m where "m = nat \<lfloor>x * 10 ^ e\<rfloor>"
  obtain s z where sz: "strip_zeros m = (s, z)"
    by (cases "strip_zeros m")
  have i: "of_int \<lfloor>x * 10 ^ e\<rfloor> = x * 10 ^ e"
    using e dec_scale_int by (simp add: dec_places_def rat_is_int_def)
  have pos: "x * 10 ^ e > 0" using assms(1) by simp
  then have f: "\<lfloor>x * 10 ^ e\<rfloor> > 0"
    by (metis i of_int_0_less_iff)
  then have m: "of_nat m = x * 10 ^ e"
    using i by (simp add: m_def)
  from f have "m > 0" by (simp add: m_def)
  then have s: "s > 0" "m = s * 10 ^ z"
    using strip_zeros_value [OF sz] by auto
  have "of_nat s * 10 powi (int z - int e) = (of_nat s * 10 ^ z) / (10 ^ e :: rat)"
    by (simp add: power_int_diff)
  also have "\<dots> = of_nat m / 10 ^ e"
    using s(2) by simp
  also have "\<dots> = x"
    using m by simp
  finally have "of_nat s * 10 powi (int z - int e) = x" .
  moreover have "pos_number_to_string x = number_layout s (int z - int e)"
    using e sz by (simp add: pos_number_to_string_def m_def)
  ultimately show ?thesis
    using parse_number_layout [OF s(1) assms(3)] by metis
qed

lemma pos_number_hd:
  assumes "x > 0" and "decimal x"
  shows "pos_number_to_string x \<noteq> [] \<and> is_digit (hd (pos_number_to_string x))"
proof -
  have *: "parse_unsigned (pos_number_to_string x) = Some (x, [])"
    using pos_number_roundtrip [OF assms, of "[]"] by (simp add: number_stop_def)
  then show ?thesis
    by (cases "pos_number_to_string x") (auto simp: parse_unsigned_def Let_def split: if_splits)
qed

text \<open>Printing a finite decimal and reading it back, before any text that cannot continue it.\<close>

lemma number_roundtrip:
  assumes "decimal x" and "number_stop r"
  shows "json_number (number_to_string x @ r) = Some (x, r)"
proof (cases x "0 :: rat" rule: linorder_cases)
  case less
  have "decimal (- x)"
  proof -
    obtain e where e: "dec_places x = Some e" using assms(1) by (auto simp: decimal_def)
    have "dec_scale f y = Some e \<Longrightarrow> \<exists>e. dec_scale f (- y) = Some e" for f y e
    proof (induction f arbitrary: y e)
      case 0
      then show ?case by (auto simp: rat_is_int_def floor_minus ceiling_altdef split: if_splits)
    next
      case (Suc f)
      then show ?case
      proof (cases "rat_is_int y")
        case True
        then have "rat_is_int (- y)"
          by (auto simp: rat_is_int_def floor_minus ceiling_altdef)
        then show ?thesis by simp
      next
        case False
        with Suc.prems obtain e' where "dec_scale f (10 * y) = Some e'" by auto
        with Suc.IH obtain e2 where "dec_scale f (- (10 * y)) = Some e2" by blast
        then show ?thesis by auto
      qed
    qed
    with e show ?thesis
      by (auto simp: decimal_def dec_places_def rat_uminus_code Let_def split: prod.splits)
  qed
  with less assms(2) have "parse_unsigned (pos_number_to_string (- x) @ r) = Some (- x, r)"
    by (intro pos_number_roundtrip) auto
  with less show ?thesis by (simp add: number_to_string_def json_number_def)
next
  case equal
  have "parse_unsigned (''0'' @ r) = Some (dec_value ''0'' [] 0, r)"
    using assms(2) parse_exponent_stop [OF assms(2)]
    by (intro parse_unsigned_int) (auto simp: number_stop_def)
  with equal show ?thesis by (simp add: number_to_string_def json_number_def dec_value_def)
next
  case greater
  obtain c cs where c: "pos_number_to_string x = c # cs" "is_digit c"
    using pos_number_hd [OF greater assms(1)] by (cases "pos_number_to_string x") auto
  then have "c \<noteq> CHR ''-''" by (metis not_digit_punct(4))
  with greater c pos_number_roundtrip [OF greater assms] show ?thesis
    by (simp add: number_to_string_def json_number_def)
qed

lemma number_to_string_hd:
  assumes "decimal x"
  shows "number_to_string x \<noteq> [] \<and>
    (is_digit (hd (number_to_string x)) \<or> hd (number_to_string x) = CHR ''-'')"
  using assms pos_number_hd [of x] by (auto simp: number_to_string_def)

text \<open>\<open>decimal\<close> is what its name says: some power of ten makes the number an integer.\<close>

lemma dvd_power_10_bound:
  assumes "d dvd 10 ^ k" and "d > (0 :: nat)"
  shows "\<exists>e \<le> d. d dvd 10 ^ e"
  using assms
proof (induction d arbitrary: k rule: less_induct)
  case (less d)
  show ?case
  proof (cases "d = 1")
    case True
    then show ?thesis by auto
  next
    case False
    define g where "g = gcd d 10"
    have g: "g > 1"
    proof (rule ccontr)
      assume "\<not> g > 1"
      moreover have "g > 0" using less.prems(2) by (simp add: g_def)
      ultimately have "gcd d 10 = 1" unfolding g_def by linarith
      then have "coprime d 10" by (simp only: coprime_iff_gcd_eq_1)
      then have "coprime d (10 ^ k)" by simp
      then have "d = 1" using less.prems(1) by (metis coprime_absorb_left nat_dvd_1_iff_1)
      with False show False by simp
    qed
    obtain d' where d': "d = g * d'" by (metis dvd_def gcd_dvd1 g_def)
    obtain t where t: "10 = g * t" by (metis dvd_def gcd_dvd2 g_def)
    have cop: "coprime d' t"
      using d' t g g_def less.prems(2)
      by (metis div_gcd_coprime gcd_nat.neutr_eq_iff nonzero_mult_div_cancel_left not_one_less_zero)
    have "k \<noteq> 0" using False less.prems(1) by (metis nat_dvd_1_iff_1 power_0)
    then obtain k' where "k = Suc k'" by (cases k) auto
    then have "g * d' dvd g * (t * 10 ^ k')"
      using less.prems(1) d' t by (metis mult.assoc power_Suc)
    then have "d' dvd t * 10 ^ k'" using g by simp
    then have 1: "d' dvd 10 ^ k'" using cop by (simp add: coprime_dvd_mult_right_iff)
    have "d' > 0" "d' < d" using d' g less.prems(2) by auto
    with less.IH 1 obtain e where e: "e \<le> d'" "d' dvd 10 ^ e" by blast
    have "g dvd 10" by (simp add: g_def)
    with e(2) have "d dvd 10 ^ Suc e" using d' by (simp add: mult_dvd_mono)
    moreover have "Suc e \<le> d" using e(1) \<open>d' < d\<close> by simp
    ultimately show ?thesis by blast
  qed
qed

lemma dec_scale_Some: "e \<le> f \<Longrightarrow> rat_is_int (x * 10 ^ e) \<Longrightarrow> dec_scale f x \<noteq> None"
proof (induction f arbitrary: x e)
  case 0
  then show ?case by simp
next
  case (Suc f)
  show ?case
  proof (cases e)
    case 0
    with Suc.prems show ?thesis by simp
  next
    case (Suc e')
    with Suc.prems have "rat_is_int (10 * x * 10 ^ e')" by (simp add: algebra_simps)
    with Suc Suc.prems Suc.IH have "dec_scale f (10 * x) \<noteq> None" by simp
    then show ?thesis by auto
  qed
qed

lemma rat_is_int_iff: "rat_is_int x \<longleftrightarrow> x \<in> \<int>"
  by (metis Ints_cases Ints_of_int floor_of_int rat_is_int_def)

lemma decimal_iff: "decimal x \<longleftrightarrow> (\<exists>k. x * 10 ^ k \<in> \<int>)"
proof
  assume "decimal x"
  then show "\<exists>k. x * 10 ^ k \<in> \<int>"
    unfolding decimal_def dec_places_def using dec_scale_int rat_is_int_iff by blast
next
  assume "\<exists>k. x * 10 ^ k \<in> \<int>"
  then obtain k where k: "x * 10 ^ k \<in> \<int>" by blast
  obtain a b where q: "quotient_of x = (a, b)" by (cases "quotient_of x")
  have b: "b > 0" "coprime a b" "x = of_int a / of_int b"
    using quotient_of_denom_pos [OF q] quotient_of_coprime [OF q] quotient_of_div [OF q] by auto
  obtain c where "of_int a / of_int b * 10 ^ k = (of_int c :: rat)"
    using k b(3) by (auto elim: Ints_cases)
  then have "of_int (a * 10 ^ k) = (of_int (c * b) :: rat)"
    using b(1) by (simp add: field_simps)
  then have "a * 10 ^ k = c * b" by (simp only: of_int_eq_iff)
  then have "b dvd a * 10 ^ k" by simp
  then have "b dvd 10 ^ k"
    using b(2) by (metis coprime_commute coprime_dvd_mult_right_iff)
  then have "nat b dvd 10 ^ k"
    using b(1) by (simp add: nat_dvd_iff)
  then obtain e where e: "e \<le> nat b" "nat b dvd 10 ^ e"
    using dvd_power_10_bound b(1) by (metis zero_less_nat_eq)
  then obtain t where "(10 :: nat) ^ e = nat b * t" by (auto elim: dvdE)
  then have "(10 :: rat) ^ e = of_int b * of_nat t"
    using b(1) by (metis less_imp_le nat_0_le of_int_of_nat_eq of_nat_mult of_nat_numeral of_nat_power)
  then have "x * 10 ^ e = of_int (a * int t)"
    using b(1,3) by (simp add: field_simps)
  then have "rat_is_int (x * 10 ^ e)" by (simp add: rat_is_int_iff)
  with e(1) show "decimal x"
    by (auto simp: decimal_def dec_places_def q dest: dec_scale_Some)
qed

lemma decimal_int [simp]: "x \<in> \<int> \<Longrightarrow> decimal x"
  using decimal_iff by (metis mult.right_neutral power_0)

lemma decimal_numeral [simp]: "decimal (numeral n)" "decimal 0" "decimal 1" "decimal (of_nat m)"
  by simp_all

section \<open>StringToNumber and the arithmetic of special values\<close>

datatype jsnum = NaN | PInf | NInf | Fin rat

definition str_decimal :: "string \<Rightarrow> rat option" where
  "str_decimal s =
     (let ip = digits_prefix s; r = digits_rest s;
          (fp, r') = (if r \<noteq> [] \<and> hd r = CHR ''.'' then (digits_prefix (tl r), digits_rest (tl r)) else ([], r))
      in if ip @ fp = [] then None
         else (case parse_exponent r' of
             Some (e, []) \<Rightarrow> Some (dec_value ip fp e)
           | _ \<Rightarrow> None))"

definition hex_value :: "char \<Rightarrow> nat" where
  "hex_value c =
     (let n = (of_char c :: nat)
      in if 48 \<le> n \<and> n \<le> 57 then n - 48
         else if 97 \<le> n \<and> n \<le> 102 then n - 87
         else if 65 \<le> n \<and> n \<le> 70 then n - 55 else 99)"

fun radix_value :: "nat \<Rightarrow> nat \<Rightarrow> string \<Rightarrow> nat option" where
  "radix_value b acc [] = Some acc"
| "radix_value b acc (c # cs) =
     (if hex_value c < b then radix_value b (acc * b + hex_value c) cs else None)"

definition radix_literal :: "string \<Rightarrow> jsnum option" where
  "radix_literal s =
     (case s of
        z # x # ds \<Rightarrow>
          if z = CHR ''0'' \<and> lower_char x \<in> {CHR ''x'', CHR ''o'', CHR ''b''} then
            (let b = (if lower_char x = CHR ''x'' then 16 else if lower_char x = CHR ''o'' then 8 else 2)
             in Some (if ds = [] then NaN
                      else (case radix_value b 0 ds of None \<Rightarrow> NaN | Some n \<Rightarrow> Fin (of_nat n))))
          else None
      | _ \<Rightarrow> None)"

definition signed_literal :: "string \<Rightarrow> jsnum" where
  "signed_literal s =
     (let (neg, r) = (case s of [] \<Rightarrow> (False, s)
        | c # cs \<Rightarrow> if c = CHR ''-'' then (True, cs) else if c = CHR ''+'' then (False, cs) else (False, s))
      in if r = ''Infinity'' then (if neg then NInf else PInf)
         else (case str_decimal r of None \<Rightarrow> NaN | Some x \<Rightarrow> Fin (if neg then - x else x)))"

definition string_to_number :: "string \<Rightarrow> jsnum" where
  "string_to_number str =
     (let s = js_trim str
      in if s = [] then Fin 0
         else (case radix_literal s of Some v \<Rightarrow> v | None \<Rightarrow> signed_literal s))"

fun num_less :: "jsnum \<Rightarrow> jsnum \<Rightarrow> bool" where
  "num_less NaN y = False"
| "num_less x NaN = False"
| "num_less x NInf = False"
| "num_less NInf y = True"
| "num_less PInf y = False"
| "num_less x PInf = True"
| "num_less (Fin x) (Fin y) = (x < y)"

definition num_max :: "jsnum \<Rightarrow> jsnum \<Rightarrow> jsnum" where
  "num_max x y = (if x = NaN \<or> y = NaN then NaN else if num_less x y then y else x)"

definition num_min :: "jsnum \<Rightarrow> jsnum \<Rightarrow> jsnum" where
  "num_min x y = (if x = NaN \<or> y = NaN then NaN else if num_less y x then y else x)"

section \<open>Rounding and fixed-point text\<close>

text \<open>Math.round: halves go up.\<close>

definition math_round :: "rat \<Rightarrow> int" where
  "math_round x = \<lfloor>x + 1 / 2\<rfloor>"

definition int_to_string :: "int \<Rightarrow> string" where
  "int_to_string i = (if i < 0 then ''-'' @ nat_digits (nat (- i)) else nat_digits (nat i))"

definition pad_zeros :: "nat \<Rightarrow> string \<Rightarrow> string" where
  "pad_zeros n s = replicate (n - length s) (CHR ''0'') @ s"

text \<open>\<open>x.toFixed(f)\<close> for \<open>|x| < 10 ^ 21\<close>; larger values print as \<open>String(x)\<close>.\<close>

definition to_fixed :: "nat \<Rightarrow> rat \<Rightarrow> string" where
  "to_fixed f x =
     (if \<bar>x\<bar> \<ge> 10 ^ 21 then number_to_string x
      else (let n = nat \<lfloor>\<bar>x\<bar> * 10 ^ f + 1 / 2\<rfloor>;
                m = pad_zeros (Suc f) (nat_digits n);
                k = length m - f;
                body = (if f = 0 then m else take k m @ ''.'' @ drop k m)
            in (if x < 0 then ''-'' else []) @ body))"

end
