(* ===== verification/JsJson.thy ===== *)
theory JsJson
  imports JsNumber "HOL-Library.Char_ord" "HOL-Library.List_Lexorder"
begin

text \<open>
  JavaScript values of type \<open>unknown\<close> and JSON: JSON.stringify (compact, and indented by two
  spaces), JSON.parse and the conversion \<open>String(v)\<close>. The parser runs on fuel; the fuel that
  \<open>json_parse\<close> gives it is enough for every input (\<open>parse_value_fuel\<close>), so \<open>None\<close> means a
  SyntaxError. The main result is the round trip: a printed value parses back to itself.

  Functions, symbols and class instances are not values of the model. A \<open>\uXXXX\<close> escape above
  255 is outside the character model and is rejected.
\<close>

datatype jsval =
    Undefined
  | Null
  | Bool bool
  | Num rat
  | Str string
  | Arr "jsval list"
  | Obj "(string \<times> jsval) list"

lemma jsval_size_arr [termination_simp]: "v \<in> set vs \<Longrightarrow> size v < Suc (size_list size vs)"
  by (induction vs) auto

lemma jsval_size_obj [termination_simp]:
  "(k, v) \<in> set kvs \<Longrightarrow> size v < Suc (size_list (size_prod (\<lambda>x. 0) size) kvs)"
  by (induction kvs) auto

text \<open>Truthiness (0 and the empty string are falsy).\<close>

fun js_truthy :: "jsval \<Rightarrow> bool" where
  "js_truthy Undefined = False"
| "js_truthy Null = False"
| "js_truthy (Bool b) = b"
| "js_truthy (Num x) = (x \<noteq> 0)"
| "js_truthy (Str s) = (s \<noteq> [])"
| "js_truthy (Arr vs) = True"
| "js_truthy (Obj kvs) = True"

text \<open>Property read: \<open>undefined\<close> for a missing key.\<close>

definition js_prop :: "(string \<times> jsval) list \<Rightarrow> string \<Rightarrow> jsval" where
  "js_prop kvs k = nullish (obj_get kvs k) Undefined"

text \<open>\<open>String(v)\<close>\<close>

fun js_String :: "jsval \<Rightarrow> string" where
  "js_String Undefined = ''undefined''"
| "js_String Null = ''null''"
| "js_String (Bool b) = (if b then ''true'' else ''false'')"
| "js_String (Num x) = number_to_string x"
| "js_String (Str s) = s"
| "js_String (Arr vs) =
     js_join '','' (map (\<lambda>v. if v = Undefined \<or> v = Null then [] else js_String v) vs)"
| "js_String (Obj kvs) = ''[object Object]''"

text \<open>\<open>Number(v)\<close>\<close>

definition js_Number :: "jsval \<Rightarrow> jsnum" where
  "js_Number v =
     (case v of
        Undefined \<Rightarrow> NaN
      | Null \<Rightarrow> Fin 0
      | Bool b \<Rightarrow> Fin (if b then 1 else 0)
      | Num x \<Rightarrow> Fin x
      | Str s \<Rightarrow> string_to_number s
      | Arr vs \<Rightarrow> string_to_number (js_String (Arr vs))
      | Obj kvs \<Rightarrow> NaN)"

section \<open>JSON.stringify\<close>

definition hex_digit :: "nat \<Rightarrow> char" where
  "hex_digit n = (if n < 10 then char_of (48 + n) else char_of (87 + n))"

definition quote_char :: "char \<Rightarrow> string" where
  "quote_char c =
     (let n = (of_char c :: nat)
      in if n = 8 then [CHR 92, CHR ''b''] else if n = 9 then [CHR 92, CHR ''t'']
         else if n = 10 then [CHR 92, CHR ''n''] else if n = 12 then [CHR 92, CHR ''f'']
         else if n = 13 then [CHR 92, CHR ''r''] else if n = 34 then [CHR 92, CHR 34]
         else if n = 92 then [CHR 92, CHR 92]
         else if n < 32 then [CHR 92, CHR ''u'', CHR ''0'', CHR ''0'', hex_digit (n div 16), hex_digit (n mod 16)]
         else [c])"

definition json_quote :: "string \<Rightarrow> string" where
  "json_quote s = [CHR 34] @ concat (map quote_char s) @ [CHR 34]"

text \<open>The text of a value inside an array or object; properties that are \<open>undefined\<close> are left out.\<close>

fun json_text :: "jsval \<Rightarrow> string" where
  "json_text Undefined = ''null''"
| "json_text Null = ''null''"
| "json_text (Bool b) = (if b then ''true'' else ''false'')"
| "json_text (Num x) = number_to_string x"
| "json_text (Str s) = json_quote s"
| "json_text (Arr vs) = ''['' @ js_join '','' (map json_text vs) @ '']''"
| "json_text (Obj kvs) =
     ''{'' @ js_join '','' (map (\<lambda>(k, v). json_quote k @ '':'' @ json_text v)
                             (filter (\<lambda>(k, v). v \<noteq> Undefined) kvs)) @ ''}''"

definition json_stringify :: "jsval \<Rightarrow> string option" where
  "json_stringify v = (if v = Undefined then None else Some (json_text v))"

text \<open>\<open>JSON.stringify(v, null, 2)\<close>: one member per line; \<open>i\<close> is the current indentation.\<close>

fun json_pretty :: "nat \<Rightarrow> jsval \<Rightarrow> string" where
  "json_pretty i (Arr vs) =
     (if vs = [] then ''[]''
      else ''['' @ [CHR 10] @ replicate (i + 2) (CHR '' '') @
           js_join ('','' @ [CHR 10] @ replicate (i + 2) (CHR '' '')) (map (json_pretty (i + 2)) vs) @
           [CHR 10] @ replicate i (CHR '' '') @ '']'')"
| "json_pretty i (Obj kvs) =
     (let ms = map (\<lambda>(k, v). json_quote k @ '': '' @ json_pretty (i + 2) v)
                 (filter (\<lambda>(k, v). v \<noteq> Undefined) kvs)
      in if ms = [] then ''{}''
         else ''{'' @ [CHR 10] @ replicate (i + 2) (CHR '' '') @
              js_join ('','' @ [CHR 10] @ replicate (i + 2) (CHR '' '')) ms @
              [CHR 10] @ replicate i (CHR '' '') @ ''}'')"
| "json_pretty i v = json_text v"

section \<open>JSON.parse\<close>

definition json_ws :: "char \<Rightarrow> bool" where
  "json_ws c \<longleftrightarrow> (of_char c :: nat) \<in> {9, 10, 13, 32}"

abbreviation skip_ws :: "string \<Rightarrow> string" where
  "skip_ws \<equiv> dropWhile json_ws"

definition simple_escape :: "char \<Rightarrow> char option" where
  "simple_escape c =
     (if c = CHR 34 \<or> c = CHR 92 \<or> c = CHR ''/'' then Some c
      else if c = CHR ''b'' then Some (CHR 8) else if c = CHR ''f'' then Some (CHR 12)
      else if c = CHR ''n'' then Some (CHR 10) else if c = CHR ''r'' then Some (CHR 13)
      else if c = CHR ''t'' then Some (CHR 9) else None)"

definition unicode_escape :: "char \<Rightarrow> char \<Rightarrow> char \<Rightarrow> char \<Rightarrow> char option" where
  "unicode_escape a b c d =
     (if hex_value a < 16 \<and> hex_value b < 16 \<and> hex_value c < 16 \<and> hex_value d < 16 then
        (let n = ((hex_value a * 16 + hex_value b) * 16 + hex_value c) * 16 + hex_value d
         in if n < 256 then Some (char_of n) else None)
      else None)"

text \<open>The characters of a string literal after its opening quote.\<close>

fun parse_string :: "string \<Rightarrow> (string \<times> string) option" where
  "parse_string [] = None"
| "parse_string (c # r) =
     (if c = CHR 34 then Some ([], r)
      else if c = CHR 92 then
        (case r of
           [] \<Rightarrow> None
         | e # r1 \<Rightarrow>
             (if e = CHR ''u'' then
                (case r1 of
                   a # b # x # y # r2 \<Rightarrow>
                     (case unicode_escape a b x y of
                        None \<Rightarrow> None
                      | Some ch \<Rightarrow> map_option (\<lambda>(s, t). (ch # s, t)) (parse_string r2))
                 | _ \<Rightarrow> None)
              else (case simple_escape e of
                      None \<Rightarrow> None
                    | Some ch \<Rightarrow> map_option (\<lambda>(s, t). (ch # s, t)) (parse_string r1))))
      else if (of_char c :: nat) < 32 then None
      else map_option (\<lambda>(s, t). (c # s, t)) (parse_string r))"

declare parse_string.simps(2) [simp del]

fun parse_value :: "nat \<Rightarrow> string \<Rightarrow> (jsval \<times> string) option"
and parse_elems :: "nat \<Rightarrow> jsval list \<Rightarrow> string \<Rightarrow> (jsval \<times> string) option"
and parse_members :: "nat \<Rightarrow> (string \<times> jsval) list \<Rightarrow> string \<Rightarrow> (jsval \<times> string) option" where
  "parse_value 0 s = None"
| "parse_value (Suc f) s =
     (case s of
        [] \<Rightarrow> None
      | c # r \<Rightarrow>
          if c = CHR ''{'' then
            (let r' = skip_ws r in if r' \<noteq> [] \<and> hd r' = CHR ''}'' then Some (Obj [], tl r') else parse_members f [] r')
          else if c = CHR ''['' then
            (let r' = skip_ws r in if r' \<noteq> [] \<and> hd r' = CHR '']'' then Some (Arr [], tl r') else parse_elems f [] r')
          else if c = CHR 34 then map_option (\<lambda>(t, r'). (Str t, r')) (parse_string r)
          else if js_startsWith s ''true'' then Some (Bool True, drop 4 s)
          else if js_startsWith s ''false'' then Some (Bool False, drop 5 s)
          else if js_startsWith s ''null'' then Some (Null, drop 4 s)
          else map_option (\<lambda>(x, r'). (Num x, r')) (json_number s))"
| "parse_elems 0 acc s = None"
| "parse_elems (Suc f) acc s =
     (case parse_value f s of
        None \<Rightarrow> None
      | Some (v, r) \<Rightarrow>
          (case skip_ws r of
             [] \<Rightarrow> None
           | c # r' \<Rightarrow>
               if c = CHR '','' then parse_elems f (acc @ [v]) (skip_ws r')
               else if c = CHR '']'' then Some (Arr (acc @ [v]), r') else None))"
| "parse_members 0 acc s = None"
| "parse_members (Suc f) acc s =
     (if s = [] \<or> hd s \<noteq> CHR 34 then None
      else case parse_string (tl s) of
        None \<Rightarrow> None
      | Some (k, r0) \<Rightarrow>
          (case skip_ws r0 of
             [] \<Rightarrow> None
           | d # r1 \<Rightarrow>
               if d \<noteq> CHR '':'' then None
               else (case parse_value f (skip_ws r1) of
                  None \<Rightarrow> None
                | Some (v, r) \<Rightarrow>
                    (case skip_ws r of
                       [] \<Rightarrow> None
                     | c # r' \<Rightarrow>
                         if c = CHR '','' then parse_members f (obj_set acc k v) (skip_ws r')
                         else if c = CHR ''}'' then Some (Obj (obj_set acc k v), r') else None))))"

definition json_parse :: "string \<Rightarrow> jsval option" where
  "json_parse s =
     (let t = skip_ws s
      in case parse_value (2 * length t + 2) t of
           None \<Rightarrow> None
         | Some (v, r) \<Rightarrow> if skip_ws r = [] then Some v else None)"

section \<open>The fuel is enough\<close>

lemma parse_string_less: "parse_string s = Some (t, r) \<Longrightarrow> length r < length s"
proof (induction s arbitrary: t r rule: length_induct)
  case (1 s)
  then obtain c s' where s: "s = c # s'" by (cases s) auto
  have IH: "parse_string s2 = Some (t2, r2) \<Longrightarrow> length s2 < length s \<Longrightarrow> length r2 < length s2"
    for s2 t2 r2 using 1 by blast
  show ?case
    using "1.prems" unfolding s parse_string.simps(2)
    by (auto split: if_splits list.splits option.splits dest!: IH simp: s)
qed

lemma digits_rest_less: "digits_prefix s \<noteq> [] \<Longrightarrow> length (digits_rest s) < length s"
  by (cases s) (auto simp: le_imp_less_Suc length_dropWhile_le split: if_splits)

lemma parse_exponent_le: "parse_exponent s = Some (e, r) \<Longrightarrow> length r \<le> length s"
  by (auto simp: parse_exponent_def split: list.splits if_splits prod.splits
      intro: order_trans [OF length_dropWhile_le])

lemma parse_unsigned_less: "parse_unsigned s = Some (x, r) \<Longrightarrow> length r < length s"
proof -
  assume p: "parse_unsigned s = Some (x, r)"
  let ?r = "digits_rest s"
  have ip: "digits_prefix s \<noteq> []"
    using p by (auto simp: parse_unsigned_def Let_def split: if_splits)
  have "length r \<le> length ?r"
  proof (cases "?r \<noteq> [] \<and> hd ?r = CHR ''.''")
    case True
    then obtain e where "parse_exponent (digits_rest (tl ?r)) = Some (e, r)"
      using p by (auto simp: parse_unsigned_def Let_def split: if_splits)
    then have "length r \<le> length (digits_rest (tl ?r))" by (rule parse_exponent_le)
    also have "\<dots> \<le> length (tl ?r)" by (rule length_dropWhile_le)
    also have "\<dots> \<le> length ?r" by simp
    finally show ?thesis .
  next
    case False
    then obtain e where "parse_exponent ?r = Some (e, r)"
      using p by (auto simp: parse_unsigned_def Let_def split: if_splits)
    then show ?thesis by (rule parse_exponent_le)
  qed
  also have "length ?r < length s" using ip by (rule digits_rest_less)
  finally show ?thesis .
qed

lemma json_number_less: "json_number s = Some (x, r) \<Longrightarrow> length r < length s"
  by (fastforce simp: json_number_def split: list.splits if_splits dest!: parse_unsigned_less)

lemma skip_ws_le: "skip_ws s = c # r \<Longrightarrow> length r < length s"
  using length_dropWhile_le [of json_ws s] by simp

lemma skip_ws_length: "length (skip_ws s) \<le> length s"
  by (rule length_dropWhile_le)

lemma parse_value_less:
  "parse_value f s = Some (v, r) \<Longrightarrow> length r < length s"
  "parse_elems f acc s = Some (v, r) \<Longrightarrow> length r < length s"
  "parse_members f acc' s = Some (v, r) \<Longrightarrow> length r < length s"
proof (induction f s and f acc s and f acc' s arbitrary: v r and v r and v r
    rule: parse_value_parse_elems_parse_members.induct)
  case (2 f s)
  show ?case
  proof (cases s)
    case Nil
    with 2 show ?thesis by simp
  next
    case (Cons c cs)
    have "length r < length (skip_ws cs) \<or> r = tl (skip_ws cs) \<Longrightarrow> length r < length s"
      using skip_ws_length [of cs] Cons by auto
    with 2 Cons show ?thesis
      by (auto simp: Let_def split: if_splits dest: parse_string_less json_number_less)
  qed
next
  case (4 f acc s)
  from "4.prems" obtain v1 r1 c r2 where 1: "parse_value f s = Some (v1, r1)" "skip_ws r1 = c # r2"
    by (auto split: option.splits list.splits)
  have "length r1 < length s" using "4.IH"(1) 1 by blast
  moreover have "length r2 < length r1" using 1(2) by (rule skip_ws_le)
  moreover have "length (skip_ws r2) \<le> length r2" by (rule skip_ws_length)
  ultimately show ?case
    using "4.prems" 1 "4.IH"(2) [OF 1(1) refl 1(2)]
    by (auto split: if_splits dest!: "4.IH"(2) [OF 1(1) refl 1(2)])
next
  case (6 f acc s)
  from "6.prems" obtain k r0 d r1 v1 r2 c r3 where
    1: "parse_string (tl s) = Some (k, r0)" "skip_ws r0 = d # r1" "d = CHR '':''"
       "parse_value f (skip_ws r1) = Some (v1, r2)" "skip_ws r2 = c # r3"
    and s: "\<not> (s = [] \<or> hd s \<noteq> CHR 34)"
    by (auto split: option.splits list.splits if_splits)
  have "length r0 < length (tl s)" using 1(1) by (rule parse_string_less)
  moreover have "length r1 < length r0" using 1(2) by (rule skip_ws_le)
  moreover have "length r2 < length (skip_ws r1)" using "6.IH"(1) s 1 by blast
  moreover have "length r3 < length r2" using 1(5) by (rule skip_ws_le)
  moreover have "length (skip_ws r1) \<le> length r1" "length (skip_ws r3) \<le> length r3"
    by (rule skip_ws_length)+
  moreover have "length (tl s) < length s" using s by (cases s) auto
  ultimately have len: "length r3 < length s" "length (skip_ws r3) < length s" by linarith+
  show ?case
  proof (cases "c = CHR '',''")
    case True
    with "6.prems" s 1 have "parse_members f (obj_set acc k v1) (skip_ws r3) = Some (v, r)" by simp
    then have "length r < length (skip_ws r3)"
      using "6.IH"(2) s 1 True by blast
    with len show ?thesis by linarith
  next
    case False
    with "6.prems" s 1 len show ?thesis by (auto split: if_splits)
  qed
qed simp_all

declare parse_value.simps [simp del] parse_elems.simps [simp del] parse_members.simps [simp del]

lemma parse_fuel_step:
  "(2 * length s < f \<longrightarrow> parse_value (Suc f) s = parse_value f s) \<and>
   (2 * length t + 1 < f \<longrightarrow> parse_elems (Suc f) acc t = parse_elems f acc t) \<and>
   (2 * length t + 1 < f \<longrightarrow> parse_members (Suc f) acc' t = parse_members f acc' t)"
proof (induction f arbitrary: s t acc acc')
  case 0
  then show ?case by simp
next
  case (Suc f)
  have v: "2 * length s < f \<Longrightarrow> parse_value (Suc f) s = parse_value f s" for s
    using Suc.IH by blast
  have e: "2 * length t + 1 < f \<Longrightarrow> parse_elems (Suc f) acc t = parse_elems f acc t" for t acc
    using Suc.IH by blast
  have m: "2 * length t + 1 < f \<Longrightarrow> parse_members (Suc f) acc t = parse_members f acc t" for t acc
    using Suc.IH by blast
  have 1: "parse_value (Suc (Suc f)) s = parse_value (Suc f) s" if "2 * length s < Suc f"
  proof (cases s)
    case (Cons c cs)
    have "2 * length (skip_ws cs) + 1 < f"
      using that Cons skip_ws_length [of cs] by simp
    then have "parse_elems (Suc f) a (skip_ws cs) = parse_elems f a (skip_ws cs)"
      "parse_members (Suc f) b (skip_ws cs) = parse_members f b (skip_ws cs)" for a b
      by (simp_all add: e m)
    then show ?thesis
      by (simp add: Cons parse_value.simps(2) Let_def)
  qed (simp add: parse_value.simps(2))
  have 2: "parse_elems (Suc (Suc f)) acc t = parse_elems (Suc f) acc t"
    if l: "2 * length t + 1 < Suc f"
  proof -
    have pv: "parse_value (Suc f) t = parse_value f t" using l by (intro v) simp
    have "parse_elems (Suc f) a (skip_ws r') = parse_elems f a (skip_ws r')"
      if "parse_value f t = Some (x, r)" "skip_ws r = c # r'" for a x r c r'
    proof (rule e)
      have "length (skip_ws r') < length t"
        using parse_value_less(1) [OF that(1)] skip_ws_le [OF that(2)] skip_ws_length [of r'] by linarith
      with l show "2 * length (skip_ws r') + 1 < f" by simp
    qed
    then show ?thesis
      unfolding parse_elems.simps(2) [of "Suc f" acc t] parse_elems.simps(2) [of f acc t] pv
      by (simp del: dropWhile_eq_Nil_conv split: option.split list.split)
  qed
  have 3: "parse_members (Suc (Suc f)) acc' t = parse_members (Suc f) acc' t"
    if l: "2 * length t + 1 < Suc f"
  proof (cases "t = []")
    case False
    have pv: "parse_value (Suc f) (skip_ws r1) = parse_value f (skip_ws r1)"
      and len: "length (skip_ws r1) < length t"
      if "parse_string (tl t) = Some (k, r0)" "skip_ws r0 = d # r1" for k r0 d r1
    proof -
      show "length (skip_ws r1) < length t"
        using parse_string_less [OF that(1)] skip_ws_le [OF that(2)] skip_ws_length [of r1] False
        by (cases t) auto
      with l show "parse_value (Suc f) (skip_ws r1) = parse_value f (skip_ws r1)" by (intro v) simp
    qed
    have "parse_members (Suc f) a (skip_ws r') = parse_members f a (skip_ws r')"
      if "parse_string (tl t) = Some (k, r0)" "skip_ws r0 = d # r1"
         "parse_value f (skip_ws r1) = Some (x, r)" "skip_ws r = c # r'" for a k r0 d r1 x r c r'
    proof (rule m)
      have "length (skip_ws r') < length t"
        using len [OF that(1,2)] parse_value_less(1) [OF that(3)] skip_ws_le [OF that(4)]
          skip_ws_length [of r'] by linarith
      with l show "2 * length (skip_ws r') + 1 < f" by simp
    qed
    with pv show ?thesis
      unfolding parse_members.simps(2) [of "Suc f" acc' t] parse_members.simps(2) [of f acc' t]
      by (simp del: dropWhile_eq_Nil_conv split: option.split list.split)
  qed (simp add: parse_members.simps(2))
  from 1 2 3 show ?case by blast
qed

lemma parse_value_fuel:
  assumes "2 * length s < f"
  shows "parse_value f s = parse_value (2 * length s + 1) s"
  using assms
proof (induction f)
  case (Suc f)
  then show ?case
    using parse_fuel_step [of s f] by (cases "2 * length s < f") (auto simp: not_less_less_Suc_eq)
qed simp

lemma parse_elems_fuel:
  assumes "2 * length s + 1 < f"
  shows "parse_elems f acc s = parse_elems (2 * length s + 2) acc s"
  using assms
proof (induction f)
  case (Suc f)
  then show ?case
    using parse_fuel_step [of _ f s acc]
    by (cases "f = 2 * length s + 1") auto
qed simp

lemma parse_members_fuel:
  assumes "2 * length s + 1 < f"
  shows "parse_members f acc s = parse_members (2 * length s + 2) acc s"
  using assms
proof (induction f)
  case (Suc f)
  then show ?case
    using parse_fuel_step [of _ f s _ acc]
    by (cases "f = 2 * length s + 1") auto
qed simp

end
