(* ===== verification/JsonCodec.thy ===== *)
theory JsonCodec
  imports JsJson
begin

text \<open>
  The round trip of JSON: JSON.parse of the text JSON.stringify prints for a value, on one line or
  indented, is that value, so printing is injective. The values are those a JSON text can denote
  (\<open>wf_json\<close>: no \<open>undefined\<close>, decimal numbers, objects in enumeration order). The interface
  \<open>text_codec\<close> is what the clients (persisted state, signatures) rely on.
\<close>

fun wf_json :: "jsval \<Rightarrow> bool" where
  "wf_json Undefined = False"
| "wf_json Null = True"
| "wf_json (Bool b) = True"
| "wf_json (Num x) = decimal x"
| "wf_json (Str s) = True"
| "wf_json (Arr vs) = (\<forall>v \<in> set vs. wf_json v)"
| "wf_json (Obj kvs) = (obj_ok kvs \<and> (\<forall>(k, v) \<in> set kvs. wf_json v))"

section \<open>String literals\<close>

lemma hex_value_digit: "n < 16 \<Longrightarrow> hex_value (hex_digit n) = n"
  by (auto simp: hex_value_def hex_digit_def is_digit_def)

lemma quote_char_plain:
  assumes "(of_char c :: nat) \<ge> 32" and "(of_char c :: nat) \<notin> {34, 92}"
  shows "quote_char c = [c]"
  using assms by (auto simp: quote_char_def Let_def)

lemma of_char_eqD: "(of_char c :: nat) = n \<Longrightarrow> c = char_of n"
  by (metis char_of_char)

lemma parse_quote_char:
  "parse_string (quote_char c @ r) = map_option (\<lambda>(s, t). (c # s, t)) (parse_string r)"
proof -
  let ?n = "of_char c :: nat"
  consider (esc) "?n \<in> {8, 9, 10, 12, 13, 34, 92}"
    | (ctl) "?n < 32" "?n \<notin> {8, 9, 10, 12, 13, 34, 92}"
    | (plain) "?n \<ge> 32" "?n \<notin> {34, 92}"
    by fastforce
  then show ?thesis
  proof cases
    case esc
    then have "c \<in> {CHR 8, CHR 9, CHR 10, CHR 12, CHR 13, CHR 34, CHR 92}"
      by (auto dest!: of_char_eqD simp: char_of_def bit_iff_odd)
    then show ?thesis
      by (auto simp: quote_char_def parse_string.simps(2) simple_escape_def)
  next
    case ctl
    have q: "quote_char c =
      [CHR 92, CHR ''u'', CHR ''0'', CHR ''0'', hex_digit (?n div 16), hex_digit (?n mod 16)]"
      using ctl by (simp add: quote_char_def Let_def)
    have h0: "hex_value (CHR ''0'') = 0" by (simp add: hex_value_def is_digit_def)
    have "unicode_escape (CHR ''0'') (CHR ''0'') (hex_digit (?n div 16)) (hex_digit (?n mod 16)) = Some c"
      using ctl(1) by (simp add: unicode_escape_def h0 hex_value_digit Let_def)
    then show ?thesis
      by (simp add: q parse_string.simps(2))
  next
    case plain
    then have "c \<noteq> CHR 34" "c \<noteq> CHR 92" by auto
    with plain show ?thesis
      by (simp add: quote_char_plain parse_string.simps(2))
  qed
qed

lemma parse_quoted: "parse_string (concat (map quote_char s) @ CHR 34 # r) = Some (s, r)"
  by (induction s) (simp_all add: parse_quote_char, simp add: parse_string.simps(2))

lemma json_quote_parse: "json_quote s @ r = CHR 34 # (concat (map quote_char s) @ CHR 34 # r)"
  by (simp add: json_quote_def)

section \<open>The shape of printed values\<close>

definition plain_start :: "string \<Rightarrow> bool" where
  "plain_start s \<longleftrightarrow> s \<noteq> [] \<and> \<not> json_ws (hd s) \<and> hd s \<notin> {CHR '']'', CHR ''}'', CHR '',''}"

lemma json_text_start: "wf_json v \<Longrightarrow> plain_start (json_text v)"
proof (cases v)
  case (Num x)
  assume "wf_json v"
  with Num number_to_string_hd [of x] show ?thesis
    by (auto simp: plain_start_def json_ws_def is_digit_def)
qed (auto simp: plain_start_def json_ws_def json_quote_def)

lemma skip_ws_plain [simp]: "plain_start s \<Longrightarrow> skip_ws (s @ r) = s @ r"
  by (cases s) (auto simp: plain_start_def)

lemma number_stop_punct [simp]:
  "number_stop (CHR '','' # r)" "number_stop (CHR '']'' # r)" "number_stop (CHR ''}'' # r)" "number_stop []"
  by (simp_all add: number_stop_def is_digit_def)

lemma json_ws_punct [simp]:
  "\<not> json_ws (CHR '','')" "\<not> json_ws (CHR '']'')" "\<not> json_ws (CHR ''}'')"
  "\<not> json_ws (CHR '':'')" "\<not> json_ws (CHR 34)"
  by (simp_all add: json_ws_def)

text \<open>White space between tokens; the compact printer uses none, the indenting one line breaks and spaces.\<close>

definition all_ws :: "string \<Rightarrow> bool" where
  "all_ws s \<longleftrightarrow> (\<forall>c \<in> set s. json_ws c)"

lemma all_ws_simps [simp]: "all_ws []" "all_ws (c # s) \<longleftrightarrow> json_ws c \<and> all_ws s"
  "all_ws (s @ t) \<longleftrightarrow> all_ws s \<and> all_ws t" "all_ws (replicate n (CHR '' ''))"
  by (auto simp: all_ws_def json_ws_def)

lemma skip_all_ws [simp]: "all_ws s \<Longrightarrow> skip_ws (s @ r) = skip_ws r"
  by (auto simp: all_ws_def intro: dropWhile_append2)

lemma skip_all_ws_punct [simp]: "all_ws s \<Longrightarrow> \<not> json_ws c \<Longrightarrow> skip_ws (s @ c # r) = c # r"
  by (subst skip_all_ws) auto

lemma number_stop_ws: "all_ws s \<Longrightarrow> number_stop r \<Longrightarrow> number_stop (s @ r)"
  by (cases s) (auto simp: number_stop_def json_ws_def is_digit_def)

section \<open>The round trip\<close>

definition parses_as :: "jsval \<Rightarrow> string \<Rightarrow> bool" where
  "parses_as v t \<longleftrightarrow> plain_start t \<and> (\<forall>f r. 2 * length (t @ r) < f \<longrightarrow> number_stop r \<longrightarrow> parse_value f (t @ r) = Some (v, r))"

lemma parses_asD:
  "parses_as v t \<Longrightarrow> 2 * length (t @ r) < f \<Longrightarrow> number_stop r \<Longrightarrow> parse_value f (t @ r) = Some (v, r)"
  by (simp add: parses_as_def)

lemma parses_as_start: "parses_as v t \<Longrightarrow> plain_start t"
  by (simp add: parses_as_def)

lemma parses_as_I:
  assumes "plain_start t" and "\<And>g r. number_stop r \<Longrightarrow> parse_value (Suc g) (t @ r) = Some (v, r)"
  shows "parses_as v t"
  unfolding parses_as_def
proof (intro conjI allI impI)
  fix f r
  assume "2 * length (t @ r) < f" "number_stop r"
  with assms(2) [of r "f - 1"] show "parse_value f (t @ r) = Some (v, r)" by simp
qed (rule assms(1))

lemma join_start:
  assumes "ts \<noteq> []" and "\<forall>t \<in> set ts. plain_start t"
  shows "skip_ws (js_join sep ts @ r) = js_join sep ts @ r" and "hd (js_join sep ts @ r) = hd (hd ts)"
  using assms by (cases ts; auto simp: js_join_Cons plain_start_def)+

lemma parse_elems_print:
  assumes "vs \<noteq> []" and "\<forall>v \<in> set vs. parses_as v (prn v)" and "all_ws b" and "all_ws c"
    and "2 * length (js_join (CHR '','' # b) (map prn vs) @ c @ CHR '']'' # r) + 1 < f"
  shows "parse_elems f acc (js_join (CHR '','' # b) (map prn vs) @ c @ CHR '']'' # r) = Some (Arr (acc @ vs), r)"
  using assms(1,2,5)
proof (induction vs arbitrary: f acc)
  case (Cons v vs)
  then obtain g where f: "f = Suc g" by (cases f) auto
  show ?case
  proof (cases "vs = []")
    case True
    with Cons f assms(4) show ?thesis
      by (simp add: parse_elems.simps(2) parses_asD number_stop_ws)
  next
    case False
    let ?rest = "js_join (CHR '','' # b) (map prn vs) @ c @ CHR '']'' # r"
    have "skip_ws ?rest = ?rest"
      using Cons.prems(2) False by (intro join_start) (auto intro: parses_as_start)
    moreover have "parse_value g (prn v @ CHR '','' # b @ ?rest) = Some (v, CHR '','' # b @ ?rest)"
      using Cons.prems f False by (intro parses_asD) (auto simp: js_join_Cons)
    moreover have "parse_elems g (acc @ [v]) ?rest = Some (Arr ((acc @ [v]) @ vs), r)"
      using Cons.prems False f by (intro Cons.IH) (auto simp: js_join_Cons)
    ultimately show ?thesis
      using False assms(3) by (simp add: f parse_elems.simps(2) js_join_Cons)
  qed
qed simp

lemma parse_members_print:
  assumes member: "member = (\<lambda>(k, v). json_quote k @ CHR '':'' # d @ prn v)"
    and "kvs \<noteq> []" and "\<forall>(k, v) \<in> set kvs. parses_as v (prn v)" and "obj_ok (acc @ kvs)"
    and "all_ws b" and "all_ws c" and "all_ws d"
    and "2 * length (js_join (CHR '','' # b) (map member kvs) @ c @ CHR ''}'' # r) + 1 < f"
  shows "parse_members f acc (js_join (CHR '','' # b) (map member kvs) @ c @ CHR ''}'' # r) = Some (Obj (acc @ kvs), r)"
  using assms(2,3,4,8)
proof (induction kvs arbitrary: f acc)
  case (Cons kv kvs)
  obtain k v where kv: "kv = (k, v)" by (cases kv)
  from Cons obtain g where f: "f = Suc g" by (cases f) auto
  have set_end: "obj_set acc k v = acc @ [(k, v)]"
    using Cons.prems(3) kv by (intro obj_set_at_end) (auto simp: obj_ok_def sorted_wrt_append)
  have wf: "parses_as v (prn v)" using Cons.prems kv by auto
  note st = parses_as_start [OF wf] and m = member json_quote_def parse_quoted kv set_end
  show ?case
  proof (cases "kvs = []")
    case True
    with Cons.prems f st wf assms(6,7) show ?thesis
      by (simp add: parse_members.simps(2) m parses_asD number_stop_ws)
  next
    case False
    let ?rest = "js_join (CHR '','' # b) (map member kvs) @ c @ CHR ''}'' # r"
    have "skip_ws ?rest = ?rest"
      using False by (intro join_start) (auto simp: member plain_start_def json_quote_def)
    moreover have "parse_value g (prn v @ CHR '','' # b @ ?rest) = Some (v, CHR '','' # b @ ?rest)"
      using Cons.prems f False wf by (intro parses_asD) (auto simp: js_join_Cons m)
    moreover have "parse_members g (acc @ [(k, v)]) ?rest = Some (Obj ((acc @ [(k, v)]) @ kvs), r)"
      using Cons.prems False f kv by (intro Cons.IH) (auto simp: js_join_Cons)
    ultimately show ?thesis
      using False st assms(5,7) by (simp add: f parse_members.simps(2) js_join_Cons m)
  qed
qed simp

lemma no_undefined_filter:
  "\<forall>(k, v) \<in> set kvs. wf_json v \<Longrightarrow> filter (\<lambda>(k, v). v \<noteq> Undefined) kvs = kvs"
  by (rule filter_True) auto

lemma parses_scalar:
  "parses_as Null ''null''" "parses_as (Bool True) ''true''" "parses_as (Bool False) ''false''" "parses_as (Str s) (json_quote s)"
  "decimal x \<Longrightarrow> parses_as (Num x) (number_to_string x)"
proof -
  show "parses_as Null ''null''" "parses_as (Bool True) ''true''" "parses_as (Bool False) ''false''" "parses_as (Str s) (json_quote s)"
    by (auto intro!: parses_as_I simp: parse_value.simps(2) json_quote_def parse_quoted plain_start_def json_ws_def)
  assume d: "decimal x"
  then obtain c cs where s: "number_to_string x = c # cs" and c: "is_digit c \<or> c = CHR ''-''"
    using number_to_string_hd [of x] by (cases "number_to_string x") auto
  from c have "c \<noteq> CHR ''{''" "c \<noteq> CHR ''[''" "c \<noteq> CHR 34" "c \<noteq> CHR ''t''" "c \<noteq> CHR ''f''" "c \<noteq> CHR ''n''"
    by (auto simp: is_digit_def)
  moreover have "plain_start (number_to_string x)" using json_text_start [of "Num x"] d by simp
  ultimately show "parses_as (Num x) (number_to_string x)"
    using number_roundtrip [OF d] by (intro parses_as_I) (auto simp: parse_value.simps(2) s)
qed

lemma parses_arr:
  assumes "\<forall>v \<in> set vs. parses_as v (prn v)" and "all_ws a" and "all_ws b" and "all_ws c"
  shows "parses_as (Arr vs) (CHR ''['' # a @ js_join (CHR '','' # b) (map prn vs) @ c @ '']'')"
  unfolding parses_as_def
proof (intro conjI allI impI)
  fix f r
  let ?t = "CHR ''['' # a @ js_join (CHR '','' # b) (map prn vs) @ c @ '']''"
  assume f: "2 * length (?t @ r) < f" "number_stop r"
  then obtain g where g: "f = Suc g" by (cases f) auto
  show "parse_value f (?t @ r) = Some (Arr vs, r)"
  proof (cases "vs = []")
    case False
    let ?s = "js_join (CHR '','' # b) (map prn vs) @ c @ CHR '']'' # r"
    have st: "\<forall>t \<in> set (map prn vs). plain_start t" using assms(1) by (auto intro: parses_as_start)
    have "skip_ws ?s = ?s" "hd ?s \<noteq> CHR '']''"
      using join_start [OF _ st, of "CHR '','' # b" "c @ CHR '']'' # r"] False st
      by (auto simp: plain_start_def hd_map)
    moreover have "parse_elems g [] ?s = Some (Arr ([] @ vs), r)"
      using assms f g False by (intro parse_elems_print) auto
    ultimately show ?thesis using assms(2) by (simp add: g parse_value.simps(2) Let_def)
  qed (use assms in \<open>simp add: g parse_value.simps(2)\<close>)
qed (simp add: plain_start_def json_ws_def)

lemma parses_obj:
  assumes "\<forall>(k, v) \<in> set kvs. parses_as v (prn v)" and "obj_ok kvs" and "all_ws a" and "all_ws b" and "all_ws c" and "all_ws d"
  shows "parses_as (Obj kvs)
    (CHR ''{'' # a @ js_join (CHR '','' # b) (map (\<lambda>(k, v). json_quote k @ CHR '':'' # d @ prn v) kvs) @ c @ ''}'')"
  unfolding parses_as_def
proof (intro conjI allI impI)
  fix f r
  let ?m = "\<lambda>(k, v). json_quote k @ CHR '':'' # d @ prn v"
  let ?t = "CHR ''{'' # a @ js_join (CHR '','' # b) (map ?m kvs) @ c @ ''}''"
  assume f: "2 * length (?t @ r) < f" "number_stop r"
  then obtain g where g: "f = Suc g" by (cases f) auto
  show "parse_value f (?t @ r) = Some (Obj kvs, r)"
  proof (cases "kvs = []")
    case False
    let ?s = "js_join (CHR '','' # b) (map ?m kvs) @ c @ CHR ''}'' # r"
    have st: "\<forall>t \<in> set (map ?m kvs). plain_start t" by (auto simp: plain_start_def json_quote_def)
    have "skip_ws ?s = ?s" "hd ?s \<noteq> CHR ''}''"
      using join_start [OF _ st, of "CHR '','' # b" "c @ CHR ''}'' # r"] False
      by (auto simp: hd_map json_quote_def split: prod.splits)
    moreover have "parse_members g [] ?s = Some (Obj ([] @ kvs), r)"
      using assms f g False by (intro parse_members_print [OF refl]) auto
    ultimately show ?thesis using assms(3) by (simp add: g parse_value.simps(2) Let_def)
  qed (use assms in \<open>simp add: g parse_value.simps(2)\<close>)
qed (simp add: plain_start_def json_ws_def)

lemma json_text_parses: "wf_json v \<Longrightarrow> parses_as v (json_text v)"
proof (induction v)
  case (Arr vs)
  then show ?case using parses_arr [of vs json_text "[]" "[]" "[]"] by simp
next
  case (Obj kvs)
  then have "\<forall>(k, v) \<in> set kvs. parses_as v (json_text v)" by fastforce
  then show ?case using Obj.prems parses_obj [of kvs json_text "[]" "[]" "[]" "[]"] by (simp add: no_undefined_filter)
qed (simp_all add: parses_scalar)

lemma json_pretty_parses: "wf_json v \<Longrightarrow> parses_as v (json_pretty i v)"
proof (induction v arbitrary: i)
  case (Arr vs)
  let ?nl = "CHR 10 # replicate (i + 2) (CHR '' '')"
  have "all_ws ?nl" "all_ws (CHR 10 # replicate i (CHR '' ''))" by (simp_all add: json_ws_def)
  then show ?case
    using Arr parses_arr [of vs "json_pretty (i + 2)" ?nl ?nl "CHR 10 # replicate i (CHR '' '')"]
      parses_arr [of "[]" json_text "[]" "[]" "[]"] by simp
next
  case (Obj kvs)
  let ?nl = "CHR 10 # replicate (i + 2) (CHR '' '')"
  have "all_ws ?nl" "all_ws (CHR 10 # replicate i (CHR '' ''))" "all_ws '' ''" by (simp_all add: json_ws_def)
  moreover have "\<forall>(k, v) \<in> set kvs. parses_as v (json_pretty (i + 2) v)" using Obj by fastforce
  ultimately show ?case
    using Obj.prems parses_obj [of kvs "json_pretty (i + 2)" ?nl ?nl "CHR 10 # replicate i (CHR '' '')" "'' ''"]
      parses_obj [of "[]" json_text "[]" "[]" "[]" "[]"]
    by (simp add: no_undefined_filter Let_def)
qed (simp_all add: parses_scalar)

lemma parses_as_parse: "parses_as v t \<Longrightarrow> json_parse t = Some v"
  using parses_asD [of v t "[]" "2 * length t + 2"] skip_ws_plain [OF parses_as_start, of v t "[]"]
  by (simp add: json_parse_def Let_def)

lemma json_roundtrip: "wf_json v \<Longrightarrow> json_parse (json_text v) = Some v"
  by (rule parses_as_parse [OF json_text_parses])

lemma json_pretty_roundtrip: "wf_json v \<Longrightarrow> json_parse (json_pretty i v) = Some v"
  by (rule parses_as_parse [OF json_pretty_parses])

section \<open>The interface\<close>

locale text_codec =
  fixes enc :: "'a \<Rightarrow> string" and dec :: "string \<Rightarrow> 'a option" and ok :: "'a \<Rightarrow> bool"
  assumes dec_enc: "ok v \<Longrightarrow> dec (enc v) = Some v"
begin

lemma enc_inject:
  assumes "ok v" and "ok w"
  shows "enc v = enc w \<longleftrightarrow> v = w"
  using dec_enc [OF assms(1)] dec_enc [OF assms(2)] by (metis option.inject)

lemma enc_inj_on: "inj_on enc {v. ok v}"
  by (auto simp: inj_on_def enc_inject)

end

interpretation json: text_codec json_text json_parse wf_json
  by unfold_locales (rule json_roundtrip)

interpretation pretty: text_codec "json_pretty i" json_parse wf_json for i
  by unfold_locales (rule json_pretty_roundtrip)

text \<open>A printed value starts and ends with a character that is not white space, so trimming keeps it.\<close>

lemma json_text_trimmed:
  assumes "wf_json v" and "\<forall>x. v \<noteq> Num x"
  shows "js_trim (json_text v) = json_text v \<and> json_text v \<noteq> []"
proof -
  have "json_text v \<noteq> [] \<and> \<not> is_ws (hd (json_text v)) \<and> \<not> is_ws (last (json_text v))"
    using assms by (cases v) (auto simp: json_quote_def is_ws_def)
  then show ?thesis using js_trim_id by blast
qed

lemma json_pretty_trimmed:
  assumes "wf_json v" and "\<forall>x. v \<noteq> Num x"
  shows "js_trim (json_pretty i v) = json_pretty i v \<and> json_pretty i v \<noteq> []"
proof -
  have "json_pretty i v \<noteq> [] \<and> \<not> is_ws (hd (json_pretty i v)) \<and> \<not> is_ws (last (json_pretty i v))"
    using assms by (cases v) (auto simp: json_quote_def is_ws_def Let_def)
  then show ?thesis using js_trim_id by blast
qed

end
