(* ===== verification/Models.thy ===== *)
theory Models
  imports JsonCodec
begin

text \<open>
  The data model of the console, \<open>src/src/lib/models.ts\<close>: one datatype per string union, one
  record per object type, in the order of the source. An optional field \<open>f?: T\<close> is a field of
  type \<open>T option\<close> (\<open>None\<close> is \<open>undefined\<close>), a field \<open>f?: T | null\<close> has type \<open>T nullable\<close>
  (\<open>Some None\<close> is \<open>null\<close>), \<open>unknown\<close> is \<^typ>\<open>jsval\<close>, \<open>number\<close> is \<^typ>\<open>rat\<close> and
  \<open>Record<string, T>\<close> is an \<open>obj\<close>. Field names carry a prefix of their record, because a
  field name is a constant in HOL.
\<close>

type_synonym 'a nullable = "'a option option"

section \<open>String unions\<close>

datatype JobState =
    JS_queued | JS_scheduled | JS_retrying | JS_blocked | JS_throttled
  | JS_active | JS_completed | JS_failed | JS_canceled

fun job_state_string :: "JobState \<Rightarrow> string" where
  "job_state_string JS_queued = ''queued''"
| "job_state_string JS_scheduled = ''scheduled''"
| "job_state_string JS_retrying = ''retrying''"
| "job_state_string JS_blocked = ''blocked''"
| "job_state_string JS_throttled = ''throttled''"
| "job_state_string JS_active = ''active''"
| "job_state_string JS_completed = ''completed''"
| "job_state_string JS_failed = ''failed''"
| "job_state_string JS_canceled = ''canceled''"

lemma job_state_string_inject [simp]: "job_state_string a = job_state_string b \<longleftrightarrow> a = b"
  by (cases a; cases b) simp_all

datatype ConnectionState = CS_connecting | CS_open | CS_closed | CS_polling | CS_demo

datatype LiveHealth = LH_live | LH_degraded | LH_reconnecting | LH_offline | LH_paused | LH_demo

datatype TransportMode = TM_websocket | TM_sse | TM_polling | TM_degraded | TM_offline | TM_demo

datatype TransportConnectionState =
    TS_idle | TS_connecting | TS_live | TS_polling | TS_degraded | TS_offline | TS_paused | TS_demo

record TransportStatus =
  ts_mode :: TransportMode
  ts_state :: TransportConnectionState
  ts_attempt :: nat
  ts_lastMessageAt :: string
  ts_lastFailureAt :: string
  ts_lastError :: string
  ts_degradedReason :: string
  ts_nextRetryAt :: string

datatype PollingPreset = PP_0 | PP_5000 | PP_15000 | PP_30000

fun preset_ms :: "PollingPreset \<Rightarrow> rat" where
  "preset_ms PP_0 = 0"
| "preset_ms PP_5000 = 5000"
| "preset_ms PP_15000 = 15000"
| "preset_ms PP_30000 = 30000"

section \<open>Jobs and their history\<close>

record MetricsPoint =
  mp_timestamp :: string
  mp_value :: rat

record LatencySummary =
  p50Ms :: rat
  p95Ms :: rat
  p99Ms :: rat

record Job =
  job_id :: string
  job_type :: string
  job_queue :: string
  job_tenantId :: string
  job_payload :: jsval
  job_priority :: rat
  job_attempts :: rat
  job_maxAttempts :: rat
  job_state :: JobState
  job_schemaVersion :: rat
  job_idempotencyKey :: "string option"
  job_workflowId :: "string option"
  job_parentJobId :: "string option"
  job_dependencyPolicy :: "string option"
  job_blockedReason :: "string option"
  job_createdAt :: string
  job_updatedAt :: string
  job_runAt :: string
  job_startedAt :: "string option"
  job_finishedAt :: "string option"
  job_lastHeartbeatAt :: "string option"
  job_leaseExpiresAt :: "string option"
  job_throttleUntil :: "string option"
  job_lastError :: "string option"
  job_result :: jsval
  job_workerId :: "string option"
  job_leaseToken :: "string option"
  job_timeoutSeconds :: rat
  job_cancelRequested :: bool
  job_executionMs :: rat

record JobAttempt =
  att_id :: rat
  att_jobId :: string
  att_attempt :: rat
  att_workerId :: string
  att_leaseToken :: "string option"
  att_status :: string
  att_errorType :: "string option"
  att_errorMessage :: "string option"
  att_stackTrace :: "string option"
  att_leaseExpired :: bool
  att_startedAt :: string
  att_finishedAt :: "string option"

record JobEvent =
  jev_jobId :: string
  jev_type :: string
  jev_message :: string
  jev_metadata :: jsval
  jev_occurredAt :: string

record DependencyNode =
  node_jobId :: string
  node_type :: string
  node_state :: JobState
  node_queue :: string
  node_parentJobId :: "string option"
  node_workflowId :: "string option"
  node_blockedReason :: "string option"
  node_dependencyPolicy :: "string option"
  node_dependsOn :: "string list option"
  node_dependents :: "string list option"

record DependencyGraph =
  graph_rootJobId :: string
  graph_nodes :: "DependencyNode list"

record IdempotencyRecord =
  idem_scope :: string
  idem_tenantId :: string
  idem_jobType :: string
  idem_idempotencyKey :: string
  idem_jobId :: string
  idem_status :: string
  idem_outcome :: jsval
  idem_firstSeenAt :: string
  idem_updatedAt :: string
  idem_expiresAt :: string

record DeadLetter =
  dl_jobId :: string
  dl_queue :: string
  dl_workerId :: string
  dl_errorType :: "string option"
  dl_errorMessage :: string
  dl_stackTrace :: "string option"
  dl_failedAt :: string
  dl_lastAttempt :: rat
  dl_replayCount :: rat
  dl_lastReplayedAt :: "string option"
  dl_job :: "Job option"
  dl_attempts :: "JobAttempt list option"

section \<open>Workers, policies and schedules\<close>

record WorkerLeaseHealth =
  wl_workerId :: string
  wl_hostname :: string
  wl_status :: string
  wl_queues :: "string list"
  wl_lastSeenAt :: string
  wl_heartbeatAgeMs :: rat
  wl_activeLeaseCount :: rat
  wl_oldestLeaseAgeMs :: rat
  wl_oldestLeaseJobId :: "string option"
  wl_version :: string
  wl_startedAt :: string
  wl_leaseExpiresAt :: "string option"

record WorkerStatus =
  ws_workerId :: string
  ws_hostname :: string
  ws_queues :: "string list"
  ws_concurrency :: rat
  ws_status :: string
  ws_startedAt :: string
  ws_lastSeenAt :: string
  ws_version :: string

record RateLimitPolicy =
  pol_id :: string
  pol_name :: string
  pol_scope :: string
  pol_scopeValue :: "string option"
  pol_mode :: string
  pol_limit :: rat
  pol_windowSeconds :: rat
  pol_burst :: rat
  pol_enabled :: bool
  pol_createdAt :: string
  pol_updatedAt :: string

record RateLimitStatus =
  rl_policy :: RateLimitPolicy
  rl_activeCount :: rat
  rl_recentCount :: rat
  rl_throttled :: bool

record SchedulerLeaderStatus =
  ld_schedulerId :: "string option"
  ld_token :: "string option"
  ld_isLeaderHealthy :: "bool option"
  ld_acquiredAt :: "string option"
  ld_lastHeartbeatAt :: "string option"
  ld_leaseExpiresAt :: "string option"

record Schedule =
  sched_id :: string
  sched_name :: string
  sched_cronExpression :: string
  sched_queue :: string
  sched_type :: string
  sched_payload :: jsval
  sched_priority :: rat
  sched_maxAttempts :: rat
  sched_timeoutSeconds :: rat
  sched_enabled :: bool
  sched_timezone :: string
  sched_nextRunAt :: string
  sched_lastRunAt :: "string option"
  sched_createdAt :: string
  sched_updatedAt :: string

record SystemEvent =
  ev_kind :: string
  ev_jobId :: "string option"
  ev_queue :: "string option"
  ev_workerId :: "string option"
  ev_state :: "JobState option"
  ev_message :: "string option"
  ev_timestamp :: string

section \<open>The dashboard snapshot and the console state\<close>

record Overview =
  ov_totalJobs :: rat
  ov_queuedJobs :: rat
  ov_blockedJobs :: rat
  ov_throttledJobs :: rat
  ov_activeJobs :: rat
  ov_failedJobs :: rat
  ov_retryingJobs :: rat
  ov_completedJobs :: rat
  ov_scheduledJobs :: rat
  ov_canceledJobs :: rat
  ov_queueLengths :: "rat obj"
  ov_averageExecMs :: rat
  ov_lastUpdatedAt :: string
  ov_activeWorkers :: rat
  ov_delayedBacklog :: rat

record Metrics =
  mt_jobsPerSecond :: rat
  mt_retryRate :: rat
  mt_deadLetterRate :: rat
  mt_executionLatency :: LatencySummary
  mt_queueLatency :: LatencySummary
  mt_maxWorkerHeartbeatAgeMs :: rat

record Trend =
  tr_throughput :: "MetricsPoint list"
  tr_executionP95Ms :: "MetricsPoint list"
  tr_queueLatencyP95Ms :: "MetricsPoint list"
  tr_retryRate :: "MetricsPoint list"
  tr_deadLetterRate :: "MetricsPoint list"

record DashboardSnapshot =
  sn_overview :: Overview
  sn_metrics :: Metrics
  sn_trend :: Trend
  sn_workers :: "WorkerLeaseHealth list"
  sn_deadLetters :: "DeadLetter list"
  sn_blockedJobs :: "Job list"
  sn_throttledJobs :: "Job list"
  sn_rateLimits :: "RateLimitStatus list"
  sn_leader :: SchedulerLeaderStatus

record JobInspection =
  insp_job :: Job
  insp_attempts :: "JobAttempt list"
  insp_events :: "JobEvent list"
  insp_graph :: DependencyGraph
  insp_idempotency :: "IdempotencyRecord nullable"
  insp_deadLetter :: "DeadLetter nullable"

record EnqueueResult =
  enq_job :: Job
  enq_duplicateSuppressed :: bool
  enq_idempotency :: "IdempotencyRecord nullable"

datatype ControlScope = Scope_live | Scope_local

record QueueControl =
  qc_paused :: bool
  qc_draining :: bool
  qc_scope :: ControlScope
  qc_updatedAt :: string

record WorkerControl =
  wc_cordoned :: bool
  wc_scope :: ControlScope
  wc_updatedAt :: string

datatype DataSource = Source_demo | Source_live

record ConsoleData =
  cd_snapshot :: DashboardSnapshot
  cd_jobs :: "Job list"
  cd_schedules :: "Schedule list"
  cd_events :: "SystemEvent list"
  cd_workerStatuses :: "WorkerStatus list"
  cd_inspections :: "JobInspection obj"
  cd_queueControls :: "QueueControl obj"
  cd_workerControls :: "WorkerControl obj"
  cd_lastHydratedAt :: string
  cd_source :: DataSource

section \<open>Derived views and drafts\<close>

record QueueView =
  qv_queueName :: string
  qv_control :: "QueueControl option"
  qv_activeJobs :: rat
  qv_queuedJobs :: rat
  qv_backlog :: rat
  qv_throttled :: rat
  qv_blocked :: rat
  qv_deadLetters :: rat
  qv_saturation :: rat
  qv_policies :: "RateLimitStatus list"

record WorkerView = WorkerLeaseHealth +
  wv_concurrency :: rat
  wv_effectiveStatus :: string
  wv_throughput :: rat
  wv_saturation :: rat

datatype ToastTone = Tone_info | Tone_success | Tone_warning | Tone_danger

record Toast =
  toast_id :: string
  toast_title :: string
  toast_description :: "string option"
  toast_tone :: ToastTone

datatype TabKey =
    Tab_overview | Tab_jobs | Tab_queues | Tab_workers | Tab_schedules
  | Tab_dead_letter | Tab_workflows | Tab_metrics | Tab_events

record JobDraft =
  jd_type :: string
  jd_queue :: string
  jd_tenantId :: string
  jd_priority :: string
  jd_maxAttempts :: string
  jd_timeoutSeconds :: string
  jd_delaySeconds :: string
  jd_scheduledAt :: string
  jd_workflowId :: string
  jd_dependencies :: string
  jd_idempotencyKey :: string
  jd_dedupeWindowSeconds :: string
  jd_payload :: string

record ScheduleDraft =
  sd_name :: string
  sd_cronExpression :: string
  sd_queue :: string
  sd_type :: string
  sd_priority :: string
  sd_maxAttempts :: string
  sd_timeoutSeconds :: string
  sd_timezone :: string
  sd_enabled :: bool
  sd_payload :: string

end
