(* ===== verification/Encoding.thy ===== *)
theory Encoding
  imports Models
begin

text \<open>
  The console's objects as the JavaScript values the serialisers see: each record as the list
  of its properties under the source's field names. An absent optional field is the property
  value \<open>undefined\<close>, which JSON.stringify leaves out.
\<close>

definition enc_str_opt :: "string option \<Rightarrow> jsval" where
  "enc_str_opt a = (case a of None \<Rightarrow> Undefined | Some s \<Rightarrow> Str s)"

definition enc_opt :: "('a \<Rightarrow> jsval) \<Rightarrow> 'a option \<Rightarrow> jsval" where
  "enc_opt f a = (case a of None \<Rightarrow> Undefined | Some x \<Rightarrow> f x)"

definition enc_nullable :: "('a \<Rightarrow> jsval) \<Rightarrow> 'a nullable \<Rightarrow> jsval" where
  "enc_nullable f a = (case a of None \<Rightarrow> Undefined | Some None \<Rightarrow> Null | Some (Some x) \<Rightarrow> f x)"

definition enc_list :: "('a \<Rightarrow> jsval) \<Rightarrow> 'a list \<Rightarrow> jsval" where
  "enc_list f xs = Arr (map f xs)"

definition enc_record :: "('a \<Rightarrow> jsval) \<Rightarrow> 'a obj \<Rightarrow> jsval" where
  "enc_record f kvs = Obj (map (\<lambda>(k, v). (k, f v)) kvs)"

definition enc_state :: "JobState \<Rightarrow> jsval" where
  "enc_state s = Str (job_state_string s)"

definition enc_point :: "MetricsPoint \<Rightarrow> jsval" where
  "enc_point p = Obj [(''timestamp'', Str (mp_timestamp p)), (''value'', Num (mp_value p))]"

definition enc_latency :: "LatencySummary \<Rightarrow> jsval" where
  "enc_latency l = Obj [(''p50Ms'', Num (p50Ms l)), (''p95Ms'', Num (p95Ms l)), (''p99Ms'', Num (p99Ms l))]"

definition enc_job :: "Job \<Rightarrow> jsval" where
  "enc_job j = Obj
     [(''id'', Str (job_id j)), (''type'', Str (job_type j)), (''queue'', Str (job_queue j)),
      (''tenantId'', Str (job_tenantId j)), (''payload'', job_payload j),
      (''priority'', Num (job_priority j)), (''attempts'', Num (job_attempts j)),
      (''maxAttempts'', Num (job_maxAttempts j)), (''state'', enc_state (job_state j)),
      (''schemaVersion'', Num (job_schemaVersion j)),
      (''idempotencyKey'', enc_str_opt (job_idempotencyKey j)),
      (''workflowId'', enc_str_opt (job_workflowId j)),
      (''parentJobId'', enc_str_opt (job_parentJobId j)),
      (''dependencyPolicy'', enc_str_opt (job_dependencyPolicy j)),
      (''blockedReason'', enc_str_opt (job_blockedReason j)),
      (''createdAt'', Str (job_createdAt j)), (''updatedAt'', Str (job_updatedAt j)),
      (''runAt'', Str (job_runAt j)), (''startedAt'', enc_str_opt (job_startedAt j)),
      (''finishedAt'', enc_str_opt (job_finishedAt j)),
      (''lastHeartbeatAt'', enc_str_opt (job_lastHeartbeatAt j)),
      (''leaseExpiresAt'', enc_str_opt (job_leaseExpiresAt j)),
      (''throttleUntil'', enc_str_opt (job_throttleUntil j)),
      (''lastError'', enc_str_opt (job_lastError j)), (''result'', job_result j),
      (''workerId'', enc_str_opt (job_workerId j)), (''leaseToken'', enc_str_opt (job_leaseToken j)),
      (''timeoutSeconds'', Num (job_timeoutSeconds j)),
      (''cancelRequested'', Bool (job_cancelRequested j)),
      (''executionMs'', Num (job_executionMs j))]"

definition enc_attempt :: "JobAttempt \<Rightarrow> jsval" where
  "enc_attempt a = Obj
     [(''id'', Num (att_id a)), (''jobId'', Str (att_jobId a)), (''attempt'', Num (att_attempt a)),
      (''workerId'', Str (att_workerId a)), (''leaseToken'', enc_str_opt (att_leaseToken a)),
      (''status'', Str (att_status a)), (''errorType'', enc_str_opt (att_errorType a)),
      (''errorMessage'', enc_str_opt (att_errorMessage a)),
      (''stackTrace'', enc_str_opt (att_stackTrace a)),
      (''leaseExpired'', Bool (att_leaseExpired a)), (''startedAt'', Str (att_startedAt a)),
      (''finishedAt'', enc_str_opt (att_finishedAt a))]"

definition enc_job_event :: "JobEvent \<Rightarrow> jsval" where
  "enc_job_event e = Obj
     [(''jobId'', Str (jev_jobId e)), (''type'', Str (jev_type e)), (''message'', Str (jev_message e)),
      (''metadata'', jev_metadata e), (''occurredAt'', Str (jev_occurredAt e))]"

definition enc_node :: "DependencyNode \<Rightarrow> jsval" where
  "enc_node n = Obj
     [(''jobId'', Str (node_jobId n)), (''type'', Str (node_type n)), (''state'', enc_state (node_state n)),
      (''queue'', Str (node_queue n)), (''parentJobId'', enc_str_opt (node_parentJobId n)),
      (''workflowId'', enc_str_opt (node_workflowId n)),
      (''blockedReason'', enc_str_opt (node_blockedReason n)),
      (''dependencyPolicy'', enc_str_opt (node_dependencyPolicy n)),
      (''dependsOn'', enc_opt (enc_list Str) (node_dependsOn n)),
      (''dependents'', enc_opt (enc_list Str) (node_dependents n))]"

definition enc_graph :: "DependencyGraph \<Rightarrow> jsval" where
  "enc_graph g = Obj
     [(''rootJobId'', Str (graph_rootJobId g)), (''nodes'', enc_list enc_node (graph_nodes g))]"

definition enc_idempotency :: "IdempotencyRecord \<Rightarrow> jsval" where
  "enc_idempotency r = Obj
     [(''scope'', Str (idem_scope r)), (''tenantId'', Str (idem_tenantId r)),
      (''jobType'', Str (idem_jobType r)), (''idempotencyKey'', Str (idem_idempotencyKey r)),
      (''jobId'', Str (idem_jobId r)), (''status'', Str (idem_status r)),
      (''outcome'', idem_outcome r), (''firstSeenAt'', Str (idem_firstSeenAt r)),
      (''updatedAt'', Str (idem_updatedAt r)), (''expiresAt'', Str (idem_expiresAt r))]"

definition enc_dead_letter :: "DeadLetter \<Rightarrow> jsval" where
  "enc_dead_letter d = Obj
     [(''jobId'', Str (dl_jobId d)), (''queue'', Str (dl_queue d)), (''workerId'', Str (dl_workerId d)),
      (''errorType'', enc_str_opt (dl_errorType d)), (''errorMessage'', Str (dl_errorMessage d)),
      (''stackTrace'', enc_str_opt (dl_stackTrace d)), (''failedAt'', Str (dl_failedAt d)),
      (''lastAttempt'', Num (dl_lastAttempt d)), (''replayCount'', Num (dl_replayCount d)),
      (''lastReplayedAt'', enc_str_opt (dl_lastReplayedAt d)), (''job'', enc_opt enc_job (dl_job d)),
      (''attempts'', enc_opt (enc_list enc_attempt) (dl_attempts d))]"

definition enc_worker :: "WorkerLeaseHealth \<Rightarrow> jsval" where
  "enc_worker w = Obj
     [(''workerId'', Str (wl_workerId w)), (''hostname'', Str (wl_hostname w)),
      (''status'', Str (wl_status w)), (''queues'', enc_list Str (wl_queues w)),
      (''lastSeenAt'', Str (wl_lastSeenAt w)), (''heartbeatAgeMs'', Num (wl_heartbeatAgeMs w)),
      (''activeLeaseCount'', Num (wl_activeLeaseCount w)),
      (''oldestLeaseAgeMs'', Num (wl_oldestLeaseAgeMs w)),
      (''oldestLeaseJobId'', enc_str_opt (wl_oldestLeaseJobId w)),
      (''version'', Str (wl_version w)), (''startedAt'', Str (wl_startedAt w)),
      (''leaseExpiresAt'', enc_str_opt (wl_leaseExpiresAt w))]"

definition enc_worker_status :: "WorkerStatus \<Rightarrow> jsval" where
  "enc_worker_status w = Obj
     [(''workerId'', Str (ws_workerId w)), (''hostname'', Str (ws_hostname w)),
      (''queues'', enc_list Str (ws_queues w)), (''concurrency'', Num (ws_concurrency w)),
      (''status'', Str (ws_status w)), (''startedAt'', Str (ws_startedAt w)),
      (''lastSeenAt'', Str (ws_lastSeenAt w)), (''version'', Str (ws_version w))]"

definition enc_policy :: "RateLimitPolicy \<Rightarrow> jsval" where
  "enc_policy p = Obj
     [(''id'', Str (pol_id p)), (''name'', Str (pol_name p)), (''scope'', Str (pol_scope p)),
      (''scopeValue'', enc_str_opt (pol_scopeValue p)), (''mode'', Str (pol_mode p)),
      (''limit'', Num (pol_limit p)), (''windowSeconds'', Num (pol_windowSeconds p)),
      (''burst'', Num (pol_burst p)), (''enabled'', Bool (pol_enabled p)),
      (''createdAt'', Str (pol_createdAt p)), (''updatedAt'', Str (pol_updatedAt p))]"

definition enc_rate_limit :: "RateLimitStatus \<Rightarrow> jsval" where
  "enc_rate_limit r = Obj
     [(''policy'', enc_policy (rl_policy r)), (''activeCount'', Num (rl_activeCount r)),
      (''recentCount'', Num (rl_recentCount r)), (''throttled'', Bool (rl_throttled r))]"

definition enc_leader :: "SchedulerLeaderStatus \<Rightarrow> jsval" where
  "enc_leader l = Obj
     [(''schedulerId'', enc_str_opt (ld_schedulerId l)), (''token'', enc_str_opt (ld_token l)),
      (''isLeaderHealthy'', enc_opt Bool (ld_isLeaderHealthy l)),
      (''acquiredAt'', enc_str_opt (ld_acquiredAt l)),
      (''lastHeartbeatAt'', enc_str_opt (ld_lastHeartbeatAt l)),
      (''leaseExpiresAt'', enc_str_opt (ld_leaseExpiresAt l))]"

definition enc_schedule :: "Schedule \<Rightarrow> jsval" where
  "enc_schedule s = Obj
     [(''id'', Str (sched_id s)), (''name'', Str (sched_name s)),
      (''cronExpression'', Str (sched_cronExpression s)), (''queue'', Str (sched_queue s)),
      (''type'', Str (sched_type s)), (''payload'', sched_payload s),
      (''priority'', Num (sched_priority s)), (''maxAttempts'', Num (sched_maxAttempts s)),
      (''timeoutSeconds'', Num (sched_timeoutSeconds s)), (''enabled'', Bool (sched_enabled s)),
      (''timezone'', Str (sched_timezone s)), (''nextRunAt'', Str (sched_nextRunAt s)),
      (''lastRunAt'', enc_str_opt (sched_lastRunAt s)), (''createdAt'', Str (sched_createdAt s)),
      (''updatedAt'', Str (sched_updatedAt s))]"

definition enc_event :: "SystemEvent \<Rightarrow> jsval" where
  "enc_event e = Obj
     [(''kind'', Str (ev_kind e)), (''jobId'', enc_str_opt (ev_jobId e)),
      (''queue'', enc_str_opt (ev_queue e)), (''workerId'', enc_str_opt (ev_workerId e)),
      (''state'', enc_opt enc_state (ev_state e)), (''message'', enc_str_opt (ev_message e)),
      (''timestamp'', Str (ev_timestamp e))]"

definition enc_overview :: "Overview \<Rightarrow> jsval" where
  "enc_overview v = Obj
     [(''totalJobs'', Num (ov_totalJobs v)), (''queuedJobs'', Num (ov_queuedJobs v)),
      (''blockedJobs'', Num (ov_blockedJobs v)), (''throttledJobs'', Num (ov_throttledJobs v)),
      (''activeJobs'', Num (ov_activeJobs v)), (''failedJobs'', Num (ov_failedJobs v)),
      (''retryingJobs'', Num (ov_retryingJobs v)), (''completedJobs'', Num (ov_completedJobs v)),
      (''scheduledJobs'', Num (ov_scheduledJobs v)), (''canceledJobs'', Num (ov_canceledJobs v)),
      (''queueLengths'', enc_record Num (ov_queueLengths v)),
      (''averageExecMs'', Num (ov_averageExecMs v)), (''lastUpdatedAt'', Str (ov_lastUpdatedAt v)),
      (''activeWorkers'', Num (ov_activeWorkers v)), (''delayedBacklog'', Num (ov_delayedBacklog v))]"

definition enc_metrics :: "Metrics \<Rightarrow> jsval" where
  "enc_metrics m = Obj
     [(''jobsPerSecond'', Num (mt_jobsPerSecond m)), (''retryRate'', Num (mt_retryRate m)),
      (''deadLetterRate'', Num (mt_deadLetterRate m)),
      (''executionLatency'', enc_latency (mt_executionLatency m)),
      (''queueLatency'', enc_latency (mt_queueLatency m)),
      (''maxWorkerHeartbeatAgeMs'', Num (mt_maxWorkerHeartbeatAgeMs m))]"

definition enc_trend :: "Trend \<Rightarrow> jsval" where
  "enc_trend t = Obj
     [(''throughput'', enc_list enc_point (tr_throughput t)),
      (''executionP95Ms'', enc_list enc_point (tr_executionP95Ms t)),
      (''queueLatencyP95Ms'', enc_list enc_point (tr_queueLatencyP95Ms t)),
      (''retryRate'', enc_list enc_point (tr_retryRate t)),
      (''deadLetterRate'', enc_list enc_point (tr_deadLetterRate t))]"

definition enc_snapshot :: "DashboardSnapshot \<Rightarrow> jsval" where
  "enc_snapshot s = Obj
     [(''overview'', enc_overview (sn_overview s)), (''metrics'', enc_metrics (sn_metrics s)),
      (''trend'', enc_trend (sn_trend s)), (''workers'', enc_list enc_worker (sn_workers s)),
      (''deadLetters'', enc_list enc_dead_letter (sn_deadLetters s)),
      (''blockedJobs'', enc_list enc_job (sn_blockedJobs s)),
      (''throttledJobs'', enc_list enc_job (sn_throttledJobs s)),
      (''rateLimits'', enc_list enc_rate_limit (sn_rateLimits s)),
      (''leader'', enc_leader (sn_leader s))]"

definition enc_inspection :: "JobInspection \<Rightarrow> jsval" where
  "enc_inspection i = Obj
     [(''job'', enc_job (insp_job i)), (''attempts'', enc_list enc_attempt (insp_attempts i)),
      (''events'', enc_list enc_job_event (insp_events i)), (''graph'', enc_graph (insp_graph i)),
      (''idempotency'', enc_nullable enc_idempotency (insp_idempotency i)),
      (''deadLetter'', enc_nullable enc_dead_letter (insp_deadLetter i))]"

end
