(* ===== verification/LiveRefresh.thy ===== *)
theory LiveRefresh
  imports Encoding "HOL-Library.Finite_Map"
begin

text \<open>
  \<open>src/src/lib/live-refresh.ts\<close>: the canonical serialisation by which the console recognises
  an unchanged payload, event fingerprints, the polling back-off and the live-health verdict.

  The main result is \<open>stableSerialize_eq\<close>: two values have the same serialisation exactly
  when they are deeply equal, ignoring the order of properties and properties that are
  \<open>undefined\<close> (\<open>deep_eq\<close>).
\<close>

definition POLLING_PRESETS :: "(string \<times> PollingPreset) list" where
  "POLLING_PRESETS = [(''Paused'', PP_0), (''5s'', PP_5000), (''15s'', PP_15000), (''30s'', PP_30000)]"

text \<open>\<open>sortValue\<close>: the properties are written into a fresh object in the order of the sorted keys.\<close>

fun sortValue :: "jsval \<Rightarrow> jsval" where
  "sortValue (Arr vs) = Arr (map sortValue vs)"
| "sortValue (Obj kvs) =
     Obj (obj_from_entries (sort_key fst (map (\<lambda>(k, v). (k, sortValue v)) kvs)))"
| "sortValue v = v"

definition stableSerialize :: "jsval \<Rightarrow> string option" where
  "stableSerialize v = json_stringify (sortValue v)"

definition createConsolePayloadSignature ::
    "DashboardSnapshot \<Rightarrow> Job list \<Rightarrow> Schedule list \<Rightarrow> WorkerStatus list \<Rightarrow> string option" where
  "createConsolePayloadSignature snapshot jobs schedules workerStatuses =
     stableSerialize (Obj
       [(''snapshot'', enc_snapshot snapshot), (''jobs'', enc_list enc_job jobs),
        (''schedules'', enc_list enc_schedule schedules),
        (''workerStatuses'', enc_list enc_worker_status workerStatuses)])"

definition createInspectionSignature :: "JobInspection \<Rightarrow> string option" where
  "createInspectionSignature i = stableSerialize (enc_inspection i)"

definition createEventFingerprint :: "SystemEvent \<Rightarrow> string" where
  "createEventFingerprint e = js_join ''|''
     [ev_kind e, ev_timestamp e, nullish (ev_jobId e) [], nullish (ev_queue e) [],
      nullish (ev_workerId e) [], nullish (map_option job_state_string (ev_state e)) [],
      nullish (ev_message e) []]"

definition getNextPollDelay :: "rat \<Rightarrow> nat \<Rightarrow> rat option" where
  "getNextPollDelay baseIntervalMs consecutiveFailures =
     (if baseIntervalMs \<le> 0 then None
      else if consecutiveFailures \<le> 0 then Some baseIntervalMs
      else let multiplier = min (2 ^ consecutiveFailures) 8
           in Some (min (baseIntervalMs * multiplier) 60000))"

definition getDrawerRefreshInterval :: "rat \<Rightarrow> rat" where
  "getDrawerRefreshInterval baseIntervalMs =
     (if baseIntervalMs \<le> 0 then 0 else max (baseIntervalMs * 2) 15000)"

record HealthInput =
  hi_liveMode :: bool
  hi_pollIntervalMs :: rat
  hi_liveUpdates :: bool
  hi_hasLiveData :: bool
  hi_resolvedBaseUrl :: "string option"
  hi_consecutiveFailures :: nat
  hi_socketConnected :: bool
  hi_socketDesired :: bool

definition resolveLiveHealth :: "HealthInput \<Rightarrow> LiveHealth" where
  "resolveLiveHealth i =
     (if \<not> hi_liveMode i then LH_demo
      else if \<not> truthy (hi_resolvedBaseUrl i) then LH_offline
      else if hi_pollIntervalMs i \<le> 0 \<and> \<not> hi_liveUpdates i then LH_paused
      else if hi_consecutiveFailures i > 0 then (if hi_hasLiveData i then LH_degraded else LH_offline)
      else if hi_socketDesired i \<and> \<not> hi_socketConnected i \<and> hi_hasLiveData i then LH_reconnecting
      else LH_live)"


section \<open>Stable serialisation decides deep equality\<close>

text \<open>What a value denotes for the serialiser: objects are finite maps.\<close>

datatype dval =
    DNull
  | DBool bool
  | DNum rat
  | DStr string
  | DArr "dval list"
  | DObj "(string, dval) fmap"

fun denote :: "jsval \<Rightarrow> dval" where
  "denote Undefined = DNull"
| "denote Null = DNull"
| "denote (Bool b) = DBool b"
| "denote (Num x) = DNum x"
| "denote (Str s) = DStr s"
| "denote (Arr vs) = DArr (map denote vs)"
| "denote (Obj kvs) =
     DObj (fmap_of_list (map (\<lambda>(k, v). (k, denote v)) (filter (\<lambda>(k, v). v \<noteq> Undefined) kvs)))"

text \<open>The values the program builds: decimal numbers, objects in enumeration order.\<close>

fun js_ok :: "jsval \<Rightarrow> bool" where
  "js_ok (Num x) = decimal x"
| "js_ok (Arr vs) = (\<forall>v \<in> set vs. js_ok v)"
| "js_ok (Obj kvs) = (obj_ok kvs \<and> (\<forall>(k, v) \<in> set kvs. js_ok v))"
| "js_ok v = True"

text \<open>The value a printed text denotes: JSON has no \<open>undefined\<close>.\<close>

fun json_norm :: "jsval \<Rightarrow> jsval" where
  "json_norm Undefined = Null"
| "json_norm (Arr vs) = Arr (map json_norm vs)"
| "json_norm (Obj kvs) =
     Obj (map (\<lambda>(k, v). (k, json_norm v)) (filter (\<lambda>(k, v). v \<noteq> Undefined) kvs))"
| "json_norm v = v"

abbreviation defined_props :: "jsval obj \<Rightarrow> jsval obj" where
  "defined_props \<equiv> filter (\<lambda>(k, v). v \<noteq> Undefined)"

abbreviation map_values :: "('a \<Rightarrow> 'b) \<Rightarrow> 'a obj \<Rightarrow> 'b obj" where
  "map_values f \<equiv> map (\<lambda>(k, v). (k, f v))"

lemma json_norm_defined [simp]: "json_norm v \<noteq> Undefined"
  by (cases v) auto

lemma sortValue_undefined [simp]: "sortValue v = Undefined \<longleftrightarrow> v = Undefined"
  by (cases v) auto

lemma keys_map_values [simp]: "obj_keys (map_values f kvs) = obj_keys kvs"
  by (induction kvs) auto

lemma get_map_values: "obj_get (map_values f kvs) k = map_option f (obj_get kvs k)"
  by (induction kvs) auto

lemma defined_map_values: "defined_props (map_values json_norm kvs) = map_values json_norm kvs"
  by (rule filter_True) auto

abbreviation json_member :: "string \<times> jsval \<Rightarrow> string" where
  "json_member \<equiv> \<lambda>(k, v). json_quote k @ '':'' @ json_text v"

lemma json_text_norm: "json_text (json_norm v) = json_text v"
proof (induction v)
  case (Obj kvs)
  have "map json_member (map_values json_norm (defined_props kvs)) = map json_member (defined_props kvs)"
    using Obj by (fastforce simp: split_def)
  then show ?case by (simp only: json_norm.simps json_text.simps defined_map_values)
qed (simp_all cong: map_cong)

lemma obj_ok_filter: "obj_ok kvs \<Longrightarrow> obj_ok (filter P kvs)"
  by (induction kvs) (auto simp: obj_ok_def)

lemma obj_ok_map_values [simp]: "obj_ok (map_values f kvs) = obj_ok kvs"
  unfolding obj_ok_def keys_map_values by (rule refl)

lemma wf_json_norm: "js_ok v \<Longrightarrow> wf_json (json_norm v)"
proof (induction v)
  case (Obj kvs)
  then have "\<forall>(k, v) \<in> set (map_values json_norm (defined_props kvs)). wf_json v" by fastforce
  with Obj.prems show ?case by (simp add: obj_ok_filter)
qed auto

lemma json_text_eq_iff:
  assumes "js_ok v" and "js_ok w"
  shows "json_text v = json_text w \<longleftrightarrow> json_norm v = json_norm w"
  using json.enc_inject [OF wf_json_norm [OF assms(1)] wf_json_norm [OF assms(2)]]
  by (simp add: json_text_norm)

subsection \<open>The canonical order of keys\<close>

definition canon_lt :: "string \<Rightarrow> string \<Rightarrow> bool" where
  "canon_lt a b \<longleftrightarrow>
     (if is_index a then is_index b \<longrightarrow> digits_value 0 a < digits_value 0 b
      else \<not> is_index b \<and> a < b)"

lemma sorted_wrt_unique:
  assumes "\<And>a b. R a b \<Longrightarrow> \<not> R b a" and "sorted_wrt R xs" and "sorted_wrt R ys" and "set xs = set ys"
  shows "xs = ys"
  using assms(2-)
proof (induction xs arbitrary: ys)
  case (Cons x xs)
  then obtain y ys' where ys: "ys = y # ys'" by (cases ys) auto
  have irr: "\<not> R a a" for a using assms(1) by blast
  have "x = y" using Cons.prems ys assms(1) by (metis insert_iff list.simps(15) sorted_wrt.simps(2))
  moreover have "x \<notin> set xs" "y \<notin> set ys'" using Cons.prems ys irr by auto
  ultimately have "set xs = set ys'" using Cons.prems ys by auto
  with \<open>x = y\<close> Cons ys show ?case by auto
qed simp

lemma canon_asym: "canon_lt a b \<Longrightarrow> \<not> canon_lt b a"
  by (auto simp: canon_lt_def split: if_splits)

lemma canon_trans: "canon_lt a b \<Longrightarrow> canon_lt b c \<Longrightarrow> canon_lt a c"
  by (auto simp: canon_lt_def split: if_splits)

lemma canon_total: "a \<noteq> b \<Longrightarrow> canon_lt a b \<or> canon_lt b a"
  using is_index_inject [of a b]
  by (cases "digits_value 0 a" "digits_value 0 b" rule: linorder_cases) (auto simp: canon_lt_def)

lemma sorted_canon_insert:
  assumes "sorted_wrt canon_lt (obj_keys o')" and "k \<notin> set (obj_keys o')"
    and "\<forall>k' \<in> set (obj_keys o'). \<not> is_index k' \<longrightarrow> k' \<le> k"
  shows "sorted_wrt canon_lt (obj_keys (obj_insert k v o'))"
  using assms
proof (induction o')
  case (Cons kv o')
  obtain k' v' where kv: "kv = (k', v')" by (cases kv)
  show ?case
  proof (cases "key_before k k'")
    case True
    then have "canon_lt k k'" by (auto simp: key_before_def canon_lt_def split: if_splits)
    with True Cons.prems kv show ?thesis by (auto intro: canon_trans)
  next
    case False
    then have "canon_lt k' k"
      using Cons.prems kv canon_total [of k k']
      by (auto simp: key_before_def canon_lt_def split: if_splits)
    with False Cons kv show ?thesis by auto
  qed
qed simp

lemma canon_from_sorted:
  assumes "sorted (obj_keys es)" and "distinct (obj_keys es)"
  shows "sorted_wrt canon_lt (obj_keys (obj_from_entries es)) \<and>
         set (obj_keys (obj_from_entries es)) = set (obj_keys es) \<and>
         obj_get (obj_from_entries es) = obj_get es"
  using assms
proof (induction es rule: rev_induct)
  case Nil
  then show ?case by (simp add: obj_from_entries_def obj_spread_def)
next
  case (snoc kv es)
  obtain k v where kv: "kv = (k, v)" by (cases kv)
  let ?o = "obj_from_entries es"
  have IH: "sorted_wrt canon_lt (obj_keys ?o)" "set (obj_keys ?o) = set (obj_keys es)"
    "obj_get ?o = obj_get es"
    using snoc kv by (auto simp: sorted_append)
  have new: "k \<notin> set (obj_keys ?o)" using snoc.prems kv IH(2) by auto
  have step: "obj_from_entries (es @ [kv]) = obj_insert k v ?o"
    using new by (simp add: kv obj_from_entries_def obj_spread_def obj_set_def)
  have "sorted_wrt canon_lt (obj_keys (obj_insert k v ?o))"
    using IH new snoc.prems kv by (intro sorted_canon_insert) (auto simp: sorted_append)
  moreover have "obj_get (obj_insert k v ?o) = obj_get (es @ [kv])"
    using new IH by (auto simp: obj_get_insert kv fun_eq_iff map_add_def map_of_append rev_image_eqI
        split: option.split dest!: map_of_SomeD)
  ultimately show ?case
    unfolding step using IH(2) by (auto simp: kv)
qed


lemma sort_keys_sorted [simp]: "sorted (obj_keys (sort_key fst kvs))"
  by simp

lemma distinct_keys_sort [simp]: "distinct (obj_keys (sort_key f kvs)) = distinct (obj_keys kvs)"
  by (simp add: distinct_map)

lemma get_sort:
  assumes "distinct (obj_keys kvs)"
  shows "obj_get (sort_key f kvs) = obj_get kvs"
  using assms by (intro map_of_eqI) (auto simp: map_of_eq_None_iff intro!: map_of_is_SomeI)

lemma get_defined_props:
  assumes "distinct (obj_keys kvs)"
  shows "obj_get (defined_props kvs) k =
    (case obj_get kvs k of None \<Rightarrow> None | Some v \<Rightarrow> if v = Undefined then None else Some v)"
  using assms by (induction kvs) (auto simp: rev_image_eqI split: option.splits dest!: map_of_SomeD)

definition canonical :: "jsval \<Rightarrow> jsval" where
  "canonical v = json_norm (sortValue v)"

lemma canonical_obj:
  assumes "distinct (obj_keys kvs)"
  obtains L where "canonical (Obj kvs) = Obj L" and "sorted_wrt canon_lt (obj_keys L)"
    and "defined_props L = L"
    and "\<And>k. obj_get L k = map_option canonical (obj_get (defined_props kvs) k)"
proof -
  let ?m = "map_values sortValue kvs"
  let ?es = "sort_key fst ?m"
  let ?o = "obj_from_entries ?es"
  let ?L = "map_values json_norm (defined_props ?o)"
  have dm: "distinct (obj_keys ?m)" using assms unfolding keys_map_values .
  then have d: "distinct (obj_keys ?es)" unfolding distinct_keys_sort .
  note c = canon_from_sorted [OF sort_keys_sorted d]
  have get: "obj_get ?o = obj_get ?m" using c get_sort [OF dm] by simp
  have o: "distinct (obj_keys ?o)" using obj_ok_from_entries [of ?es] by (simp add: obj_ok_def)
  show thesis
  proof
    show "canonical (Obj kvs) = Obj ?L" by (simp add: canonical_def)
    have "sorted_wrt canon_lt (obj_keys (defined_props ?o))"
      using c by (metis (no_types, lifting) sorted_wrt_filter sorted_wrt_map)
    then show "sorted_wrt canon_lt (obj_keys ?L)" unfolding keys_map_values .
    show "defined_props ?L = ?L" by (rule defined_map_values)
    show "obj_get ?L k = map_option canonical (obj_get (defined_props kvs) k)" for k
      unfolding get_map_values get_defined_props [OF o] get_defined_props [OF assms] get
      by (auto simp: canonical_def split: option.split)
  qed
qed

lemma obj_rebuild: "distinct (obj_keys a) \<Longrightarrow> map (\<lambda>k. (k, the (obj_get a k))) (obj_keys a) = a"
  unfolding map_map by (rule map_idI) auto

lemma obj_canon_eqI:
  assumes "sorted_wrt canon_lt (obj_keys a)" and "sorted_wrt canon_lt (obj_keys b)"
    and "obj_get a = obj_get b"
  shows "a = b"
proof -
  have "set (obj_keys a) = set (obj_keys b)" using arg_cong [OF assms(3), of dom] by (simp add: dom_map_of_conv_image_fst)
  then have keys: "obj_keys a = obj_keys b"
    using assms(1,2) canon_asym by (intro sorted_wrt_unique [where R = canon_lt]) auto
  have "\<not> canon_lt k k" for k using canon_asym by blast
  then have "distinct (obj_keys a)"
    using assms(1) by (induction a) auto
  with keys assms(3) show ?thesis by (metis obj_rebuild)
qed

lemma canonical_simps [simp]:
  "canonical Undefined = Null" "canonical Null = Null" "canonical (Bool b) = Bool b"
  "canonical (Num x) = Num x" "canonical (Str s) = Str s"
  "canonical (Arr vs) = Arr (map canonical vs)"
  by (simp_all add: canonical_def)

lemma js_ok_distinct: "js_ok (Obj kvs) \<Longrightarrow> distinct (obj_keys kvs)"
  by (simp add: obj_ok_def)

lemma fmap_of_list_eq: "fmap_of_list a = fmap_of_list b \<longleftrightarrow> map_of a = map_of b"
  by (metis fmap_of_list.rep_eq fmlookup_inject)

lemma denote_obj_eq:
  "denote (Obj a) = denote (Obj b) \<longleftrightarrow>
   (\<forall>k. map_option denote (obj_get (defined_props a) k) = map_option denote (obj_get (defined_props b) k))"
  unfolding denote.simps dval.inject fmap_of_list_eq fun_eq_iff get_map_values by (rule refl)

lemma defined_js_ok:
  "js_ok (Obj kvs) \<Longrightarrow> obj_get (defined_props kvs) k = Some v \<Longrightarrow> js_ok v \<and> v \<in> snd ` set kvs"
  by (force dest: map_of_SomeD)

lemma denote_canonical: "js_ok v \<Longrightarrow> denote (canonical v) = denote v"
proof (induction v)
  case (Obj kvs)
  obtain L where L: "canonical (Obj kvs) = Obj L" "defined_props L = L"
    "\<And>k. obj_get L k = map_option canonical (obj_get (defined_props kvs) k)"
    using canonical_obj [OF js_ok_distinct [OF Obj.prems]] by metis
  have "denote (canonical v) = denote v" if "obj_get (defined_props kvs) k = Some v" for k v
    using Obj defined_js_ok [OF Obj.prems that] by auto
  then have "denote (Obj L) = denote (Obj kvs)"
    unfolding denote_obj_eq L(2,3) by (auto simp: option.map_comp comp_def intro: option.map_cong0)
  with L(1) show ?case by simp
qed auto

lemma denote_inject_obj:
  assumes "denote v = denote (Obj a)"
  obtains b where "v = Obj b"
  using assms by (cases v) auto

lemma canonical_denote:
  assumes "js_ok v" and "js_ok w" and "denote v = denote w"
  shows "canonical v = canonical w"
  using assms
proof (induction v arbitrary: w)
  case (Arr vs)
  then obtain ws where w: "w = Arr ws" by (cases w) auto
  then have "map denote vs = map denote ws" using Arr.prems by simp
  then have "map canonical vs = map canonical ws"
    using Arr w by (intro nth_equalityI) (auto simp: list_eq_iff_nth_eq)
  with w show ?case by simp
next
  case (Obj a)
  then obtain b where w: "w = Obj b" by (metis denote_inject_obj)
  obtain A where A: "canonical (Obj a) = Obj A" "sorted_wrt canon_lt (obj_keys A)"
    "\<And>k. obj_get A k = map_option canonical (obj_get (defined_props a) k)"
    using canonical_obj [OF js_ok_distinct [OF Obj.prems(1)]] by metis
  obtain B where B: "canonical (Obj b) = Obj B" "sorted_wrt canon_lt (obj_keys B)"
    "\<And>k. obj_get B k = map_option canonical (obj_get (defined_props b) k)"
    using canonical_obj js_ok_distinct Obj.prems(2) w by metis
  have "obj_get A k = obj_get B k" for k
  proof -
    have eq: "map_option denote (obj_get (defined_props a) k) = map_option denote (obj_get (defined_props b) k)"
      using Obj.prems(3) w by (simp only: denote_obj_eq)
    show ?thesis
    proof (cases "obj_get (defined_props a) k")
      case None
      with eq A(3) B(3) show ?thesis by simp
    next
      case (Some x)
      with eq obtain y where y: "obj_get (defined_props b) k = Some y" "denote x = denote y"
        by (cases "obj_get (defined_props b) k") auto
      have x: "js_ok x" "x \<in> snd ` set a" using defined_js_ok [OF Obj.prems(1) Some] by auto
      then obtain k' where k': "(k', x) \<in> set a" by auto
      have "js_ok y" using defined_js_ok y(1) Obj.prems(2) w by blast
      with Obj.IH [OF k' _ x(1)] y(2) have "canonical x = canonical y" by simp
      with Some y A(3) B(3) show ?thesis by simp
    qed
  qed
  then have "A = B" using A(2) B(2) by (intro obj_canon_eqI) auto
  with A(1) B(1) w show ?case by simp
next
  case Undefined
  then show ?case by (cases w) simp_all
next
  case Null
  then show ?case by (cases w) simp_all
next
  case (Bool b)
  then show ?case by (cases w) simp_all
next
  case (Num x)
  then show ?case by (cases w) simp_all
next
  case (Str s)
  then show ?case by (cases w) simp_all
qed

lemma js_ok_sortValue: "js_ok v \<Longrightarrow> js_ok (sortValue v)"
proof (induction v)
  case (Obj kvs)
  have "obj_get (obj_from_entries es) k = Some v \<Longrightarrow> (k, v) \<in> set es" for es :: "jsval obj" and k v
    by (auto simp: obj_from_entries_def obj_get_spread dest!: map_of_SomeD)
  then have "(k, v) \<in> set (obj_from_entries es) \<Longrightarrow> (k, v) \<in> set es" for es :: "jsval obj" and k v
    using obj_ok_from_entries [of es] by (simp add: obj_ok_def)
  with Obj show ?case by fastforce
qed auto

lemma stableSerialize_eq:
  assumes "js_ok v" and "js_ok w" and "v \<noteq> Undefined" and "w \<noteq> Undefined"
  shows "stableSerialize v = stableSerialize w \<longleftrightarrow> denote v = denote w"
proof -
  have "stableSerialize v = stableSerialize w \<longleftrightarrow> canonical v = canonical w"
    using assms json_text_eq_iff [OF js_ok_sortValue js_ok_sortValue]
    by (simp add: stableSerialize_def json_stringify_def canonical_def)
  then show ?thesis
    using canonical_denote [OF assms(1,2)] denote_canonical assms(1,2) by metis
qed

end
