(* ===== verification/Host.thy ===== *)
theory Host
  imports Models
begin

text \<open>
  The browser services the dashboard calls and that the sources do not define, as records of
  functions that the definitions take as arguments: the date library, the WHATWG URL class,
  locale-dependent text, and Web Storage. What the proofs use of them is stated as the named
  hypothesis \<open>date_ok\<close>.
\<close>

section \<open>Dates\<close>

text \<open>
  \<open>date_parse s\<close> is the time value of \<open>new Date(s)\<close> in milliseconds (\<open>None\<close> is \<open>NaN\<close>; the
  language leaves non-ISO texts to the implementation); \<open>iso_text t\<close> is
  \<open>new Date(t).toISOString()\<close> of a valid time value.
\<close>

record date_api =
  date_parse :: "string \<Rightarrow> int option"
  iso_text :: "int \<Rightarrow> string"

definition max_time :: int where
  "max_time = 8640000000000000"

text \<open>TimeClip: \<open>new Date(t)\<close> truncates to an integer and is invalid beyond the range.\<close>

definition time_clip :: "rat \<Rightarrow> int option" where
  "time_clip t =
     (if \<bar>t\<bar> > of_int max_time then None
      else Some (if t \<ge> 0 then \<lfloor>t\<rfloor> else \<lceil>t\<rceil>))"

text \<open>\<open>new Date(t).toISOString()\<close>: \<open>None\<close> is the RangeError of an invalid date.\<close>

definition toISOString :: "date_api \<Rightarrow> rat \<Rightarrow> string option" where
  "toISOString D t = map_option (iso_text D) (time_clip t)"

definition getTime :: "date_api \<Rightarrow> string \<Rightarrow> rat option" where
  "getTime D s = map_option of_int (date_parse D s)"

definition valid_time :: "int \<Rightarrow> bool" where
  "valid_time t \<longleftrightarrow> \<bar>t\<bar> \<le> max_time"

text \<open>
  ISO texts are not empty and parse back to the time they print, and every parsed time is in the
  valid range.
\<close>

definition date_ok :: "date_api \<Rightarrow> bool" where
  "date_ok D \<longleftrightarrow> (\<forall>t. valid_time t \<longrightarrow> date_parse D (iso_text D t) = Some t) \<and>
                 (\<forall>s t. date_parse D s = Some t \<longrightarrow> valid_time t) \<and>
                 (\<forall>t. iso_text D t \<noteq> [])"

lemma date_ok_nonempty: "date_ok D \<Longrightarrow> iso_text D t \<noteq> []"
  by (simp add: date_ok_def)

lemma date_ok_roundtrip: "date_ok D \<Longrightarrow> valid_time t \<Longrightarrow> date_parse D (iso_text D t) = Some t"
  by (simp add: date_ok_def)

lemma date_ok_valid: "date_ok D \<Longrightarrow> date_parse D s = Some t \<Longrightarrow> valid_time t"
  by (auto simp: date_ok_def)

lemma time_clip_int: "valid_time t \<Longrightarrow> time_clip (of_int t) = Some t"
  by (simp add: time_clip_def valid_time_def flip: of_int_abs)

lemma toISOString_int: "valid_time t \<Longrightarrow> toISOString D (of_int t) = Some (iso_text D t)"
  by (simp add: toISOString_def time_clip_int)

text \<open>A concrete date library: times print as decimal integers.\<close>

definition decimal_dates :: date_api where
  "decimal_dates =
     \<lparr> date_parse = (\<lambda>s. case json_number s of
          Some (x, []) \<Rightarrow> (if rat_is_int x \<and> \<bar>x\<bar> \<le> of_int max_time then Some \<lfloor>x\<rfloor> else None)
        | _ \<Rightarrow> None),
       iso_text = (\<lambda>t. number_to_string (of_int t)) \<rparr>"

lemma decimal_dates_ok: "date_ok decimal_dates"
proof -
  have "json_number (number_to_string (of_int t)) = Some (of_int t, [])" for t
    using number_roundtrip [of "of_int t" "[]"] by (simp add: number_stop_def)
  moreover have "number_to_string (of_int t) \<noteq> []" for t
    using number_to_string_hd [of "of_int t"] by simp
  ultimately show ?thesis
    by (auto simp: date_ok_def decimal_dates_def valid_time_def rat_is_int_iff Ints_def
        split: option.splits list.splits if_splits simp flip: of_int_abs)
qed

section \<open>URLs\<close>

text \<open>
  The URL class: the constructor (\<open>None\<close> is its TypeError), the getters and setters the code
  uses, \<open>searchParams.set\<close> and \<open>toString()\<close>.
\<close>

record 'u url_api =
  url_new :: "string \<Rightarrow> 'u option"
  url_protocol :: "'u \<Rightarrow> string"
  url_set_protocol :: "'u \<Rightarrow> string \<Rightarrow> 'u"
  url_pathname :: "'u \<Rightarrow> string"
  url_set_pathname :: "'u \<Rightarrow> string \<Rightarrow> 'u"
  url_set_search :: "'u \<Rightarrow> string \<Rightarrow> 'u"
  url_set_hash :: "'u \<Rightarrow> string \<Rightarrow> 'u"
  url_search_set :: "'u \<Rightarrow> string \<Rightarrow> string \<Rightarrow> 'u"
  url_href :: "'u \<Rightarrow> string"

section \<open>Locale-dependent text\<close>

record locale_api =
  toLocaleString :: "int \<Rightarrow> string"
  toLocaleTimeString :: "int \<Rightarrow> string"
  compactNumber :: "rat \<Rightarrow> string"

section \<open>Web Storage\<close>

text \<open>
  The state of \<open>window.localStorage\<close>, and whether the page can use it: there is no window
  (server rendering), or every access throws (privacy settings), or it works.
\<close>

datatype storage_access = No_window | Storage_throws | Storage_works

type_synonym storage = "string \<rightharpoonup> string"

end
