(* ===== verification/Safe.thy ===== *)
theory Safe
  imports Host
begin

text \<open>
  \<open>src/src/lib/safe.ts\<close> and \<open>src/src/lib/api-routes.ts\<close>: total conversions of untrusted values,
  local storage access, URL construction, formatting, and the construction of jobs, events and
  fallback inspections on the client.
\<close>

section \<open>Constants and routes\<close>

definition QUEUES :: "string list" where
  "QUEUES = [''critical'', ''default'', ''low'']"

definition JOB_TYPES :: "string list" where
  "JOB_TYPES = [''email.send'', ''report.generate'', ''cleanup.run'', ''webhook.dispatch'',
     ''file.ingest'', ''image.thumbnail'', ''metadata.aggregate'', ''user.notify'']"

definition TABS :: "(TabKey \<times> string) list" where
  "TABS = [(Tab_overview, ''Overview''), (Tab_jobs, ''Jobs''), (Tab_queues, ''Queues''),
     (Tab_workers, ''Workers''), (Tab_schedules, ''Schedules''), (Tab_dead_letter, ''Dead Letter''),
     (Tab_workflows, ''Workflows''), (Tab_metrics, ''Metrics''), (Tab_events, ''Events'')]"

record StorageKeys =
  key_baseUrl :: string
  key_token :: string
  key_liveMode :: string
  key_liveUpdates :: string
  key_pollIntervalMs :: string
  key_environment :: string

definition STORAGE_KEYS :: StorageKeys where
  "STORAGE_KEYS = \<lparr> key_baseUrl = ''jobsystem.baseUrl'', key_token = ''jobsystem.token'',
     key_liveMode = ''jobsystem.liveMode'', key_liveUpdates = ''jobsystem.liveUpdates'',
     key_pollIntervalMs = ''jobsystem.pollIntervalMs'', key_environment = ''jobsystem.environment'' \<rparr>"

definition API_V1_PREFIX :: string where
  "API_V1_PREFIX = ''/api/v1''"

datatype ApiRoute =
    R_dashboardSnapshot | R_jobs | R_workers | R_schedules | R_deadLettersReplay | R_deadLettersDelete
  | R_workflowDemoThumbnail | R_jobRetry string | R_jobCancel string | R_jobInspection string
  | R_jobsWithLimit rat

fun API_ROUTES :: "ApiRoute \<Rightarrow> string" where
  "API_ROUTES R_dashboardSnapshot = API_V1_PREFIX @ ''/dashboard''"
| "API_ROUTES R_jobs = API_V1_PREFIX @ ''/jobs''"
| "API_ROUTES R_workers = API_V1_PREFIX @ ''/workers''"
| "API_ROUTES R_schedules = API_V1_PREFIX @ ''/schedules''"
| "API_ROUTES R_deadLettersReplay = API_V1_PREFIX @ ''/dlq/replay''"
| "API_ROUTES R_deadLettersDelete = API_V1_PREFIX @ ''/dlq/delete''"
| "API_ROUTES R_workflowDemoThumbnail = API_V1_PREFIX @ ''/workflows/demo/thumbnail''"
| "API_ROUTES (R_jobRetry jobId) = API_V1_PREFIX @ ''/jobs/'' @ jobId @ ''/retry''"
| "API_ROUTES (R_jobCancel jobId) = API_V1_PREFIX @ ''/jobs/'' @ jobId @ ''/cancel''"
| "API_ROUTES (R_jobInspection jobId) = API_V1_PREFIX @ ''/jobs/'' @ jobId @ ''/inspection''"
| "API_ROUTES (R_jobsWithLimit limit) = API_V1_PREFIX @ ''/jobs?limit='' @ number_to_string limit"

datatype RealtimeRoute = RT_websocket | RT_sse

fun REALTIME_ROUTES :: "RealtimeRoute \<Rightarrow> string" where
  "REALTIME_ROUTES RT_websocket = ''/ws/events''"
| "REALTIME_ROUTES RT_sse = ''/sse/events''"

section \<open>Total conversions\<close>

definition asString :: "jsval \<Rightarrow> string \<Rightarrow> string" where
  "asString value fallback =
     (case value of
        Str s \<Rightarrow> s
      | Null \<Rightarrow> fallback
      | Undefined \<Rightarrow> fallback
      | _ \<Rightarrow> js_String value)"

definition safeTrim :: "jsval \<Rightarrow> string \<Rightarrow> string" where
  "safeTrim value fallback = js_trim (asString value fallback)"

abbreviation safeTrimStr :: "string \<Rightarrow> string" where
  "safeTrimStr s \<equiv> safeTrim (Str s) []"

definition safeIncludes :: "jsval \<Rightarrow> string \<Rightarrow> bool" where
  "safeIncludes value expected = js_includes (safeTrim value []) expected"

definition safeStartsWith :: "jsval \<Rightarrow> string \<Rightarrow> bool" where
  "safeStartsWith value prefix' = js_startsWith (safeTrim value []) prefix'"

definition asNumber :: "jsval \<Rightarrow> rat \<Rightarrow> rat" where
  "asNumber value fallback = (case js_Number value of Fin x \<Rightarrow> x | _ \<Rightarrow> fallback)"

definition clamp :: "rat \<Rightarrow> rat \<Rightarrow> rat \<Rightarrow> rat" where
  "clamp value lo hi = min (max value lo) hi"

text \<open>The same function at a number that may be infinite or \<open>NaN\<close>.\<close>

definition clamp_num :: "jsnum \<Rightarrow> rat \<Rightarrow> rat \<Rightarrow> jsnum" where
  "clamp_num value lo hi = num_min (num_max value (Fin lo)) (Fin hi)"

section \<open>Local storage\<close>

definition readStoredValue :: "storage_access \<Rightarrow> storage \<Rightarrow> string \<Rightarrow> string \<Rightarrow> string" where
  "readStoredValue acc st key fallback =
     (case acc of
        No_window \<Rightarrow> fallback
      | Storage_throws \<Rightarrow> fallback
      | Storage_works \<Rightarrow>
          (let stored = (case st key of None \<Rightarrow> Null | Some s \<Rightarrow> Str s)
           in or_str (safeTrim stored []) fallback))"

definition writeStoredValue :: "storage_access \<Rightarrow> storage \<Rightarrow> string \<Rightarrow> jsval \<Rightarrow> storage" where
  "writeStoredValue acc st key value =
     (case acc of
        No_window \<Rightarrow> st
      | Storage_throws \<Rightarrow> st
      | Storage_works \<Rightarrow>
          (let next = asString value []
           in if next \<noteq> [] then st(key \<mapsto> next) else st(key := None)))"

definition clearStoredValue :: "storage_access \<Rightarrow> storage \<Rightarrow> string \<Rightarrow> storage" where
  "clearStoredValue acc st key =
     (case acc of No_window \<Rightarrow> st | Storage_throws \<Rightarrow> st | Storage_works \<Rightarrow> st(key := None))"

section \<open>URL construction\<close>

definition strip_trailing_slashes :: "string \<Rightarrow> string" where
  "strip_trailing_slashes s = rev (dropWhile (\<lambda>c. c = CHR ''/'') (rev s))"

definition strip_leading_slashes :: "string \<Rightarrow> string" where
  "strip_leading_slashes s = dropWhile (\<lambda>c. c = CHR ''/'') s"

text \<open>\<open>s.replace(/\/$/, "")\<close>\<close>

definition strip_one_trailing_slash :: "string \<Rightarrow> string" where
  "strip_one_trailing_slash s = (if s \<noteq> [] \<and> last s = CHR ''/'' then butlast s else s)"

definition normalizeUrlPathname :: "string \<Rightarrow> string" where
  "normalizeUrlPathname pathname =
     (if pathname = [] \<or> pathname = ''/'' then ''/''
      else let trimmed = strip_trailing_slashes pathname
           in if js_startsWith trimmed ''/'' then trimmed else ''/'' @ trimmed)"

text \<open>The part before the first \<open>#\<close>, then the parts before and from the first \<open>?\<close>.\<close>

definition splitUrlPath :: "string \<Rightarrow> string \<times> string" where
  "splitUrlPath path =
     (let raw = safeTrimStr path
      in if raw = [] then (''/'', [])
         else let pathWithoutHash = takeWhile (\<lambda>c. c \<noteq> CHR ''#'') raw;
                  beforeSearch = takeWhile (\<lambda>c. c \<noteq> CHR ''?'') pathWithoutHash;
                  search = dropWhile (\<lambda>c. c \<noteq> CHR ''?'') pathWithoutHash
              in if search = [] then (pathWithoutHash, [])
                 else (or_str beforeSearch ''/'', search))"

text \<open>The while loop of \<open>joinUrlPath\<close>: \<open>nextSegments.shift()\<close> as long as its head repeats the last base segment.\<close>

fun drop_repeated :: "string list \<Rightarrow> string list \<Rightarrow> string list" where
  "drop_repeated baseSegments [] = []"
| "drop_repeated baseSegments (n # ns) =
     (if baseSegments \<noteq> [] \<and> last baseSegments = n then drop_repeated baseSegments ns else n # ns)"

definition path_segments :: "string \<Rightarrow> string list" where
  "path_segments p = filter (\<lambda>s. s \<noteq> []) (js_split (CHR ''/'') (strip_leading_slashes p))"

definition joinUrlPath :: "string \<Rightarrow> string \<Rightarrow> string" where
  "joinUrlPath basePath nextPath =
     (let baseSegments = path_segments (normalizeUrlPathname basePath);
          nextSegments = path_segments (safeTrimStr nextPath)
      in if nextSegments = [] then
           (if baseSegments = [] then ''/'' else ''/'' @ js_join ''/'' baseSegments)
         else let merged = baseSegments @ drop_repeated baseSegments nextSegments
              in if merged = [] then ''/'' else ''/'' @ js_join ''/'' merged)"

definition normalizeBaseUrl :: "'u url_api \<Rightarrow> jsval \<Rightarrow> string option" where
  "normalizeBaseUrl U value =
     (let raw = safeTrim value []
      in if raw = [] then None
         else case url_new U raw of
           None \<Rightarrow> None
         | Some u0 \<Rightarrow>
             let u1 = (if url_protocol U u0 = ''ws:'' then url_set_protocol U u0 ''http:'' else u0);
                 u2 = (if url_protocol U u1 = ''wss:'' then url_set_protocol U u1 ''https:'' else u1)
             in if url_protocol U u2 \<notin> {''http:'', ''https:''} then None
                else let u3 = url_set_search U (url_set_hash U u2 []) [];
                         u4 = url_set_pathname U u3 (normalizeUrlPathname (url_pathname U u3))
                     in Some (strip_one_trailing_slash (url_href U u4)))"

definition buildApiUrl :: "'u url_api \<Rightarrow> string option \<Rightarrow> string \<Rightarrow> string option" where
  "buildApiUrl U baseUrl path =
     (if \<not> truthy baseUrl then None
      else case url_new U (the baseUrl) of
        None \<Rightarrow> None
      | Some u0 \<Rightarrow>
          let (pathname, search) = splitUrlPath path;
              u1 = url_set_pathname U u0 (joinUrlPath (url_pathname U u0) pathname);
              u2 = url_set_hash U (url_set_search U u1 search) []
          in Some (url_href U u2))"

datatype StreamProtocol = Proto_http | Proto_ws

definition buildStreamUrl ::
    "'u url_api \<Rightarrow> string option \<Rightarrow> string \<Rightarrow> string option \<Rightarrow> StreamProtocol option \<Rightarrow> string option" where
  "buildStreamUrl U baseUrl path token protocol =
     (if \<not> truthy baseUrl then None
      else case url_new U (the baseUrl) of
        None \<Rightarrow> None
      | Some u0 \<Rightarrow>
          let (pathname, search) = splitUrlPath path;
              u1 = (if protocol = Some Proto_ws
                    then url_set_protocol U u0 (if url_protocol U u0 = ''https:'' then ''wss:'' else ''ws:'')
                    else u0);
              u2 = url_set_pathname U u1 (joinUrlPath (url_pathname U u1) pathname);
              u3 = url_set_hash U (url_set_search U u2 search) [];
              trimmedToken = safeTrim (case token of None \<Rightarrow> Undefined | Some t \<Rightarrow> Str t) [];
              u4 = (if trimmedToken \<noteq> [] then url_search_set U u3 ''token'' trimmedToken else u3)
          in Some (url_href U u4))"

definition buildSocketUrl :: "'u url_api \<Rightarrow> string option \<Rightarrow> string \<Rightarrow> string option" where
  "buildSocketUrl U baseUrl token =
     buildStreamUrl U baseUrl (REALTIME_ROUTES RT_websocket) (Some token) (Some Proto_ws)"

section \<open>JSON\<close>

record JsonResult =
  jr_value :: jsval
  jr_error :: string

text \<open>\<open>msg\<close> is the engine's SyntaxError text for an input.\<close>

definition safeJsonParse :: "(string \<Rightarrow> string) \<Rightarrow> jsval \<Rightarrow> JsonResult" where
  "safeJsonParse msg input =
     (let raw = safeTrim input []
      in if raw = [] then \<lparr> jr_value = Null, jr_error = [] \<rparr>
         else case json_parse raw of
           Some v \<Rightarrow> \<lparr> jr_value = v, jr_error = [] \<rparr>
         | None \<Rightarrow> \<lparr> jr_value = Null, jr_error = msg raw \<rparr>)"

definition stringifyJson :: "jsval \<Rightarrow> string" where
  "stringifyJson value = json_pretty 0 (if value = Undefined \<or> value = Null then Obj [] else value)"

section \<open>Formatting\<close>

definition formatDateTime :: "date_api \<Rightarrow> locale_api \<Rightarrow> string option \<Rightarrow> string" where
  "formatDateTime D L value =
     (let raw = safeTrimStr (nullish value [])
      in if raw = [] then ''n/a''
         else case date_parse D raw of None \<Rightarrow> ''n/a'' | Some t \<Rightarrow> toLocaleString L t)"

definition formatTime :: "date_api \<Rightarrow> locale_api \<Rightarrow> string option \<Rightarrow> string" where
  "formatTime D L value =
     (let raw = safeTrimStr (nullish value [])
      in if raw = [] then ''n/a''
         else case date_parse D raw of None \<Rightarrow> ''n/a'' | Some t \<Rightarrow> toLocaleTimeString L t)"

definition formatRelative :: "date_api \<Rightarrow> int \<Rightarrow> string option \<Rightarrow> string" where
  "formatRelative D now value =
     (let raw = safeTrimStr (nullish value [])
      in if raw = [] then ''n/a''
         else case date_parse D raw of
           None \<Rightarrow> ''n/a''
         | Some timestamp \<Rightarrow>
             let deltaSeconds = math_round (of_int (timestamp - now) / 1000)
             in if \<bar>deltaSeconds\<bar> < 1 then ''now''
                else if deltaSeconds > 0 then ''in '' @ int_to_string deltaSeconds @ ''s''
                else int_to_string \<bar>deltaSeconds\<bar> @ ''s ago'')"

definition formatPercent :: "rat \<Rightarrow> string" where
  "formatPercent value = to_fixed (if value \<ge> 10 then 1 else 2) value @ ''%''"

definition formatLatency :: "rat \<Rightarrow> string" where
  "formatLatency value =
     (if value \<ge> 1000 then to_fixed 1 (value / 1000) @ ''s''
      else int_to_string (math_round value) @ ''ms'')"

definition formatRate :: "rat \<Rightarrow> string \<Rightarrow> string" where
  "formatRate value unit' = to_fixed (if value \<ge> 10 then 1 else 2) value @ unit'"

definition formatCompact :: "locale_api \<Rightarrow> rat \<Rightarrow> string" where
  "formatCompact L value = compactNumber L value"

definition payloadPreview :: "jsval \<Rightarrow> string" where
  "payloadPreview value =
     (case value of
        Str s \<Rightarrow> take 120 s
      | Arr vs \<Rightarrow> number_to_string (of_nat (length vs)) @ '' items''
      | Obj kvs \<Rightarrow> js_join '', '' (take 4 (obj_keys kvs))
      | _ \<Rightarrow> asString value ''empty payload'')"

text \<open>A caught value: an \<open>Error\<close> instance with its name and message, or any other value.\<close>

datatype caught = Err string string | Thrown jsval

definition formatRequestError :: "caught \<Rightarrow> string" where
  "formatRequestError error = (case error of Err name msg \<Rightarrow> msg | Thrown v \<Rightarrow> ''Request failed'')"

definition knownExtensionMarkers :: "string list" where
  "knownExtensionMarkers = [''bootstrap-autofill'', ''chrome-extension://'', ''moz-extension://'',
     ''safari-web-extension://'', ''bitwarden'', ''lastpass'', ''1password'', ''proxyrelay'',
     ''receiving end does not exist'', ''could not establish connection'', ''message port closed'',
     ''runtime.lasterror'', ''autofill'', ''password manager'']"

definition looksLikeAutofillError :: "caught \<Rightarrow> bool" where
  "looksLikeAutofillError error =
     (let message = (case error of
            Thrown (Str s) \<Rightarrow> s
          | Err name msg \<Rightarrow> name @ '' '' @ msg
          | Thrown (Obj kvs) \<Rightarrow> asString (js_prop kvs ''message'') []
          | Thrown v \<Rightarrow> asString Undefined []);
          normalized = js_lower (safeTrimStr message)
      in list_ex (\<lambda>marker. js_includes normalized marker) knownExtensionMarkers \<or>
         (js_includes normalized ''password'' \<and> js_includes normalized ''extension''))"

definition friendlyInlineError :: "string \<Rightarrow> string \<Rightarrow> string" where
  "friendlyInlineError field error =
     (if field = ''payload'' then ''Payload JSON is invalid: '' @ error
      else if field = ''cronExpression'' then ''Cron expressions require five space-separated fields.''
      else if field = ''scheduledAt'' then ''Provide a valid future timestamp.''
      else error)"


section \<open>Ids, events and jobs made on the client\<close>

text \<open>\<open>uuid\<close> is the value of crypto.randomUUID() where the browser has it; \<open>random\<close> is Math.random().\<close>

definition createToastId :: "string option \<Rightarrow> int \<Rightarrow> rat \<Rightarrow> string" where
  "createToastId uuid now random =
     (case uuid of
        Some u \<Rightarrow> u
      | None \<Rightarrow> int_to_string now @ ''-'' @ int_to_string (math_round (random * 100000)))"

text \<open>\<open>Partial<SystemEvent>\<close>: the fields a caller sets.\<close>

record EventPatch =
  ep_jobId :: "string option"
  ep_queue :: "string option"
  ep_workerId :: "string option"
  ep_state :: "JobState option"
  ep_message :: "string option"
  ep_timestamp :: "string option"

definition no_patch :: EventPatch where
  "no_patch = \<lparr> ep_jobId = None, ep_queue = None, ep_workerId = None, ep_state = None,
     ep_message = None, ep_timestamp = None \<rparr>"

definition makeSystemEvent :: "date_api \<Rightarrow> int \<Rightarrow> string \<Rightarrow> EventPatch \<Rightarrow> SystemEvent" where
  "makeSystemEvent D now kind payload =
     \<lparr> ev_kind = kind, ev_jobId = ep_jobId payload, ev_queue = ep_queue payload,
       ev_workerId = ep_workerId payload, ev_state = ep_state payload, ev_message = ep_message payload,
       ev_timestamp = nullish (ep_timestamp payload) (iso_text D now) \<rparr>"

definition parseDependencyIds :: "jsval \<Rightarrow> string list" where
  "parseDependencyIds value =
     filter (\<lambda>s. s \<noteq> [])
       (map js_trim (js_split_run (\<lambda>c. is_ws c \<or> c = CHR '','') (safeTrim value [])))"

text \<open>
  \<open>createJobFromDraft\<close>: \<open>uid\<close> is the id createToastId() returns. \<open>None\<close> is the RangeError of
  \<open>runAt.toISOString()\<close> when the delay leads out of the range of dates.
\<close>

definition draft_runAt :: "date_api \<Rightarrow> int \<Rightarrow> JobDraft \<Rightarrow> int option" where
  "draft_runAt D now draft =
     (let scheduledAt = safeTrimStr (jd_scheduledAt draft);
          delaySeconds = asNumber (Str (jd_delaySeconds draft)) 0;
          runAt0 = Some now;
          runAt1 = (if scheduledAt \<noteq> [] then
                      (case date_parse D scheduledAt of None \<Rightarrow> runAt0 | Some t \<Rightarrow> Some t)
                    else runAt0)
      in if delaySeconds > 0 then time_clip (of_int now + delaySeconds * 1000) else runAt1)"

definition createJobFromDraft ::
    "date_api \<Rightarrow> int \<Rightarrow> string \<Rightarrow> JobDraft \<Rightarrow> jsval \<Rightarrow> Job option" where
  "createJobFromDraft D now uid draft payload =
     (let dependencies = parseDependencyIds (Str (jd_dependencies draft));
          runAt = draft_runAt D now draft;
          state = (if length dependencies > 0 then JS_blocked
                   else if (case runAt of None \<Rightarrow> False | Some t \<Rightarrow> t > now) then JS_scheduled
                   else JS_queued)
      in case runAt of
           None \<Rightarrow> None
         | Some t \<Rightarrow> Some
             \<lparr> job_id = uid,
               job_type = or_str (safeTrimStr (jd_type draft)) ''email.send'',
               job_queue = or_str (safeTrimStr (jd_queue draft)) ''default'',
               job_tenantId = or_str (safeTrimStr (jd_tenantId draft)) ''default'',
               job_payload = payload,
               job_priority = clamp (asNumber (Str (jd_priority draft)) 5) 0 9,
               job_attempts = 0,
               job_maxAttempts = max (asNumber (Str (jd_maxAttempts draft)) 5) 1,
               job_state = state,
               job_schemaVersion = 1,
               job_idempotencyKey = Some (safeTrimStr (jd_idempotencyKey draft)),
               job_workflowId = Some (safeTrimStr (jd_workflowId draft)),
               job_parentJobId = None,
               job_dependencyPolicy = Some (if length dependencies > 0 then ''block'' else []),
               job_blockedReason = Some (if length dependencies > 0
                 then ''waiting on '' @ number_to_string (of_nat (length dependencies)) @ '' dependencies''
                 else []),
               job_createdAt = iso_text D now,
               job_updatedAt = iso_text D now,
               job_runAt = iso_text D t,
               job_startedAt = None, job_finishedAt = None, job_lastHeartbeatAt = None,
               job_leaseExpiresAt = None, job_throttleUntil = None, job_lastError = None,
               job_result = Undefined, job_workerId = None, job_leaseToken = None,
               job_timeoutSeconds = max (asNumber (Str (jd_timeoutSeconds draft)) 60) 0,
               job_cancelRequested = False,
               job_executionMs = 0 \<rparr>)"

section \<open>Inspections\<close>

definition mk_job_event :: "string \<Rightarrow> string \<Rightarrow> string \<Rightarrow> string \<Rightarrow> JobEvent" where
  "mk_job_event jobId type' message occurredAt =
     \<lparr> jev_jobId = jobId, jev_type = type', jev_message = message, jev_metadata = Undefined,
       jev_occurredAt = occurredAt \<rparr>"

definition synthetic_events :: "Job \<Rightarrow> JobEvent list" where
  "synthetic_events job =
     [mk_job_event (job_id job) ''job.enqueued'' (''job accepted into '' @ job_queue job) (job_createdAt job)] @
     (if truthy (job_startedAt job) then
        [mk_job_event (job_id job) ''job.started''
           (if truthy (job_workerId job) then ''lease claimed by '' @ the (job_workerId job) else ''worker started job'')
           (the (job_startedAt job))] else []) @
     (if truthy (job_finishedAt job) \<and> job_state job = JS_completed then
        [mk_job_event (job_id job) ''job.completed'' ''job completed successfully'' (the (job_finishedAt job))] else []) @
     (if truthy (job_finishedAt job) \<and> job_state job = JS_failed then
        [mk_job_event (job_id job) ''job.failed'' (or_str_opt (job_lastError job) ''job failed'')
           (the (job_finishedAt job))] else []) @
     (if job_state job = JS_blocked then
        [mk_job_event (job_id job) ''job.blocked'' (or_str_opt (job_blockedReason job) ''waiting on dependencies'')
           (job_updatedAt job)] else [])"

definition buildSyntheticTimeline :: "date_api \<Rightarrow> Job \<Rightarrow> JobEvent list" where
  "buildSyntheticTimeline D job =
     js_sort (by_desc (\<lambda>e. getTime D (jev_occurredAt e))) (synthetic_events job)"

definition plain_node :: "Job \<Rightarrow> DependencyNode" where
  "plain_node job =
     \<lparr> node_jobId = job_id job, node_type = job_type job, node_state = job_state job,
       node_queue = job_queue job, node_parentJobId = None, node_workflowId = None,
       node_blockedReason = None, node_dependencyPolicy = None, node_dependsOn = None,
       node_dependents = None \<rparr>"

definition workflow_node :: "Job \<Rightarrow> DependencyNode" where
  "workflow_node candidate =
     (plain_node candidate)
       \<lparr> node_parentJobId := job_parentJobId candidate, node_workflowId := job_workflowId candidate,
         node_blockedReason := job_blockedReason candidate \<rparr>"

definition same_workflow :: "Job \<Rightarrow> Job \<Rightarrow> bool" where
  "same_workflow job candidate \<longleftrightarrow>
     truthy (job_workflowId candidate) \<and> job_workflowId candidate = job_workflowId job"

text \<open>\<open>None\<close> is the RangeError of \<open>toISOString\<close> when \<open>createdAt\<close> is not a date.\<close>

definition createInspectionFallback :: "date_api \<Rightarrow> Job \<Rightarrow> Job list \<Rightarrow> JobInspection option" where
  "createInspectionFallback D job jobs =
     (let events = buildSyntheticTimeline D job;
          graphNodes = map (\<lambda>c. (workflow_node c)\<lparr> node_dependsOn := Some [], node_dependents := Some [] \<rparr>)
                         (filter (same_workflow job) jobs);
          idem = (if truthy (job_idempotencyKey job) then
                    (case getTime D (job_createdAt job) of
                       None \<Rightarrow> None
                     | Some t \<Rightarrow>
                         (case toISOString D (t + 15 * 60 * 1000) of
                            None \<Rightarrow> None
                          | Some expiresAt \<Rightarrow> Some (Some (Some
                              \<lparr> idem_scope = job_tenantId job @ '':'' @ job_type job @ '':'' @ the (job_idempotencyKey job),
                                idem_tenantId = job_tenantId job,
                                idem_jobType = job_type job,
                                idem_idempotencyKey = the (job_idempotencyKey job),
                                idem_jobId = job_id job,
                                idem_status = (if job_state job = JS_completed then ''completed'' else ''accepted''),
                                idem_outcome = Undefined,
                                idem_firstSeenAt = job_createdAt job,
                                idem_updatedAt = job_updatedAt job,
                                idem_expiresAt = expiresAt \<rparr>))))
                  else Some (Some None))
      in case idem of
           None \<Rightarrow> None
         | Some idempotency \<Rightarrow> Some
             \<lparr> insp_job = job, insp_attempts = [], insp_events = events,
               insp_graph = \<lparr> graph_rootJobId = job_id job,
                              graph_nodes = (if length graphNodes > 0 then graphNodes else [plain_node job]) \<rparr>,
               insp_idempotency = idempotency, insp_deadLetter = Some None \<rparr>)"

section \<open>Series and tones\<close>

definition seriesValue :: "MetricsPoint list \<Rightarrow> rat" where
  "seriesValue series = (if series = [] then 0 else mp_value (last series))"

datatype StatusTone = Tone_of ToastTone | Tone_neutral

definition statusTone :: "string option \<Rightarrow> StatusTone" where
  "statusTone value =
     (let normalized = js_lower (safeTrimStr (nullish value []))
      in if normalized = [] then Tone_neutral
         else if normalized \<in> set [''completed'', ''healthy'', ''open'', ''leader healthy'', ''enabled'',
                ''live'', ''websocket'', ''sse''] then Tone_of Tone_success
         else if normalized \<in> set [''failed'', ''canceled'', ''closed'', ''stale'', ''offline''] then Tone_of Tone_danger
         else if normalized \<in> set [''blocked'', ''throttled'', ''active'', ''draining'', ''polling'', ''retrying'',
                ''degraded'', ''reconnecting'', ''paused''] then Tone_of Tone_warning
         else if normalized \<in> set [''connecting''] then Tone_of Tone_info
         else Tone_of Tone_info)"

section \<open>Lemmas\<close>

lemma asString_Str [simp]: "asString (Str s) d = s"
  by (simp add: asString_def)

lemma safeTrim_Str [simp]: "safeTrim (Str s) d = js_trim s"
  by (simp add: safeTrim_def)

lemma clamp_bounds: "lo \<le> hi \<Longrightarrow> lo \<le> clamp v lo hi \<and> clamp v lo hi \<le> hi"
  by (simp add: clamp_def)

lemma clamp_id: "lo \<le> v \<Longrightarrow> v \<le> hi \<Longrightarrow> clamp v lo hi = v"
  by (simp add: clamp_def)

lemma clamp_num_Fin: "clamp_num (Fin x) lo hi = Fin (clamp x lo hi)"
  by (auto simp: clamp_num_def num_max_def num_min_def clamp_def max_def min_def)

lemma clamp_num_special:
  "clamp_num NaN lo hi = NaN" "clamp_num PInf lo hi = Fin hi" "lo \<le> hi \<Longrightarrow> clamp_num NInf lo hi = Fin lo"
  by (auto simp: clamp_num_def num_max_def num_min_def)

lemma stored_roundtrip:
  assumes "js_trim s = s" and "s \<noteq> []"
  shows "readStoredValue Storage_works (writeStoredValue Storage_works st key (Str s)) key d = s"
  using assms by (simp add: readStoredValue_def writeStoredValue_def Let_def)

lemma stored_other:
  "key' \<noteq> key \<Longrightarrow> readStoredValue acc (writeStoredValue acc st key v) key' d = readStoredValue acc st key' d"
  by (auto simp: readStoredValue_def writeStoredValue_def Let_def split: storage_access.split)

subsection \<open>Dependencies\<close>

lemma parseDependencyIds_ok:
  "s \<in> set (parseDependencyIds v) \<Longrightarrow> s \<noteq> [] \<and> (\<forall>c \<in> set s. \<not> is_ws c \<and> c \<noteq> CHR '','')"
proof -
  assume "s \<in> set (parseDependencyIds v)"
  then obtain w where w: "w \<in> set (js_split_run (\<lambda>c. is_ws c \<or> c = CHR '','') (safeTrim v []))"
    and s: "s = js_trim w" "s \<noteq> []"
    by (auto simp: parseDependencyIds_def)
  from js_split_run_pieces [OF w] set_js_trim [of w] s show ?thesis by blast
qed

subsection \<open>Paths\<close>

lemma path_segments_ok:
  "s \<in> set (path_segments p) \<Longrightarrow> s \<noteq> [] \<and> CHR ''/'' \<notin> set s"
  by (auto simp: path_segments_def dest: js_split_pieces)

lemma drop_repeated_dropWhile:
  "bs \<noteq> [] \<Longrightarrow> drop_repeated bs ns = dropWhile (\<lambda>n. n = last bs) ns"
  by (induction ns) auto

lemma drop_repeated_Nil [simp]: "drop_repeated [] ns = ns"
  by (cases ns) auto

lemma set_drop_repeated: "set (drop_repeated bs ns) \<subseteq> set ns"
  by (induction ns) auto

lemma path_segments_join:
  assumes "\<forall>s \<in> set segs. s \<noteq> [] \<and> CHR ''/'' \<notin> set s"
  shows "path_segments (''/'' @ js_join ''/'' segs) = segs"
proof (cases segs)
  case Nil
  then show ?thesis by (simp add: path_segments_def strip_leading_slashes_def)
next
  case (Cons s ss)
  have "js_join ''/'' segs \<noteq> [] \<and> hd (js_join ''/'' segs) \<noteq> CHR ''/''"
    using assms Cons by (cases s) (auto simp: js_join_Cons)
  then have "strip_leading_slashes (''/'' @ js_join ''/'' segs) = js_join ''/'' segs"
    by (auto simp: strip_leading_slashes_def intro: dropWhile_hd)
  with assms Cons show ?thesis
    by (simp add: path_segments_def js_split_join filter_id_conv)
qed

definition merged_segments :: "string \<Rightarrow> string \<Rightarrow> string list" where
  "merged_segments basePath nextPath =
     path_segments (normalizeUrlPathname basePath) @
     drop_repeated (path_segments (normalizeUrlPathname basePath)) (path_segments (js_trim nextPath))"

lemma joinUrlPath_merged: "joinUrlPath b n = ''/'' @ js_join ''/'' (merged_segments b n)"
  by (auto simp: joinUrlPath_def merged_segments_def Let_def)

lemma merged_segments_ok: "s \<in> set (merged_segments b n) \<Longrightarrow> s \<noteq> [] \<and> CHR ''/'' \<notin> set s"
  using set_drop_repeated by (fastforce simp: merged_segments_def dest: path_segments_ok)

lemma path_segments_joinUrlPath: "path_segments (joinUrlPath b n) = merged_segments b n"
  unfolding joinUrlPath_merged using merged_segments_ok by (intro path_segments_join) blast

end
