(* ===== verification/Console.thy ===== *)
theory Console
  imports LiveRefresh Safe
begin

text \<open>
  \<open>src/src/lib/console-data.ts\<close>: the console's state, its hydration from the API, the
  reconciliation that recomputes every derived field, and the operations of the local model
  (upsert of jobs, the bounded event log, dead letters, inspections).

  Arguments: \<open>D\<close> is the date library and \<open>now\<close> the clock reading of the operation. Clock
  readings within one synchronous operation are taken to be equal.
\<close>

section \<open>Empty and hydrated state\<close>

definition zero_latency :: LatencySummary where
  "zero_latency = \<lparr> p50Ms = 0, p95Ms = 0, p99Ms = 0 \<rparr>"

definition createEmptySnapshot :: DashboardSnapshot where
  "createEmptySnapshot =
     \<lparr> sn_overview =
         \<lparr> ov_totalJobs = 0, ov_queuedJobs = 0, ov_blockedJobs = 0, ov_throttledJobs = 0,
           ov_activeJobs = 0, ov_failedJobs = 0, ov_retryingJobs = 0, ov_completedJobs = 0,
           ov_scheduledJobs = 0, ov_canceledJobs = 0,
           ov_queueLengths = [(''critical'', 0), (''default'', 0), (''low'', 0)],
           ov_averageExecMs = 0, ov_lastUpdatedAt = [], ov_activeWorkers = 0, ov_delayedBacklog = 0 \<rparr>,
       sn_metrics =
         \<lparr> mt_jobsPerSecond = 0, mt_retryRate = 0, mt_deadLetterRate = 0,
           mt_executionLatency = zero_latency, mt_queueLatency = zero_latency,
           mt_maxWorkerHeartbeatAgeMs = 0 \<rparr>,
       sn_trend = \<lparr> tr_throughput = [], tr_executionP95Ms = [], tr_queueLatencyP95Ms = [],
                    tr_retryRate = [], tr_deadLetterRate = [] \<rparr>,
       sn_workers = [], sn_deadLetters = [], sn_blockedJobs = [], sn_throttledJobs = [],
       sn_rateLimits = [],
       sn_leader = \<lparr> ld_schedulerId = None, ld_token = None, ld_isLeaderHealthy = None,
                     ld_acquiredAt = None, ld_lastHeartbeatAt = None, ld_leaseExpiresAt = None \<rparr> \<rparr>"

definition createEmptyConsoleData :: "DataSource \<Rightarrow> ConsoleData" where
  "createEmptyConsoleData source =
     \<lparr> cd_snapshot = createEmptySnapshot, cd_jobs = [], cd_schedules = [], cd_events = [],
       cd_workerStatuses = [], cd_inspections = [], cd_queueControls = [], cd_workerControls = [],
       cd_lastHydratedAt = [], cd_source = source \<rparr>"

section \<open>Summary of the jobs\<close>

record JobSummary =
  su_totalJobs :: rat
  su_queuedJobs :: rat
  su_blockedJobs :: rat
  su_throttledJobs :: rat
  su_activeJobs :: rat
  su_failedJobs :: rat
  su_retryingJobs :: rat
  su_completedJobs :: rat
  su_scheduledJobs :: rat
  su_canceledJobs :: rat
  su_queueLengths :: "rat obj"
  su_averageExecMs :: rat
  su_activeWorkers :: rat
  su_delayedBacklog :: rat

text \<open>The switch on the job's state.\<close>

fun count_state :: "JobState \<Rightarrow> JobSummary \<Rightarrow> JobSummary" where
  "count_state JS_queued s = s\<lparr> su_queuedJobs := su_queuedJobs s + 1 \<rparr>"
| "count_state JS_blocked s = s\<lparr> su_blockedJobs := su_blockedJobs s + 1 \<rparr>"
| "count_state JS_throttled s = s\<lparr> su_throttledJobs := su_throttledJobs s + 1 \<rparr>"
| "count_state JS_active s = s\<lparr> su_activeJobs := su_activeJobs s + 1 \<rparr>"
| "count_state JS_failed s = s\<lparr> su_failedJobs := su_failedJobs s + 1 \<rparr>"
| "count_state JS_retrying s = s\<lparr> su_retryingJobs := su_retryingJobs s + 1 \<rparr>"
| "count_state JS_completed s = s\<lparr> su_completedJobs := su_completedJobs s + 1 \<rparr>"
| "count_state JS_scheduled s = s\<lparr> su_scheduledJobs := su_scheduledJobs s + 1 \<rparr>"
| "count_state JS_canceled s = s\<lparr> su_canceledJobs := su_canceledJobs s + 1 \<rparr>"

definition waiting :: "JobState \<Rightarrow> bool" where
  "waiting st \<longleftrightarrow> st \<in> {JS_queued, JS_retrying, JS_scheduled}"

text \<open>The body of the loop over the jobs.\<close>

definition summarize_step :: "JobSummary \<Rightarrow> Job \<Rightarrow> JobSummary" where
  "summarize_step s job =
     (let q = su_queueLengths s;
          s1 = s\<lparr> su_queueLengths :=
                    obj_set q (job_queue job)
                      (nullish (obj_get q (job_queue job)) 0 + (if waiting (job_state job) then 1 else 0)) \<rparr>;
          s2 = count_state (job_state job) s1
      in if job_state job = JS_scheduled \<or> job_state job = JS_retrying
         then s2\<lparr> su_delayedBacklog := su_delayedBacklog s2 + 1 \<rparr> else s2)"

definition summarizeJobs :: "Job list \<Rightarrow> WorkerLeaseHealth list \<Rightarrow> RateLimitStatus list \<Rightarrow> JobSummary" where
  "summarizeJobs jobs workers rateLimits =
     (let queueLengths = obj_from_entries (map (\<lambda>queue. (queue, 0)) QUEUES);
          completed = filter (\<lambda>job. job_executionMs job > 0) jobs;
          summary0 =
            \<lparr> su_totalJobs = of_nat (length jobs), su_queuedJobs = 0, su_blockedJobs = 0,
              su_throttledJobs = 0, su_activeJobs = 0, su_failedJobs = 0, su_retryingJobs = 0,
              su_completedJobs = 0, su_scheduledJobs = 0, su_canceledJobs = 0,
              su_queueLengths = queueLengths,
              su_averageExecMs =
                (if length completed > 0
                 then foldl (\<lambda>total job. total + job_executionMs job) 0 completed / of_nat (length completed)
                 else 0),
              su_activeWorkers = of_nat (length workers), su_delayedBacklog = 0 \<rparr>;
          summary = foldl summarize_step summary0 jobs
      in if list_ex rl_throttled rateLimits
         then summary\<lparr> su_throttledJobs :=
                max (su_throttledJobs summary)
                    (of_nat (length (filter (\<lambda>job. job_state job = JS_throttled) jobs))) \<rparr>
         else summary)"

text \<open>\<open>{...overview, ...summary, lastUpdatedAt}\<close>\<close>

definition apply_summary :: "JobSummary \<Rightarrow> string \<Rightarrow> Overview" where
  "apply_summary s lastUpdatedAt =
     \<lparr> ov_totalJobs = su_totalJobs s, ov_queuedJobs = su_queuedJobs s,
       ov_blockedJobs = su_blockedJobs s, ov_throttledJobs = su_throttledJobs s,
       ov_activeJobs = su_activeJobs s, ov_failedJobs = su_failedJobs s,
       ov_retryingJobs = su_retryingJobs s, ov_completedJobs = su_completedJobs s,
       ov_scheduledJobs = su_scheduledJobs s, ov_canceledJobs = su_canceledJobs s,
       ov_queueLengths = su_queueLengths s, ov_averageExecMs = su_averageExecMs s,
       ov_lastUpdatedAt = lastUpdatedAt, ov_activeWorkers = su_activeWorkers s,
       ov_delayedBacklog = su_delayedBacklog s \<rparr>"

section \<open>Reconciliation\<close>

definition sortEvents :: "date_api \<Rightarrow> SystemEvent list \<Rightarrow> SystemEvent list" where
  "sortEvents D events = take 60 (js_sort (by_desc (\<lambda>e. getTime D (ev_timestamp e))) events)"

definition sort_jobs :: "date_api \<Rightarrow> Job list \<Rightarrow> Job list" where
  "sort_jobs D jobs = js_sort (by_desc (\<lambda>j. getTime D (job_updatedAt j))) jobs"

definition sort_schedules :: "date_api \<Rightarrow> Schedule list \<Rightarrow> Schedule list" where
  "sort_schedules D schedules = js_sort (by_asc (\<lambda>s. getTime D (sched_nextRunAt s))) schedules"

definition sort_dead_letters :: "date_api \<Rightarrow> DeadLetter list \<Rightarrow> DeadLetter list" where
  "sort_dead_letters D ds = js_sort (by_desc (\<lambda>d. getTime D (dl_failedAt d))) ds"

definition sort_workers :: "WorkerLeaseHealth list \<Rightarrow> WorkerLeaseHealth list" where
  "sort_workers ws = js_sort (by_asc (\<lambda>w. Some (wl_heartbeatAgeMs w))) ws"

definition reconcileConsoleData :: "date_api \<Rightarrow> int \<Rightarrow> ConsoleData \<Rightarrow> ConsoleData" where
  "reconcileConsoleData D now data =
     (let sn = cd_snapshot data;
          sortedJobs = sort_jobs D (cd_jobs data);
          sortedSchedules = sort_schedules D (cd_schedules data);
          sortedEvents = sortEvents D (cd_events data);
          summary = summarizeJobs sortedJobs (sn_workers sn) (sn_rateLimits sn);
          lastUpdatedAt = or_str (ov_lastUpdatedAt (sn_overview sn)) (or_str (cd_lastHydratedAt data) (iso_text D now))
      in data\<lparr> cd_jobs := sortedJobs, cd_schedules := sortedSchedules, cd_events := sortedEvents,
               cd_snapshot := sn\<lparr>
                 sn_overview := apply_summary summary lastUpdatedAt,
                 sn_blockedJobs := take 16 (filter (\<lambda>j. job_state j = JS_blocked) sortedJobs),
                 sn_throttledJobs := take 16 (filter (\<lambda>j. job_state j = JS_throttled) sortedJobs),
                 sn_deadLetters := sort_dead_letters D (sn_deadLetters sn),
                 sn_workers := sort_workers (sn_workers sn) \<rparr> \<rparr>)"

record HydrationInput =
  hy_snapshot :: DashboardSnapshot
  hy_jobs :: "Job list"
  hy_schedules :: "Schedule list"
  hy_workerStatuses :: "WorkerStatus list"
  hy_events :: "SystemEvent list option"

definition createConsoleDataFromApi :: "date_api \<Rightarrow> int \<Rightarrow> HydrationInput \<Rightarrow> ConsoleData" where
  "createConsoleDataFromApi D now input =
     reconcileConsoleData D now
       \<lparr> cd_snapshot = hy_snapshot input, cd_jobs = hy_jobs input, cd_schedules = hy_schedules input,
         cd_events = nullish (hy_events input) [], cd_workerStatuses = hy_workerStatuses input,
         cd_inspections = [], cd_queueControls = [], cd_workerControls = [],
         cd_lastHydratedAt = iso_text D now, cd_source = Source_live \<rparr>"

section \<open>Structural sharing\<close>

definition sameValue :: "jsval \<Rightarrow> jsval \<Rightarrow> bool" where
  "sameValue left right \<longleftrightarrow> stableSerialize left = stableSerialize right"

definition reuseValue :: "('a \<Rightarrow> jsval) \<Rightarrow> 'a \<Rightarrow> 'a \<Rightarrow> 'a" where
  "reuseValue enc previous next = (if sameValue (enc previous) (enc next) then previous else next)"

text \<open>The entries of \<open>new Map(...)\<close>: the last item of a key wins.\<close>

definition by_key :: "('a \<Rightarrow> string) \<Rightarrow> 'a list \<Rightarrow> string \<Rightarrow> 'a option" where
  "by_key getKey items k = map_of (rev (map (\<lambda>item. (getKey item, item)) items)) k"

definition reusable :: "('a \<Rightarrow> jsval) \<Rightarrow> ('a \<Rightarrow> string) \<Rightarrow> 'a list \<Rightarrow> 'a \<Rightarrow> 'a option" where
  "reusable enc getKey previous item =
     (case by_key getKey previous (getKey item) of
        None \<Rightarrow> None
      | Some existing \<Rightarrow> if sameValue (enc existing) (enc item) then Some existing else None)"

definition reuseList :: "('a \<Rightarrow> jsval) \<Rightarrow> ('a \<Rightarrow> string) \<Rightarrow> 'a list \<Rightarrow> 'a list \<Rightarrow> 'a list" where
  "reuseList enc getKey previous next =
     (let resolved = map (\<lambda>item. nullish (reusable enc getKey previous item) item) next;
          changed = (length previous \<noteq> length next \<or>
                     list_ex (\<lambda>item. reusable enc getKey previous item = None) next)
      in if changed then resolved else previous)"

definition stabilizeConsoleData :: "ConsoleData \<Rightarrow> ConsoleData \<Rightarrow> ConsoleData" where
  "stabilizeConsoleData previous next =
     (let p = cd_snapshot previous; n = cd_snapshot next;
          jobs = reuseList enc_job job_id (cd_jobs previous) (cd_jobs next);
          schedules = reuseList enc_schedule sched_id (cd_schedules previous) (cd_schedules next);
          events = reuseList enc_event createEventFingerprint (cd_events previous) (cd_events next);
          workerStatuses = reuseList enc_worker_status ws_workerId (cd_workerStatuses previous) (cd_workerStatuses next);
          workers = reuseList enc_worker wl_workerId (sn_workers p) (sn_workers n);
          deadLetters = reuseList enc_dead_letter dl_jobId (sn_deadLetters p) (sn_deadLetters n);
          blockedJobs = reuseList enc_job job_id (sn_blockedJobs p) (sn_blockedJobs n);
          throttledJobs = reuseList enc_job job_id (sn_throttledJobs p) (sn_throttledJobs n);
          rateLimits = reuseList enc_rate_limit (\<lambda>item. pol_id (rl_policy item)) (sn_rateLimits p) (sn_rateLimits n);
          reusePoints = (\<lambda>f. reuseList enc_point mp_timestamp (f (sn_trend p)) (f (sn_trend n)));
          trend = \<lparr> tr_throughput = reusePoints tr_throughput,
                    tr_executionP95Ms = reusePoints tr_executionP95Ms,
                    tr_queueLatencyP95Ms = reusePoints tr_queueLatencyP95Ms,
                    tr_retryRate = reusePoints tr_retryRate,
                    tr_deadLetterRate = reusePoints tr_deadLetterRate \<rparr>;
          stabilizedTrend = reuseValue enc_trend (sn_trend p) trend;
          stabilizedOverview = reuseValue enc_overview (sn_overview p)
            ((sn_overview n)\<lparr> ov_queueLengths :=
               reuseValue (enc_record Num) (ov_queueLengths (sn_overview p)) (ov_queueLengths (sn_overview n)) \<rparr>);
          stabilizedSnapshot = reuseValue enc_snapshot p
            (n\<lparr> sn_overview := stabilizedOverview,
                sn_metrics := reuseValue enc_metrics (sn_metrics p) (sn_metrics n),
                sn_trend := stabilizedTrend, sn_workers := workers, sn_deadLetters := deadLetters,
                sn_blockedJobs := blockedJobs, sn_throttledJobs := throttledJobs,
                sn_rateLimits := rateLimits,
                sn_leader := reuseValue enc_leader (sn_leader p) (sn_leader n) \<rparr>)
      in next\<lparr> cd_snapshot := stabilizedSnapshot, cd_jobs := jobs, cd_schedules := schedules,
               cd_events := events, cd_workerStatuses := workerStatuses \<rparr>)"

section \<open>Operations on the local model\<close>

definition upsertInspection :: "ConsoleData \<Rightarrow> JobInspection \<Rightarrow> ConsoleData" where
  "upsertInspection data inspection =
     data\<lparr> cd_inspections := obj_set (cd_inspections data) (job_id (insp_job inspection)) inspection \<rparr>"

text \<open>\<open>None\<close> is the RangeError of the fallback; \<open>Some None\<close> is \<open>null\<close>.\<close>

definition getInspection :: "date_api \<Rightarrow> ConsoleData \<Rightarrow> string \<Rightarrow> JobInspection option option" where
  "getInspection D data jobId =
     (case obj_get (cd_inspections data) jobId of
        Some existing \<Rightarrow> Some (Some existing)
      | None \<Rightarrow>
          (case find (\<lambda>candidate. job_id candidate = jobId) (cd_jobs data) of
             None \<Rightarrow> Some None
           | Some job \<Rightarrow> map_option Some (createInspectionFallback D job (cd_jobs data))))"

definition mergeQueueControls :: "QueueControl obj \<Rightarrow> QueueControl obj \<Rightarrow> QueueControl obj" where
  "mergeQueueControls current next = obj_spread current next"

definition findDeadLetter :: "ConsoleData \<Rightarrow> string \<Rightarrow> DeadLetter option" where
  "findDeadLetter data jobId = find (\<lambda>item. dl_jobId item = jobId) (sn_deadLetters (cd_snapshot data))"

text \<open>The loop of \<open>appendEvents\<close>: the fingerprints seen, the merged list and whether it changed.\<close>

fun append_new :: "string list \<Rightarrow> SystemEvent list \<Rightarrow> bool \<Rightarrow> SystemEvent list \<Rightarrow> SystemEvent list \<times> bool" where
  "append_new seen merged changed [] = (merged, changed)"
| "append_new seen merged changed (event # events) =
     (let fingerprint = createEventFingerprint event
      in if fingerprint \<in> set seen then append_new seen merged changed events
         else append_new (fingerprint # seen) (merged @ [event]) True events)"

definition appendEvents :: "date_api \<Rightarrow> ConsoleData \<Rightarrow> SystemEvent list \<Rightarrow> ConsoleData" where
  "appendEvents D data events =
     (if length events = 0 then data
      else let seen = map createEventFingerprint (cd_events data);
               (merged, changed) = append_new seen (cd_events data) False events
           in if \<not> changed then data else data\<lparr> cd_events := sortEvents D merged \<rparr>)"

definition appendEvent :: "date_api \<Rightarrow> ConsoleData \<Rightarrow> SystemEvent \<Rightarrow> ConsoleData" where
  "appendEvent D data event = appendEvents D data [event]"

definition upsert_job :: "Job \<Rightarrow> Job list \<Rightarrow> Job list" where
  "upsert_job job jobs =
     (if list_ex (\<lambda>candidate. job_id candidate = job_id job) jobs
      then map (\<lambda>candidate. if job_id candidate = job_id job then job else candidate) jobs
      else job # jobs)"

definition replaceJob :: "date_api \<Rightarrow> int \<Rightarrow> ConsoleData \<Rightarrow> Job \<Rightarrow> ConsoleData" where
  "replaceJob D now data job =
     reconcileConsoleData D now (data\<lparr> cd_jobs := upsert_job job (cd_jobs data) \<rparr>)"

definition removeDeadLetters :: "date_api \<Rightarrow> int \<Rightarrow> ConsoleData \<Rightarrow> string list \<Rightarrow> ConsoleData" where
  "removeDeadLetters D now data jobIds =
     reconcileConsoleData D now
       (data\<lparr> cd_snapshot := (cd_snapshot data)\<lparr>
                sn_deadLetters := filter (\<lambda>item. dl_jobId item \<notin> set jobIds)
                  (sn_deadLetters (cd_snapshot data)) \<rparr> \<rparr>)"

text \<open>\<open>ids 0, ids 1, ...\<close> are the results of the successive calls of createToastId().\<close>

definition seeded_job :: "date_api \<Rightarrow> int \<Rightarrow> string \<Rightarrow> string \<Rightarrow> Job" where
  "seeded_job D now uid workflowId =
     \<lparr> job_id = uid, job_type = ''file.ingest'', job_queue = ''default'', job_tenantId = ''tenant-a'',
       job_payload = Obj [(''fileId'', Str workflowId), (''source'', Str ''s3://demo/new-asset.png''), (''durationMs'', Num 300)],
       job_priority = 6, job_attempts = 0, job_maxAttempts = 5, job_state = JS_queued,
       job_schemaVersion = 1, job_idempotencyKey = None, job_workflowId = Some workflowId,
       job_parentJobId = None, job_dependencyPolicy = None, job_blockedReason = None,
       job_createdAt = iso_text D now, job_updatedAt = iso_text D now, job_runAt = iso_text D now,
       job_startedAt = None, job_finishedAt = None, job_lastHeartbeatAt = None,
       job_leaseExpiresAt = None, job_throttleUntil = None, job_lastError = None,
       job_result = Undefined, job_workerId = None, job_leaseToken = None,
       job_timeoutSeconds = 45, job_cancelRequested = False, job_executionMs = 0 \<rparr>"

definition addLocalWorkflowJobs :: "date_api \<Rightarrow> int \<Rightarrow> (nat \<Rightarrow> string) \<Rightarrow> ConsoleData \<Rightarrow> ConsoleData" where
  "addLocalWorkflowJobs D now ids data =
     (let workflowId = ''wf-'' @ ids 0;
          rootId = ids 1;
          rootJob = seeded_job D now rootId workflowId;
          child = (\<lambda>(uid, size). (seeded_job D now uid workflowId)
             \<lparr> job_type := ''image.thumbnail'',
               job_payload := Obj [(''fileId'', Str workflowId), (''size'', Str size), (''durationMs'', Num 250)],
               job_priority := 5, job_state := JS_blocked, job_parentJobId := Some rootId,
               job_dependencyPolicy := Some ''block'',
               job_blockedReason := Some ''waiting on root ingest'' \<rparr>);
          children = map child [(ids 2, ''sm''), (ids 3, ''md''), (ids 4, ''lg'')]
      in reconcileConsoleData D now
           (data\<lparr> cd_jobs := [rootJob] @ children @ cd_jobs data,
                  cd_events := makeSystemEvent D now ''workflow.seeded''
                    (no_patch\<lparr> ep_message := Some (''seeded '' @ workflowId) \<rparr>) # cd_events data \<rparr>))"

definition createInspectionGraphForWorkflow :: "Job \<Rightarrow> Job list \<Rightarrow> DependencyGraph" where
  "createInspectionGraphForWorkflow job jobs =
     (let nodes = map workflow_node (filter (same_workflow job) jobs)
      in \<lparr> graph_rootJobId = job_id job,
           graph_nodes = (if length nodes > 0 then nodes else [plain_node job]) \<rparr>)"


section \<open>The summary counts\<close>

fun su_count :: "JobState \<Rightarrow> JobSummary \<Rightarrow> rat" where
  "su_count JS_queued = su_queuedJobs"
| "su_count JS_blocked = su_blockedJobs"
| "su_count JS_throttled = su_throttledJobs"
| "su_count JS_active = su_activeJobs"
| "su_count JS_failed = su_failedJobs"
| "su_count JS_retrying = su_retryingJobs"
| "su_count JS_completed = su_completedJobs"
| "su_count JS_scheduled = su_scheduledJobs"
| "su_count JS_canceled = su_canceledJobs"

definition jobs_where :: "(Job \<Rightarrow> bool) \<Rightarrow> Job list \<Rightarrow> rat" where
  "jobs_where P jobs = of_nat (length (filter P jobs))"

lemma jobs_where_simps [simp]:
  "jobs_where P [] = 0"
  "jobs_where P (j # js) = (if P j then 1 else 0) + jobs_where P js"
  by (simp_all add: jobs_where_def)

lemma jobs_where_nonneg [simp]: "0 \<le> jobs_where P jobs"
  by (simp add: jobs_where_def)

lemma jobs_where_mset: "mset xs = mset ys \<Longrightarrow> jobs_where P xs = jobs_where P ys"
  by (metis jobs_where_def mset_filter size_mset)

lemma count_state_fields [simp]:
  "su_count st (count_state st' s) = su_count st s + (if st = st' then 1 else 0)"
  "su_queueLengths (count_state st' s) = su_queueLengths s"
  "su_delayedBacklog (count_state st' s) = su_delayedBacklog s"
  "su_totalJobs (count_state st' s) = su_totalJobs s"
  "su_averageExecMs (count_state st' s) = su_averageExecMs s"
  "su_activeWorkers (count_state st' s) = su_activeWorkers s"
  by (cases st; cases st'; simp) (cases st'; simp)+

lemma su_count_update [simp]:
  "su_count st (s\<lparr> su_queueLengths := q \<rparr>) = su_count st s"
  "su_count st (s\<lparr> su_delayedBacklog := b \<rparr>) = su_count st s"
  by (cases st; simp)+

lemma summarize_step_fields [simp]:
  "su_count st (summarize_step s job) = su_count st s + (if st = job_state job then 1 else 0)"
  "su_totalJobs (summarize_step s job) = su_totalJobs s"
  "su_averageExecMs (summarize_step s job) = su_averageExecMs s"
  "su_activeWorkers (summarize_step s job) = su_activeWorkers s"
  "su_delayedBacklog (summarize_step s job) = su_delayedBacklog s +
     (if job_state job \<in> {JS_scheduled, JS_retrying} then 1 else 0)"
  "su_queueLengths (summarize_step s job) = obj_set (su_queueLengths s) (job_queue job)
     (nullish (obj_get (su_queueLengths s) (job_queue job)) 0 + (if waiting (job_state job) then 1 else 0))"
  by (simp_all add: summarize_step_def Let_def)

lemma summarize_fold_count:
  "su_count st (foldl summarize_step s jobs) = su_count st s + jobs_where (\<lambda>j. job_state j = st) jobs"
  by (induction jobs arbitrary: s) auto

lemma summarize_fold_fixed:
  "su_totalJobs (foldl summarize_step s jobs) = su_totalJobs s"
  "su_averageExecMs (foldl summarize_step s jobs) = su_averageExecMs s"
  "su_activeWorkers (foldl summarize_step s jobs) = su_activeWorkers s"
  by (induction jobs arbitrary: s) simp_all

lemma summarize_fold_backlog:
  "su_delayedBacklog (foldl summarize_step s jobs) =
     su_delayedBacklog s + jobs_where (\<lambda>j. job_state j \<in> {JS_scheduled, JS_retrying}) jobs"
  by (induction jobs arbitrary: s) auto

lemma summarize_fold_queues:
  "obj_get (su_queueLengths (foldl summarize_step s jobs)) q =
     (if obj_get (su_queueLengths s) q = None \<and> q \<notin> job_queue ` set jobs then None
      else Some (nullish (obj_get (su_queueLengths s) q) 0 +
                 jobs_where (\<lambda>j. job_queue j = q \<and> waiting (job_state j)) jobs))"
proof (induction jobs arbitrary: s)
  case Nil
  then show ?case by (cases "obj_get (su_queueLengths s) q") auto
next
  case (Cons job jobs)
  show ?case
    by (cases "obj_get (su_queueLengths s) q") (auto simp: Cons obj_get_set)
qed

lemma summarize_fold_ok:
  "obj_ok (su_queueLengths s) \<Longrightarrow> obj_ok (su_queueLengths (foldl summarize_step s jobs))"
  by (induction jobs arbitrary: s) (simp_all add: obj_ok_set)

text \<open>The \<open>Math.max\<close> on the throttled counter changes nothing: the counter is already that number.\<close>

lemma su_count_throttled_update:
  "su_count st (s\<lparr> su_throttledJobs := x \<rparr>) = (if st = JS_throttled then x else su_count st s)"
  by (cases st) simp_all

lemma summarize_count:
  "su_count st (summarizeJobs jobs workers rateLimits) = jobs_where (\<lambda>j. job_state j = st) jobs"
proof -
  have z: "su_count st (\<lparr> su_totalJobs = a, su_queuedJobs = 0, su_blockedJobs = 0, su_throttledJobs = 0,
      su_activeJobs = 0, su_failedJobs = 0, su_retryingJobs = 0, su_completedJobs = 0,
      su_scheduledJobs = 0, su_canceledJobs = 0, su_queueLengths = q, su_averageExecMs = e,
      su_activeWorkers = w, su_delayedBacklog = b \<rparr>) = 0" for st a q e w b
    by (cases st) simp_all
  note c = summarize_fold_count [of JS_throttled, simplified]
  show ?thesis
    by (auto simp: summarizeJobs_def Let_def su_count_throttled_update summarize_fold_count z c)
       (simp add: jobs_where_def)
qed

lemmas summarize_counters = summarize_count [where st = JS_queued, simplified]
  summarize_count [where st = JS_blocked, simplified] summarize_count [where st = JS_throttled, simplified]
  summarize_count [where st = JS_active, simplified] summarize_count [where st = JS_failed, simplified]
  summarize_count [where st = JS_retrying, simplified] summarize_count [where st = JS_completed, simplified]
  summarize_count [where st = JS_scheduled, simplified] summarize_count [where st = JS_canceled, simplified]

lemma summarize_other:
  "su_totalJobs (summarizeJobs jobs workers rateLimits) = of_nat (length jobs)"
  "su_activeWorkers (summarizeJobs jobs workers rateLimits) = of_nat (length workers)"
  "su_delayedBacklog (summarizeJobs jobs workers rateLimits) =
     jobs_where (\<lambda>j. job_state j \<in> {JS_scheduled, JS_retrying}) jobs"
  by (auto simp: summarizeJobs_def Let_def summarize_fold_fixed summarize_fold_backlog)

lemma summarize_queues:
  "obj_get (su_queueLengths (summarizeJobs jobs workers rateLimits)) q =
     (if q \<in> set QUEUES \<or> q \<in> job_queue ` set jobs
      then Some (jobs_where (\<lambda>j. job_queue j = q \<and> waiting (job_state j)) jobs) else None)"
proof -
  have init: "obj_get (obj_from_entries (map (\<lambda>queue. (queue, 0 :: rat)) QUEUES)) q =
    (if q \<in> set QUEUES then Some 0 else None)"
    by (auto simp: obj_from_entries_def obj_get_spread QUEUES_def)
  show ?thesis
    by (auto simp: summarizeJobs_def Let_def summarize_fold_queues init)
qed

lemma jobs_where_partition:
  "of_nat (length jobs) =
     (\<Sum>st \<leftarrow> [JS_queued, JS_scheduled, JS_retrying, JS_blocked, JS_throttled, JS_active, JS_completed,
               JS_failed, JS_canceled]. jobs_where (\<lambda>j. job_state j = st) jobs)"
proof (induction jobs)
  case (Cons j js)
  then show ?case by (cases "job_state j") simp_all
qed simp


section \<open>Reconciliation is a normal form\<close>

text \<open>The interface of a normalising function, and what its clients get from it.\<close>

locale normaliser =
  fixes norm :: "'a \<Rightarrow> 'a" and ok :: "'a \<Rightarrow> bool"
  assumes norm_ok: "ok x \<Longrightarrow> ok (norm x)"
    and norm_idem: "ok x \<Longrightarrow> norm (norm x) = norm x"
begin

definition normal :: "'a \<Rightarrow> bool" where
  "normal x \<longleftrightarrow> ok x \<and> norm x = x"

lemma normal_norm: "ok x \<Longrightarrow> normal (norm x)"
  by (simp add: normal_def norm_ok norm_idem)

lemma normal_via: "ok (f x) \<Longrightarrow> normal (norm (f x))"
  by (rule normal_norm)

end

text \<open>All the timestamps that reconciliation sorts by are dates.\<close>

definition valid_data :: "date_api \<Rightarrow> ConsoleData \<Rightarrow> bool" where
  "valid_data D data \<longleftrightarrow>
     (\<forall>j \<in> set (cd_jobs data). date_parse D (job_updatedAt j) \<noteq> None) \<and>
     (\<forall>s \<in> set (cd_schedules data). date_parse D (sched_nextRunAt s) \<noteq> None) \<and>
     (\<forall>e \<in> set (cd_events data). date_parse D (ev_timestamp e) \<noteq> None) \<and>
     (\<forall>d \<in> set (sn_deadLetters (cd_snapshot data)). date_parse D (dl_failedAt d) \<noteq> None)"

abbreviation stamp :: "date_api \<Rightarrow> string \<Rightarrow> rat" where
  "stamp D s \<equiv> of_int (the (date_parse D s))"

lemma getTime_stamp: "date_parse D s \<noteq> None \<Longrightarrow> getTime D s = Some (stamp D s)"
  by (auto simp: getTime_def)

lemma js_sort_time_desc:
  "\<forall>x \<in> set xs. date_parse D (f x) \<noteq> None \<Longrightarrow>
   js_sort (by_desc (\<lambda>x. getTime D (f x))) xs = sort_key (\<lambda>x. - stamp D (f x)) xs"
  by (rule js_sort_desc) (simp add: getTime_stamp)

lemma js_sort_time_asc:
  "\<forall>x \<in> set xs. date_parse D (f x) \<noteq> None \<Longrightarrow>
   js_sort (by_asc (\<lambda>x. getTime D (f x))) xs = sort_key (\<lambda>x. stamp D (f x)) xs"
  by (rule js_sort_asc) (simp add: getTime_stamp)

lemma sort_workers_key: "sort_workers ws = sort_key wl_heartbeatAgeMs ws"
  unfolding sort_workers_def by (rule js_sort_asc) simp

lemma sort_key_idem [simp]: "sort_key f (sort_key f xs) = sort_key f xs"
  by (simp add: sort_key_id_if_sorted)

lemma sorted_map_take: "sorted (map f xs) \<Longrightarrow> sorted (map f (take n xs))"
  by (simp add: sorted_wrt_take take_map [symmetric])

lemma sort_key_take_sorted: "sort_key f (take n (sort_key f xs)) = take n (sort_key f xs)"
  by (rule sort_key_id_if_sorted) (simp add: sorted_map_take)

lemma sort_jobs_set [simp]:
  "set (sort_jobs D js) = set js" "mset (sort_jobs D js) = mset js" "length (sort_jobs D js) = length js"
  by (simp_all add: sort_jobs_def)

lemma sort_schedules_set [simp]:
  "set (sort_schedules D ss) = set ss" "mset (sort_schedules D ss) = mset ss"
  by (simp_all add: sort_schedules_def)

lemma sort_dead_letters_set [simp]:
  "set (sort_dead_letters D ds) = set ds" "mset (sort_dead_letters D ds) = mset ds"
  by (simp_all add: sort_dead_letters_def)

lemma sort_workers_set [simp]: "mset (sort_workers ws) = mset ws" "length (sort_workers ws) = length ws"
  by (simp_all add: sort_workers_def)

lemma set_sortEvents: "set (sortEvents D es) \<subseteq> set es"
  unfolding sortEvents_def using set_take_subset by fastforce

lemma length_sortEvents: "length (sortEvents D es) \<le> 60"
  by (simp add: sortEvents_def)

lemma sortEvents_all: "length es \<le> 60 \<Longrightarrow> mset (sortEvents D es) = mset es"
  by (simp add: sortEvents_def)

lemma sort_jobs_idem:
  "\<forall>j \<in> set js. date_parse D (job_updatedAt j) \<noteq> None \<Longrightarrow> sort_jobs D (sort_jobs D js) = sort_jobs D js"
  by (simp add: sort_jobs_def js_sort_time_desc)

lemma sort_schedules_idem:
  "\<forall>s \<in> set ss. date_parse D (sched_nextRunAt s) \<noteq> None \<Longrightarrow>
   sort_schedules D (sort_schedules D ss) = sort_schedules D ss"
  by (simp add: sort_schedules_def js_sort_time_asc)

lemma sort_dead_letters_idem:
  "\<forall>d \<in> set ds. date_parse D (dl_failedAt d) \<noteq> None \<Longrightarrow>
   sort_dead_letters D (sort_dead_letters D ds) = sort_dead_letters D ds"
  by (simp add: sort_dead_letters_def js_sort_time_desc)

lemma sort_workers_idem: "sort_workers (sort_workers ws) = sort_workers ws"
  by (simp add: sort_workers_key)

lemma sortEvents_key:
  "\<forall>e \<in> set es. date_parse D (ev_timestamp e) \<noteq> None \<Longrightarrow>
   sortEvents D es = take 60 (sort_key (\<lambda>e. - stamp D (ev_timestamp e)) es)"
  by (simp add: sortEvents_def js_sort_time_desc)

lemma sortEvents_idem:
  assumes "\<forall>e \<in> set es. date_parse D (ev_timestamp e) \<noteq> None"
  shows "sortEvents D (sortEvents D es) = sortEvents D es"
proof -
  have "\<forall>e \<in> set (sortEvents D es). date_parse D (ev_timestamp e) \<noteq> None"
    using assms set_sortEvents by blast
  with assms show ?thesis by (simp add: sortEvents_key sort_key_take_sorted)
qed

lemma summarize_workers_length:
  "length ws = length ws' \<Longrightarrow> summarizeJobs jobs ws rl = summarizeJobs jobs ws' rl"
  by (simp add: summarizeJobs_def)

lemma reconcile_fields [simp]:
  "cd_jobs (reconcileConsoleData D now d) = sort_jobs D (cd_jobs d)"
  "cd_schedules (reconcileConsoleData D now d) = sort_schedules D (cd_schedules d)"
  "cd_events (reconcileConsoleData D now d) = sortEvents D (cd_events d)"
  "cd_workerStatuses (reconcileConsoleData D now d) = cd_workerStatuses d"
  "cd_inspections (reconcileConsoleData D now d) = cd_inspections d"
  "cd_queueControls (reconcileConsoleData D now d) = cd_queueControls d"
  "cd_workerControls (reconcileConsoleData D now d) = cd_workerControls d"
  "cd_lastHydratedAt (reconcileConsoleData D now d) = cd_lastHydratedAt d"
  "cd_source (reconcileConsoleData D now d) = cd_source d"
  "sn_deadLetters (cd_snapshot (reconcileConsoleData D now d)) = sort_dead_letters D (sn_deadLetters (cd_snapshot d))"
  "sn_workers (cd_snapshot (reconcileConsoleData D now d)) = sort_workers (sn_workers (cd_snapshot d))"
  "sn_rateLimits (cd_snapshot (reconcileConsoleData D now d)) = sn_rateLimits (cd_snapshot d)"
  "sn_metrics (cd_snapshot (reconcileConsoleData D now d)) = sn_metrics (cd_snapshot d)"
  "sn_trend (cd_snapshot (reconcileConsoleData D now d)) = sn_trend (cd_snapshot d)"
  "sn_leader (cd_snapshot (reconcileConsoleData D now d)) = sn_leader (cd_snapshot d)"
  "sn_blockedJobs (cd_snapshot (reconcileConsoleData D now d)) =
     take 16 (filter (\<lambda>j. job_state j = JS_blocked) (sort_jobs D (cd_jobs d)))"
  "sn_throttledJobs (cd_snapshot (reconcileConsoleData D now d)) =
     take 16 (filter (\<lambda>j. job_state j = JS_throttled) (sort_jobs D (cd_jobs d)))"
  "sn_overview (cd_snapshot (reconcileConsoleData D now d)) =
     apply_summary (summarizeJobs (sort_jobs D (cd_jobs d)) (sn_workers (cd_snapshot d)) (sn_rateLimits (cd_snapshot d)))
       (or_str (ov_lastUpdatedAt (sn_overview (cd_snapshot d))) (or_str (cd_lastHydratedAt d) (iso_text D now)))"
  by (simp_all add: reconcileConsoleData_def Let_def)

lemma valid_reconcile: "valid_data D d \<Longrightarrow> valid_data D (reconcileConsoleData D now d)"
  using set_sortEvents [of D "cd_events d"] by (auto simp: valid_data_def)

lemma apply_summary_last [simp]: "ov_lastUpdatedAt (apply_summary s l) = l"
  by (simp add: apply_summary_def)

lemma or_str_stable: "or_str b c \<noteq> [] \<Longrightarrow> or_str (or_str a (or_str b c)) x = or_str a (or_str b c)"
  by (simp add: or_str_def)

lemma reconcile_idem:
  assumes "date_ok D" and "valid_data D d"
  shows "reconcileConsoleData D now' (reconcileConsoleData D now d) = reconcileConsoleData D now d"
proof -
  let ?r = "reconcileConsoleData D now d"
  have jobs: "sort_jobs D (cd_jobs ?r) = cd_jobs ?r"
    and scheds: "sort_schedules D (cd_schedules ?r) = cd_schedules ?r"
    and dls: "sort_dead_letters D (sn_deadLetters (cd_snapshot ?r)) = sn_deadLetters (cd_snapshot ?r)"
    and evs: "sortEvents D (cd_events ?r) = cd_events ?r"
    using assms(2)
    by (simp_all add: valid_data_def sort_jobs_idem sort_schedules_idem sort_dead_letters_idem sortEvents_idem)
  have su: "summarizeJobs (cd_jobs ?r) (sn_workers (cd_snapshot ?r)) rl =
      summarizeJobs (cd_jobs ?r) (sn_workers (cd_snapshot d)) rl" for rl
    by (rule summarize_workers_length) simp
  have last: "or_str (ov_lastUpdatedAt (sn_overview (cd_snapshot ?r))) x =
      ov_lastUpdatedAt (sn_overview (cd_snapshot ?r))" for x
    using date_ok_nonempty [OF assms(1)] by (simp add: or_str_stable)
  have "cd_snapshot (reconcileConsoleData D now' ?r) = cd_snapshot ?r"
    by (rule DashboardSnapshot.equality)
       (use jobs dls su last in \<open>simp_all add: sort_workers_idem\<close>)
  then show ?thesis
    by (intro ConsoleData.equality) (use jobs scheds evs in simp_all)
qed


interpretation recon: normaliser "reconcileConsoleData D now" "\<lambda>d. date_ok D \<and> valid_data D d" for D now
  by unfold_locales (simp_all add: valid_reconcile reconcile_idem)

section \<open>Keyed collections\<close>

text \<open>
  The contract of an upsert: as a map from keys to items, the collection is updated at the item's
  key and nowhere else.
\<close>

locale keyed_store =
  fixes key :: "'a \<Rightarrow> 'k" and lookup :: "'s \<Rightarrow> 'k \<Rightarrow> 'a option" and upsert :: "'a \<Rightarrow> 's \<Rightarrow> 's"
  assumes lookup_upsert: "lookup (upsert x s) = (lookup s)(key x \<mapsto> x)"
begin

lemma lookup_same: "lookup (upsert x s) (key x) = Some x"
  by (simp add: lookup_upsert)

lemma lookup_other: "k \<noteq> key x \<Longrightarrow> lookup (upsert x s) k = lookup s k"
  by (simp add: lookup_upsert)

lemma last_write_wins: "key x = key y \<Longrightarrow> lookup (upsert x (upsert y s)) = lookup (upsert x s)"
  by (simp add: lookup_upsert)

lemma upserts_commute:
  "key x \<noteq> key y \<Longrightarrow> lookup (upsert x (upsert y s)) = lookup (upsert y (upsert x s))"
  by (simp add: lookup_upsert fun_upd_twist)

lemma dom_upsert: "dom (lookup (upsert x s)) = insert (key x) (dom (lookup s))"
  by (simp add: lookup_upsert)

end

definition find_job :: "Job list \<Rightarrow> string \<Rightarrow> Job option" where
  "find_job jobs k = find (\<lambda>candidate. job_id candidate = k) jobs"

lemma find_job_simps [simp]:
  "find_job [] k = None"
  "find_job (j # js) k = (if job_id j = k then Some j else find_job js k)"
  by (simp_all add: find_job_def)

lemma find_job_map_upsert:
  "find_job (map (\<lambda>c. if job_id c = job_id j then j else c) js) k =
     (if k = job_id j then (if job_id j \<in> job_id ` set js then Some j else None) else find_job js k)"
  by (induction js) auto

lemma find_job_upsert: "find_job (upsert_job j js) = (find_job js)(job_id j \<mapsto> j)"
proof (cases "job_id j \<in> job_id ` set js")
  case True
  then have "list_ex (\<lambda>c. job_id c = job_id j) js" by (auto simp: list_ex_iff)
  with True show ?thesis by (simp add: upsert_job_def find_job_map_upsert fun_eq_iff)
next
  case False
  then have "\<not> list_ex (\<lambda>c. job_id c = job_id j) js" by (auto simp: list_ex_iff image_iff)
  then show ?thesis by (auto simp: upsert_job_def)
qed

interpretation jobs: keyed_store job_id find_job upsert_job
  by unfold_locales (rule find_job_upsert)

interpretation inspections: keyed_store "\<lambda>i. job_id (insp_job i)" "\<lambda>d. obj_get (cd_inspections d)"
  "\<lambda>i d. upsertInspection d i"
  by unfold_locales (simp add: upsertInspection_def obj_get_set)

lemma ids_upsert_job:
  "map job_id (upsert_job j js) = (if job_id j \<in> set (map job_id js) then map job_id js else job_id j # map job_id js)"
proof -
  have "map job_id (map (\<lambda>c. if job_id c = job_id j then j else c) js) = map job_id js"
    by (induction js) auto
  then show ?thesis
    by (auto simp: upsert_job_def list_ex_iff rev_image_eqI simp del: map_map)
qed

lemma distinct_upsert_job: "distinct (map job_id js) \<Longrightarrow> distinct (map job_id (upsert_job j js))"
  by (simp add: ids_upsert_job)

lemma find_job_Some_iff:
  "distinct (map job_id js) \<Longrightarrow> find_job js k = Some j \<longleftrightarrow> j \<in> set js \<and> job_id j = k"
  by (induction js) auto

lemma find_job_mset:
  assumes "mset js = mset js'" and "distinct (map job_id js)"
  shows "find_job js = find_job js'"
proof
  fix k
  have "set js = set js'" using assms(1) by (metis set_mset_mset)
  moreover have "distinct (map job_id js')"
    using assms by (metis distinct_map mset_eq_imp_distinct_iff set_mset_mset)
  ultimately show "find_job js k = find_job js' k"
    using assms(2) find_job_Some_iff by (metis not_None_eq)
qed

lemma find_job_sort_jobs [simp]:
  "distinct (map job_id js) \<Longrightarrow> find_job (sort_jobs D js) = find_job js"
  by (rule find_job_mset) (simp_all add: sort_jobs_def)

lemma find_job_replaceJob:
  assumes "distinct (map job_id (cd_jobs d))"
  shows "find_job (cd_jobs (replaceJob D now d j)) = (find_job (cd_jobs d))(job_id j \<mapsto> j)"
  using assms by (simp add: replaceJob_def distinct_upsert_job jobs.lookup_upsert)

section \<open>The event log\<close>

definition fingerprints :: "SystemEvent list \<Rightarrow> string set" where
  "fingerprints es = createEventFingerprint ` set es"

lemma append_new_spec:
  assumes "append_new seen merged changed events = (merged', changed')"
  shows "\<exists>new. merged' = merged @ new \<and> set new \<subseteq> set events \<and>
     (changed' \<longleftrightarrow> changed \<or> new \<noteq> []) \<and>
     distinct (map createEventFingerprint new) \<and>
     set (map createEventFingerprint new) = set (map createEventFingerprint events) - set seen"
  using assms
proof (induction seen merged changed events arbitrary: merged' changed' rule: append_new.induct)
  case (2 seen merged changed event events)
  let ?f = "createEventFingerprint event"
  show ?case
  proof (cases "?f \<in> set seen")
    case True
    with 2 show ?thesis by (force simp: Let_def)
  next
    case False
    with 2 obtain new where "merged' = (merged @ [event]) @ new" "set new \<subseteq> set events" "changed'"
      "distinct (map createEventFingerprint new)"
      "set (map createEventFingerprint new) = set (map createEventFingerprint events) - set (?f # seen)"
      by (force simp: Let_def)
    with False show ?thesis by (intro exI [of _ "event # new"]) auto
  qed
qed simp

lemma appendEvents_cases:
  obtains new where "set new \<subseteq> set events" and "distinct (map createEventFingerprint new)"
    and "fingerprints new = fingerprints events - fingerprints (cd_events d)"
    and "appendEvents D d events =
      (if new = [] then d else d\<lparr> cd_events := sortEvents D (cd_events d @ new) \<rparr>)"
proof -
  obtain merged changed where r:
    "append_new (map createEventFingerprint (cd_events d)) (cd_events d) False events = (merged, changed)"
    by (metis surj_pair)
  from append_new_spec [OF r] obtain new where new:
    "merged = cd_events d @ new" "set new \<subseteq> set events" "changed \<longleftrightarrow> new \<noteq> []"
    "distinct (map createEventFingerprint new)"
    "fingerprints new = fingerprints events - fingerprints (cd_events d)"
    by (auto simp: fingerprints_def)
  have "appendEvents D d events =
      (if new = [] then d else d\<lparr> cd_events := sortEvents D (cd_events d @ new) \<rparr>)"
    using r new by (auto simp: appendEvents_def)
  with new that show thesis by blast
qed


text \<open>An event whose kind and timestamp contain no separator.\<close>

definition clean_event :: "SystemEvent \<Rightarrow> bool" where
  "clean_event e \<longleftrightarrow> CHR ''|'' \<notin> set (ev_kind e) \<and> CHR ''|'' \<notin> set (ev_timestamp e)"

lemma takeWhile_sep: "c \<notin> set a \<Longrightarrow> takeWhile (\<lambda>x. x \<noteq> c) (a @ c # r) = a"
  by (induction a) auto

lemma append_sep_inject:
  "c \<notin> set a \<Longrightarrow> c \<notin> set b \<Longrightarrow> a @ c # r = b @ c # s \<Longrightarrow> a = b \<and> r = s"
  by (metis append_same_eq list.inject same_append_eq takeWhile_sep)

lemma fingerprint_stamp:
  assumes "clean_event e" and "clean_event e'" and "createEventFingerprint e = createEventFingerprint e'"
  shows "ev_kind e = ev_kind e' \<and> ev_timestamp e = ev_timestamp e'"
proof -
  have f: "\<exists>r. createEventFingerprint e = ev_kind e @ CHR ''|'' # (ev_timestamp e @ CHR ''|'' # r)" for e
    by (simp add: createEventFingerprint_def)
  from f [of e] f [of e'] assms show ?thesis
    unfolding clean_event_def by (metis append_sep_inject)
qed

definition log_event :: "date_api \<Rightarrow> SystemEvent \<Rightarrow> bool" where
  "log_event D e \<longleftrightarrow> clean_event e \<and> date_parse D (ev_timestamp e) \<noteq> None"

definition log_inv :: "date_api \<Rightarrow> ConsoleData \<Rightarrow> bool" where
  "log_inv D d \<longleftrightarrow>
     length (cd_events d) \<le> 60 \<and> distinct (map createEventFingerprint (cd_events d)) \<and>
     sorted_wrt (\<ge>) (map (\<lambda>e. stamp D (ev_timestamp e)) (cd_events d)) \<and>
     (\<forall>e \<in> set (cd_events d). log_event D e)"

lemma sorted_neg: "sorted (map (\<lambda>x. - f x :: rat) xs) = sorted_wrt (\<ge>) (map f xs)"
  by (induction xs) auto

lemma sortEvents_sorted:
  assumes "\<forall>e \<in> set es. log_event D e"
  shows "sorted_wrt (\<ge>) (map (\<lambda>e. stamp D (ev_timestamp e)) (sortEvents D es))"
proof -
  have "sorted (map (\<lambda>e. - stamp D (ev_timestamp e)) (sortEvents D es))"
    using assms by (simp add: sortEvents_key log_event_def sorted_map_take)
  then show ?thesis by (simp only: sorted_neg)
qed

lemma distinct_map_take: "distinct (map f xs) \<Longrightarrow> distinct (map f (take n xs))"
  by (simp add: distinct_take flip: take_map)

lemma sortEvents_distinct:
  "distinct (map createEventFingerprint es) \<Longrightarrow> distinct (map createEventFingerprint (sortEvents D es))"
  by (simp add: sortEvents_def distinct_map_take)

lemma log_inv_append:
  assumes "log_inv D d" and "\<forall>e \<in> set events. log_event D e"
  shows "log_inv D (appendEvents D d events)"
proof -
  obtain new where new: "set new \<subseteq> set events" "distinct (map createEventFingerprint new)"
    "fingerprints new = fingerprints events - fingerprints (cd_events d)"
    "appendEvents D d events = (if new = [] then d else d\<lparr> cd_events := sortEvents D (cd_events d @ new) \<rparr>)"
    by (rule appendEvents_cases)
  let ?es = "cd_events d @ new"
  have ev: "\<forall>e \<in> set ?es. log_event D e" using assms new(1) by (auto simp: log_inv_def)
  have "distinct (map createEventFingerprint ?es)"
    using assms(1) new(2,3) by (auto simp: log_inv_def fingerprints_def)
  then have "log_inv D (d\<lparr> cd_events := sortEvents D ?es \<rparr>)"
    using ev set_sortEvents [of D ?es]
    by (auto simp: log_inv_def length_sortEvents sortEvents_distinct sortEvents_sorted)
  with new(4) assms(1) show ?thesis by simp
qed

text \<open>The interface of a log fed with batches of entries, and its safety over any sequence of batches.\<close>

locale batch_log =
  fixes add :: "'s \<Rightarrow> 'e list \<Rightarrow> 's" and inv :: "'s \<Rightarrow> bool" and good :: "'e \<Rightarrow> bool"
  assumes add_inv: "inv s \<Longrightarrow> (\<forall>e \<in> set es. good e) \<Longrightarrow> inv (add s es)"
begin

lemma batches_inv: "inv s \<Longrightarrow> (\<forall>es \<in> set ess. \<forall>e \<in> set es. good e) \<Longrightarrow> inv (foldl add s ess)"
  by (induction ess arbitrary: s) (simp_all add: add_inv)

end

interpretation event_log: batch_log "appendEvents D" "log_inv D" "log_event D" for D
  by unfold_locales (rule log_inv_append)

lemma sort_key_append_le:
  assumes "sorted (map f xs)" and "\<forall>x \<in> set xs. \<forall>y \<in> set ys. f x \<le> f y"
  shows "sort_key f (xs @ ys) = xs @ sort_key f ys"
  using assms
proof (induction xs)
  case (Cons x xs)
  then have "sort_key f (xs @ ys) = xs @ sort_key f ys" by simp
  with Cons.prems show ?case by (auto simp: sort_key_simps intro!: insort_is_Cons)
qed simp

lemma sorted_take_drop:
  "sorted (map f xs) \<Longrightarrow> x \<in> set (take n xs) \<Longrightarrow> y \<in> set (drop n xs) \<Longrightarrow> f x \<le> f y"
proof -
  assume s: "sorted (map f xs)" "x \<in> set (take n xs)" "y \<in> set (drop n xs)"
  have "sorted (map f (take n xs @ drop n xs))" using s(1) by simp
  with s(2,3) show "f x \<le> f y" by (simp only: map_append sorted_append) auto
qed

lemma appendEvents_idem:
  assumes "\<forall>e \<in> set (cd_events d). log_event D e" and "\<forall>e \<in> set events. log_event D e"
  shows "appendEvents D (appendEvents D d events) events = appendEvents D d events"
proof -
  let ?r = "appendEvents D d events" and ?f = "\<lambda>e. - stamp D (ev_timestamp e)"
  obtain new where new: "set new \<subseteq> set events"
    "fingerprints new = fingerprints events - fingerprints (cd_events d)"
    "?r = (if new = [] then d else d\<lparr> cd_events := sortEvents D (cd_events d @ new) \<rparr>)"
    by (rule appendEvents_cases)
  obtain new2 where new2: "set new2 \<subseteq> set events"
    "fingerprints new2 = fingerprints events - fingerprints (cd_events ?r)"
    "appendEvents D ?r events = (if new2 = [] then ?r else ?r\<lparr> cd_events := sortEvents D (cd_events ?r @ new2) \<rparr>)"
    by (rule appendEvents_cases)
  show ?thesis
  proof (cases "new = [] \<or> new2 = []")
    case True
    have "new2 = []" if "new = []"
    proof -
      have "?r = d" "fingerprints new = {}" using that new(3) by (simp_all add: fingerprints_def)
      then have "fingerprints new2 = {}" using new(2) new2(2) by simp
      then show ?thesis by (simp add: fingerprints_def)
    qed
    with True new2(3) show ?thesis by auto
  next
    case False
    let ?es = "cd_events d @ new"
    let ?s = "sort_key ?f ?es"
    have ev: "\<forall>e \<in> set ?es. log_event D e" using assms new(1) by auto
    have R: "cd_events ?r = take 60 ?s"
      using False new(3) ev by (simp add: sortEvents_key log_event_def)
    have old: "\<exists>y \<in> set (drop 60 ?s). ?f y = ?f x" if "x \<in> set new2" for x
    proof -
      have x: "log_event D x" "x \<in> set events" using that new2(1) assms(2) by auto
      have fx: "createEventFingerprint x \<notin> fingerprints (cd_events ?r)"
        using that new2(2) by (auto simp: fingerprints_def)
      have "createEventFingerprint x \<in> fingerprints ?es"
        using x(2) new(2) by (auto simp: fingerprints_def)
      then obtain y where y: "y \<in> set ?s" "createEventFingerprint y = createEventFingerprint x"
        unfolding fingerprints_def by (metis imageE set_sort)
      then have "y \<notin> set (take 60 ?s)" using fx R unfolding fingerprints_def by (metis imageI)
      then have "y \<in> set (drop 60 ?s)" using y(1) by (metis Un_iff append_take_drop_id set_append)
      moreover have "ev_timestamp y = ev_timestamp x"
        using fingerprint_stamp y x(1) ev by (auto simp: log_event_def)
      ultimately show ?thesis by (intro bexI [of _ y]) simp_all
    qed
    from False have "hd new2 \<in> set new2" by simp
    from old [OF this] have "drop 60 ?s \<noteq> []" by (metis empty_iff list.set(1))
    then have len: "length (take 60 ?s) = 60" by simp
    have le: "\<forall>x \<in> set (take 60 ?s). \<forall>y \<in> set new2. ?f x \<le> ?f y"
      using old sorted_take_drop [of ?f ?s] by (metis sorted_sort_key)
    have "sort_key ?f (take 60 ?s @ new2) = take 60 ?s @ sort_key ?f new2"
      by (rule sort_key_append_le [OF sorted_map_take le]) simp
    moreover have "\<forall>e \<in> set (take 60 ?s @ new2). date_parse D (ev_timestamp e) \<noteq> None"
      using ev assms(2) new2(1) by (auto simp: log_event_def dest: in_set_takeD)
    ultimately have "sortEvents D (take 60 ?s @ new2) = take 60 ?s"
      using len by (simp add: sortEvents_key)
    then have "sortEvents D (cd_events ?r @ new2) = cd_events ?r" unfolding R .
    with new2(3) False have "appendEvents D ?r events = ?r\<lparr> cd_events := cd_events ?r \<rparr>" by metis
    also have "\<dots> = ?r" by (rule ConsoleData.equality) simp_all
    finally show ?thesis .
  qed
qed


section \<open>Structural sharing keeps the content\<close>

lemma sameValue_refl [simp]: "sameValue v v"
  by (simp add: sameValue_def)

lemma by_key_Some: "by_key key xs k = Some x \<Longrightarrow> x \<in> set xs \<and> key x = k"
  by (auto simp: by_key_def dest!: map_of_SomeD)

lemma by_key_distinct:
  assumes "distinct (map key xs)" and "x \<in> set xs"
  shows "by_key key xs (key x) = Some x"
proof -
  have "distinct (map fst (rev (map (\<lambda>i. (key i, i)) xs)))"
    using assms(1) by (simp add: rev_map [symmetric] comp_def)
  with assms(2) show ?thesis by (auto simp: by_key_def intro!: map_of_is_SomeI)
qed

lemma reusable_Some:
  "reusable enc key p i = Some e \<Longrightarrow> e \<in> set p \<and> key e = key i \<and> sameValue (enc e) (enc i)"
  by (auto simp: reusable_def split: option.splits if_splits dest!: by_key_Some)

lemma reusable_the:
  assumes "reusable enc key p i \<noteq> None"
  shows "the (reusable enc key p i) \<in> set p" and "key (the (reusable enc key p i)) = key i"
    and "stableSerialize (enc (the (reusable enc key p i))) = stableSerialize (enc i)"
  using assms reusable_Some [of enc key p i] by (auto simp: sameValue_def)

text \<open>Either the result follows \<open>next\<close> item by item, or it is \<open>previous\<close> itself.\<close>

lemma reuseList_cases:
  obtains (resolved) "reuseList enc key p n = map (\<lambda>i. nullish (reusable enc key p i) i) n"
  | (kept) "reuseList enc key p n = p" and "length p = length n"
      and "\<forall>i \<in> set n. reusable enc key p i \<noteq> None"
  by (cases "length p = length n \<and> (\<forall>i \<in> set n. reusable enc key p i \<noteq> None)")
     (auto simp: reuseList_def Let_def list_ex_iff)

lemma reuse_item: "sameValue (enc (nullish (reusable enc key p i) i)) (enc i)"
  by (cases "reusable enc key p i") (auto dest: reusable_Some)

lemma kept_is_permutation:
  assumes "distinct (map key n)" and "length p = length n"
    and "\<forall>i \<in> set n. reusable enc key p i \<noteq> None"
  shows "mset (map (\<lambda>i. the (reusable enc key p i)) n) = mset p"
proof -
  let ?e = "\<lambda>i. the (reusable enc key p i)"
  have e: "?e i \<in> set p \<and> key (?e i) = key i" if "i \<in> set n" for i
    using assms(3) that reusable_the(1,2) [of enc key p i] by blast
  have "map key (map ?e n) = map key n" using e by simp
  then have d: "distinct (map ?e n)" using assms(1) by (metis distinct_map)
  have sub: "set (map ?e n) \<subseteq> set p" using e by auto
  have "card (set (map ?e n)) = length p" using d assms(2) by (metis distinct_card length_map)
  then have c: "card (set p) = length p" "card (set (map ?e n)) = card (set p)"
    using card_mono [OF finite_set sub] card_length [of p] by linarith+
  have "set (map ?e n) = set p" by (rule card_subset_eq [OF finite_set sub c(2)])
  moreover have "distinct p" by (rule card_distinct [OF c(1)])
  ultimately show ?thesis using d by (metis set_eq_iff_mset_eq_distinct)
qed

lemma reuseList_content:
  assumes "distinct (map key n)"
  shows "mset (map (\<lambda>x. stableSerialize (enc x)) (reuseList enc key p n)) =
         mset (map (\<lambda>x. stableSerialize (enc x)) n)"
proof (cases rule: reuseList_cases [of enc key p n])
  case resolved
  then show ?thesis using reuse_item [of enc key p] by (simp add: sameValue_def comp_def)
next
  case kept
  let ?ser = "\<lambda>x. stableSerialize (enc x)" and ?e = "\<lambda>i. the (reusable enc key p i)"
  have "mset (map ?ser p) = image_mset ?ser (mset (map ?e n))"
    using kept_is_permutation [OF assms kept(2,3)] by simp
  also have "\<dots> = mset (map (\<lambda>i. ?ser (?e i)) n)" by (simp add: image_mset.compositionality comp_def)
  also have "map (\<lambda>i. ?ser (?e i)) n = map ?ser n"
    using kept(3) reusable_the(3) [of enc key p] by (intro map_cong) blast+
  finally show ?thesis by (simp only: kept(1))
qed

lemma reuseList_same_length: "length (reuseList enc key p n) = length n"
  by (cases rule: reuseList_cases [of enc key p n]) simp_all

text \<open>An unchanged list is the previous list itself.\<close>

lemma reuseList_unchanged:
  assumes "distinct (map key p)" and "map key n = map key p"
    and "list_all2 (\<lambda>a b. sameValue (enc a) (enc b)) p n"
  shows "reuseList enc key p n = p"
proof -
  have len: "length p = length n" using assms(3) by (rule list_all2_lengthD)
  have "reusable enc key p (n ! i) \<noteq> None" if "i < length n" for i
  proof -
    have "key (n ! i) = key (p ! i)" using that len assms(2) by (metis length_map nth_map)
    moreover have "by_key key p (key (p ! i)) = Some (p ! i)"
      using assms(1) len that by (simp add: by_key_distinct)
    ultimately show ?thesis
      using list_all2_nthD [OF assms(3), of i] len that by (simp add: reusable_def)
  qed
  then have "\<forall>i \<in> set n. reusable enc key p i \<noteq> None" by (auto simp: in_set_conv_nth)
  with len show ?thesis by (auto simp: reuseList_def Let_def list_ex_iff)
qed

section \<open>Dead letters and workflow graphs\<close>

lemma findDeadLetter_Some:
  "findDeadLetter d k = Some item \<Longrightarrow> item \<in> set (sn_deadLetters (cd_snapshot d)) \<and> dl_jobId item = k"
  by (auto simp: findDeadLetter_def find_Some_iff)

lemma findDeadLetter_None:
  "findDeadLetter d k = None \<longleftrightarrow> (\<forall>item \<in> set (sn_deadLetters (cd_snapshot d)). dl_jobId item \<noteq> k)"
  by (auto simp: findDeadLetter_def find_None_iff)

lemma removed_dead_letters:
  "set (sn_deadLetters (cd_snapshot (removeDeadLetters D now d ids))) =
     {item \<in> set (sn_deadLetters (cd_snapshot d)). dl_jobId item \<notin> set ids}"
  by (auto simp: removeDeadLetters_def)

lemma mset_removed_dead_letters:
  "mset (sn_deadLetters (cd_snapshot (removeDeadLetters D now d ids))) =
     mset (filter (\<lambda>item. dl_jobId item \<notin> set ids) (sn_deadLetters (cd_snapshot d)))"
  by (simp add: removeDeadLetters_def)

lemma workflow_graph_nodes:
  "graph_nodes (createInspectionGraphForWorkflow job jobs) =
     (if filter (same_workflow job) jobs = [] then [plain_node job]
      else map workflow_node (filter (same_workflow job) jobs))"
  by (simp add: createInspectionGraphForWorkflow_def Let_def)

lemma same_workflow_self: "truthy (job_workflowId job) \<Longrightarrow> same_workflow job job"
  by (simp add: same_workflow_def)

end
