(* ===== verification/DemoData.thy ===== *)
theory DemoData
  imports Console
begin

text \<open>
  \<open>createDemoConsoleData\<close> of \<open>src/src/lib/console-data.ts\<close>: the data set the console shows
  without a backend. \<open>ids i\<close> is the result of the \<open>i\<close>-th call of createToastId(), \<open>now\<close> the
  clock reading; times are offsets from it, and are taken to be in the range of dates.
\<close>

definition minutesAgo :: "date_api \<Rightarrow> int \<Rightarrow> int \<Rightarrow> string" where
  "minutesAgo D now minutes = iso_text D (now - minutes * 60000)"

definition minutesFromNow :: "date_api \<Rightarrow> int \<Rightarrow> int \<Rightarrow> string" where
  "minutesFromNow D now minutes = iso_text D (now + minutes * 60000)"

definition secondsAgo :: "date_api \<Rightarrow> int \<Rightarrow> int \<Rightarrow> string" where
  "secondsAgo D now seconds = iso_text D (now - seconds * 1000)"

text \<open>The ids in the order in which they are drawn.\<close>

record DemoIds =
  workflowId :: string
  rootJobId :: string
  ingestId :: string
  thumbSmId :: string
  thumbMdId :: string
  aggregateId :: string
  deadJobId :: string
  retryJobId :: string
  throttledJobId :: string
  scheduledJobId :: string
  activeJobId :: string
  idempotentJobId :: string

definition demo_ids :: "(nat \<Rightarrow> string) \<Rightarrow> DemoIds" where
  "demo_ids ids =
     \<lparr> workflowId = ''wf-'' @ ids 0, rootJobId = ids 1, ingestId = ids 2, thumbSmId = ids 3,
       thumbMdId = ids 4, aggregateId = ids 5, deadJobId = ids 6, retryJobId = ids 7,
       throttledJobId = ids 8, scheduledJobId = ids 9, activeJobId = ids 10, idempotentJobId = ids 11 \<rparr>"

text \<open>A job literal: the required fields in the order of the source; the optional ones are added by updates.\<close>

definition job_literal ::
    "string \<Rightarrow> string \<Rightarrow> string \<Rightarrow> string \<Rightarrow> jsval obj \<Rightarrow> rat \<Rightarrow> rat \<Rightarrow> rat \<Rightarrow> JobState \<Rightarrow>
     string \<Rightarrow> string \<Rightarrow> string \<Rightarrow> rat \<Rightarrow> rat \<Rightarrow> Job" where
  "job_literal uid type' queue tenantId payload priority attempts maxAttempts st
     createdAt updatedAt runAt timeoutSeconds executionMs =
     \<lparr> job_id = uid, job_type = type', job_queue = queue, job_tenantId = tenantId,
       job_payload = Obj payload, job_priority = priority, job_attempts = attempts,
       job_maxAttempts = maxAttempts, job_state = st, job_schemaVersion = 1,
       job_idempotencyKey = None, job_workflowId = None, job_parentJobId = None,
       job_dependencyPolicy = None, job_blockedReason = None, job_createdAt = createdAt,
       job_updatedAt = updatedAt, job_runAt = runAt, job_startedAt = None, job_finishedAt = None,
       job_lastHeartbeatAt = None, job_leaseExpiresAt = None, job_throttleUntil = None,
       job_lastError = None, job_result = Undefined, job_workerId = None, job_leaseToken = None,
       job_timeoutSeconds = timeoutSeconds, job_cancelRequested = False, job_executionMs = executionMs \<rparr>"

definition demo_workflow_jobs :: "date_api \<Rightarrow> int \<Rightarrow> DemoIds \<Rightarrow> Job list" where
  "demo_workflow_jobs D now i =
     (let ago = minutesAgo D now; fromNow = minutesFromNow D now; sec = secondsAgo D now; wf = workflowId i
      in [(job_literal (ingestId i) ''file.ingest'' ''default'' ''tenant-a''
             [(''fileId'', Str wf), (''source'', Str ''s3://incoming/asset.png''), (''durationMs'', Num 250)]
             6 1 5 JS_completed (ago 38) (ago 35) (ago 38) 45 1810)
            \<lparr> job_workflowId := Some wf, job_startedAt := Some (ago 37), job_finishedAt := Some (ago 35) \<rparr>,
          (job_literal (thumbSmId i) ''image.thumbnail'' ''default'' ''tenant-a''
             [(''fileId'', Str wf), (''size'', Str ''sm''), (''durationMs'', Num 210)]
             5 1 5 JS_active (ago 35) (sec 8) (ago 35) 60 0)
            \<lparr> job_workflowId := Some wf, job_parentJobId := Some (rootJobId i),
              job_workerId := Some ''worker-a'', job_leaseToken := Some ''lease-thumb-sm'',
              job_startedAt := Some (ago 1), job_lastHeartbeatAt := Some (sec 4),
              job_leaseExpiresAt := Some (sec (- 22)) \<rparr>,
          (job_literal (thumbMdId i) ''image.thumbnail'' ''default'' ''tenant-a''
             [(''fileId'', Str wf), (''size'', Str ''md''), (''durationMs'', Num 250)]
             5 0 5 JS_blocked (ago 35) (ago 2) (ago 35) 60 0)
            \<lparr> job_workflowId := Some wf, job_parentJobId := Some (rootJobId i),
              job_dependencyPolicy := Some ''block'',
              job_blockedReason := Some ''waiting on metadata.aggregate to fan-in'' \<rparr>,
          (job_literal (aggregateId i) ''metadata.aggregate'' ''critical'' ''tenant-a''
             [(''fileId'', Str wf), (''durationMs'', Num 320)]
             8 2 5 JS_retrying (ago 29) (ago 1) (fromNow 3) 90 4200)
            \<lparr> job_workflowId := Some wf, job_parentJobId := Some (rootJobId i),
              job_lastError := Some ''downstream metadata store timed out'' \<rparr>])"

definition demo_other_jobs :: "date_api \<Rightarrow> int \<Rightarrow> DemoIds \<Rightarrow> Job list" where
  "demo_other_jobs D now i =
     (let ago = minutesAgo D now; fromNow = minutesFromNow D now; sec = secondsAgo D now
      in [(job_literal (deadJobId i) ''webhook.dispatch'' ''critical'' ''tenant-b''
             [(''destination'', Str ''https://api.vendor.dev/hooks''), (''durationMs'', Num 900)]
             9 5 5 JS_failed (ago 72) (ago 12) (ago 72) 45 7920)
            \<lparr> job_startedAt := Some (ago 15), job_finishedAt := Some (ago 12),
              job_workerId := Some ''worker-b'',
              job_lastError := Some ''remote 500 after 3 lease recoveries'' \<rparr>,
          job_literal (retryJobId i) ''report.generate'' ''default'' ''tenant-a''
             [(''reportId'', Str ''rpt-883''), (''range'', Str ''30d'')]
             3 2 5 JS_queued (ago 8) (ago 1) (ago 1) 180 0,
          (job_literal (throttledJobId i) ''email.send'' ''critical'' ''tenant-a''
             [(''recipient'', Str ''ops@tenant-a.dev''), (''campaign'', Str ''digest'')]
             7 1 5 JS_throttled (ago 3) (ago 1) (ago 3) 30 0)
            \<lparr> job_idempotencyKey := Some ''daily-digest:tenant-a'',
              job_throttleUntil := Some (fromNow 6),
              job_lastError := Some ''rate-limited by tenant-a-rate'' \<rparr>,
          job_literal (scheduledJobId i) ''cleanup.run'' ''low'' ''tenant-platform''
             [(''resource'', Str ''blob-cache''), (''dryRun'', Bool False)]
             1 0 3 JS_scheduled (ago 6) (ago 5) (fromNow 24) 120 0,
          (job_literal (activeJobId i) ''user.notify'' ''critical'' ''tenant-enterprise''
             [(''userId'', Str ''user-92''), (''channel'', Str ''sms'')]
             9 1 4 JS_active (ago 2) (sec 3) (ago 2) 25 0)
            \<lparr> job_workerId := Some ''worker-c'', job_leaseToken := Some ''lease-notify-1'',
              job_startedAt := Some (sec 47), job_lastHeartbeatAt := Some (sec 3),
              job_leaseExpiresAt := Some (sec (- 18)) \<rparr>,
          (job_literal (idempotentJobId i) ''email.send'' ''default'' ''tenant-a''
             [(''recipient'', Str ''finance@tenant-a.dev''), (''template'', Str ''invoice-ready'')]
             4 1 5 JS_completed (ago 19) (ago 17) (ago 19) 30 860)
            \<lparr> job_idempotencyKey := Some ''invoice-ready:2026-03-12:42'',
              job_startedAt := Some (ago 18), job_finishedAt := Some (ago 17),
              job_workerId := Some ''worker-a'' \<rparr>])"

definition demo_jobs :: "date_api \<Rightarrow> int \<Rightarrow> DemoIds \<Rightarrow> Job list" where
  "demo_jobs D now i = demo_workflow_jobs D now i @ demo_other_jobs D now i"

definition demo_dead_letters :: "date_api \<Rightarrow> int \<Rightarrow> DemoIds \<Rightarrow> DeadLetter list" where
  "demo_dead_letters D now i =
     (let ago = minutesAgo D now
      in [\<lparr> dl_jobId = deadJobId i, dl_queue = ''critical'', dl_workerId = ''worker-b'',
            dl_errorType = Some ''remote_error'',
            dl_errorMessage = ''remote 500 after 3 lease recoveries'',
            dl_stackTrace = Some (''POST /hooks => 500'' @ [CHR 10] @
              ''lease recovered twice before final failure''),
            dl_failedAt = ago 12, dl_lastAttempt = 5, dl_replayCount = 2,
            dl_lastReplayedAt = Some (ago 26),
            dl_job = find_job (demo_jobs D now i) (deadJobId i),
            dl_attempts = Some
              [\<lparr> att_id = 51, att_jobId = deadJobId i, att_attempt = 5, att_workerId = ''worker-b'',
                 att_leaseToken = Some ''lease-webhook-5'', att_status = ''failed'',
                 att_errorType = Some ''remote_error'', att_errorMessage = Some ''remote 500'',
                 att_stackTrace = None, att_leaseExpired = True, att_startedAt = ago 16,
                 att_finishedAt = Some (ago 12) \<rparr>,
               \<lparr> att_id = 48, att_jobId = deadJobId i, att_attempt = 4, att_workerId = ''worker-b'',
                 att_leaseToken = Some ''lease-webhook-4'', att_status = ''failed'',
                 att_errorType = Some ''timeout'', att_errorMessage = Some ''worker lost lease heartbeat'',
                 att_stackTrace = None, att_leaseExpired = True, att_startedAt = ago 30,
                 att_finishedAt = Some (ago 27) \<rparr>] \<rparr>])"

definition demo_workers :: "date_api \<Rightarrow> int \<Rightarrow> DemoIds \<Rightarrow> WorkerLeaseHealth list" where
  "demo_workers D now i =
     (let ago = minutesAgo D now; sec = secondsAgo D now
      in [\<lparr> wl_workerId = ''worker-a'', wl_hostname = ''ops-eu-1'', wl_status = ''healthy'',
            wl_queues = [''critical'', ''default''], wl_lastSeenAt = sec 2, wl_heartbeatAgeMs = 2400,
            wl_activeLeaseCount = 1, wl_oldestLeaseAgeMs = 44000, wl_oldestLeaseJobId = Some (thumbSmId i),
            wl_version = ''2026.03.12'', wl_startedAt = ago 180, wl_leaseExpiresAt = Some (sec (- 20)) \<rparr>,
          \<lparr> wl_workerId = ''worker-b'', wl_hostname = ''ops-us-2'', wl_status = ''healthy'',
            wl_queues = [''critical''], wl_lastSeenAt = sec 5, wl_heartbeatAgeMs = 5100,
            wl_activeLeaseCount = 0, wl_oldestLeaseAgeMs = 0, wl_oldestLeaseJobId = None,
            wl_version = ''2026.03.12'', wl_startedAt = ago 95, wl_leaseExpiresAt = None \<rparr>,
          \<lparr> wl_workerId = ''worker-c'', wl_hostname = ''ops-us-3'', wl_status = ''healthy'',
            wl_queues = [''critical'', ''default'', ''low''], wl_lastSeenAt = sec 3, wl_heartbeatAgeMs = 3100,
            wl_activeLeaseCount = 1, wl_oldestLeaseAgeMs = 47000, wl_oldestLeaseJobId = Some (activeJobId i),
            wl_version = ''2026.03.12'', wl_startedAt = ago 61, wl_leaseExpiresAt = Some (sec (- 18)) \<rparr>])"

definition demo_worker_statuses :: "date_api \<Rightarrow> int \<Rightarrow> WorkerStatus list" where
  "demo_worker_statuses D now =
     (let ago = minutesAgo D now; sec = secondsAgo D now
      in [\<lparr> ws_workerId = ''worker-a'', ws_hostname = ''ops-eu-1'', ws_queues = [''critical'', ''default''],
            ws_concurrency = 24, ws_status = ''healthy'', ws_startedAt = ago 180, ws_lastSeenAt = sec 2,
            ws_version = ''2026.03.12'' \<rparr>,
          \<lparr> ws_workerId = ''worker-b'', ws_hostname = ''ops-us-2'', ws_queues = [''critical''],
            ws_concurrency = 12, ws_status = ''healthy'', ws_startedAt = ago 95, ws_lastSeenAt = sec 5,
            ws_version = ''2026.03.12'' \<rparr>,
          \<lparr> ws_workerId = ''worker-c'', ws_hostname = ''ops-us-3'', ws_queues = [''critical'', ''default'', ''low''],
            ws_concurrency = 32, ws_status = ''healthy'', ws_startedAt = ago 61, ws_lastSeenAt = sec 3,
            ws_version = ''2026.03.12'' \<rparr>])"

definition demo_rate_limits :: "date_api \<Rightarrow> int \<Rightarrow> (nat \<Rightarrow> string) \<Rightarrow> RateLimitStatus list" where
  "demo_rate_limits D now ids =
     (let ago = minutesAgo D now
      in [\<lparr> rl_policy = \<lparr> pol_id = ids 12, pol_name = ''tenant-a-rate'', pol_scope = ''tenant'',
              pol_scopeValue = Some ''tenant-a'', pol_mode = ''rate'', pol_limit = 100,
              pol_windowSeconds = 60, pol_burst = 0, pol_enabled = True, pol_createdAt = ago 240,
              pol_updatedAt = ago 11 \<rparr>,
            rl_activeCount = 0, rl_recentCount = 96, rl_throttled = True \<rparr>,
          \<lparr> rl_policy = \<lparr> pol_id = ids 13, pol_name = ''critical-concurrency'', pol_scope = ''queue'',
              pol_scopeValue = Some ''critical'', pol_mode = ''concurrency'', pol_limit = 12,
              pol_windowSeconds = 30, pol_burst = 0, pol_enabled = True, pol_createdAt = ago 240,
              pol_updatedAt = ago 9 \<rparr>,
            rl_activeCount = 10, rl_recentCount = 0, rl_throttled = False \<rparr>])"

definition demo_schedules :: "date_api \<Rightarrow> int \<Rightarrow> (nat \<Rightarrow> string) \<Rightarrow> Schedule list" where
  "demo_schedules D now ids =
     (let ago = minutesAgo D now; fromNow = minutesFromNow D now
      in [\<lparr> sched_id = ids 14, sched_name = ''daily-finance-digest'', sched_cronExpression = ''0 6 * * *'',
            sched_queue = ''critical'', sched_type = ''email.send'',
            sched_payload = Obj [(''recipient'', Str ''finance@tenant-a.dev''), (''template'', Str ''daily-digest'')],
            sched_priority = 7, sched_maxAttempts = 5, sched_timeoutSeconds = 30, sched_enabled = True,
            sched_timezone = ''UTC'', sched_nextRunAt = fromNow 110, sched_lastRunAt = Some (ago 1330),
            sched_createdAt = ago 640, sched_updatedAt = ago 40 \<rparr>,
          \<lparr> sched_id = ids 15, sched_name = ''thumbnail-backfill'', sched_cronExpression = ''*/15 * * * *'',
            sched_queue = ''default'', sched_type = ''metadata.aggregate'',
            sched_payload = Obj [(''source'', Str ''backfill''), (''durationMs'', Num 400)],
            sched_priority = 4, sched_maxAttempts = 4, sched_timeoutSeconds = 90, sched_enabled = False,
            sched_timezone = ''UTC'', sched_nextRunAt = fromNow 15, sched_lastRunAt = Some (ago 21),
            sched_createdAt = ago 210, sched_updatedAt = ago 21 \<rparr>])"


definition demo_series :: "date_api \<Rightarrow> int \<Rightarrow> (nat \<Rightarrow> rat) \<Rightarrow> MetricsPoint list" where
  "demo_series D now f =
     map (\<lambda>index. \<lparr> mp_timestamp = minutesAgo D now (55 - int index * 5), mp_value = f index \<rparr>) [0..<12]"

definition demo_trend :: "date_api \<Rightarrow> int \<Rightarrow> Trend" where
  "demo_trend D now =
     \<lparr> tr_throughput = demo_series D now (\<lambda>n. 24 + of_nat n * (18 / 10) + of_nat (n mod 3)),
       tr_executionP95Ms = demo_series D now (\<lambda>n. 980 + of_nat n * 16),
       tr_queueLatencyP95Ms = demo_series D now (\<lambda>n. 420 + of_nat n * 11),
       tr_retryRate = demo_series D now (\<lambda>n. 11 / 10 + of_nat n * (9 / 100)),
       tr_deadLetterRate = demo_series D now (\<lambda>n. 18 / 100 + of_nat (n mod 4) * (5 / 100)) \<rparr>"

definition demo_snapshot :: "date_api \<Rightarrow> int \<Rightarrow> (nat \<Rightarrow> string) \<Rightarrow> DashboardSnapshot" where
  "demo_snapshot D now ids =
     (let i = demo_ids ids; ago = minutesAgo D now; sec = secondsAgo D now;
          workerLeaseHealth = demo_workers D now i
      in \<lparr> sn_overview =
             \<lparr> ov_totalJobs = 0, ov_queuedJobs = 0, ov_blockedJobs = 0, ov_throttledJobs = 0,
               ov_activeJobs = 0, ov_failedJobs = 0, ov_retryingJobs = 0, ov_completedJobs = 0,
               ov_scheduledJobs = 0, ov_canceledJobs = 0,
               ov_queueLengths = [(''critical'', 0), (''default'', 0), (''low'', 0)],
               ov_averageExecMs = 1285, ov_lastUpdatedAt = iso_text D now,
               ov_activeWorkers = of_nat (length (demo_worker_statuses D now)), ov_delayedBacklog = 4 \<rparr>,
           sn_metrics =
             \<lparr> mt_jobsPerSecond = 317 / 10, mt_retryRate = 162 / 100, mt_deadLetterRate = 36 / 100,
               mt_executionLatency = \<lparr> p50Ms = 420, p95Ms = 1180, p99Ms = 4210 \<rparr>,
               mt_queueLatency = \<lparr> p50Ms = 78, p95Ms = 560, p99Ms = 2100 \<rparr>,
               mt_maxWorkerHeartbeatAgeMs = Max (wl_heartbeatAgeMs ` set workerLeaseHealth) \<rparr>,
           sn_trend = demo_trend D now,
           sn_workers = workerLeaseHealth,
           sn_deadLetters = demo_dead_letters D now i,
           sn_blockedJobs = [], sn_throttledJobs = [],
           sn_rateLimits = demo_rate_limits D now ids,
           sn_leader = \<lparr> ld_schedulerId = Some ''scheduler-a'', ld_token = None,
             ld_isLeaderHealthy = Some True, ld_acquiredAt = Some (ago 140),
             ld_lastHeartbeatAt = Some (sec 2), ld_leaseExpiresAt = Some (sec (- 14)) \<rparr> \<rparr>)"

definition demo_events :: "date_api \<Rightarrow> int \<Rightarrow> DemoIds \<Rightarrow> SystemEvent list" where
  "demo_events D now i =
     (let ago = minutesAgo D now; sec = secondsAgo D now
      in [makeSystemEvent D now ''scheduler.failover''
            (no_patch\<lparr> ep_message := Some ''scheduler-b yielded leadership after lease renewal lag'',
                       ep_timestamp := Some (ago 16) \<rparr>),
          makeSystemEvent D now ''job.recovered_failed''
            (no_patch\<lparr> ep_jobId := Some (deadJobId i), ep_queue := Some ''critical'', ep_state := Some JS_failed,
                       ep_message := Some ''orphaned lease recovered and job moved to dead letter'',
                       ep_timestamp := Some (ago 12) \<rparr>),
          makeSystemEvent D now ''job.throttled''
            (no_patch\<lparr> ep_jobId := Some (throttledJobId i), ep_queue := Some ''critical'', ep_state := Some JS_throttled,
                       ep_message := Some ''tenant-a-rate temporarily saturated'',
                       ep_timestamp := Some (ago 1) \<rparr>),
          makeSystemEvent D now ''job.started''
            (no_patch\<lparr> ep_jobId := Some (activeJobId i), ep_queue := Some ''critical'', ep_state := Some JS_active,
                       ep_workerId := Some ''worker-c'', ep_message := Some ''lease claimed by worker-c'',
                       ep_timestamp := Some (sec 47) \<rparr>)])"

text \<open>A dependency node literal without the optional fields.\<close>

definition node_literal :: "string \<Rightarrow> string \<Rightarrow> JobState \<Rightarrow> string \<Rightarrow> DependencyNode" where
  "node_literal jobId type' st queue =
     \<lparr> node_jobId = jobId, node_type = type', node_state = st, node_queue = queue,
       node_parentJobId = None, node_workflowId = None, node_blockedReason = None,
       node_dependencyPolicy = None, node_dependsOn = None, node_dependents = None \<rparr>"

definition demo_attempt :: "rat \<Rightarrow> string \<Rightarrow> string \<Rightarrow> string \<Rightarrow> JobAttempt" where
  "demo_attempt n jobId status startedAt =
     \<lparr> att_id = n, att_jobId = jobId, att_attempt = 1, att_workerId = ''worker-a'', att_leaseToken = None,
       att_status = status, att_errorType = None, att_errorMessage = None, att_stackTrace = None,
       att_leaseExpired = False, att_startedAt = startedAt, att_finishedAt = None \<rparr>"

definition demo_dead_inspection :: "date_api \<Rightarrow> int \<Rightarrow> DemoIds \<Rightarrow> JobInspection" where
  "demo_dead_inspection D now i =
     (let ago = minutesAgo D now; k = deadJobId i; dl = hd (demo_dead_letters D now i)
      in \<lparr> insp_job = the (find_job (demo_jobs D now i) k),
           insp_attempts = nullish (dl_attempts dl) [],
           insp_events =
             [mk_job_event k ''job.enqueued'' ''job accepted into critical'' (ago 72),
              mk_job_event k ''job.started'' ''worker-b acquired lease-webhook-4'' (ago 30),
              mk_job_event k ''job.orphan_recovered'' ''scheduler reclaimed stale lease after heartbeat expiry'' (ago 27),
              mk_job_event k ''job.started'' ''worker-b replayed recovered job with lease-webhook-5'' (ago 16),
              mk_job_event k ''job.failed'' ''remote 500 after 3 lease recoveries'' (ago 12)],
           insp_graph = \<lparr> graph_rootJobId = k,
             graph_nodes = [node_literal k ''webhook.dispatch'' JS_failed ''critical''] \<rparr>,
           insp_idempotency = Some None,
           insp_deadLetter = Some (Some dl) \<rparr>)"

definition demo_thumb_inspection :: "date_api \<Rightarrow> int \<Rightarrow> DemoIds \<Rightarrow> JobInspection" where
  "demo_thumb_inspection D now i =
     (let ago = minutesAgo D now; sec = secondsAgo D now; k = thumbSmId i; wf = Some (workflowId i);
          root = Some (ingestId i)
      in \<lparr> insp_job = the (find_job (demo_jobs D now i) k),
           insp_attempts = [(demo_attempt 61 k ''active'' (ago 1))\<lparr> att_leaseToken := Some ''lease-thumb-sm'' \<rparr>],
           insp_events =
             [mk_job_event k ''job.enqueued'' ''fan-out branch released after file.ingest'' (ago 35),
              mk_job_event k ''job.started'' ''lease owned by worker-a'' (ago 1),
              mk_job_event k ''job.heartbeat'' ''lease renewal healthy'' (sec 4)],
           insp_graph = \<lparr> graph_rootJobId = ingestId i,
             graph_nodes =
               [(node_literal (ingestId i) ''file.ingest'' JS_completed ''default'')\<lparr> node_workflowId := wf \<rparr>,
                (node_literal k ''image.thumbnail'' JS_active ''default'')
                  \<lparr> node_workflowId := wf, node_parentJobId := root,
                    node_dependsOn := Some [ingestId i], node_dependents := Some [aggregateId i] \<rparr>,
                (node_literal (thumbMdId i) ''image.thumbnail'' JS_blocked ''default'')
                  \<lparr> node_workflowId := wf, node_parentJobId := root,
                    node_dependsOn := Some [ingestId i], node_dependents := Some [aggregateId i] \<rparr>,
                (node_literal (aggregateId i) ''metadata.aggregate'' JS_retrying ''critical'')
                  \<lparr> node_workflowId := wf, node_parentJobId := root,
                    node_dependsOn := Some [k, thumbMdId i], node_dependents := Some [] \<rparr>] \<rparr>,
           insp_idempotency = Some None, insp_deadLetter = Some None \<rparr>)"

definition demo_idempotent_inspection :: "date_api \<Rightarrow> int \<Rightarrow> DemoIds \<Rightarrow> JobInspection" where
  "demo_idempotent_inspection D now i =
     (let ago = minutesAgo D now; k = idempotentJobId i
      in \<lparr> insp_job = the (find_job (demo_jobs D now i) k),
           insp_attempts = [(demo_attempt 71 k ''completed'' (ago 18))\<lparr> att_finishedAt := Some (ago 17) \<rparr>],
           insp_events =
             [mk_job_event k ''job.enqueued'' ''job accepted into default'' (ago 19),
              mk_job_event k ''job.completed'' ''notification delivered'' (ago 17),
              mk_job_event k ''job.duplicate_suppressed''
                ''duplicate submission suppressed for invoice-ready:2026-03-12:42'' (ago 16)],
           insp_graph = \<lparr> graph_rootJobId = k,
             graph_nodes = [node_literal k ''email.send'' JS_completed ''default''] \<rparr>,
           insp_idempotency = Some (Some
             \<lparr> idem_scope = ''tenant-a:email.send:invoice-ready:2026-03-12:42'', idem_tenantId = ''tenant-a'',
               idem_jobType = ''email.send'', idem_idempotencyKey = ''invoice-ready:2026-03-12:42'',
               idem_jobId = k, idem_status = ''completed'', idem_outcome = Undefined,
               idem_firstSeenAt = ago 19, idem_updatedAt = ago 16, idem_expiresAt = ago (- 6) \<rparr>),
           insp_deadLetter = Some None \<rparr>)"

definition demo_data :: "date_api \<Rightarrow> int \<Rightarrow> (nat \<Rightarrow> string) \<Rightarrow> ConsoleData" where
  "demo_data D now ids =
     (let i = demo_ids ids
      in \<lparr> cd_snapshot = demo_snapshot D now ids,
           cd_jobs = demo_jobs D now i,
           cd_schedules = demo_schedules D now ids,
           cd_events = demo_events D now i,
           cd_workerStatuses = demo_worker_statuses D now,
           cd_inspections = obj_from_entries
             [(deadJobId i, demo_dead_inspection D now i),
              (thumbSmId i, demo_thumb_inspection D now i),
              (idempotentJobId i, demo_idempotent_inspection D now i)],
           cd_queueControls = [], cd_workerControls = [],
           cd_lastHydratedAt = iso_text D now, cd_source = Source_demo \<rparr>)"

definition createDemoConsoleData :: "date_api \<Rightarrow> int \<Rightarrow> (nat \<Rightarrow> string) \<Rightarrow> ConsoleData" where
  "createDemoConsoleData D now ids = reconcileConsoleData D now (demo_data D now ids)"

section \<open>Lemmas\<close>

lemmas demo_job_defs = demo_jobs_def demo_workflow_jobs_def demo_other_jobs_def job_literal_def Let_def

lemma demo_job_ids:
  "map job_id (demo_jobs D now (demo_ids ids)) = map ids [2, 3, 4, 5, 6, 7, 8, 9, 10, 11]"
  by (simp add: demo_job_defs demo_ids_def)

lemma demo_ids_distinct: "inj ids \<Longrightarrow> distinct (map job_id (demo_jobs D now (demo_ids ids)))"
  unfolding demo_job_ids by (simp add: inj_eq)

lemma demo_find:
  assumes "inj ids"
  shows "find_job (demo_jobs D now (demo_ids ids)) (ids 6) = Some (demo_jobs D now (demo_ids ids) ! 4)"
    and "find_job (demo_jobs D now (demo_ids ids)) (ids 3) = Some (demo_jobs D now (demo_ids ids) ! 1)"
    and "find_job (demo_jobs D now (demo_ids ids)) (ids 11) = Some (demo_jobs D now (demo_ids ids) ! 9)"
  using assms by (simp_all add: demo_job_defs demo_ids_def inj_eq)

text \<open>The clock reading leaves room for the offsets of the demo data (about one day).\<close>

definition demo_clock :: "int \<Rightarrow> bool" where
  "demo_clock now \<longleftrightarrow> \<bar>now\<bar> + 1330 * 60000 \<le> max_time"

lemma demo_time_parses:
  assumes "date_ok D" and "demo_clock now"
  shows "\<bar>m\<bar> \<le> 1330 \<Longrightarrow> date_parse D (minutesAgo D now m) = Some (now - m * 60000)"
    and "\<bar>m\<bar> \<le> 1330 \<Longrightarrow> date_parse D (minutesFromNow D now m) = Some (now + m * 60000)"
    and "\<bar>m\<bar> \<le> 1330 \<Longrightarrow> date_parse D (secondsAgo D now m) = Some (now - m * 1000)"
    and "date_parse D (iso_text D now) = Some now"
proof -
  have r: "valid_time (now + k)" if "\<bar>k\<bar> \<le> 1330 * 60000" for k
    using assms(2) that by (auto simp: demo_clock_def valid_time_def)
  show "\<bar>m\<bar> \<le> 1330 \<Longrightarrow> date_parse D (minutesAgo D now m) = Some (now - m * 60000)"
    using date_ok_roundtrip [OF assms(1) r [of "- m * 60000"]] by (auto simp: minutesAgo_def)
  show "\<bar>m\<bar> \<le> 1330 \<Longrightarrow> date_parse D (minutesFromNow D now m) = Some (now + m * 60000)"
    using date_ok_roundtrip [OF assms(1) r [of "m * 60000"]] by (auto simp: minutesFromNow_def)
  show "\<bar>m\<bar> \<le> 1330 \<Longrightarrow> date_parse D (secondsAgo D now m) = Some (now - m * 1000)"
    using date_ok_roundtrip [OF assms(1) r [of "- m * 1000"]] by (auto simp: secondsAgo_def)
  show "date_parse D (iso_text D now) = Some now"
    using date_ok_roundtrip [OF assms(1) r [of 0]] by simp
qed

lemma demo_data_valid:
  assumes "date_ok D" and "demo_clock now"
  shows "valid_data D (demo_data D now ids)"
proof -
  note t = demo_time_parses [OF assms]
  have "\<forall>j \<in> set (demo_jobs D now i). date_parse D (job_updatedAt j) \<noteq> None" for i
    by (simp add: demo_job_defs t)
  moreover have "\<forall>s \<in> set (demo_schedules D now ids). date_parse D (sched_nextRunAt s) \<noteq> None"
    by (simp add: demo_schedules_def Let_def t)
  moreover have "\<forall>e \<in> set (demo_events D now i). date_parse D (ev_timestamp e) \<noteq> None" for i
    by (simp add: demo_events_def makeSystemEvent_def no_patch_def Let_def t)
  moreover have "\<forall>d \<in> set (demo_dead_letters D now i). date_parse D (dl_failedAt d) \<noteq> None" for i
    by (simp add: demo_dead_letters_def Let_def t)
  ultimately show ?thesis
    by (simp add: demo_data_def valid_data_def demo_snapshot_def Let_def)
qed

lemma demo_valid:
  assumes "date_ok D" and "demo_clock now"
  shows "valid_data D (createDemoConsoleData D now ids)"
  unfolding createDemoConsoleData_def by (intro valid_reconcile demo_data_valid assms)

text \<open>The parent of three demo jobs is an id that is drawn for it and given to no job.\<close>

lemma demo_parents_dangle:
  assumes "inj ids"
  shows "\<exists>j \<in> set (demo_jobs D now (demo_ids ids)). job_parentJobId j = Some (ids 1)"
    and "ids 1 \<notin> job_id ` set (demo_jobs D now (demo_ids ids))"
proof -
  show "\<exists>j \<in> set (demo_jobs D now (demo_ids ids)). job_parentJobId j = Some (ids 1)"
    by (simp add: demo_job_defs demo_ids_def)
  have "ids 1 \<notin> set (map job_id (demo_jobs D now (demo_ids ids)))"
    unfolding demo_job_ids using assms by (simp add: inj_eq)
  then show "ids 1 \<notin> job_id ` set (demo_jobs D now (demo_ids ids))" by simp
qed

end
