(* ===== verification/Transport.thy ===== *)
theory Transport
  imports Safe StepSystem
begin

text \<open>
  \<open>src/src/lib/live-transport.ts\<close>: the class LiveTransportManager, the state machine that keeps
  a WebSocket, falls back to Server-Sent Events and then to polling, and probes for recovery.

  The object's fields are the record \<open>Manager\<close>. The browser's side is part of the state: the
  pending timers, and the sockets and event sources that are not closed, each with its
  readyState. Every callback of the source is a definition; \<open>step\<close> says which callbacks the
  browser may run in which state. \<open>h_out\<close> logs the calls of the three callbacks of the options.
\<close>

section \<open>State\<close>

datatype RealtimeMode = RM_websocket | RM_sse

definition WEBSOCKET_ATTEMPT_LIMIT :: nat where "WEBSOCKET_ATTEMPT_LIMIT = 3"

definition SSE_ATTEMPT_LIMIT :: nat where "SSE_ATTEMPT_LIMIT = 2"

definition REALTIME_PROBE_DELAY_MS :: rat where "REALTIME_PROBE_DELAY_MS = 90000"

text \<open>What a timer does when it fires: the closure of \<open>start\<close>/\<open>scheduleRetry\<close>, or of \<open>scheduleProbe\<close>.\<close>

datatype task = Retry_task RealtimeMode nat string | Probe_task string

record timer =
  tm_delay :: rat
  tm_task :: task

text \<open>
  A WebSocket that is connecting or open, or one that \<open>closeCurrent\<close> gave up while connecting:
  it stays until it opens (and is closed then) or fails. \<open>attempt\<close> is the value captured by its
  handlers.
\<close>

datatype sock_state = Sock_connecting | Sock_open | Sock_doomed

record sock =
  sk_state :: sock_state
  sk_attempt :: nat

record source =
  es_open :: bool
  es_attempt :: nat

datatype emission = Out_status TransportStatus | Out_event "jsval obj" | Out_malformed

record Manager =
  m_mode :: TransportMode
  m_state :: TransportConnectionState
  m_attempt :: nat
  m_lastMessageAt :: string
  m_lastFailureAt :: string
  m_lastError :: string
  m_degradedReason :: string
  m_nextRetryAt :: string
  m_stopped :: bool
  m_retryTimer :: "nat option"
  m_probeTimer :: "nat option"
  m_socket :: "nat option"
  m_eventSource :: "nat option"
  h_next :: nat
  h_timers :: "(nat \<times> timer) list"
  h_socks :: "(nat \<times> sock) list"
  h_sources :: "(nat \<times> source) list"
  h_out :: "emission list"

text \<open>
  What does not change: the options, the browser's support of EventSource, and its date library.
  What a callback reads: the clock, Math.random() and whether \<open>new WebSocket\<close> throws.
\<close>

record env =
  env_socketUrl :: "string option"
  env_streamUrl :: "string option"
  env_hasEventSource :: bool
  env_dates :: date_api

record reads =
  rd_now :: int
  rd_random :: rat
  rd_socketThrows :: bool

text \<open>The environment of a manager with the given options.\<close>

definition manager_env :: "'u url_api \<Rightarrow> string \<Rightarrow> string \<Rightarrow> bool \<Rightarrow> date_api \<Rightarrow> env" where
  "manager_env U baseUrl token hasEventSource D =
     \<lparr> env_socketUrl = buildSocketUrl U (Some baseUrl) token,
       env_streamUrl = buildStreamUrl U (Some baseUrl) (REALTIME_ROUTES RT_sse) (Some token) None,
       env_hasEventSource = hasEventSource, env_dates = D \<rparr>"

definition new_manager :: Manager where
  "new_manager =
     \<lparr> m_mode = TM_polling, m_state = TS_idle, m_attempt = 0, m_lastMessageAt = [], m_lastFailureAt = [],
       m_lastError = [], m_degradedReason = [], m_nextRetryAt = [], m_stopped = False,
       m_retryTimer = None, m_probeTimer = None, m_socket = None, m_eventSource = None,
       h_next = 0, h_timers = [], h_socks = [], h_sources = [], h_out = [] \<rparr>"

section \<open>Helpers\<close>

definition getBackoffDelay :: "rat \<Rightarrow> nat \<Rightarrow> rat \<Rightarrow> rat \<Rightarrow> rat" where
  "getBackoffDelay random attempt baseMs capMs =
     (let baseDelay = min (baseMs * 2 ^ (attempt - 1)) capMs;
          jitter = of_int (math_round (baseDelay * (3 / 10) * random))
      in min (baseDelay + jitter) capMs)"

fun formatTransportMode :: "TransportMode \<Rightarrow> string" where
  "formatTransportMode TM_websocket = ''Live (WebSocket)''"
| "formatTransportMode TM_sse = ''Live (SSE)''"
| "formatTransportMode TM_polling = ''Polling''"
| "formatTransportMode TM_degraded = ''Degraded''"
| "formatTransportMode TM_offline = ''Offline''"
| "formatTransportMode TM_demo = ''Demo''"

text \<open>
  The payload of a message: text, a buffer (given as its decoded text), or another value, of
  which \<open>String(payload)\<close> is parsed.
\<close>

datatype payload = Payload_text string | Payload_buffer string | Payload_other jsval

definition parseTransportEvent :: "payload \<Rightarrow> jsval obj option" where
  "parseTransportEvent p =
     (let raw = (case p of Payload_text s \<Rightarrow> s | Payload_buffer s \<Rightarrow> s | Payload_other v \<Rightarrow> js_String v)
      in case json_parse raw of
           Some (Obj kvs) \<Rightarrow> (case obj_get kvs ''kind'' of Some (Str k) \<Rightarrow> Some kvs | _ \<Rightarrow> None)
         | _ \<Rightarrow> None)"

definition emitStatus :: "Manager \<Rightarrow> Manager" where
  "emitStatus m = m\<lparr> h_out := h_out m @ [Out_status
     \<lparr> ts_mode = m_mode m, ts_state = m_state m, ts_attempt = m_attempt m,
       ts_lastMessageAt = m_lastMessageAt m, ts_lastFailureAt = m_lastFailureAt m,
       ts_lastError = m_lastError m, ts_degradedReason = m_degradedReason m,
       ts_nextRetryAt = m_nextRetryAt m \<rparr>] \<rparr>"

text \<open>\<open>window.setTimeout\<close> and \<open>window.clearTimeout\<close>\<close>

definition set_timeout :: "timer \<Rightarrow> Manager \<Rightarrow> Manager" where
  "set_timeout t m = m\<lparr> h_timers := (h_next m, t) # h_timers m, h_next := h_next m + 1 \<rparr>"

definition remove_id :: "nat \<Rightarrow> (nat \<times> 'a) list \<Rightarrow> (nat \<times> 'a) list" where
  "remove_id i xs = filter (\<lambda>(j, x). j \<noteq> i) xs"

definition clear_timeout :: "nat option \<Rightarrow> Manager \<Rightarrow> Manager" where
  "clear_timeout h m = (case h of None \<Rightarrow> m | Some i \<Rightarrow> m\<lparr> h_timers := remove_id i (h_timers m) \<rparr>)"

definition clearTimers :: "Manager \<Rightarrow> Manager" where
  "clearTimers m =
     (let m1 = (clear_timeout (m_retryTimer m) m)\<lparr> m_retryTimer := None \<rparr>
      in (clear_timeout (m_probeTimer m1) m1)\<lparr> m_probeTimer := None \<rparr>)"

text \<open>A connecting socket is closed when it opens, any other one at once.\<close>

definition close_socket :: "nat \<Rightarrow> (nat \<times> sock) list \<Rightarrow> (nat \<times> sock) list" where
  "close_socket i socks =
     (case map_of socks i of
        None \<Rightarrow> socks
      | Some s \<Rightarrow>
          if sk_state s = Sock_connecting
          then map (\<lambda>(j, t). if j = i then (j, t\<lparr> sk_state := Sock_doomed \<rparr>) else (j, t)) socks
          else remove_id i socks)"

definition closeCurrent :: "Manager \<Rightarrow> Manager" where
  "closeCurrent m =
     (let m1 = (case m_socket m of
                  None \<Rightarrow> m
                | Some i \<Rightarrow> m\<lparr> h_socks := close_socket i (h_socks m), m_socket := None \<rparr>)
      in case m_eventSource m1 of
           None \<Rightarrow> m1
         | Some i \<Rightarrow> m1\<lparr> h_sources := remove_id i (h_sources m1), m_eventSource := None \<rparr>)"

text \<open>\<open>new Date(Date.now() + delayMs).toISOString()\<close>, the clock being inside the range of dates.\<close>

definition retry_stamp :: "env \<Rightarrow> reads \<Rightarrow> rat \<Rightarrow> string" where
  "retry_stamp E r delayMs = iso_text (env_dates E) \<lfloor>of_int (rd_now r) + delayMs\<rfloor>"

definition now_stamp :: "env \<Rightarrow> reads \<Rightarrow> string" where
  "now_stamp E r = iso_text (env_dates E) (rd_now r)"

definition scheduleProbe :: "env \<Rightarrow> reads \<Rightarrow> string \<Rightarrow> rat \<Rightarrow> Manager \<Rightarrow> Manager" where
  "scheduleProbe E r taskReason delayMs m =
     (if m_stopped m then m
      else let m1 = emitStatus (m\<lparr> m_nextRetryAt := retry_stamp E r delayMs \<rparr>)
           in (set_timeout \<lparr> tm_delay = delayMs, tm_task = Probe_task taskReason \<rparr> m1)
                \<lparr> m_probeTimer := Some (h_next m1) \<rparr>)"

definition scheduleRetry :: "env \<Rightarrow> reads \<Rightarrow> RealtimeMode \<Rightarrow> nat \<Rightarrow> string \<Rightarrow> Manager \<Rightarrow> Manager" where
  "scheduleRetry E r mode attempt reason m =
     (let delayMs = getBackoffDelay (rd_random r) attempt
            (if mode = RM_websocket then 900 else 1500) (if mode = RM_websocket then 12000 else 20000);
          m1 = emitStatus (m\<lparr> m_lastFailureAt := now_stamp E r,
                 m_nextRetryAt := retry_stamp E r delayMs,
                 m_degradedReason := reason,
                 m_mode := (case mode of RM_websocket \<Rightarrow> TM_websocket | RM_sse \<Rightarrow> TM_sse),
                 m_state := TS_connecting, m_attempt := attempt \<rparr>)
      in (set_timeout \<lparr> tm_delay = delayMs, tm_task = Retry_task mode attempt reason \<rparr> m1)
           \<lparr> m_retryTimer := Some (h_next m1) \<rparr>)"

definition enterPolling :: "env \<Rightarrow> reads \<Rightarrow> string \<Rightarrow> Manager \<Rightarrow> Manager" where
  "enterPolling E r reason m =
     (let m1 = closeCurrent (clearTimers m);
          m2 = emitStatus (m1\<lparr> m_mode := TM_polling, m_state := TS_polling, m_attempt := 0,
                 m_degradedReason := reason, m_lastFailureAt := now_stamp E r, m_lastError := reason \<rparr>)
      in scheduleProbe E r ''Retrying realtime transport after polling fallback.'' REALTIME_PROBE_DELAY_MS m2)"

section \<open>Connecting\<close>

definition openEventSource :: "env \<Rightarrow> reads \<Rightarrow> nat \<Rightarrow> Manager \<Rightarrow> Manager" where
  "openEventSource E r attempt m =
     (if \<not> env_hasEventSource E then
        enterPolling E r ''Server-Sent Events are not supported in this browser.'' m
      else if \<not> truthy (env_streamUrl E) then enterPolling E r ''Invalid SSE URL.'' m
      else m\<lparr> h_sources := (h_next m, \<lparr> es_open = False, es_attempt = attempt \<rparr>) # h_sources m,
              m_eventSource := Some (h_next m), h_next := h_next m + 1 \<rparr>)"

text \<open>The part of \<open>connect\<close> before it opens the connection.\<close>

definition begin_connect :: "RealtimeMode \<Rightarrow> nat \<Rightarrow> string \<Rightarrow> Manager \<Rightarrow> Manager" where
  "begin_connect mode attempt reason m =
     (let m1 = closeCurrent (clearTimers m);
          m2 = m1\<lparr> m_mode := (case mode of RM_websocket \<Rightarrow> TM_websocket | RM_sse \<Rightarrow> TM_sse),
                   m_state := TS_connecting, m_attempt := attempt \<rparr>;
          m3 = (if reason \<noteq> [] then m2\<lparr> m_degradedReason := reason \<rparr> else m2)
      in emitStatus m3)"

definition connect_sse :: "env \<Rightarrow> reads \<Rightarrow> nat \<Rightarrow> string \<Rightarrow> Manager \<Rightarrow> Manager" where
  "connect_sse E r attempt reason m =
     (if m_stopped m then m else openEventSource E r attempt (begin_connect RM_sse attempt reason m))"

definition handleRealtimeFailure :: "env \<Rightarrow> reads \<Rightarrow> RealtimeMode \<Rightarrow> nat \<Rightarrow> string \<Rightarrow> Manager \<Rightarrow> Manager" where
  "handleRealtimeFailure E r mode attempt reason m =
     (if m_stopped m then m
      else let m1 = m\<lparr> m_lastFailureAt := now_stamp E r, m_lastError := reason \<rparr>
           in if mode = RM_websocket \<and> attempt + 1 < WEBSOCKET_ATTEMPT_LIMIT then
                scheduleRetry E r RM_websocket (attempt + 1) reason m1
              else if mode = RM_websocket then
                (if env_hasEventSource E \<and> truthy (env_streamUrl E) then
                   connect_sse E r 0 ''WebSocket upgrades failed. Falling back to SSE.'' m1
                 else enterPolling E r ''WebSocket upgrades failed and SSE is unavailable.'' m1)
              else if attempt + 1 < SSE_ATTEMPT_LIMIT then
                scheduleRetry E r RM_sse (attempt + 1) reason m1
              else enterPolling E r
                ''Realtime stream unavailable. Using polling until a later probe succeeds.'' m1)"

definition openWebSocket :: "env \<Rightarrow> reads \<Rightarrow> nat \<Rightarrow> Manager \<Rightarrow> Manager" where
  "openWebSocket E r attempt m =
     (if \<not> truthy (env_socketUrl E) then enterPolling E r ''Invalid WebSocket URL.'' m
      else if rd_socketThrows r then
        handleRealtimeFailure E r RM_websocket attempt ''WebSocket initialization failed.'' m
      else m\<lparr> h_socks := (h_next m, \<lparr> sk_state = Sock_connecting, sk_attempt = attempt \<rparr>) # h_socks m,
              m_socket := Some (h_next m), h_next := h_next m + 1 \<rparr>)"

definition connect :: "env \<Rightarrow> reads \<Rightarrow> RealtimeMode \<Rightarrow> nat \<Rightarrow> string \<Rightarrow> Manager \<Rightarrow> Manager" where
  "connect E r mode attempt reason m =
     (if m_stopped m then m
      else case mode of
        RM_websocket \<Rightarrow> openWebSocket E r attempt (begin_connect RM_websocket attempt reason m)
      | RM_sse \<Rightarrow> connect_sse E r attempt reason m)"

section \<open>The public methods\<close>

definition start :: "Manager \<Rightarrow> Manager" where
  "start m =
     (let m1 = clearTimers (m\<lparr> m_stopped := False \<rparr>)
      in (set_timeout \<lparr> tm_delay = 0, tm_task = Retry_task RM_websocket 0 [] \<rparr> m1)
           \<lparr> m_retryTimer := Some (h_next m1) \<rparr>)"

definition stop :: "TransportConnectionState \<Rightarrow> Manager \<Rightarrow> Manager" where
  "stop nextState m =
     (let m1 = closeCurrent (clearTimers (m\<lparr> m_stopped := True \<rparr>))
      in emitStatus (m1\<lparr> m_state := nextState, m_attempt := 0, m_nextRetryAt := [] \<rparr>))"

definition retryNow :: "env \<Rightarrow> reads \<Rightarrow> Manager \<Rightarrow> Manager" where
  "retryNow E r m =
     (if m_stopped m then m
      else connect E r RM_websocket 0 ''Manual reconnect requested.''
             ((clearTimers m)\<lparr> m_degradedReason := [], m_lastError := [], m_nextRetryAt := [] \<rparr>))"

section \<open>Callbacks\<close>

definition fire_timer :: "env \<Rightarrow> reads \<Rightarrow> nat \<Rightarrow> task \<Rightarrow> Manager \<Rightarrow> Manager" where
  "fire_timer E r i t m =
     (let m1 = m\<lparr> h_timers := remove_id i (h_timers m) \<rparr>
      in case t of
           Retry_task mode attempt reason \<Rightarrow> connect E r mode attempt reason (m1\<lparr> m_retryTimer := None \<rparr>)
         | Probe_task reason \<Rightarrow>
             connect E r RM_websocket 0 reason (m1\<lparr> m_probeTimer := None, m_nextRetryAt := [] \<rparr>))"

text \<open>The fields that both \<open>onopen\<close> handlers set.\<close>

definition go_live :: "TransportMode \<Rightarrow> Manager \<Rightarrow> Manager" where
  "go_live mode m = emitStatus (m\<lparr> m_mode := mode, m_state := TS_live, m_attempt := 0,
     m_degradedReason := [], m_lastError := [], m_nextRetryAt := [] \<rparr>)"

definition socket_onopen :: "nat \<Rightarrow> Manager \<Rightarrow> Manager" where
  "socket_onopen i m = (if m_socket m \<noteq> Some i \<or> m_stopped m then m else go_live TM_websocket m)"

text \<open>The body that both \<open>onmessage\<close> handlers share after their guards.\<close>

definition deliver :: "env \<Rightarrow> reads \<Rightarrow> payload \<Rightarrow> Manager \<Rightarrow> Manager" where
  "deliver E r p m =
     (case parseTransportEvent p of
        None \<Rightarrow> m\<lparr> h_out := h_out m @ [Out_malformed] \<rparr>
      | Some event \<Rightarrow>
          emitStatus (m\<lparr> m_lastMessageAt := now_stamp E r, h_out := h_out m @ [Out_event event] \<rparr>))"

definition socket_onmessage :: "env \<Rightarrow> reads \<Rightarrow> nat \<Rightarrow> payload \<Rightarrow> Manager \<Rightarrow> Manager" where
  "socket_onmessage E r i p m = (if m_socket m \<noteq> Some i \<or> m_stopped m then m else deliver E r p m)"

definition socket_onerror :: "nat \<Rightarrow> Manager \<Rightarrow> Manager" where
  "socket_onerror i m =
     (if m_socket m \<noteq> Some i \<or> m_stopped m then m
      else emitStatus (m\<lparr> m_lastError := ''WebSocket transport error.'' \<rparr>))"

text \<open>\<open>opened\<close> is the handler's variable: whether \<open>onopen\<close> ran on this socket.\<close>

definition socket_onclose ::
    "env \<Rightarrow> reads \<Rightarrow> nat \<Rightarrow> bool \<Rightarrow> nat \<Rightarrow> string \<Rightarrow> nat \<Rightarrow> Manager \<Rightarrow> Manager" where
  "socket_onclose E r i opened attempt eventReason code m =
     (if m_socket m \<noteq> Some i \<or> m_stopped m then m
      else let reason = or_str (safeTrimStr eventReason)
                 (''WebSocket closed ('' @ (if code = 0 then ''unknown'' else number_to_string (of_nat code)) @ '').'')
           in handleRealtimeFailure E r RM_websocket attempt
                (if opened then reason else ''WebSocket upgrade failed: '' @ reason)
                (m\<lparr> m_socket := None \<rparr>))"

definition source_onopen :: "env \<Rightarrow> reads \<Rightarrow> nat \<Rightarrow> Manager \<Rightarrow> Manager" where
  "source_onopen E r i m =
     (if m_eventSource m \<noteq> Some i \<or> m_stopped m then m
      else scheduleProbe E r ''Probing WebSocket recovery after SSE fallback.'' REALTIME_PROBE_DELAY_MS
             (go_live TM_sse m))"

definition source_onmessage :: "env \<Rightarrow> reads \<Rightarrow> nat \<Rightarrow> payload \<Rightarrow> Manager \<Rightarrow> Manager" where
  "source_onmessage E r i p m = (if m_eventSource m \<noteq> Some i \<or> m_stopped m then m else deliver E r p m)"

definition source_onerror :: "env \<Rightarrow> reads \<Rightarrow> nat \<Rightarrow> nat \<Rightarrow> Manager \<Rightarrow> Manager" where
  "source_onerror E r i attempt m =
     (if m_eventSource m \<noteq> Some i \<or> m_stopped m then m
      else handleRealtimeFailure E r RM_sse attempt ''SSE stream disconnected.''
             (m\<lparr> h_sources := remove_id i (h_sources m), m_eventSource := None \<rparr>))"


section \<open>The steps of the system\<close>

text \<open>
  One rule per thing that can happen: a call of a public method, a timer firing, an event of a
  socket or source that is not closed. \<open>r\<close> is what the callback reads. A given-up socket can
  only disappear (it opens and is closed, or it fails): its handlers are gone. \<open>start\<close> is called
  as the client does (useDashboardLiveData.ts:632-652): on a manager in its idle state.
\<close>

definition set_sock :: "nat \<Rightarrow> sock_state \<Rightarrow> Manager \<Rightarrow> Manager" where
  "set_sock i st m = m\<lparr> h_socks := map (\<lambda>(j, t). if j = i then (j, t\<lparr> sk_state := st \<rparr>) else (j, t)) (h_socks m) \<rparr>"

definition set_source_open :: "nat \<Rightarrow> Manager \<Rightarrow> Manager" where
  "set_source_open i m =
     m\<lparr> h_sources := map (\<lambda>(j, t). if j = i then (j, t\<lparr> es_open := True \<rparr>) else (j, t)) (h_sources m) \<rparr>"

text \<open>The manager waits for nothing.\<close>

definition idle :: "Manager \<Rightarrow> bool" where
  "idle m \<longleftrightarrow> m_retryTimer m = None \<and> m_probeTimer m = None \<and> m_socket m = None \<and> m_eventSource m = None"

inductive step :: "env \<Rightarrow> Manager \<Rightarrow> Manager \<Rightarrow> bool" for E where
  step_start: "idle m \<Longrightarrow> m_state m = TS_idle \<Longrightarrow> step E m (start m)"
| step_stop: "step E m (stop nextState m)"
| step_retryNow: "step E m (retryNow E r m)"
| step_timer: "map_of (h_timers m) i = Some t \<Longrightarrow> step E m (fire_timer E r i (tm_task t) m)"
| step_socket_open:
    "map_of (h_socks m) i = Some s \<Longrightarrow> sk_state s = Sock_connecting \<Longrightarrow>
     step E m (socket_onopen i (set_sock i Sock_open m))"
| step_socket_gone:
    "map_of (h_socks m) i = Some s \<Longrightarrow> sk_state s = Sock_doomed \<Longrightarrow>
     step E m (m\<lparr> h_socks := remove_id i (h_socks m) \<rparr>)"
| step_socket_message:
    "map_of (h_socks m) i = Some s \<Longrightarrow> sk_state s = Sock_open \<Longrightarrow>
     step E m (socket_onmessage E r i p m)"
| step_socket_error:
    "map_of (h_socks m) i = Some s \<Longrightarrow> step E m (socket_onerror i m)"
| step_socket_close:
    "map_of (h_socks m) i = Some s \<Longrightarrow> sk_state s \<noteq> Sock_doomed \<Longrightarrow>
     step E m (socket_onclose E r i (sk_state s = Sock_open) (sk_attempt s) reason code
                 (m\<lparr> h_socks := remove_id i (h_socks m) \<rparr>))"
| step_source_open:
    "map_of (h_sources m) i = Some s \<Longrightarrow> \<not> es_open s \<Longrightarrow>
     step E m (source_onopen E r i (set_source_open i m))"
| step_source_message:
    "map_of (h_sources m) i = Some s \<Longrightarrow> es_open s \<Longrightarrow> step E m (source_onmessage E r i p m)"
| step_source_error:
    "map_of (h_sources m) i = Some s \<Longrightarrow> step E m (source_onerror E r i (es_attempt s) m)"

section \<open>Lemmas on the helpers\<close>

lemma map_of_remove_id: "map_of (remove_id i xs) = (map_of xs)(i := None)"
  by (induction xs) (auto simp: remove_id_def fun_eq_iff)

lemma map_of_update:
  "map_of (map (\<lambda>(j, t). if j = i then (j, f t) else (j, t)) xs) =
   (\<lambda>j. if j = i then map_option f (map_of xs i) else map_of xs j)"
  by (induction xs) (auto simp: fun_eq_iff)

lemma emit_fields [simp]:
  "m_mode (emitStatus m) = m_mode m" "m_state (emitStatus m) = m_state m"
  "m_attempt (emitStatus m) = m_attempt m" "m_stopped (emitStatus m) = m_stopped m"
  "m_retryTimer (emitStatus m) = m_retryTimer m" "m_probeTimer (emitStatus m) = m_probeTimer m"
  "m_socket (emitStatus m) = m_socket m" "m_eventSource (emitStatus m) = m_eventSource m"
  "h_next (emitStatus m) = h_next m" "h_timers (emitStatus m) = h_timers m"
  "h_socks (emitStatus m) = h_socks m" "h_sources (emitStatus m) = h_sources m"
  by (simp_all add: emitStatus_def)

lemma timeout_fields [simp]:
  "m_mode (set_timeout t m) = m_mode m" "m_state (set_timeout t m) = m_state m"
  "m_attempt (set_timeout t m) = m_attempt m" "m_stopped (set_timeout t m) = m_stopped m"
  "m_retryTimer (set_timeout t m) = m_retryTimer m" "m_probeTimer (set_timeout t m) = m_probeTimer m"
  "m_socket (set_timeout t m) = m_socket m" "m_eventSource (set_timeout t m) = m_eventSource m"
  "h_next (set_timeout t m) = Suc (h_next m)" "h_timers (set_timeout t m) = (h_next m, t) # h_timers m"
  "h_socks (set_timeout t m) = h_socks m" "h_sources (set_timeout t m) = h_sources m"
  by (simp_all add: set_timeout_def)

text \<open>The structural invariant: what the object's fields say about the browser's side.\<close>

definition retry_task_ok :: "timer \<Rightarrow> bool" where
  "retry_task_ok t \<longleftrightarrow> 
     (case tm_task t of
        Retry_task RM_websocket n reason \<Rightarrow> n < WEBSOCKET_ATTEMPT_LIMIT
      | Retry_task RM_sse n reason \<Rightarrow> n < SSE_ATTEMPT_LIMIT
      | Probe_task reason \<Rightarrow> False)"

definition probe_task_ok :: "timer \<Rightarrow> bool" where
  "probe_task_ok t \<longleftrightarrow> tm_delay t = REALTIME_PROBE_DELAY_MS \<and>
     (case tm_task t of Probe_task reason \<Rightarrow> True | _ \<Rightarrow> False)"

abbreviation timers_of :: "Manager \<Rightarrow> nat \<rightharpoonup> timer" where "timers_of m \<equiv> map_of (h_timers m)"
abbreviation socks_of :: "Manager \<Rightarrow> nat \<rightharpoonup> sock" where "socks_of m \<equiv> map_of (h_socks m)"
abbreviation sources_of :: "Manager \<Rightarrow> nat \<rightharpoonup> source" where "sources_of m \<equiv> map_of (h_sources m)"

definition ids_fresh :: "Manager \<Rightarrow> bool" where
  "ids_fresh m \<longleftrightarrow> (\<forall>i. h_next m \<le> i \<longrightarrow> timers_of m i = None \<and> socks_of m i = None \<and> sources_of m i = None)"

definition timers_ok :: "Manager \<Rightarrow> bool" where
  "timers_ok m \<longleftrightarrow>
     dom (timers_of m) = set_option (m_retryTimer m) \<union> set_option (m_probeTimer m) \<and>
     (\<forall>i. m_retryTimer m = Some i \<longrightarrow> (\<exists>t. timers_of m i = Some t \<and> retry_task_ok t)) \<and>
     (\<forall>i. m_probeTimer m = Some i \<longrightarrow> (\<exists>t. timers_of m i = Some t \<and> probe_task_ok t))"

definition connections_ok :: "Manager \<Rightarrow> bool" where
  "connections_ok m \<longleftrightarrow>
     (\<forall>i s. socks_of m i = Some s \<longrightarrow>
        (sk_state s = Sock_doomed \<longleftrightarrow> m_socket m \<noteq> Some i) \<and> sk_attempt s < WEBSOCKET_ATTEMPT_LIMIT) \<and>
     (\<forall>i. m_socket m = Some i \<longrightarrow> i \<in> dom (socks_of m)) \<and>
     dom (sources_of m) = set_option (m_eventSource m) \<and>
     (\<forall>i s. sources_of m i = Some s \<longrightarrow> es_attempt s < SSE_ATTEMPT_LIMIT \<and> (es_open s \<or> m_probeTimer m = None)) \<and>
     (m_socket m = None \<or> m_eventSource m = None) \<and>
     (m_socket m \<noteq> None \<or> m_eventSource m \<noteq> None \<longrightarrow> m_retryTimer m = None)"

definition base :: "Manager \<Rightarrow> bool" where
  "base m \<longleftrightarrow> ids_fresh m \<and> timers_ok m \<and> connections_ok m \<and> (m_stopped m \<longrightarrow> idle m)"

text \<open>The status tells the truth, and a manager that left the idle state has something to wait for.\<close>

definition truthful :: "Manager \<Rightarrow> bool" where
  "truthful m \<longleftrightarrow>
     (m_state m = TS_live \<longrightarrow>
        (\<exists>i s. m_socket m = Some i \<and> socks_of m i = Some s \<and> sk_state s = Sock_open \<and> m_mode m = TM_websocket) \<or>
        (\<exists>i s. m_eventSource m = Some i \<and> sources_of m i = Some s \<and> es_open s \<and> m_mode m = TM_sse \<and>
               m_probeTimer m \<noteq> None)) \<and>
     (m_state m = TS_polling \<longrightarrow> m_mode m = TM_polling \<and> m_probeTimer m \<noteq> None) \<and>
     (m_state m = TS_connecting \<longrightarrow> m_retryTimer m \<noteq> None \<or> m_socket m \<noteq> None \<or> m_eventSource m \<noteq> None) \<and>
     m_state m \<in> {TS_idle, TS_live, TS_polling, TS_connecting}"

definition manager_inv :: "Manager \<Rightarrow> bool" where
  "manager_inv m \<longleftrightarrow> base m \<and> (m_stopped m \<or> truthful m)"


lemma baseD:
  assumes "base m"
  shows "ids_fresh m" "timers_ok m" "connections_ok m" "m_stopped m \<Longrightarrow> idle m"
  using assms by (auto simp: base_def)

text \<open>The invariant speaks of these fields only.\<close>

lemma base_cong:
  assumes "m_stopped m' = m_stopped m" "m_retryTimer m' = m_retryTimer m" "m_probeTimer m' = m_probeTimer m"
    "m_socket m' = m_socket m" "m_eventSource m' = m_eventSource m" "h_next m' = h_next m"
    "h_timers m' = h_timers m" "h_socks m' = h_socks m" "h_sources m' = h_sources m"
  shows "base m' = base m"
  using assms by (simp add: base_def ids_fresh_def timers_ok_def connections_ok_def idle_def)

lemma base_emit [simp]: "base (emitStatus m) = base m"
  by (rule base_cong) simp_all

lemma idle_emit [simp]: "idle (emitStatus m) = idle m"
  by (simp add: idle_def)

lemma truthful_emit [simp]: "truthful (emitStatus m) = truthful m"
  by (simp add: truthful_def)

lemma clear_timers_fields [simp]:
  "m_mode (clearTimers m) = m_mode m" "m_state (clearTimers m) = m_state m"
  "m_stopped (clearTimers m) = m_stopped m" "m_retryTimer (clearTimers m) = None"
  "m_probeTimer (clearTimers m) = None" "m_socket (clearTimers m) = m_socket m"
  "m_eventSource (clearTimers m) = m_eventSource m" "h_next (clearTimers m) = h_next m"
  "h_socks (clearTimers m) = h_socks m" "h_sources (clearTimers m) = h_sources m"
  by (simp_all add: clearTimers_def clear_timeout_def Let_def split: option.split)

lemma timers_of_clear:
  "timers_of (clearTimers m) i =
     (if m_retryTimer m = Some i \<or> m_probeTimer m = Some i then None else timers_of m i)"
  by (auto simp: clearTimers_def clear_timeout_def Let_def map_of_remove_id split: option.split)

lemma clear_timers_empty: "timers_ok m \<Longrightarrow> timers_of (clearTimers m) = Map.empty"
  by (auto simp: timers_of_clear timers_ok_def fun_eq_iff domIff)

lemma close_fields [simp]:
  "m_mode (closeCurrent m) = m_mode m" "m_state (closeCurrent m) = m_state m"
  "m_stopped (closeCurrent m) = m_stopped m" "m_retryTimer (closeCurrent m) = m_retryTimer m"
  "m_probeTimer (closeCurrent m) = m_probeTimer m" "m_socket (closeCurrent m) = None"
  "m_eventSource (closeCurrent m) = None" "h_next (closeCurrent m) = h_next m"
  "h_timers (closeCurrent m) = h_timers m"
  by (simp_all add: closeCurrent_def Let_def split: option.split)

lemma close_socket_map:
  "map_of (close_socket i socks) =
     (case map_of socks i of
        None \<Rightarrow> map_of socks
      | Some s \<Rightarrow> (map_of socks)(i := if sk_state s = Sock_connecting then Some (s\<lparr> sk_state := Sock_doomed \<rparr>) else None))"
  by (auto simp: close_socket_def map_of_update map_of_remove_id fun_eq_iff split: option.split)

lemma socks_of_close:
  "socks_of (closeCurrent m) =
     (case m_socket m of None \<Rightarrow> socks_of m | Some i \<Rightarrow> map_of (close_socket i (h_socks m)))"
  by (simp add: closeCurrent_def Let_def split: option.split)

lemma sources_of_close:
  "sources_of (closeCurrent m) =
     (case m_eventSource m of None \<Rightarrow> sources_of m | Some i \<Rightarrow> (sources_of m)(i := None))"
  by (auto simp: closeCurrent_def Let_def map_of_remove_id split: option.split)

lemma doomed_after_close:
  assumes "connections_ok m" and "socks_of (closeCurrent m) i = Some s"
  shows "sk_state s = Sock_doomed \<and> sk_attempt s < WEBSOCKET_ATTEMPT_LIMIT \<and> i \<in> dom (socks_of m)"
proof (cases "m_socket m = Some i")
  case True
  then obtain s' where s': "socks_of m i = Some s'" using assms(1) by (auto simp: connections_ok_def)
  with assms True show ?thesis
    by (auto simp: socks_of_close close_socket_map connections_ok_def split: if_splits)
next
  case False
  then have "socks_of m i = Some s"
    using assms(2) by (auto simp: socks_of_close close_socket_map split: option.splits if_splits)
  with assms(1) False show ?thesis by (auto simp: connections_ok_def)
qed

lemma base_clear_parts:
  assumes b: "ids_fresh m" "timers_ok m" "connections_ok m"
  shows "base (closeCurrent (clearTimers m))" and "idle (closeCurrent (clearTimers m))"
    and "timers_of (closeCurrent (clearTimers m)) = Map.empty"
proof -
  let ?m = "closeCurrent (clearTimers m)"
  have co: "connections_ok (clearTimers m)" using b(3) by (simp add: connections_ok_def)
  show t: "timers_of ?m = Map.empty" using clear_timers_empty [OF b(2)] by simp
  show i: "idle ?m" by (simp add: idle_def)
  have src: "sources_of ?m = Map.empty"
    using b(3) by (auto simp: sources_of_close connections_ok_def fun_eq_iff split: option.split)
  have "ids_fresh ?m"
    using b(1) doomed_after_close [OF co] t src
    by (auto simp: ids_fresh_def domIff) (metis domIff not_None_eq clear_timers_fields(9))
  moreover have "timers_ok ?m" using t by (simp add: timers_ok_def)
  moreover have "connections_ok ?m"
    using doomed_after_close [OF co] src by (auto simp: connections_ok_def)
  ultimately show "base ?m" using i by (simp add: base_def)
qed


section \<open>Every operation keeps the invariant\<close>

lemma base_clear:
  assumes "base m"
  shows "base (closeCurrent (clearTimers m))" and "idle (closeCurrent (clearTimers m))"
    and "timers_of (closeCurrent (clearTimers m)) = Map.empty"
  using base_clear_parts [OF baseD(1,2,3) [OF assms]] by simp_all

lemma base_update:
  assumes "base m"
  shows "base (m\<lparr> m_mode := a, m_state := b, m_attempt := c \<rparr>)"
    and "base (m\<lparr> m_degradedReason := d1 \<rparr>)"
    and "base (m\<lparr> m_lastFailureAt := d2, m_lastError := d3 \<rparr>)"
  by (subst base_cong [of _ m]; simp add: assms)+

lemma begin_connect_fields [simp]:
  "m_state (begin_connect mode n reason m) = TS_connecting"
  "m_stopped (begin_connect mode n reason m) = m_stopped m"
  by (simp_all add: begin_connect_def Let_def)

lemma begin_connect_base:
  assumes "base m"
  shows "base (begin_connect mode n reason m)" and "idle (begin_connect mode n reason m)"
proof -
  let ?c = "closeCurrent (clearTimers m)"
  have "base (begin_connect mode n reason m) = base ?c"
    by (rule base_cong) (simp_all add: begin_connect_def Let_def)
  then show "base (begin_connect mode n reason m)" using base_clear(1) [OF assms] by simp
  show "idle (begin_connect mode n reason m)" by (simp add: begin_connect_def Let_def idle_def)
qed

text \<open>Setting a timer on a manager that holds none in that slot.\<close>

lemma base_set_retry:
  assumes "base m" and "\<not> m_stopped m" and "m_retryTimer m = None" and "m_socket m = None"
    and "m_eventSource m = None" and "retry_task_ok t"
  shows "base ((set_timeout t m)\<lparr> m_retryTimer := Some (h_next m) \<rparr>)"
proof -
  note b = baseD [OF assms(1)]
  have "h_next m \<notin> dom (timers_of m)" using b(1) by (simp add: ids_fresh_def domIff)
  then have p: "m_probeTimer m \<noteq> Some (h_next m)" using b(2) by (auto simp: timers_ok_def)
  show ?thesis
    using assms b p
    by (auto simp: base_def ids_fresh_def timers_ok_def connections_ok_def idle_def)
qed

lemma base_set_probe:
  assumes "base m" and "\<not> m_stopped m" and "m_probeTimer m = None" and "probe_task_ok t"
    and "\<forall>i s. sources_of m i = Some s \<longrightarrow> es_open s"
  shows "base ((set_timeout t m)\<lparr> m_probeTimer := Some (h_next m) \<rparr>)"
proof -
  note b = baseD [OF assms(1)]
  have "h_next m \<notin> dom (timers_of m)" using b(1) by (simp add: ids_fresh_def domIff)
  then have p: "m_retryTimer m \<noteq> Some (h_next m)" using b(2) by (auto simp: timers_ok_def)
  show ?thesis
    using assms b p
    by (auto simp: base_def ids_fresh_def timers_ok_def connections_ok_def idle_def)
qed

lemma schedule_probe_fields [simp]:
  "m_mode (scheduleProbe E r a d m) = m_mode m" "m_state (scheduleProbe E r a d m) = m_state m"
  "m_stopped (scheduleProbe E r a d m) = m_stopped m"
  "m_socket (scheduleProbe E r a d m) = m_socket m"
  "m_eventSource (scheduleProbe E r a d m) = m_eventSource m"
  "h_socks (scheduleProbe E r a d m) = h_socks m" "h_sources (scheduleProbe E r a d m) = h_sources m"
  "m_retryTimer (scheduleProbe E r a d m) = m_retryTimer m"
  "\<not> m_stopped m \<Longrightarrow> m_probeTimer (scheduleProbe E r a d m) = Some (h_next m)"
  by (simp_all add: scheduleProbe_def Let_def)

lemma base_scheduleProbe:
  assumes "base m" and "m_probeTimer m = None" and "\<forall>i s. sources_of m i = Some s \<longrightarrow> es_open s"
  shows "base (scheduleProbe E r reason REALTIME_PROBE_DELAY_MS m)"
proof (cases "m_stopped m")
  case False
  let ?m = "emitStatus (m\<lparr> m_nextRetryAt := retry_stamp E r REALTIME_PROBE_DELAY_MS \<rparr>)"
  have "base ?m" by (simp, subst base_cong [of _ m]) (simp_all add: assms)
  from base_set_probe [OF this] assms(2,3) False show ?thesis
    by (simp add: scheduleProbe_def Let_def probe_task_ok_def)
qed (simp add: scheduleProbe_def assms)

lemma enterPolling_inv:
  assumes "base m" and "\<not> m_stopped m"
  shows "manager_inv (enterPolling E r reason m)"
proof -
  let ?m = "emitStatus ((closeCurrent (clearTimers m))\<lparr> m_mode := TM_polling, m_state := TS_polling,
    m_attempt := 0, m_degradedReason := reason, m_lastFailureAt := now_stamp E r, m_lastError := reason \<rparr>)"
  have "base ?m" by (simp, subst base_cong [of _ "closeCurrent (clearTimers m)"]) (simp_all add: base_clear assms)
  then have "base (enterPolling E r reason m)"
    unfolding enterPolling_def Let_def using baseD(3) [OF \<open>base ?m\<close>]
    by (intro base_scheduleProbe) (auto simp: connections_ok_def)
  moreover have "truthful (enterPolling E r reason m)"
    using assms(2) by (simp add: truthful_def enterPolling_def Let_def)
  ultimately show ?thesis by (simp add: manager_inv_def)
qed

lemma scheduleRetry_inv:
  assumes "base m" and "\<not> m_stopped m" and "m_retryTimer m = None" and "m_socket m = None"
    and "m_eventSource m = None"
    and "n < (case mode of RM_websocket \<Rightarrow> WEBSOCKET_ATTEMPT_LIMIT | RM_sse \<Rightarrow> SSE_ATTEMPT_LIMIT)"
  shows "manager_inv (scheduleRetry E r mode n reason m)"
proof -
  let ?d = "getBackoffDelay (rd_random r) n (if mode = RM_websocket then 900 else 1500)
    (if mode = RM_websocket then 12000 else 20000)"
  let ?m = "emitStatus (m\<lparr> m_lastFailureAt := now_stamp E r, m_nextRetryAt := retry_stamp E r ?d,
    m_degradedReason := reason, m_mode := (case mode of RM_websocket \<Rightarrow> TM_websocket | RM_sse \<Rightarrow> TM_sse),
    m_state := TS_connecting, m_attempt := n \<rparr>)"
  let ?t = "\<lparr> tm_delay = ?d, tm_task = Retry_task mode n reason \<rparr>"
  have eq: "scheduleRetry E r mode n reason m = (set_timeout ?t ?m)\<lparr> m_retryTimer := Some (h_next ?m) \<rparr>"
    by (simp add: scheduleRetry_def Let_def)
  have "base ?m = base m" by (rule base_cong) simp_all
  then have "base ?m" using assms(1) by simp
  moreover have "retry_task_ok ?t"
    using assms(6) by (cases mode) (simp_all add: retry_task_ok_def)
  ultimately have "base (scheduleRetry E r mode n reason m)"
    unfolding eq using assms(2-5) by (intro base_set_retry) simp_all
  moreover have "truthful (scheduleRetry E r mode n reason m)"
    unfolding eq by (simp add: truthful_def)
  ultimately show ?thesis by (simp add: manager_inv_def)
qed

lemma openEventSource_inv:
  assumes "base m" and "idle m" and "\<not> m_stopped m" and "m_state m = TS_connecting" and "n < SSE_ATTEMPT_LIMIT"
  shows "manager_inv (openEventSource E r n m)"
proof (cases "env_hasEventSource E \<and> truthy (env_streamUrl E)")
  case True
  note b = baseD [OF assms(1)]
  have src: "sources_of m = Map.empty"
    using b(3) assms(2) by (auto simp: connections_ok_def idle_def)
  let ?m = "m\<lparr> h_sources := (h_next m, \<lparr> es_open = False, es_attempt = n \<rparr>) # h_sources m,
    m_eventSource := Some (h_next m), h_next := h_next m + 1 \<rparr>"
  have "base ?m"
    using assms b src
    by (auto simp: base_def ids_fresh_def timers_ok_def connections_ok_def idle_def)
  moreover have "truthful ?m" using assms(4) by (simp add: truthful_def)
  ultimately show ?thesis using True by (simp add: openEventSource_def manager_inv_def)
qed (auto simp: openEventSource_def enterPolling_inv assms)

lemma connect_sse_inv:
  assumes "base m" and "n < SSE_ATTEMPT_LIMIT"
  shows "manager_inv (connect_sse E r n reason m)"
proof (cases "m_stopped m")
  case False
  with assms show ?thesis
    by (simp add: connect_sse_def openEventSource_inv begin_connect_base)
qed (simp add: connect_sse_def manager_inv_def assms)

lemma handleRealtimeFailure_inv:
  assumes "base m" and "m_retryTimer m = None" and "m_socket m = None" and "m_eventSource m = None"
  shows "manager_inv (handleRealtimeFailure E r mode n reason m)"
proof (cases "m_stopped m")
  case False
  let ?m = "m\<lparr> m_lastFailureAt := now_stamp E r, m_lastError := reason \<rparr>"
  have m: "base ?m" "\<not> m_stopped ?m" "m_retryTimer ?m = None" "m_socket ?m = None" "m_eventSource ?m = None"
    using assms False by (simp_all add: base_update)
  show ?thesis
    using m False
    by (cases mode)
       (auto simp: handleRealtimeFailure_def Let_def SSE_ATTEMPT_LIMIT_def
         intro!: scheduleRetry_inv connect_sse_inv enterPolling_inv)
qed (simp add: handleRealtimeFailure_def manager_inv_def assms)

lemma openWebSocket_inv:
  assumes "base m" and "idle m" and "\<not> m_stopped m" and "m_state m = TS_connecting"
    and "n < WEBSOCKET_ATTEMPT_LIMIT"
  shows "manager_inv (openWebSocket E r n m)"
proof (cases "truthy (env_socketUrl E) \<and> \<not> rd_socketThrows r")
  case True
  note b = baseD [OF assms(1)]
  let ?m = "m\<lparr> h_socks := (h_next m, \<lparr> sk_state = Sock_connecting, sk_attempt = n \<rparr>) # h_socks m,
    m_socket := Some (h_next m), h_next := h_next m + 1 \<rparr>"
  have "base ?m"
    using assms b
    by (auto simp: base_def ids_fresh_def timers_ok_def connections_ok_def idle_def)
  moreover have "truthful ?m" using assms(4) by (simp add: truthful_def)
  ultimately show ?thesis using True by (simp add: openWebSocket_def manager_inv_def)
next
  case False
  with assms show ?thesis
    by (auto simp: openWebSocket_def idle_def intro!: enterPolling_inv handleRealtimeFailure_inv)
qed

lemma connect_inv:
  assumes "base m"
    and "n < (case mode of RM_websocket \<Rightarrow> WEBSOCKET_ATTEMPT_LIMIT | RM_sse \<Rightarrow> SSE_ATTEMPT_LIMIT)"
  shows "manager_inv (connect E r mode n reason m)"
proof (cases "m_stopped m")
  case False
  with assms show ?thesis
    by (cases mode) (simp_all add: connect_def connect_sse_inv openWebSocket_inv begin_connect_base)
qed (simp add: connect_def manager_inv_def assms)


lemma retry_not_probe: "retry_task_ok t \<Longrightarrow> \<not> probe_task_ok t"
  by (auto simp: retry_task_ok_def probe_task_ok_def split: task.splits)

lemma base_remove_timer:
  assumes "base m"
  shows "m_retryTimer m = Some i \<Longrightarrow> base (m\<lparr> h_timers := remove_id i (h_timers m), m_retryTimer := None \<rparr>)"
    and "m_probeTimer m = Some i \<Longrightarrow>
      base (m\<lparr> h_timers := remove_id i (h_timers m), m_probeTimer := None, m_nextRetryAt := s \<rparr>)"
proof -
  note b = baseD [OF assms]
  have d: "m_retryTimer m = Some i \<Longrightarrow> m_probeTimer m \<noteq> Some i"
    using b(2) retry_not_probe unfolding timers_ok_def by (metis option.inject)
  show "m_retryTimer m = Some i \<Longrightarrow> base (m\<lparr> h_timers := remove_id i (h_timers m), m_retryTimer := None \<rparr>)"
    using b d
    by (auto simp: base_def ids_fresh_def timers_ok_def connections_ok_def idle_def map_of_remove_id)
  show "m_probeTimer m = Some i \<Longrightarrow>
      base (m\<lparr> h_timers := remove_id i (h_timers m), m_probeTimer := None, m_nextRetryAt := s \<rparr>)"
    using b d
    by (auto simp: base_def ids_fresh_def timers_ok_def connections_ok_def idle_def map_of_remove_id)
qed

lemma fire_timer_inv:
  assumes "base m" and "timers_of m i = Some t"
  shows "manager_inv (fire_timer E r i (tm_task t) m)"
proof -
  note b = baseD [OF assms(1)]
  have "i \<in> dom (timers_of m)" using assms(2) by blast
  then consider (retry) "m_retryTimer m = Some i" | (probe) "m_probeTimer m = Some i"
    using b(2) by (auto simp: timers_ok_def)
  then show ?thesis
  proof cases
    case retry
    then have ok: "retry_task_ok t" using b(2) assms(2) by (auto simp: timers_ok_def)
    then obtain mode n reason where t: "tm_task t = Retry_task mode n reason"
      by (auto simp: retry_task_ok_def split: task.splits)
    with ok have "n < (case mode of RM_websocket \<Rightarrow> WEBSOCKET_ATTEMPT_LIMIT | RM_sse \<Rightarrow> SSE_ATTEMPT_LIMIT)"
      by (cases mode) (auto simp: retry_task_ok_def)
    with base_remove_timer(1) [OF assms(1) retry] show ?thesis
      by (simp add: fire_timer_def t connect_inv)
  next
    case probe
    then obtain reason where t: "tm_task t = Probe_task reason"
      using b(2) assms(2) by (auto simp: timers_ok_def probe_task_ok_def split: task.splits)
    with base_remove_timer(2) [OF assms(1) probe, of "[]"] show ?thesis
      by (simp add: fire_timer_def connect_inv WEBSOCKET_ATTEMPT_LIMIT_def)
  qed
qed

lemma current_sock: "base m \<Longrightarrow> socks_of m i = Some s \<Longrightarrow> sk_state s \<noteq> Sock_doomed \<Longrightarrow> m_socket m = Some i"
  by (auto simp: base_def connections_ok_def)

lemma current_source: "base m \<Longrightarrow> sources_of m i = Some s \<Longrightarrow> m_eventSource m = Some i"
  by (auto simp: base_def connections_ok_def)

lemma base_set_sock:
  assumes "base m" and "socks_of m i = Some s" and "sk_state s = Sock_connecting"
  shows "base (set_sock i Sock_open m)"
proof -
  have "m_socket m = Some i" using current_sock assms by force
  with assms(1,2) show ?thesis
    by (auto simp: base_def ids_fresh_def timers_ok_def connections_ok_def idle_def set_sock_def map_of_update)
qed

lemma sources_set_open:
  "sources_of (set_source_open i m) = (\<lambda>j. if j = i then map_option (\<lambda>s. s\<lparr> es_open := True \<rparr>) (sources_of m i) else sources_of m j)"
  by (simp add: set_source_open_def map_of_update)

lemma base_set_source:
  assumes "base m"
  shows "base (set_source_open i m)"
proof -
  let ?m = "set_source_open i m"
  note b = baseD [OF assms]
  have f: "m_stopped ?m = m_stopped m" "timers_of ?m = timers_of m" "socks_of ?m = socks_of m"
    "m_retryTimer ?m = m_retryTimer m" "m_probeTimer ?m = m_probeTimer m" "m_socket ?m = m_socket m"
    "m_eventSource ?m = m_eventSource m" "h_next ?m = h_next m"
    by (simp_all add: set_source_open_def)
  have "dom (sources_of ?m) = dom (sources_of m)" by (auto simp: sources_set_open split: if_splits)
  moreover have "es_attempt s < SSE_ATTEMPT_LIMIT \<and> (es_open s \<or> m_probeTimer m = None)"
    if "sources_of ?m j = Some s" for j s
    using that b(3) by (auto simp: sources_set_open connections_ok_def split: if_splits)
  ultimately have "connections_ok ?m" using b(3) by (auto simp: connections_ok_def f)
  moreover have "ids_fresh ?m" using b(1) by (auto simp: ids_fresh_def f sources_set_open)
  moreover have "timers_ok ?m" using b(2) by (simp add: timers_ok_def f)
  ultimately show ?thesis using b(4) by (simp add: base_def idle_def f)
qed

lemma go_live_fields [simp]:
  "base (go_live mode m) = base m" "m_mode (go_live mode m) = mode" "m_state (go_live mode m) = TS_live"
  "m_stopped (go_live mode m) = m_stopped m" "m_socket (go_live mode m) = m_socket m"
  "m_eventSource (go_live mode m) = m_eventSource m" "m_probeTimer (go_live mode m) = m_probeTimer m"
  "h_socks (go_live mode m) = h_socks m" "h_sources (go_live mode m) = h_sources m"
proof -
  show "base (go_live mode m) = base m" by (rule base_cong) (simp_all add: go_live_def)
qed (simp_all add: go_live_def)

lemma socket_onopen_inv:
  assumes "base m" and "socks_of m i = Some s" and "sk_state s = Sock_connecting"
  shows "manager_inv (socket_onopen i (set_sock i Sock_open m))"
proof -
  let ?m = "set_sock i Sock_open m"
  have b: "base ?m" using assms by (rule base_set_sock)
  have c: "m_socket m = Some i" using current_sock assms by force
  have s: "socks_of ?m i = Some (s\<lparr> sk_state := Sock_open \<rparr>)"
    using assms(2) by (simp add: set_sock_def map_of_update)
  have f: "m_socket ?m = m_socket m" by (simp add: set_sock_def)
  show ?thesis
    using b c s f by (auto simp: socket_onopen_def manager_inv_def truthful_def)
qed

lemma source_onopen_inv:
  assumes "base m" and "sources_of m i = Some s" and "\<not> es_open s"
  shows "manager_inv (source_onopen E r i (set_source_open i m))"
proof -
  let ?m = "set_source_open i m"
  have b: "base ?m" using assms(1) by (rule base_set_source)
  have p: "m_probeTimer m = None" using baseD(3) [OF assms(1)] assms(2,3) by (auto simp: connections_ok_def)
  have c: "m_eventSource m = Some i" using current_source assms by blast
  have s: "sources_of ?m i = Some (s\<lparr> es_open := True \<rparr>)"
    using assms(2) by (simp add: set_source_open_def map_of_update)
  have f: "m_eventSource ?m = m_eventSource m" "m_probeTimer ?m = m_probeTimer m"
    by (simp_all add: set_source_open_def)
  have only: "j = i" if "sources_of m j = Some t" for j t
    using current_source [OF assms(1) that] c by simp
  have open_all: "es_open t" if t: "sources_of ?m j = Some t" for j t
  proof (cases "j = i")
    case True
    then show ?thesis using t s by auto
  next
    case False
    then have "sources_of m j = Some t" using t by (simp add: sources_set_open)
    with only False show ?thesis by blast
  qed
  let ?g = "go_live TM_sse ?m"
  have "base (scheduleProbe E r reason REALTIME_PROBE_DELAY_MS ?g)" for reason
    using b f p open_all by (intro base_scheduleProbe) simp_all
  then show ?thesis
    using b c s f by (auto simp: source_onopen_def manager_inv_def truthful_def)
qed


lemma deliver_fields [simp]:
  "base (deliver E r p m) = base m" "truthful (deliver E r p m) = truthful m"
  "m_stopped (deliver E r p m) = m_stopped m" "m_state (deliver E r p m) = m_state m"
proof -
  show "base (deliver E r p m) = base m"
    by (rule base_cong) (simp_all add: deliver_def split: option.split)
qed (simp_all add: deliver_def truthful_def split: option.split)

lemma deliver_inv: "manager_inv m \<Longrightarrow> manager_inv (deliver E r p m)"
  by (simp add: manager_inv_def)

lemma socket_onmessage_inv: "manager_inv m \<Longrightarrow> manager_inv (socket_onmessage E r i p m)"
  by (simp add: socket_onmessage_def deliver_inv)

lemma source_onmessage_inv: "manager_inv m \<Longrightarrow> manager_inv (source_onmessage E r i p m)"
  by (simp add: source_onmessage_def deliver_inv)

lemma socket_onerror_inv:
  assumes "manager_inv m"
  shows "manager_inv (socket_onerror i m)"
proof -
  let ?m = "m\<lparr> m_lastError := ''WebSocket transport error.'' \<rparr>"
  have "base ?m = base m" by (rule base_cong) simp_all
  moreover have "truthful ?m = truthful m" by (simp add: truthful_def)
  ultimately show ?thesis using assms by (auto simp: socket_onerror_def manager_inv_def)
qed

lemma base_drop_socket:
  assumes "base m" and "m_socket m = Some i"
  shows "base (m\<lparr> h_socks := remove_id i (h_socks m), m_socket := None \<rparr>)"
  using assms
  by (auto simp: base_def ids_fresh_def timers_ok_def connections_ok_def idle_def map_of_remove_id)

lemma base_drop_doomed:
  assumes "base m" and "m_socket m \<noteq> Some i"
  shows "base (m\<lparr> h_socks := remove_id i (h_socks m) \<rparr>)"
  using assms
  by (auto simp: base_def ids_fresh_def timers_ok_def connections_ok_def idle_def map_of_remove_id)

lemma base_drop_source:
  assumes "base m" and "m_eventSource m = Some i"
  shows "base (m\<lparr> h_sources := remove_id i (h_sources m), m_eventSource := None \<rparr>)"
  using assms
  by (auto simp: base_def ids_fresh_def timers_ok_def connections_ok_def idle_def map_of_remove_id)

lemma socket_onclose_inv:
  assumes "manager_inv m" and "socks_of m i = Some s" and "sk_state s \<noteq> Sock_doomed"
  shows "manager_inv (socket_onclose E r i opened n reason code (m\<lparr> h_socks := remove_id i (h_socks m) \<rparr>))"
proof -
  have b: "base m" using assms(1) by (simp add: manager_inv_def)
  have c: "m_socket m = Some i" using current_sock [OF b] assms(2,3) by blast
  then have t: "m_retryTimer m = None" "m_eventSource m = None" "\<not> m_stopped m"
    using baseD(3,4) [OF b] by (auto simp: connections_ok_def idle_def)
  show ?thesis
    using base_drop_socket [OF b c] c t
    by (auto simp: socket_onclose_def Let_def intro!: handleRealtimeFailure_inv)
qed

lemma source_onerror_inv:
  assumes "manager_inv m"
  shows "manager_inv (source_onerror E r i n m)"
proof (cases "m_eventSource m = Some i \<and> \<not> m_stopped m")
  case True
  have b: "base m" using assms by (simp add: manager_inv_def)
  have t: "m_retryTimer m = None" "m_socket m = None"
    using baseD(3) [OF b] True by (auto simp: connections_ok_def)
  show ?thesis
    using base_drop_source [OF b] True t
    by (auto simp: source_onerror_def intro!: handleRealtimeFailure_inv)
next
  case False
  with assms show ?thesis by (auto simp: source_onerror_def)
qed

lemma socket_gone_inv:
  assumes "manager_inv m" and "socks_of m i = Some s" and "sk_state s = Sock_doomed"
  shows "manager_inv (m\<lparr> h_socks := remove_id i (h_socks m) \<rparr>)"
proof -
  have b: "base m" using assms(1) by (simp add: manager_inv_def)
  have c: "m_socket m \<noteq> Some i" using baseD(3) [OF b] assms(2,3) by (auto simp: connections_ok_def)
  show ?thesis
    using assms(1) base_drop_doomed [OF b c] c
    by (auto simp: manager_inv_def truthful_def map_of_remove_id)
qed

lemma start_inv:
  assumes "base m" and "idle m" and "m_state m = TS_idle"
  shows "manager_inv (start m)"
proof -
  note b = baseD [OF assms(1)]
  have e: "timers_of m = Map.empty" using b(2) assms(2) by (auto simp: timers_ok_def idle_def)
  then have t: "h_timers m = []" by (cases "h_timers m") (auto simp: fun_eq_iff split: if_splits)
  let ?m = "m\<lparr> m_stopped := False \<rparr>"
  have m1: "clearTimers ?m = ?m"
    using assms(2) t by (cases m) (simp add: clearTimers_def clear_timeout_def idle_def)
  have "base ?m" using assms b by (simp add: base_def ids_fresh_def timers_ok_def connections_ok_def)
  then have "base (start m)"
    unfolding start_def Let_def m1 using assms(2)
    by (intro base_set_retry) (simp_all add: idle_def retry_task_ok_def WEBSOCKET_ATTEMPT_LIMIT_def)
  moreover have "truthful (start m)"
    using assms(3) unfolding start_def Let_def m1 by (simp add: truthful_def)
  ultimately show ?thesis by (simp add: manager_inv_def)
qed

lemma stop_inv:
  assumes "base m"
  shows "manager_inv (stop st m)"
proof -
  let ?c = "closeCurrent (clearTimers (m\<lparr> m_stopped := True \<rparr>))"
  have "ids_fresh (m\<lparr> m_stopped := True \<rparr>)" "timers_ok (m\<lparr> m_stopped := True \<rparr>)"
    "connections_ok (m\<lparr> m_stopped := True \<rparr>)"
    using baseD(1-3) [OF assms] by (simp_all add: ids_fresh_def timers_ok_def connections_ok_def)
  then have "base ?c" by (rule base_clear_parts)
  then have "base (stop st m)"
    unfolding stop_def Let_def by (subst base_cong [of _ ?c]) simp_all
  then show ?thesis by (simp add: manager_inv_def stop_def Let_def)
qed

lemma retryNow_inv:
  assumes "base m"
  shows "manager_inv (retryNow E r m)"
proof (cases "m_stopped m")
  case False
  let ?c = "(clearTimers m)\<lparr> m_degradedReason := [], m_lastError := [], m_nextRetryAt := [] \<rparr>"
  note b = baseD [OF assms]
  have "timers_of (clearTimers m) = Map.empty" using clear_timers_empty [OF b(2)] .
  then have "base (clearTimers m)"
    using b False by (auto simp: base_def ids_fresh_def timers_ok_def connections_ok_def)
  moreover have "base ?c = base (clearTimers m)" by (rule base_cong) simp_all
  ultimately show ?thesis
    using False by (simp add: retryNow_def connect_inv WEBSOCKET_ATTEMPT_LIMIT_def)
qed (simp add: retryNow_def manager_inv_def assms)

section \<open>Reachable states\<close>

definition reachable :: "env \<Rightarrow> Manager \<Rightarrow> bool" where
  "reachable E m \<longleftrightarrow> (step E)\<^sup>*\<^sup>* new_manager m"

lemma new_manager_inv: "manager_inv new_manager"
  by (simp add: new_manager_def manager_inv_def base_def ids_fresh_def timers_ok_def connections_ok_def
      idle_def truthful_def)

lemma step_manager_inv:
  assumes "manager_inv m" and "step E m m'"
  shows "manager_inv m'"
proof -
  have b: "base m" using assms(1) by (simp add: manager_inv_def)
  from assms(2) show ?thesis
  proof cases
    case (step_start)
    then show ?thesis using b by (simp add: start_inv)
  next
    case (step_stop st)
    then show ?thesis using b by (simp add: stop_inv)
  next
    case (step_retryNow r)
    then show ?thesis using b by (simp add: retryNow_inv)
  next
    case (step_timer i t r)
    then show ?thesis using b by (simp add: fire_timer_inv)
  next
    case (step_socket_open i s)
    then show ?thesis using b by (simp add: socket_onopen_inv)
  next
    case (step_socket_gone i s)
    then show ?thesis using assms(1) by (simp add: socket_gone_inv)
  next
    case (step_socket_message i s r p)
    then show ?thesis using assms(1) by (simp add: socket_onmessage_inv)
  next
    case (step_socket_error i s)
    then show ?thesis using assms(1) by (simp add: socket_onerror_inv)
  next
    case (step_socket_close i s r reason code)
    then show ?thesis using assms(1) by (simp add: socket_onclose_inv)
  next
    case (step_source_open i s r)
    then show ?thesis using b by (simp add: source_onopen_inv)
  next
    case (step_source_message i s r p)
    then show ?thesis using assms(1) by (simp add: source_onmessage_inv)
  next
    case (step_source_error i s r)
    then show ?thesis using assms(1) by (simp add: source_onerror_inv)
  qed
qed

interpretation transport: step_system "\<lambda>m. m = new_manager" "step E" manager_inv for E
  by unfold_locales (auto intro: new_manager_inv step_manager_inv)

lemma reachable_manager_inv: "reachable E m \<Longrightarrow> manager_inv m"
  unfolding reachable_def by (rule transport.reachable_inv [OF refl])


section \<open>What reachable states guarantee\<close>

lemma inv_stopped_silent:
  assumes "manager_inv m" and "m_stopped m" and "step E m m'"
  shows "m_stopped m' \<and> h_out m' = h_out m \<or> (\<exists>st. m' = stop st m) \<or> m' = start m"
proof -
  have b: "base m" using assms(1) by (simp add: manager_inv_def)
  then have i: "idle m" using baseD(4) assms(2) by blast
  have t: "timers_of m i = None" "sources_of m i = None" for i
    using baseD(2,3) [OF b] i by (auto simp: timers_ok_def connections_ok_def idle_def)
  from assms(3) show ?thesis
    by cases
       (use i t assms(2) in \<open>auto simp: retryNow_def idle_def socket_onopen_def set_sock_def socket_onmessage_def
          socket_onerror_def socket_onclose_def\<close>)
qed

lemma inv_one_connection:
  assumes "manager_inv m"
  shows "card {i. \<exists>s. socks_of m i = Some s \<and> sk_state s \<noteq> Sock_doomed} + card (dom (sources_of m)) \<le> 1"
    and "card (dom (timers_of m)) \<le> 2"
proof -
  have b: "base m" using assms by (simp add: manager_inv_def)
  have c: "{i. \<exists>s. socks_of m i = Some s \<and> sk_state s \<noteq> Sock_doomed} = set_option (m_socket m)"
    using baseD(3) [OF b] by (auto simp: connections_ok_def)
  have d: "dom (sources_of m) = set_option (m_eventSource m)" and x: "m_socket m = None \<or> m_eventSource m = None"
    using baseD(3) [OF b] by (auto simp: connections_ok_def)
  show "card {i. \<exists>s. socks_of m i = Some s \<and> sk_state s \<noteq> Sock_doomed} + card (dom (sources_of m)) \<le> 1"
    unfolding c d using x by (cases "m_socket m"; cases "m_eventSource m") auto
  have "dom (timers_of m) = set_option (m_retryTimer m) \<union> set_option (m_probeTimer m)"
    using baseD(2) [OF b] by (simp add: timers_ok_def)
  then show "card (dom (timers_of m)) \<le> 2"
    by (cases "m_retryTimer m"; cases "m_probeTimer m") (auto simp: card_insert_if)
qed

section \<open>Back-off\<close>

lemma backoff_bounds:
  assumes "0 \<le> random" and "0 \<le> b" and "0 \<le> c"
  shows "min (b * 2 ^ (n - 1)) c \<le> getBackoffDelay random n b c" and "getBackoffDelay random n b c \<le> c"
proof -
  let ?d = "min (b * 2 ^ (n - 1)) c"
  have "0 \<le> ?d" using assms by simp
  then have "0 \<le> ?d * (3 / 10) * random" using assms(1) by simp
  then have j: "0 \<le> math_round (?d * (3 / 10) * random)" by (simp add: math_round_def)
  then show "?d \<le> getBackoffDelay random n b c" by (simp add: getBackoffDelay_def Let_def)
  show "getBackoffDelay random n b c \<le> c" by (simp add: getBackoffDelay_def Let_def)
qed

section \<open>The ladder of fallbacks\<close>

text \<open>
  How many failures of the environment a manager can still take before it polls. A failure is the
  close of the current socket, the error of the current source, or the firing of the retry timer
  (whose connection attempt may fail at once).
\<close>

fun attempt_rank :: "RealtimeMode \<Rightarrow> nat \<Rightarrow> nat" where
  "attempt_rank RM_websocket n = 2 * (WEBSOCKET_ATTEMPT_LIMIT - n) + 2 * SSE_ATTEMPT_LIMIT"
| "attempt_rank RM_sse n = 2 * (SSE_ATTEMPT_LIMIT - n)"

definition rank :: "Manager \<Rightarrow> nat" where
  "rank m =
     (case m_socket m of
        Some i \<Rightarrow> (case socks_of m i of Some s \<Rightarrow> attempt_rank RM_websocket (sk_attempt s) | None \<Rightarrow> 0)
      | None \<Rightarrow> (case m_eventSource m of
          Some i \<Rightarrow> (case sources_of m i of Some s \<Rightarrow> attempt_rank RM_sse (es_attempt s) | None \<Rightarrow> 0)
        | None \<Rightarrow> (case m_retryTimer m of
            Some i \<Rightarrow> (case timers_of m i of
                Some t \<Rightarrow> (case tm_task t of Retry_task mode n reason \<Rightarrow> attempt_rank mode n + 1 | _ \<Rightarrow> 0)
              | None \<Rightarrow> 0)
          | None \<Rightarrow> 0)))"

definition fail_step :: "env \<Rightarrow> reads \<Rightarrow> string \<Rightarrow> nat \<Rightarrow> Manager \<Rightarrow> Manager" where
  "fail_step E r reason code m =
     (case m_socket m of
        Some i \<Rightarrow> (case socks_of m i of
            Some s \<Rightarrow> socket_onclose E r i (sk_state s = Sock_open) (sk_attempt s) reason code
                        (m\<lparr> h_socks := remove_id i (h_socks m) \<rparr>)
          | None \<Rightarrow> m)
      | None \<Rightarrow> (case m_eventSource m of
          Some i \<Rightarrow> (case sources_of m i of
              Some s \<Rightarrow> source_onerror E r i (es_attempt s) m
            | None \<Rightarrow> m)
        | None \<Rightarrow> (case m_retryTimer m of
            Some i \<Rightarrow> (case timers_of m i of Some t \<Rightarrow> fire_timer E r i (tm_task t) m | None \<Rightarrow> m)
          | None \<Rightarrow> m)))"

text \<open>Polling, or connecting with at most \<open>b\<close> failures left.\<close>

definition falls :: "nat \<Rightarrow> Manager \<Rightarrow> bool" where
  "falls b m \<longleftrightarrow> \<not> m_stopped m \<and>
     (m_state m = TS_polling \<or> m_state m = TS_connecting \<and> rank m \<le> b)"

lemma falls_mono: "falls a m \<Longrightarrow> a \<le> b \<Longrightarrow> falls b m"
  by (auto simp: falls_def)

lemma enterPolling_falls: "\<not> m_stopped m \<Longrightarrow> falls b (enterPolling E r reason m)"
  by (simp add: falls_def enterPolling_def Let_def)

lemma scheduleRetry_falls:
  assumes "\<not> m_stopped m" and "m_socket m = None" and "m_eventSource m = None"
  shows "falls (attempt_rank mode n + 1) (scheduleRetry E r mode n reason m)"
  using assms by (simp add: falls_def scheduleRetry_def rank_def Let_def)

lemma openEventSource_falls:
  "\<not> m_stopped m \<Longrightarrow> idle m \<Longrightarrow> m_state m = TS_connecting \<Longrightarrow> falls (attempt_rank RM_sse n) (openEventSource E r n m)"
  by (simp add: openEventSource_def enterPolling_falls) (simp add: falls_def rank_def idle_def)

lemma begin_connect_idle [simp]: "idle (begin_connect mode n reason m)"
  by (simp add: begin_connect_def Let_def idle_def)

lemma connect_sse_falls: "\<not> m_stopped m \<Longrightarrow> falls (attempt_rank RM_sse n) (connect_sse E r n reason m)"
  by (simp add: connect_sse_def openEventSource_falls del: attempt_rank.simps)

lemma handleRealtimeFailure_falls:
  assumes "\<not> m_stopped m" and "m_socket m = None" and "m_eventSource m = None"
    and "n < (case mode of RM_websocket \<Rightarrow> WEBSOCKET_ATTEMPT_LIMIT | RM_sse \<Rightarrow> SSE_ATTEMPT_LIMIT)"
  shows "falls (attempt_rank mode n - 1) (handleRealtimeFailure E r mode n reason m)"
proof -
  let ?m = "m\<lparr> m_lastFailureAt := now_stamp E r, m_lastError := reason \<rparr>"
  have retry: "falls (attempt_rank mode n - 1) (scheduleRetry E r mode (n + 1) reason ?m)"
    if "n + 1 < (case mode of RM_websocket \<Rightarrow> WEBSOCKET_ATTEMPT_LIMIT | RM_sse \<Rightarrow> SSE_ATTEMPT_LIMIT)"
    using assms that
    by (intro falls_mono [OF scheduleRetry_falls]) (cases mode; simp)+
  have sse: "falls (attempt_rank RM_websocket n - 1) (connect_sse E r 0 s ?m)"
    if "n < WEBSOCKET_ATTEMPT_LIMIT" for s
    using assms that by (intro falls_mono [OF connect_sse_falls]) simp_all
  show ?thesis
    using assms retry sse
    by (cases mode) (auto simp: handleRealtimeFailure_def Let_def enterPolling_falls
        simp del: attempt_rank.simps)
qed

lemma openWebSocket_falls:
  assumes "\<not> m_stopped m" and "idle m" and "m_state m = TS_connecting" and "n < WEBSOCKET_ATTEMPT_LIMIT"
  shows "falls (attempt_rank RM_websocket n) (openWebSocket E r n m)"
proof (cases "truthy (env_socketUrl E) \<and> \<not> rd_socketThrows r")
  case True
  with assms show ?thesis by (simp add: openWebSocket_def falls_def rank_def)
next
  case False
  have "falls (attempt_rank RM_websocket n) (handleRealtimeFailure E r RM_websocket n s m)" for s
    using assms by (intro falls_mono [OF handleRealtimeFailure_falls]) (simp_all add: idle_def)
  with False assms show ?thesis
    by (auto simp: openWebSocket_def enterPolling_falls simp del: attempt_rank.simps)
qed

lemma connect_falls:
  assumes "\<not> m_stopped m"
    and "n < (case mode of RM_websocket \<Rightarrow> WEBSOCKET_ATTEMPT_LIMIT | RM_sse \<Rightarrow> SSE_ATTEMPT_LIMIT)"
  shows "falls (attempt_rank mode n) (connect E r mode n reason m)"
  using assms by (cases mode) (simp_all add: connect_def connect_sse_falls openWebSocket_falls
      del: attempt_rank.simps)

lemma attempt_rank_pos:
  "n < (case mode of RM_websocket \<Rightarrow> WEBSOCKET_ATTEMPT_LIMIT | RM_sse \<Rightarrow> SSE_ATTEMPT_LIMIT) \<Longrightarrow> 0 < attempt_rank mode n"
  by (cases mode) simp_all

text \<open>A failure is one of the system's steps, and it takes the manager down the ladder.\<close>

lemma fail_step_falls:
  assumes "manager_inv m" and "\<not> m_stopped m" and "m_state m \<in> {TS_connecting, TS_live}"
  shows "step E m (fail_step E r reason code m) \<and>
    0 < rank m \<and> falls (rank m - 1) (fail_step E r reason code m)"
proof -
  have b: "base m" and tr: "truthful m" using assms(1,2) by (auto simp: manager_inv_def)
  note c = baseD(3) [OF b] and t = baseD(2) [OF b]
  have es: "\<exists>s. sources_of m i = Some s" if "m_eventSource m = Some i" for i
  proof -
    have "i \<in> dom (sources_of m)" using c that by (simp add: connections_ok_def)
    then show ?thesis by blast
  qed
  consider (sock) i s where "m_socket m = Some i" "socks_of m i = Some s"
    | (src) i s where "m_socket m = None" "m_eventSource m = Some i" "sources_of m i = Some s"
    | (retry) i t where "m_socket m = None" "m_eventSource m = None" "m_retryTimer m = Some i"
        "timers_of m i = Some t"
    using tr assms(3) c t es
    by (cases "m_socket m"; cases "m_eventSource m"; cases "m_retryTimer m")
       (auto simp: truthful_def connections_ok_def timers_ok_def)
  then show ?thesis
  proof (cases)
    case sock
    then have s: "sk_state s \<noteq> Sock_doomed" "sk_attempt s < WEBSOCKET_ATTEMPT_LIMIT" "m_eventSource m = None"
      using c by (auto simp: connections_ok_def)
    have eq: "fail_step E r reason code m =
      socket_onclose E r i (sk_state s = Sock_open) (sk_attempt s) reason code (m\<lparr> h_socks := remove_id i (h_socks m) \<rparr>)"
      using sock by (simp add: fail_step_def)
    have st: "step E m (fail_step E r reason code m)" unfolding eq using sock(2) s(1) by (rule step_socket_close)
    have rk: "rank m = attempt_rank RM_websocket (sk_attempt s)" using sock by (simp add: rank_def)
    have "0 < rank m \<and> falls (rank m - 1) (fail_step E r reason code m)"
      unfolding eq rk using sock assms(2) s
      by (auto simp: socket_onclose_def Let_def simp del: attempt_rank.simps
          intro!: handleRealtimeFailure_falls [unfolded One_nat_def] attempt_rank_pos)
    with st show ?thesis by blast
  next
    case src
    then have s: "es_attempt s < SSE_ATTEMPT_LIMIT" using c by (auto simp: connections_ok_def)
    have eq: "fail_step E r reason code m = source_onerror E r i (es_attempt s) m"
      using src by (simp add: fail_step_def)
    have st: "step E m (fail_step E r reason code m)" unfolding eq using src(3) by (rule step_source_error)
    have rk: "rank m = attempt_rank RM_sse (es_attempt s)" using src by (simp add: rank_def)
    have "0 < rank m \<and> falls (rank m - 1) (fail_step E r reason code m)"
      unfolding eq rk using src assms(2) s
      by (auto simp: source_onerror_def simp del: attempt_rank.simps
          intro!: handleRealtimeFailure_falls [unfolded One_nat_def] attempt_rank_pos)
    with st show ?thesis by blast
  next
    case retry
    then have "retry_task_ok t" using t by (auto simp: timers_ok_def)
    then obtain mode n why where k: "tm_task t = Retry_task mode n why"
      "n < (case mode of RM_websocket \<Rightarrow> WEBSOCKET_ATTEMPT_LIMIT | RM_sse \<Rightarrow> SSE_ATTEMPT_LIMIT)"
      by (auto simp: retry_task_ok_def split: task.splits RealtimeMode.splits)
    have eq: "fail_step E r reason code m = fire_timer E r i (tm_task t) m"
      using retry by (simp add: fail_step_def)
    have st: "step E m (fail_step E r reason code m)" unfolding eq using retry(4) by (rule step_timer)
    have rk: "rank m = attempt_rank mode n + 1" using retry k(1) by (simp add: rank_def)
    have "0 < rank m \<and> falls (rank m - 1) (fail_step E r reason code m)"
      unfolding eq rk k(1) using assms(2) k(2)
      by (auto simp: fire_timer_def simp del: attempt_rank.simps intro!: connect_falls)
    with st show ?thesis by blast
  qed
qed


definition fail_run :: "env \<Rightarrow> (reads \<times> string \<times> nat) list \<Rightarrow> Manager \<Rightarrow> Manager" where
  "fail_run E fs m =
     foldl (\<lambda>m (r, reason, code). if m_state m = TS_polling then m else fail_step E r reason code m) m fs"

lemma rank_bound: "manager_inv m \<Longrightarrow> rank m \<le> 11"
proof -
  have a: "attempt_rank mode n \<le> 10" for mode n
    by (cases mode) (auto simp: WEBSOCKET_ATTEMPT_LIMIT_def SSE_ATTEMPT_LIMIT_def)
  have "attempt_rank mode n + 1 \<le> 11" for mode n using a [of mode n] by simp
  with a show ?thesis
    by (auto simp: rank_def le_SucI simp del: attempt_rank.simps split: option.splits task.splits intro: order_trans [OF a])
qed

lemma fail_run_polls:
  assumes "manager_inv m" and "\<not> m_stopped m" and "m_state m \<in> {TS_connecting, TS_live, TS_polling}"
    and "rank m < length fs \<or> m_state m = TS_polling"
  shows "m_state (fail_run E fs m) = TS_polling \<and> (step E)\<^sup>*\<^sup>* m (fail_run E fs m)"
  using assms
proof (induction fs arbitrary: m)
  case Nil
  then show ?case by (simp add: fail_run_def)
next
  case (Cons f fs)
  obtain r reason code where f: "f = (r, reason, code)" by (cases f)
  show ?case
  proof (cases "m_state m = TS_polling")
    case True
    with Cons show ?thesis by (simp add: fail_run_def f)
  next
    case False
    let ?m = "fail_step E r reason code m"
    from Cons.prems False have s: "step E m ?m" "0 < rank m" "falls (rank m - 1) ?m"
      using fail_step_falls [of m E r reason code] by auto
    have "m_state (fail_run E fs ?m) = TS_polling \<and> (step E)\<^sup>*\<^sup>* ?m (fail_run E fs ?m)"
    proof (rule Cons.IH)
      show "manager_inv ?m" using Cons.prems(1) s(1) by (rule step_manager_inv)
      show "\<not> m_stopped ?m" "m_state ?m \<in> {TS_connecting, TS_live, TS_polling}"
        using s(3) by (auto simp: falls_def)
      show "rank ?m < length fs \<or> m_state ?m = TS_polling"
        using s Cons.prems(4) False by (auto simp: falls_def)
    qed
    with s(1) False show ?thesis
      by (auto simp: fail_run_def f intro: converse_rtranclp_into_rtranclp)
  qed
qed

text \<open>
  The handlers of a socket use the attempt number it was created with: the drop of a socket that
  was opened on the last attempt goes straight to SSE, although \<open>onopen\<close> set the counter to 0.
\<close>

lemma late_socket_skips_retries:
  assumes "m_socket m = Some i" and "\<not> m_stopped m" and "n + 1 = WEBSOCKET_ATTEMPT_LIMIT"
    and "env_hasEventSource E" and "truthy (env_streamUrl E)"
  shows "m_mode (socket_onclose E r i True n reason code m) = TM_sse \<and>
         m_retryTimer (socket_onclose E r i True n reason code m) = None"
  using assms
  by (simp add: socket_onclose_def handleRealtimeFailure_def connect_sse_def openEventSource_def
      begin_connect_def Let_def WEBSOCKET_ATTEMPT_LIMIT_def)

lemma early_socket_retries:
  assumes "m_socket m = Some i" and "\<not> m_stopped m" and "n + 1 < WEBSOCKET_ATTEMPT_LIMIT"
  shows "m_mode (socket_onclose E r i True n reason code m) = TM_websocket \<and>
         m_attempt (socket_onclose E r i True n reason code m) = n + 1 \<and>
         m_retryTimer (socket_onclose E r i True n reason code m) \<noteq> None"
  using assms
  by (simp add: socket_onclose_def handleRealtimeFailure_def scheduleRetry_def Let_def)

lemma parseTransportEvent_kind: "parseTransportEvent p = Some kvs \<Longrightarrow> \<exists>k. obj_get kvs ''kind'' = Some (Str k)"
  by (auto simp: parseTransportEvent_def Let_def split: option.splits jsval.splits)

end
