(* ===== verification/ApiParsers.thy ===== *)
theory ApiParsers
  imports Safe
begin

text \<open>
  \<open>src/src/lib/api-parsers.ts\<close>: the validation of API responses. A parser returns \<open>Inl\<close> of the
  message of the error it throws, or \<open>Inr\<close> of the value it was given: the sources cast the value,
  they do not copy it.
\<close>

type_synonym parsed = "string + jsval"

definition malformed :: "string \<Rightarrow> string" where
  "malformed label = label @ '' response was malformed.''"

definition asRecord :: "jsval \<Rightarrow> string \<Rightarrow> string + jsval obj" where
  "asRecord value label = (case value of Obj kvs \<Rightarrow> Inr kvs | _ \<Rightarrow> Inl (malformed label))"

definition asArray :: "jsval \<Rightarrow> string \<Rightarrow> string + jsval list" where
  "asArray value label = (case value of Arr vs \<Rightarrow> Inr vs | _ \<Rightarrow> Inl (malformed label))"

definition requireString :: "jsval \<Rightarrow> string \<Rightarrow> string + unit" where
  "requireString value label =
     (case value of
        Str s \<Rightarrow> (if length s = 0 then Inl (malformed label) else Inr ())
      | _ \<Rightarrow> Inl (malformed label))"

text \<open>Sequencing: the first error is the one thrown.\<close>

definition then_do :: "string + 'a \<Rightarrow> ('a \<Rightarrow> string + 'b) \<Rightarrow> string + 'b" where
  "then_do m f = (case m of Inl e \<Rightarrow> Inl e | Inr x \<Rightarrow> f x)"

fun map_all :: "(jsval \<Rightarrow> parsed) \<Rightarrow> jsval list \<Rightarrow> string + jsval list" where
  "map_all f [] = Inr []"
| "map_all f (v # vs) = then_do (f v) (\<lambda>w. then_do (map_all f vs) (\<lambda>ws. Inr (w # ws)))"

definition parseDashboardSnapshot :: "jsval \<Rightarrow> parsed" where
  "parseDashboardSnapshot value =
     then_do (asRecord value ''Dashboard snapshot'') (\<lambda>record.
     then_do (asRecord (js_prop record ''overview'') ''Dashboard overview'') (\<lambda>_.
     then_do (asRecord (js_prop record ''metrics'') ''Dashboard metrics'') (\<lambda>_.
     then_do (asRecord (js_prop record ''trend'') ''Dashboard trend'') (\<lambda>_.
     Inr value))))"

definition parseJob :: "jsval \<Rightarrow> parsed" where
  "parseJob value =
     then_do (asRecord value ''Job'') (\<lambda>record.
     then_do (requireString (js_prop record ''id'') ''Job id'') (\<lambda>_.
     then_do (requireString (js_prop record ''type'') ''Job type'') (\<lambda>_.
     then_do (requireString (js_prop record ''queue'') ''Job queue'') (\<lambda>_.
     then_do (requireString (js_prop record ''state'') ''Job state'') (\<lambda>_.
     Inr value)))))"

definition parseJobs :: "jsval \<Rightarrow> parsed" where
  "parseJobs value =
     then_do (asArray value ''Jobs'') (\<lambda>vs. then_do (map_all parseJob vs) (\<lambda>ws. Inr (Arr ws)))"

definition parseSchedule :: "jsval \<Rightarrow> parsed" where
  "parseSchedule value =
     then_do (asRecord value ''Schedule'') (\<lambda>record.
     then_do (requireString (js_prop record ''id'') ''Schedule id'') (\<lambda>_.
     then_do (requireString (js_prop record ''name'') ''Schedule name'') (\<lambda>_.
     then_do (requireString (js_prop record ''cronExpression'') ''Schedule cron expression'') (\<lambda>_.
     Inr value))))"

definition parseSchedules :: "jsval \<Rightarrow> parsed" where
  "parseSchedules value =
     then_do (asArray value ''Schedules'') (\<lambda>vs. then_do (map_all parseSchedule vs) (\<lambda>ws. Inr (Arr ws)))"

definition parseWorkerStatus :: "jsval \<Rightarrow> parsed" where
  "parseWorkerStatus value =
     then_do (asRecord value ''Worker status'') (\<lambda>record.
     then_do (requireString (js_prop record ''workerId'') ''Worker id'') (\<lambda>_.
     then_do (requireString (js_prop record ''hostname'') ''Worker hostname'') (\<lambda>_.
     case js_prop record ''queues'' of
       Arr _ \<Rightarrow> Inr value
     | _ \<Rightarrow> Inl ''Worker queues response was malformed.'')))"

definition parseWorkerStatuses :: "jsval \<Rightarrow> parsed" where
  "parseWorkerStatuses value =
     then_do (asArray value ''Workers'') (\<lambda>vs. then_do (map_all parseWorkerStatus vs) (\<lambda>ws. Inr (Arr ws)))"

definition parseJobInspection :: "jsval \<Rightarrow> parsed" where
  "parseJobInspection value =
     then_do (asRecord value ''Job inspection'') (\<lambda>record.
     then_do (parseJob (js_prop record ''job'')) (\<lambda>_.
     then_do (asArray (js_prop record ''attempts'') ''Job inspection attempts'') (\<lambda>_.
     then_do (asArray (js_prop record ''events'') ''Job inspection events'') (\<lambda>_.
     then_do (asRecord (js_prop record ''graph'') ''Job inspection graph'') (\<lambda>_.
     Inr value)))))"

definition parseEnqueueResult :: "jsval \<Rightarrow> parsed" where
  "parseEnqueueResult value =
     then_do (asRecord value ''Enqueue result'') (\<lambda>record.
     then_do (parseJob (js_prop record ''job'')) (\<lambda>_.
     case js_prop record ''duplicateSuppressed'' of
       Bool _ \<Rightarrow> Inr value
     | _ \<Rightarrow> Inl ''Enqueue result duplicateSuppressed flag was malformed.''))"

definition parseUnknownArray :: "jsval \<Rightarrow> string \<Rightarrow> string + jsval list" where
  "parseUnknownArray value label = asArray value label"

section \<open>Acceptance\<close>

text \<open>What the parsers accept, as predicates on values.\<close>

fun is_obj :: "jsval \<Rightarrow> bool" where
  "is_obj (Obj kvs) = True"
| "is_obj v = False"

fun is_arr :: "jsval \<Rightarrow> bool" where
  "is_arr (Arr vs) = True"
| "is_arr v = False"

fun is_text :: "jsval \<Rightarrow> bool" where
  "is_text (Str s) = (s \<noteq> [])"
| "is_text v = False"

fun get_prop :: "jsval \<Rightarrow> string \<Rightarrow> jsval" where
  "get_prop (Obj kvs) k = js_prop kvs k"
| "get_prop v k = Undefined"

definition job_shape :: "jsval \<Rightarrow> bool" where
  "job_shape v \<longleftrightarrow> is_obj v \<and> (\<forall>k \<in> set [''id'', ''type'', ''queue'', ''state'']. is_text (get_prop v k))"

definition snapshot_shape :: "jsval \<Rightarrow> bool" where
  "snapshot_shape v \<longleftrightarrow> is_obj v \<and> (\<forall>k \<in> set [''overview'', ''metrics'', ''trend'']. is_obj (get_prop v k))"

definition schedule_shape :: "jsval \<Rightarrow> bool" where
  "schedule_shape v \<longleftrightarrow> is_obj v \<and> (\<forall>k \<in> set [''id'', ''name'', ''cronExpression'']. is_text (get_prop v k))"

definition worker_shape :: "jsval \<Rightarrow> bool" where
  "worker_shape v \<longleftrightarrow> is_obj v \<and> is_text (get_prop v ''workerId'') \<and> is_text (get_prop v ''hostname'') \<and>
     is_arr (get_prop v ''queues'')"

definition inspection_shape :: "jsval \<Rightarrow> bool" where
  "inspection_shape v \<longleftrightarrow> is_obj v \<and> job_shape (get_prop v ''job'') \<and> is_arr (get_prop v ''attempts'') \<and>
     is_arr (get_prop v ''events'') \<and> is_obj (get_prop v ''graph'')"

fun is_boolean :: "jsval \<Rightarrow> bool" where
  "is_boolean (Bool b) = True"
| "is_boolean v = False"

definition enqueue_shape :: "jsval \<Rightarrow> bool" where
  "enqueue_shape v \<longleftrightarrow> is_obj v \<and> job_shape (get_prop v ''job'') \<and> is_boolean (get_prop v ''duplicateSuppressed'')"

definition list_shape :: "(jsval \<Rightarrow> bool) \<Rightarrow> jsval \<Rightarrow> bool" where
  "list_shape p v = (case v of Arr vs \<Rightarrow> (\<forall>w \<in> set vs. p w) | _ \<Rightarrow> False)"

lemma then_do_Inr: "then_do m f = Inr y \<longleftrightarrow> (\<exists>x. m = Inr x \<and> f x = Inr y)"
  by (cases m) (auto simp: then_do_def)

lemma asRecord_Inr: "asRecord v l = Inr kvs \<longleftrightarrow> v = Obj kvs"
  by (cases v) (auto simp: asRecord_def)

lemma asArray_Inr: "asArray v l = Inr vs \<longleftrightarrow> v = Arr vs"
  by (cases v) (auto simp: asArray_def)

lemma requireString_Inr: "requireString v l = Inr u \<longleftrightarrow> is_text v"
  by (cases v) (auto simp: requireString_def)

lemma is_obj_iff: "is_obj v \<longleftrightarrow> (\<exists>kvs. v = Obj kvs)"
  by (cases v) auto

lemma is_arr_iff: "is_arr v \<longleftrightarrow> (\<exists>vs. v = Arr vs)"
  by (cases v) auto

lemmas parse_simps = then_do_Inr asRecord_Inr asArray_Inr requireString_Inr is_obj_iff is_arr_iff

lemma case_arr_Inr:
  "(case v of Arr _ \<Rightarrow> Inr x | _ \<Rightarrow> Inl e) = (Inr y :: string + 'a) \<longleftrightarrow> is_arr v \<and> y = x"
  by (cases v) auto

lemma case_boolean_Inr:
  "(case v of Bool _ \<Rightarrow> Inr x | _ \<Rightarrow> Inl e) = (Inr y :: string + 'a) \<longleftrightarrow> is_boolean v \<and> y = x"
  by (cases v) auto

lemma map_all_Cons_Inr:
  "map_all f (v # vs) = Inr ws \<longleftrightarrow> (\<exists>w ws'. f v = Inr w \<and> map_all f vs = Inr ws' \<and> ws = w # ws')"
  by (auto simp: then_do_Inr)

text \<open>
  The contract of a validating parser: it returns the value it was given, and exactly when the
  value has the shape.
\<close>

locale validator =
  fixes parse :: "jsval \<Rightarrow> parsed" and shape :: "jsval \<Rightarrow> bool"
  assumes parse_iff: "parse v = Inr w \<longleftrightarrow> w = v \<and> shape v"
begin

lemma accepts: "shape v \<Longrightarrow> parse v = Inr v"
  by (simp add: parse_iff)

lemma rejects: "\<not> shape v \<Longrightarrow> \<exists>e. parse v = Inl e"
  using parse_iff [of v] by (cases "parse v") auto

lemma map_all_iff: "map_all parse vs = Inr ws \<longleftrightarrow> ws = vs \<and> (\<forall>v \<in> set vs. shape v)"
proof (induction vs arbitrary: ws)
  case (Cons v vs)
  then show ?case by (simp only: map_all_Cons_Inr parse_iff) auto
qed auto

lemma list_iff:
  "then_do (asArray v label) (\<lambda>vs. then_do (map_all parse vs) (\<lambda>ws. Inr (Arr ws))) = Inr w \<longleftrightarrow>
   w = v \<and> list_shape shape v"
  by (cases v) (auto simp: then_do_Inr asArray_Inr map_all_iff list_shape_def)

end

interpretation job_parser: validator parseJob job_shape
  by unfold_locales (auto simp: parseJob_def job_shape_def parse_simps)

interpretation snapshot_parser: validator parseDashboardSnapshot snapshot_shape
  by unfold_locales (auto simp: parseDashboardSnapshot_def snapshot_shape_def parse_simps)

interpretation schedule_parser: validator parseSchedule schedule_shape
  by unfold_locales (auto simp: parseSchedule_def schedule_shape_def parse_simps)

interpretation worker_parser: validator parseWorkerStatus worker_shape
  by unfold_locales (auto simp: parseWorkerStatus_def worker_shape_def parse_simps case_arr_Inr)

interpretation inspection_parser: validator parseJobInspection inspection_shape
  by unfold_locales (auto simp: parseJobInspection_def inspection_shape_def parse_simps job_parser.parse_iff)

interpretation enqueue_parser: validator parseEnqueueResult enqueue_shape
  by unfold_locales
     (auto simp: parseEnqueueResult_def enqueue_shape_def parse_simps job_parser.parse_iff case_boolean_Inr)

interpretation jobs_parser: validator parseJobs "list_shape job_shape"
  by unfold_locales (simp add: parseJobs_def job_parser.list_iff)

interpretation schedules_parser: validator parseSchedules "list_shape schedule_shape"
  by unfold_locales (simp add: parseSchedules_def schedule_parser.list_iff)

interpretation workers_parser: validator parseWorkerStatuses "list_shape worker_shape"
  by unfold_locales (simp add: parseWorkerStatuses_def worker_parser.list_iff)

end
