(* ===== verification/RequestClient.thy ===== *)
theory RequestClient
  imports ApiParsers
begin

text \<open>
  \<open>src/src/lib/request-client.ts\<close>: one JSON request against the API: construction of the
  request, abort and timeout, classification of failures, body parsing and validation.

  The network is an argument: the outcome of \<open>fetch\<close> and of reading the body, and the sequence
  of abort events (the timer, the caller's signal) until then. URLs are made by \<open>buildApiUrl\<close>.
\<close>

section \<open>Errors\<close>

datatype RequestErrorKind =
    K_aborted | K_auth | K_config | K_empty | K_network | K_parse | K_server | K_timeout

record RequestError =
  re_message :: string
  re_kind :: RequestErrorKind
  re_status :: nat
  re_retriable :: bool

text \<open>The constructor; \<open>None\<close> is an option that is left out.\<close>

definition mk_error :: "string \<Rightarrow> RequestErrorKind \<Rightarrow> nat option \<Rightarrow> bool option \<Rightarrow> RequestError" where
  "mk_error message kind status retriable =
     \<lparr> re_message = message, re_kind = kind, re_status = nullish status 0,
       re_retriable = nullish retriable (kind \<notin> {K_auth, K_config, K_parse}) \<rparr>"

text \<open>Thrown values: a RequestError, a DOMException or another Error with its name and message, anything else.\<close>

datatype exn = Ex_request RequestError | Ex_dom string string | Ex_error string string | Ex_other

section \<open>Abort signals\<close>

text \<open>
  The state of \<open>bindAbortSignals\<close>: the controller is aborted when \<open>ab_reason\<close> is set.
  \<open>None\<close> inside \<open>Some\<close> stands for a reason that is \<open>undefined\<close> or \<open>null\<close>.
\<close>

record abort_state =
  ab_aborted :: bool
  ab_reason :: "exn option"
  ab_timedOut :: bool

datatype abort_event = Timer_fires | Signal_aborts "exn option"

fun is_timeout :: "exn option \<Rightarrow> bool" where
  "is_timeout (Some (Ex_dom name msg)) = (name = ''TimeoutError'')"
| "is_timeout _ = False"

definition abort_with :: "exn option \<Rightarrow> abort_state \<Rightarrow> abort_state" where
  "abort_with reason s =
     (if ab_aborted s then s
      else \<lparr> ab_aborted = True, ab_reason = reason, ab_timedOut = is_timeout reason \<rparr>)"

fun abort_step :: "abort_state \<Rightarrow> abort_event \<Rightarrow> abort_state" where
  "abort_step s Timer_fires = abort_with (Some (Ex_dom ''TimeoutError'' ''Request timed out'')) s"
| "abort_step s (Signal_aborts reason) = abort_with reason s"

text \<open>\<open>initial\<close> is the reason of a signal that was aborted before the request.\<close>

definition bindAbortSignals :: "exn option option \<Rightarrow> abort_event list \<Rightarrow> abort_state" where
  "bindAbortSignals initial events =
     (let s0 = \<lparr> ab_aborted = False, ab_reason = None, ab_timedOut = False \<rparr>;
          s1 = (case initial of None \<Rightarrow> s0 | Some reason \<Rightarrow> abort_with reason s0)
      in foldl abort_step s1 events)"

definition classifyFetchError :: "exn \<Rightarrow> abort_state \<Rightarrow> RequestError" where
  "classifyFetchError error binding =
     (let timeout = mk_error ''Request timed out before the API responded.'' K_timeout None None;
          aborted = mk_error ''Request was cancelled.'' K_aborted None None;
          network = mk_error ''Network request failed before a response was received.'' K_network None None
      in case error of
           Ex_request e \<Rightarrow> e
         | _ \<Rightarrow>
             if ab_timedOut binding \<or> is_timeout (ab_reason binding) then timeout
             else (case error of
                 Ex_dom name msg \<Rightarrow>
                   if name = ''AbortError'' then aborted
                   else if name = ''TimeoutError'' then timeout else network
               | Ex_error name msg \<Rightarrow> if name = ''AbortError'' then aborted else network
               | _ \<Rightarrow> network))"

section \<open>Responses\<close>

definition parseBody :: "string \<Rightarrow> jsval" where
  "parseBody bodyText =
     (let trimmed = js_trim bodyText
      in if trimmed = [] then Null
         else case json_parse trimmed of Some v \<Rightarrow> v | None \<Rightarrow> Str bodyText)"

definition buildResponseError :: "nat \<Rightarrow> jsval \<Rightarrow> string \<Rightarrow> RequestError" where
  "buildResponseError status body bodyText =
     (let message = (case body of
            Obj kvs \<Rightarrow> (case obj_get kvs ''error'' of
                Some e \<Rightarrow> safeTrim e []
              | None \<Rightarrow> safeTrimStr bodyText)
          | _ \<Rightarrow> safeTrimStr bodyText)
      in if status = 401 \<or> status = 403 then
           mk_error (or_str message ''Authentication failed for the dashboard API.'') K_auth (Some status) (Some False)
         else mk_error (or_str message (''Request failed with '' @ number_to_string (of_nat status) @ ''.''))
                K_server (Some status) None)"

section \<open>The request\<close>

text \<open>Header names are case-insensitive: they are kept in lower case.\<close>

type_synonym headers = "string \<rightharpoonup> string"

definition header_set :: "headers \<Rightarrow> string \<Rightarrow> string \<Rightarrow> headers" where
  "header_set h name value = h(js_lower name \<mapsto> value)"

definition header_has :: "headers \<Rightarrow> string \<Rightarrow> bool" where
  "header_has h name \<longleftrightarrow> h (js_lower name) \<noteq> None"

record RequestInit =
  ri_method :: "string option"
  ri_headers :: headers
  ri_body :: "string option"

record RequestJsonOptions =
  ro_baseUrl :: "string option"
  ro_path :: string
  ro_token :: "string option"
  ro_init :: "RequestInit option"
  ro_parser :: "(jsval \<Rightarrow> exn + jsval) option"
  ro_allowEmpty :: bool

record SentRequest =
  sr_url :: string
  sr_method :: "string option"
  sr_headers :: headers
  sr_body :: "string option"

text \<open>What the network does: \<open>fetch\<close> rejects, or there is a response whose body cannot or can be read.\<close>

datatype fetch_outcome = Fetch_rejects exn | Body_rejects nat exn | Response nat string

definition response_ok :: "nat \<Rightarrow> bool" where
  "response_ok status \<longleftrightarrow> 200 \<le> status \<and> status \<le> 299"

definition build_headers :: "RequestInit option \<Rightarrow> string option \<Rightarrow> headers" where
  "build_headers init token =
     (let h0 = (case init of None \<Rightarrow> Map.empty | Some i \<Rightarrow> ri_headers i);
          body = (case init of None \<Rightarrow> None | Some i \<Rightarrow> ri_body i);
          h1 = (if truthy body \<and> \<not> header_has h0 ''Content-Type''
                then header_set h0 ''Content-Type'' ''application/json'' else h0);
          trimmedToken = safeTrimStr (nullish token [])
      in if trimmedToken \<noteq> [] then header_set h1 ''Authorization'' (''Bearer '' @ trimmedToken) else h1)"

definition config_error :: RequestError where
  "config_error = mk_error ''Enter a valid API base URL to resume live data.'' K_config None (Some False)"

definition build_request :: "'u url_api \<Rightarrow> RequestJsonOptions \<Rightarrow> RequestError + SentRequest" where
  "build_request U opts =
     (let url = buildApiUrl U (ro_baseUrl opts) (ro_path opts)
      in if \<not> truthy url then Inl config_error
         else Inr \<lparr> sr_url = the url,
                    sr_method = (case ro_init opts of None \<Rightarrow> None | Some i \<Rightarrow> ri_method i),
                    sr_headers = build_headers (ro_init opts) (ro_token opts),
                    sr_body = (case ro_init opts of None \<Rightarrow> None | Some i \<Rightarrow> ri_body i) \<rparr>)"

text \<open>The part of \<open>requestJson\<close> after the response body has been read.\<close>

definition finish_response ::
    "RequestJsonOptions \<Rightarrow> nat \<Rightarrow> string \<Rightarrow> RequestError + jsval" where
  "finish_response opts status bodyText =
     (let body = parseBody bodyText
      in if \<not> response_ok status then Inl (buildResponseError status body bodyText)
         else if bodyText = [] then
           (if ro_allowEmpty opts then Inr Null
            else Inl (mk_error (''The '' @ ro_path opts @ '' response was empty.'') K_empty (Some status) None))
         else case ro_parser opts of
             None \<Rightarrow> Inr body
           | Some parser \<Rightarrow>
               (case parser body of
                  Inr v \<Rightarrow> Inr v
                | Inl e \<Rightarrow> Inl (mk_error
                    (case e of
                       Ex_error name msg \<Rightarrow> msg
                     | Ex_dom name msg \<Rightarrow> msg
                     | Ex_request r \<Rightarrow> re_message r
                     | _ \<Rightarrow> ''The '' @ ro_path opts @ '' response was malformed.'')
                    K_parse (Some status) (Some False))))"

definition requestJson ::
    "'u url_api \<Rightarrow> RequestJsonOptions \<Rightarrow> abort_state \<Rightarrow> fetch_outcome \<Rightarrow> RequestError + jsval" where
  "requestJson U opts binding outcome =
     (case build_request U opts of
        Inl e \<Rightarrow> Inl e
      | Inr sent \<Rightarrow>
          (case outcome of
             Fetch_rejects e \<Rightarrow> Inl (classifyFetchError e binding)
           | Body_rejects status e \<Rightarrow> Inl (classifyFetchError e binding)
           | Response status bodyText \<Rightarrow> finish_response opts status bodyText))"

text \<open>A parser of ApiParsers as the \<open>parser\<close> option: it throws an Error with its message.\<close>

definition as_parser :: "(jsval \<Rightarrow> parsed) \<Rightarrow> jsval \<Rightarrow> exn + jsval" where
  "as_parser p v = (case p v of Inl msg \<Rightarrow> Inl (Ex_error ''Error'' msg) | Inr w \<Rightarrow> Inr w)"

section \<open>Lemmas\<close>

text \<open>The rule that a caller's retry logic relies on.\<close>

definition retry_rule :: "RequestError \<Rightarrow> bool" where
  "retry_rule e \<longleftrightarrow> (re_retriable e \<longleftrightarrow> re_kind e \<notin> {K_auth, K_config, K_parse})"

lemma retry_rule_default [simp]: "retry_rule (mk_error m k st None)"
  by (simp add: retry_rule_def mk_error_def)

lemma retry_rule_false [simp]: "k \<in> {K_auth, K_config, K_parse} \<Longrightarrow> retry_rule (mk_error m k st (Some False))"
  by (auto simp: retry_rule_def mk_error_def)

lemma mk_error_fields [simp]:
  "re_kind (mk_error m k st r) = k" "re_status (mk_error m k st r) = nullish st 0"
  "re_message (mk_error m k st r) = m"
  by (simp_all add: mk_error_def)

fun foreign :: "exn \<Rightarrow> bool" where
  "foreign (Ex_request e) = False"
| "foreign e = True"

fun outcome_foreign :: "fetch_outcome \<Rightarrow> bool" where
  "outcome_foreign (Fetch_rejects e) = foreign e"
| "outcome_foreign (Body_rejects st e) = foreign e"
| "outcome_foreign (Response st b) = True"

lemma classify_rule: "foreign e \<Longrightarrow> retry_rule (classifyFetchError e b)"
  by (cases e) (auto simp: classifyFetchError_def Let_def)

lemma response_error_rule: "retry_rule (buildResponseError st body text)"
  by (simp add: buildResponseError_def Let_def)

lemma finish_rule: "finish_response opts st text = Inl e \<Longrightarrow> retry_rule e"
  by (auto simp: finish_response_def Let_def response_error_rule split: if_splits option.splits sum.splits)

lemma requestJson_rule:
  "requestJson U opts b out = Inl e \<Longrightarrow> outcome_foreign out \<Longrightarrow> retry_rule e"
  by (auto simp: requestJson_def build_request_def config_error_def Let_def classify_rule
      dest: finish_rule split: fetch_outcome.splits if_splits)

lemma classify_timeout:
  "foreign e \<Longrightarrow> ab_timedOut b \<Longrightarrow> re_kind (classifyFetchError e b) = K_timeout"
  by (cases e) (auto simp: classifyFetchError_def Let_def)

text \<open>The first abort event decides.\<close>

lemma abort_fold_aborted: "ab_aborted s \<Longrightarrow> foldl abort_step s es = s"
proof (induction es arbitrary: s)
  case (Cons e es)
  then show ?case by (cases e) (simp_all add: abort_with_def)
qed simp

lemma bind_first_timer: "ab_timedOut (bindAbortSignals None (Timer_fires # es))"
  by (simp add: bindAbortSignals_def abort_fold_aborted abort_with_def)

lemma bind_first_signal:
  "bindAbortSignals None (Signal_aborts reason # es) =
   \<lparr> ab_aborted = True, ab_reason = reason, ab_timedOut = is_timeout reason \<rparr>"
  by (simp add: bindAbortSignals_def abort_fold_aborted abort_with_def)

lemma bind_initial:
  "bindAbortSignals (Some reason) es =
   \<lparr> ab_aborted = True, ab_reason = reason, ab_timedOut = is_timeout reason \<rparr>"
  by (simp add: bindAbortSignals_def abort_fold_aborted abort_with_def)

text \<open>
  A validating parser makes the request validating: what it returns has the shape. This is the
  contract of ApiParsers seen through the request.
\<close>

context validator
begin

lemma request_result:
  assumes "ro_parser opts = Some (as_parser parse)" and "\<not> ro_allowEmpty opts"
    and "requestJson U opts b out = Inr v"
  shows "shape v \<and> (\<exists>status text. out = Response status text \<and> response_ok status \<and> v = parseBody text)"
proof (cases out)
  case (Response status bodyText)
  then have "finish_response opts status bodyText = Inr v"
    using assms(3) by (auto simp: requestJson_def split: sum.splits)
  then show ?thesis
    using assms(1,2) Response parse_iff
    by (auto simp: finish_response_def as_parser_def Let_def split: if_splits sum.splits)
qed (use assms(3) in \<open>auto simp: requestJson_def split: sum.splits\<close>)

lemma request_accepts:
  assumes "ro_parser opts = Some (as_parser parse)" and "build_request U opts = Inr sent"
    and "response_ok status" and "text \<noteq> []" and "shape (parseBody text)"
  shows "requestJson U opts b (Response status text) = Inr (parseBody text)"
  using assms accepts by (simp add: requestJson_def finish_response_def as_parser_def)

end

lemma auth_iff:
  "re_kind (buildResponseError st body text) = K_auth \<longleftrightarrow> st = 401 \<or> st = 403"
  by (simp add: buildResponseError_def Let_def)

lemma js_lower_names:
  "js_lower ''Authorization'' = ''authorization''" "js_lower ''Content-Type'' = ''content-type''"
  by (simp_all add: js_lower_def lower_char_def char_of_def bit_iff_odd)

lemma bearer_header:
  "build_headers init token ''authorization'' =
     (if js_trim (nullish token []) \<noteq> [] then Some (''Bearer '' @ js_trim (nullish token []))
      else (case init of None \<Rightarrow> None | Some i \<Rightarrow> ri_headers i ''authorization''))"
  by (auto simp: build_headers_def header_set_def js_lower_names Let_def split: option.split)

text \<open>The error kind "auth" is reserved for the two statuses.\<close>

lemma auth_error_iff:
  assumes "requestJson U opts binding outcome = Inl e" and "outcome_foreign outcome"
  shows "re_kind e = K_auth \<longleftrightarrow>
    (\<exists>status text. build_request U opts \<in> range Inr \<and> outcome = Response status text \<and> status \<in> {401, 403})"
proof (cases "build_request U opts")
  case (Inl e')
  then have "re_kind e = K_config"
    using assms(1) by (auto simp: requestJson_def build_request_def config_error_def Let_def split: if_splits)
  then show ?thesis using Inl by auto
next
  case (Inr sent)
  show ?thesis
  proof (cases outcome)
    case (Response status reply)
    have "finish_response opts status reply = Inl e" using assms(1) Inr Response by (simp add: requestJson_def)
    then have "re_kind e = K_auth \<longleftrightarrow> status \<in> {401, 403}"
      by (auto simp: finish_response_def Let_def response_ok_def auth_iff split: if_splits option.splits sum.splits)
    then show ?thesis using Inr Response by auto
  next
    case (Fetch_rejects x)
    then have "re_kind e \<noteq> K_auth"
      using assms Inr by (cases x) (auto simp: requestJson_def classifyFetchError_def Let_def split: if_splits)
    then show ?thesis using Fetch_rejects by simp
  next
    case (Body_rejects st x)
    then have "re_kind e \<noteq> K_auth"
      using assms Inr by (cases x) (auto simp: requestJson_def classifyFetchError_def Let_def split: if_splits)
    then show ?thesis using Body_rejects by simp
  qed
qed

end
