(* ===== verification/ToastQueue.thy ===== *)
theory ToastQueue
  imports Safe StepSystem
begin

text \<open>
  \<open>src/src/hooks/useToastQueue.ts\<close>: the notification queue, with at most five visible toasts,
  one active toast per key, a cool-down per key, and a timer that dismisses each toast.

  The refs and the React state of the hook are one record; \<open>tq_pending\<close> is the browser's side of
  the timers. React applies the queued updates of \<open>setToasts\<close> in order, so each operation applies
  its update at once. Timer handles are positive, as setTimeout returns them. The four records of the hook are
  object literals; the keys and ids the client uses are not names of Object.prototype members.
\<close>

record ToastInput =
  ti_key :: "string option"
  ti_title :: string
  ti_description :: "string option"
  ti_tone :: ToastTone
  ti_cooldownMs :: "rat option"
  ti_durationMs :: "rat option"

record ToastQueue =
  tq_toasts :: "Toast list"
  tq_timers :: "string \<rightharpoonup> nat"
  tq_activeKeys :: "string \<rightharpoonup> string"
  tq_keyById :: "string \<rightharpoonup> string"
  tq_lastShownAt :: "string \<rightharpoonup> int"
  tq_pending :: "nat \<rightharpoonup> string \<times> rat"
  tq_nextHandle :: nat

definition empty_queue :: ToastQueue where
  "empty_queue = \<lparr> tq_toasts = [], tq_timers = Map.empty, tq_activeKeys = Map.empty,
     tq_keyById = Map.empty, tq_lastShownAt = Map.empty, tq_pending = Map.empty, tq_nextHandle = 1 \<rparr>"

fun tone_string :: "ToastTone \<Rightarrow> string" where
  "tone_string Tone_info = ''info''"
| "tone_string Tone_success = ''success''"
| "tone_string Tone_warning = ''warning''"
| "tone_string Tone_danger = ''danger''"

definition dismissToast :: "string \<Rightarrow> ToastQueue \<Rightarrow> ToastQueue" where
  "dismissToast toastId q =
     (let q1 = (case tq_timers q toastId of
                  None \<Rightarrow> q
                | Some timer \<Rightarrow>
                    if timer = 0 then q
                    else q\<lparr> tq_pending := (tq_pending q)(timer := None),
                            tq_timers := (tq_timers q)(toastId := None) \<rparr>);
          q2 = (case tq_keyById q1 toastId of
                  None \<Rightarrow> q1
                | Some key \<Rightarrow>
                    if key = [] then q1
                    else q1\<lparr> tq_activeKeys := (tq_activeKeys q1)(key := None),
                             tq_keyById := (tq_keyById q1)(toastId := None) \<rparr>)
      in q2\<lparr> tq_toasts := filter (\<lambda>toast. toast_id toast \<noteq> toastId) (tq_toasts q2) \<rparr>)"

definition toast_key :: "ToastInput \<Rightarrow> string" where
  "toast_key toast = nullish (ti_key toast)
     (tone_string (ti_tone toast) @ '':'' @ ti_title toast @ '':'' @ nullish (ti_description toast) [])"

text \<open>\<open>uid\<close> is the result of createToastId(); the second component is the returned id or \<open>null\<close>.\<close>

definition enqueueToast :: "int \<Rightarrow> string \<Rightarrow> ToastInput \<Rightarrow> ToastQueue \<Rightarrow> ToastQueue \<times> string option" where
  "enqueueToast now uid toast q =
     (let key = toast_key toast;
          activeId = tq_activeKeys q key;
          cooldownMs = nullish (ti_cooldownMs toast) 10000
      in if truthy activeId then (q, activeId)
         else if (case tq_lastShownAt q key of
                    None \<Rightarrow> False
                  | Some t \<Rightarrow> t \<noteq> 0 \<and> of_int (now - t) < cooldownMs) then (q, None)
         else let durationMs = nullish (ti_durationMs toast) 4200;
                  nextToast = \<lparr> toast_id = uid, toast_title = ti_title toast,
                                toast_description = ti_description toast, toast_tone = ti_tone toast \<rparr>
              in (q\<lparr> tq_activeKeys := (tq_activeKeys q)(key \<mapsto> uid),
                     tq_keyById := (tq_keyById q)(uid \<mapsto> key),
                     tq_lastShownAt := (tq_lastShownAt q)(key \<mapsto> now),
                     tq_toasts := take 5 (nextToast # tq_toasts q),
                     tq_timers := (tq_timers q)(uid \<mapsto> tq_nextHandle q),
                     tq_pending := (tq_pending q)(tq_nextHandle q \<mapsto> (uid, durationMs)),
                     tq_nextHandle := tq_nextHandle q + 1 \<rparr>, Some uid))"

text \<open>A timer fires, and the hook is unmounted.\<close>

definition toast_timer :: "nat \<Rightarrow> string \<Rightarrow> ToastQueue \<Rightarrow> ToastQueue" where
  "toast_timer h uid q = dismissToast uid (q\<lparr> tq_pending := (tq_pending q)(h := None) \<rparr>)"

definition unmount_toasts :: "ToastQueue \<Rightarrow> ToastQueue" where
  "unmount_toasts q =
     q\<lparr> tq_pending := (\<lambda>h. if h \<in> ran (tq_timers q) then None else tq_pending q h) \<rparr>"

section \<open>The invariant\<close>

text \<open>
  The two key maps are inverse to each other, every active toast has its own pending timer, and
  every visible toast is active.
\<close>

definition keys_inverse :: "ToastQueue \<Rightarrow> bool" where
  "keys_inverse q \<longleftrightarrow> (\<forall>k i. tq_activeKeys q k = Some i \<longleftrightarrow> tq_keyById q i = Some k)"

definition timers_inverse :: "ToastQueue \<Rightarrow> bool" where
  "timers_inverse q \<longleftrightarrow>
     (\<forall>i h. tq_timers q i = Some h \<longrightarrow> (\<exists>d. tq_pending q h = Some (i, d))) \<and>
     (\<forall>h i d. tq_pending q h = Some (i, d) \<longrightarrow> tq_timers q i = Some h \<and> 0 < h \<and> h < tq_nextHandle q) \<and>
     0 < tq_nextHandle q"

definition toast_inv :: "ToastQueue \<Rightarrow> bool" where
  "toast_inv q \<longleftrightarrow>
     length (tq_toasts q) \<le> 5 \<and> distinct (map toast_id (tq_toasts q)) \<and>
     keys_inverse q \<and> timers_inverse q \<and>
     dom (tq_timers q) = dom (tq_keyById q) \<and>
     toast_id ` set (tq_toasts q) \<subseteq> dom (tq_keyById q) \<and>
     [] \<notin> dom (tq_activeKeys q) \<and> [] \<notin> dom (tq_keyById q)"

lemma timers_inverseD:
  assumes "timers_inverse q"
  shows "tq_timers q i = Some h \<Longrightarrow> \<exists>d. tq_pending q h = Some (i, d)"
    and "tq_pending q h = Some (i, d) \<Longrightarrow> tq_timers q i = Some h"
    and "tq_pending q h = Some (i, d) \<Longrightarrow> 0 < h"
    and "tq_pending q h = Some (i, d) \<Longrightarrow> h < tq_nextHandle q"
    and "0 < tq_nextHandle q"
  using assms unfolding timers_inverse_def by blast+

lemma timers_inverseI:
  assumes "\<And>i h. tq_timers q i = Some h \<Longrightarrow> \<exists>d. tq_pending q h = Some (i, d)"
    and "\<And>h i d. tq_pending q h = Some (i, d) \<Longrightarrow> tq_timers q i = Some h \<and> 0 < h \<and> h < tq_nextHandle q"
    and "0 < tq_nextHandle q"
  shows "timers_inverse q"
  using assms unfolding timers_inverse_def by blast

lemma timer_pos:
  assumes "timers_inverse q" and "tq_timers q i = Some h"
  shows "h \<noteq> 0"
proof -
  obtain d where "tq_pending q h = Some (i, d)" using timers_inverseD(1) [OF assms] by blast
  then show ?thesis using timers_inverseD(3) [OF assms(1)] by blast
qed

lemma fresh_handle:
  assumes "timers_inverse q"
  shows "tq_pending q (tq_nextHandle q) = None"
proof (cases "tq_pending q (tq_nextHandle q)")
  case (Some x)
  then have "tq_nextHandle q < tq_nextHandle q"
    using timers_inverseD(4) [OF assms, of "tq_nextHandle q" "fst x" "snd x"] by simp
  then show ?thesis by simp
qed simp

lemma empty_queue_inv: "toast_inv empty_queue"
  by (simp add: toast_inv_def empty_queue_def keys_inverse_def timers_inverse_def)

lemma toast_invD:
  assumes "toast_inv q"
  shows "length (tq_toasts q) \<le> 5" "distinct (map toast_id (tq_toasts q))" "keys_inverse q" "timers_inverse q"
    "dom (tq_timers q) = dom (tq_keyById q)" "toast_id ` set (tq_toasts q) \<subseteq> dom (tq_keyById q)"
    "tq_activeKeys q [] = None" "tq_keyById q [] = None"
  using assms by (auto simp: toast_inv_def domIff)

lemma active_key:
  assumes "toast_inv q" and "tq_keyById q i = Some k"
  shows "k \<noteq> []"
proof
  assume "k = []"
  then have "tq_activeKeys q [] = Some i"
    using toast_invD(3) [OF assms(1)] assms(2) by (simp add: keys_inverse_def)
  then show False using toast_invD(7) [OF assms(1)] by simp
qed

text \<open>What dismissing an active toast does, when the invariant holds (its timer may have fired).\<close>

lemma dismiss_active:
  assumes "tq_timers q i = Some h" and "tq_keyById q i = Some k" and "h \<noteq> 0" and "k \<noteq> []"
  shows "dismissToast i q = q\<lparr> tq_pending := (tq_pending q)(h := None), tq_timers := (tq_timers q)(i := None),
     tq_activeKeys := (tq_activeKeys q)(k := None), tq_keyById := (tq_keyById q)(i := None),
     tq_toasts := filter (\<lambda>toast. toast_id toast \<noteq> i) (tq_toasts q) \<rparr>"
  using assms by (simp add: dismissToast_def Let_def)

lemma dismiss_inactive:
  assumes "tq_timers q i = None" and "tq_keyById q i = None"
  shows "dismissToast i q = q\<lparr> tq_toasts := filter (\<lambda>toast. toast_id toast \<noteq> i) (tq_toasts q) \<rparr>"
  using assms by (simp add: dismissToast_def)

lemma removed_inv:
  assumes "toast_inv q" and "tq_timers q i = Some h" and "tq_keyById q i = Some k"
  shows "toast_inv (q\<lparr> tq_pending := (tq_pending q)(h := None), tq_timers := (tq_timers q)(i := None),
     tq_activeKeys := (tq_activeKeys q)(k := None), tq_keyById := (tq_keyById q)(i := None),
     tq_toasts := filter (\<lambda>toast. toast_id toast \<noteq> i) (tq_toasts q) \<rparr>)" (is "toast_inv ?q")
proof -
  note b = toast_invD [OF assms(1)]
  have k: "keys_inverse ?q"
    using b(3) assms(3) unfolding keys_inverse_def by (auto; metis option.inject)
  note d = timers_inverseD [OF b(4)]
  have own: "h' \<noteq> h" if "tq_timers q i' = Some h'" "i' \<noteq> i" for i' h'
  proof
    assume "h' = h"
    then show False using d(1) [OF that(1)] d(1) [OF assms(2)] that(2) by auto
  qed
  have own2: "i' \<noteq> i" if "tq_pending q h' = Some (i', dl)" "h' \<noteq> h" for i' h' dl
    using d(2) [OF that(1)] assms(2) that(2) by auto
  have t: "timers_inverse ?q"
  proof (rule timers_inverseI)
    fix i' h' assume "tq_timers ?q i' = Some h'"
    then have t: "tq_timers q i' = Some h'" "i' \<noteq> i" by (simp_all split: if_splits)
    then show "\<exists>d. tq_pending ?q h' = Some (i', d)" using d(1) [OF t(1)] own [OF t] by simp
  next
    fix h' i' dl assume "tq_pending ?q h' = Some (i', dl)"
    then have t: "tq_pending q h' = Some (i', dl)" "h' \<noteq> h" by (simp_all split: if_splits)
    then show "tq_timers ?q i' = Some h' \<and> 0 < h' \<and> h' < tq_nextHandle ?q"
      using d(2-4) [OF t(1)] own2 [OF t] by simp
  qed (use d(5) in simp)
  show ?thesis
    using k t b by (auto simp: toast_inv_def distinct_map_filter intro: order_trans [OF length_filter_le])
qed

lemma dismiss_inv:
  assumes "toast_inv q"
  shows "toast_inv (dismissToast i q)"
proof (cases "tq_keyById q i")
  case None
  note b = toast_invD [OF assms]
  have "tq_timers q i = None" using b(5) None by (metis domIff)
  moreover have "i \<notin> toast_id ` set (tq_toasts q)" using b(6) None by (auto simp: domIff)
  then have "filter (\<lambda>toast. toast_id toast \<noteq> i) (tq_toasts q) = tq_toasts q"
    by (intro filter_True) auto
  ultimately show ?thesis using assms None by (simp add: dismiss_inactive)
next
  case (Some k)
  note b = toast_invD [OF assms]
  obtain h where h: "tq_timers q i = Some h" using b(5) Some by (metis domI domD)
  have "h \<noteq> 0" using timer_pos [OF b(4) h] .
  moreover have "k \<noteq> []" using active_key [OF assms Some] .
  ultimately show ?thesis using removed_inv [OF assms h Some] h Some by (simp add: dismiss_active)
qed

lemma timer_inv:
  assumes "toast_inv q" and "tq_pending q h = Some (i, d)"
  shows "toast_inv (toast_timer h i q)"
proof -
  note b = toast_invD [OF assms(1)]
  have h: "tq_timers q i = Some h" using timers_inverseD(2) [OF b(4) assms(2)] .
  then obtain k where k: "tq_keyById q i = Some k" using b(5) by (metis domI domD)
  have "h \<noteq> 0" using timer_pos [OF b(4) h] .
  moreover have "k \<noteq> []" using active_key [OF assms(1) k] .
  ultimately have "toast_timer h i q = q\<lparr> tq_pending := (tq_pending q)(h := None), tq_timers := (tq_timers q)(i := None),
     tq_activeKeys := (tq_activeKeys q)(k := None), tq_keyById := (tq_keyById q)(i := None),
     tq_toasts := filter (\<lambda>toast. toast_id toast \<noteq> i) (tq_toasts q) \<rparr>"
    using h k by (simp add: toast_timer_def dismiss_active)
  then show ?thesis using removed_inv [OF assms(1) h k] by simp
qed

text \<open>A fresh id: not empty, and not in use.\<close>

definition fresh_id :: "string \<Rightarrow> ToastQueue \<Rightarrow> bool" where
  "fresh_id uid q \<longleftrightarrow> uid \<noteq> [] \<and> tq_keyById q uid = None"

lemma enqueue_inv:
  assumes "toast_inv q" and "fresh_id uid q" and "toast_key toast \<noteq> []"
  shows "toast_inv (fst (enqueueToast now uid toast q))"
proof -
  note b = toast_invD [OF assms(1)]
  let ?k = "toast_key toast" and ?h = "tq_nextHandle q"
  let ?t = "\<lparr> toast_id = uid, toast_title = ti_title toast, toast_description = ti_description toast,
    toast_tone = ti_tone toast \<rparr>"
  let ?q = "q\<lparr> tq_activeKeys := (tq_activeKeys q)(?k \<mapsto> uid), tq_keyById := (tq_keyById q)(uid \<mapsto> ?k),
    tq_lastShownAt := (tq_lastShownAt q)(?k \<mapsto> now), tq_toasts := take 5 (?t # tq_toasts q),
    tq_timers := (tq_timers q)(uid \<mapsto> ?h),
    tq_pending := (tq_pending q)(?h \<mapsto> (uid, nullish (ti_durationMs toast) 4200)),
    tq_nextHandle := ?h + 1 \<rparr>"
  have u: "uid \<noteq> []" "tq_keyById q uid = None" "tq_timers q uid = None"
    using assms(2) b(5) by (auto simp: fresh_id_def domIff)
  have "toast_inv ?q" if "\<not> truthy (tq_activeKeys q ?k)"
  proof -
    have a: "tq_activeKeys q ?k = None"
    proof (cases "tq_activeKeys q ?k")
      case (Some i)
      then have "tq_keyById q i = Some ?k" using b(3) by (simp add: keys_inverse_def)
      then have "i \<noteq> []" using b(8) by auto
      with that Some show ?thesis by simp
    qed
    have ki: "keys_inverse ?q"
      unfolding keys_inverse_def
    proof (intro allI)
      fix k i
      have iff: "tq_activeKeys q k' = Some i' \<longleftrightarrow> tq_keyById q i' = Some k'" for k' i'
        using b(3) by (simp add: keys_inverse_def)
      have "tq_activeKeys q k \<noteq> Some uid" "tq_keyById q i \<noteq> Some ?k"
        using iff [of k uid] iff [of ?k i] u(2) a by simp_all
      then show "tq_activeKeys ?q k = Some i \<longleftrightarrow> tq_keyById ?q i = Some k"
        using iff [of k i] by (cases "k = ?k"; cases "i = uid") simp_all
    qed
    note d = timers_inverseD [OF b(4)]
    have ti: "timers_inverse ?q"
    proof (rule timers_inverseI)
      fix i' h' assume "tq_timers ?q i' = Some h'"
      then have "i' = uid \<and> h' = ?h \<or> tq_timers q i' = Some h'" by (simp split: if_splits)
      then consider "i' = uid" "h' = ?h" | "tq_timers q i' = Some h'" by blast
      then show "\<exists>d. tq_pending ?q h' = Some (i', d)"
      proof cases
        case 2
        then show ?thesis using d(1) [OF 2] fresh_handle [OF b(4)] by auto
      qed simp
    next
      fix h' i' dl assume "tq_pending ?q h' = Some (i', dl)"
      then have "h' = ?h \<and> i' = uid \<or> tq_pending q h' = Some (i', dl)" by (simp split: if_splits)
      then consider "h' = ?h" "i' = uid" | "tq_pending q h' = Some (i', dl)" by blast
      then show "tq_timers ?q i' = Some h' \<and> 0 < h' \<and> h' < tq_nextHandle ?q"
      proof cases
        case 1
        then show ?thesis using d(5) by simp
      next
        case 2
        then have "i' \<noteq> uid" using d(2) [OF 2] u(3) by auto
        then show ?thesis using d(2-4) [OF 2] by simp
      qed
    qed simp
    have "uid \<notin> toast_id ` set (tq_toasts q)" using b(6) u(2) by (auto simp: domIff)
    then have d: "distinct (map toast_id (?t # tq_toasts q))" using b(2) by simp
    have "set (tq_toasts q) \<supseteq> set (take 4 (tq_toasts q))" by (rule set_take_subset)
    then have "toast_id ` set (take 5 (?t # tq_toasts q)) \<subseteq> dom ((tq_keyById q)(uid \<mapsto> ?k))"
      using b(6) by auto
    then show ?thesis
      using ki ti b(5) u(1) assms(3) b(7,8) distinct_take [OF d, of 5]
      by (auto simp: toast_inv_def domIff take_map)
  qed
  then show ?thesis using assms(1) by (auto simp: enqueueToast_def Let_def)
qed

text \<open>The queue as a transition system: every toast gets a fresh id, and a timer fires while it is pending.\<close>

inductive toast_step :: "ToastQueue \<Rightarrow> ToastQueue \<Rightarrow> bool" where
  toast_shown: "fresh_id uid q \<Longrightarrow> toast_key toast \<noteq> [] \<Longrightarrow> toast_step q (fst (enqueueToast now uid toast q))"
| toast_dismissed: "toast_step q (dismissToast i q)"
| toast_expired: "tq_pending q h = Some (i, d) \<Longrightarrow> toast_step q (toast_timer h i q)"

lemma toast_step_inv: "toast_inv q \<Longrightarrow> toast_step q q' \<Longrightarrow> toast_inv q'"
  by (auto elim!: toast_step.cases simp: enqueue_inv dismiss_inv timer_inv)

interpretation toasts: step_system "\<lambda>q. q = empty_queue" toast_step toast_inv
  by unfold_locales (auto intro: empty_queue_inv toast_step_inv)

section \<open>De-duplication and cool-down\<close>

lemma active_not_repeated:
  assumes "tq_activeKeys q (toast_key toast) = Some i" and "i \<noteq> []"
  shows "enqueueToast now uid toast q = (q, Some i)"
  using assms by (simp add: enqueueToast_def Let_def)

lemma cooling_not_shown:
  assumes "tq_activeKeys q (toast_key toast) = None"
    and "tq_lastShownAt q (toast_key toast) = Some t" and "t \<noteq> 0"
    and "of_int (now - t) < nullish (ti_cooldownMs toast) 10000"
  shows "enqueueToast now uid toast q = (q, None)"
  using assms by (simp add: enqueueToast_def Let_def)

lemma rested_shown:
  assumes "tq_activeKeys q (toast_key toast) = None"
    and "tq_lastShownAt q (toast_key toast) = Some t" and "nullish (ti_cooldownMs toast) 10000 \<le> of_int (now - t)"
  shows "snd (enqueueToast now uid toast q) = Some uid"
  using assms by (simp add: enqueueToast_def Let_def)

lemma shown_then_active:
  assumes "snd (enqueueToast now uid toast q) = Some uid" and "toast_inv q" and "fresh_id uid q"
  shows "tq_activeKeys (fst (enqueueToast now uid toast q)) (toast_key toast) = Some uid"
    and "tq_lastShownAt (fst (enqueueToast now uid toast q)) (toast_key toast) = Some now"
proof -
  have "tq_activeKeys q (toast_key toast) \<noteq> Some uid"
    using toast_invD(3) [OF assms(2)] assms(3) by (simp add: keys_inverse_def fresh_id_def)
  then have "\<not> truthy (tq_activeKeys q (toast_key toast))"
    using assms(1) by (auto simp: enqueueToast_def Let_def split: if_splits)
  then show "tq_activeKeys (fst (enqueueToast now uid toast q)) (toast_key toast) = Some uid"
    and "tq_lastShownAt (fst (enqueueToast now uid toast q)) (toast_key toast) = Some now"
    using assms(1) by (auto simp: enqueueToast_def Let_def split: if_splits)
qed

lemma dismiss_keeps_lastShown: "tq_lastShownAt (dismissToast i q) = tq_lastShownAt q"
  by (simp add: dismissToast_def Let_def split: option.split)

lemma dismiss_releases:
  assumes "toast_inv q" and "tq_activeKeys q k = Some i"
  shows "tq_activeKeys (dismissToast i q) k = None" and "i \<notin> toast_id ` set (tq_toasts (dismissToast i q))"
proof -
  note b = toast_invD [OF assms(1)]
  have k: "tq_keyById q i = Some k" using b(3) assms(2) by (simp add: keys_inverse_def)
  obtain h where h: "tq_timers q i = Some h" using b(5) k by (metis domI domD)
  show "tq_activeKeys (dismissToast i q) k = None" and "i \<notin> toast_id ` set (tq_toasts (dismissToast i q))"
    using dismiss_active [OF h k timer_pos [OF b(4) h] active_key [OF assms(1) k]] by auto
qed

text \<open>
  After a toast has been shown at \<open>t\<close> and dismissed, the same key stays silent for the cool-down,
  and the first request after it is shown again.
\<close>

lemma dismissed_cools:
  assumes "toast_inv q" and "fresh_id i q" and "snd (enqueueToast t i toast q) = Some i" and "t \<noteq> 0"
    and "toast_key toast \<noteq> []"
  defines "q1 \<equiv> dismissToast i (fst (enqueueToast t i toast q))"
  shows "of_int (now - t) < nullish (ti_cooldownMs toast) 10000 \<Longrightarrow> enqueueToast now uid toast q1 = (q1, None)"
    and "nullish (ti_cooldownMs toast) 10000 \<le> of_int (now - t) \<Longrightarrow> snd (enqueueToast now uid toast q1) = Some uid"
proof -
  note s = shown_then_active [OF assms(3) assms(1,2)]
  have inv: "toast_inv (fst (enqueueToast t i toast q))" using enqueue_inv [OF assms(1,2,5)] .
  have a: "tq_activeKeys q1 (toast_key toast) = None"
    unfolding q1_def using dismiss_releases(1) [OF inv s(1)] .
  have l: "tq_lastShownAt q1 (toast_key toast) = Some t"
    unfolding q1_def using s(2) by (simp add: dismiss_keeps_lastShown)
  show "of_int (now - t) < nullish (ti_cooldownMs toast) 10000 \<Longrightarrow> enqueueToast now uid toast q1 = (q1, None)"
    using cooling_not_shown [OF a l assms(4)] .
  show "nullish (ti_cooldownMs toast) 10000 \<le> of_int (now - t) \<Longrightarrow> snd (enqueueToast now uid toast q1) = Some uid"
    using rested_shown [OF a l] .
qed

end
