(* ===== verification/RuntimeConfig.thy ===== *)
theory RuntimeConfig
  imports Safe
begin

text \<open>
  Where the console finds its back end: \<open>src/src/lib/runtime-config.ts\<close>, the shorter
  \<open>src/dashboard/src/lib/runtime-config.ts\<close> that the other copy of the console is built with
  (prefix \<open>dash_\<close>), and \<open>src/src/api/config.ts\<close> (prefix \<open>api_\<close>); and the delay of
  \<open>src/src/lib/motion.ts\<close>.
\<close>

text \<open>
  \<open>import.meta.env\<close>: the variables (\<open>Undefined\<close> when not set) and the two build flags.
\<close>

record vite_env =
  ve_get :: "string \<Rightarrow> jsval"
  ve_prod :: bool
  ve_dev :: bool

section \<open>The dashboard's configuration\<close>

definition dash_trimTrailingSlash :: "string \<Rightarrow> string" where
  "dash_trimTrailingSlash value = strip_trailing_slashes value"

text \<open>\<open>env.X || ""\<close>, the variables being texts.\<close>

definition env_or_empty :: "vite_env \<Rightarrow> string \<Rightarrow> string" where
  "env_or_empty E key = (case ve_get E key of Str s \<Rightarrow> s | _ \<Rightarrow> [])"

definition dash_API_BASE_URL :: "vite_env \<Rightarrow> string" where
  "dash_API_BASE_URL E =
     or_str (dash_trimTrailingSlash (env_or_empty E ''VITE_API_URL''))
       (if ve_prod E then [] else ''http://localhost:8080'')"

text \<open>The warning on the console of the browser when the module is loaded.\<close>

definition dash_warning :: "vite_env \<Rightarrow> string option" where
  "dash_warning E =
     (if ve_prod E \<and> dash_trimTrailingSlash (env_or_empty E ''VITE_API_URL'') = []
      then Some ''VITE_API_URL is missing in production'' else None)"

text \<open>\<open>url.replace(/^prefix/, by)\<close>\<close>

definition replace_prefix :: "string \<Rightarrow> string \<Rightarrow> string \<Rightarrow> string" where
  "replace_prefix prefix' by' s = (if js_startsWith s prefix' then by' @ drop (length prefix') s else s)"

definition dash_WS_BASE_URL :: "vite_env \<Rightarrow> string" where
  "dash_WS_BASE_URL E =
     or_str (dash_trimTrailingSlash (env_or_empty E ''VITE_WS_URL''))
       (replace_prefix ''http://'' ''ws://''
         (replace_prefix ''https://'' ''wss://'' (dash_API_BASE_URL E)))"

definition dash_adminToken :: "vite_env \<Rightarrow> string" where
  "dash_adminToken E = js_trim (env_or_empty E ''VITE_ADMIN_TOKEN'')"

definition dash_apiUrl :: "vite_env \<Rightarrow> string \<Rightarrow> string" where
  "dash_apiUrl E path = dash_API_BASE_URL E @ (if js_startsWith path ''/'' then path else ''/'' @ path)"

definition dash_wsUrl :: "vite_env \<Rightarrow> string \<Rightarrow> string" where
  "dash_wsUrl E path = dash_WS_BASE_URL E @ (if js_startsWith path ''/'' then path else ''/'' @ path)"

section \<open>The console's configuration\<close>

definition getEnvValue :: "vite_env \<Rightarrow> string \<Rightarrow> string" where
  "getEnvValue E key = safeTrim (ve_get E key) []"

text \<open>Both \<open>return\<close> branches of the source drop one trailing slash.\<close>

definition deriveWebSocketUrl :: "'u url_api \<Rightarrow> string \<Rightarrow> string" where
  "deriveWebSocketUrl U apiBaseUrl =
     (let normalizedApiBaseUrl = normalizeBaseUrl U (Str apiBaseUrl)
      in if \<not> truthy normalizedApiBaseUrl then []
         else case url_new U (the normalizedApiBaseUrl) of
           None \<Rightarrow> []
         | Some parsed \<Rightarrow>
             if url_protocol U parsed = ''http:'' then
               strip_one_trailing_slash (url_href U (url_set_protocol U parsed ''ws:''))
             else if url_protocol U parsed = ''https:'' then
               strip_one_trailing_slash (url_href U (url_set_protocol U parsed ''wss:''))
             else [])"

definition resolveApiUrlFromEnv :: "'u url_api \<Rightarrow> vite_env \<Rightarrow> string" where
  "resolveApiUrlFromEnv U E =
     nullish (normalizeBaseUrl U (Str (or_str (or_str (getEnvValue E ''NEXT_PUBLIC_API_URL'')
       (getEnvValue E ''VITE_API_URL'')) (getEnvValue E ''VITE_API_BASE_URL'')))) []"

definition resolveWsUrlFromEnv :: "'u url_api \<Rightarrow> vite_env \<Rightarrow> string" where
  "resolveWsUrlFromEnv U E =
     nullish (normalizeBaseUrl U (Str (or_str (or_str (getEnvValue E ''NEXT_PUBLIC_WS_URL'')
       (getEnvValue E ''VITE_WS_URL'')) (getEnvValue E ''VITE_WS_BASE_URL'')))) []"

definition resolveDefaultApiBaseUrl :: "'u url_api \<Rightarrow> vite_env \<Rightarrow> string" where
  "resolveDefaultApiBaseUrl U E = resolveApiUrlFromEnv U E"

definition resolveDefaultRealtimeBaseUrl :: "'u url_api \<Rightarrow> vite_env \<Rightarrow> string option \<Rightarrow> string" where
  "resolveDefaultRealtimeBaseUrl U E apiBaseUrl =
     (let explicitWsBaseUrl = resolveWsUrlFromEnv U E
      in if explicitWsBaseUrl \<noteq> [] then
           or_str (deriveWebSocketUrl U explicitWsBaseUrl) explicitWsBaseUrl
         else
           deriveWebSocketUrl U
             (or_str_opt (normalizeBaseUrl U
                (Str (safeTrim (case apiBaseUrl of None \<Rightarrow> Undefined | Some s \<Rightarrow> Str s) [])))
               (resolveApiUrlFromEnv U E)))"

definition resolveDefaultAdminToken :: "vite_env \<Rightarrow> string" where
  "resolveDefaultAdminToken E =
     or_str (safeTrimStr (or_str (getEnvValue E ''VITE_ADMIN_TOKEN'') (getEnvValue E ''NEXT_PUBLIC_ADMIN_TOKEN'')))
       ''dev-admin-token''"

section \<open>api/config.ts\<close>

definition LOCAL_HOSTS :: "string list" where
  "LOCAL_HOSTS = [''localhost'', ''127.0.0.1'', ''::1'']"

definition resolveExplicitApiBaseUrl :: "'u url_api \<Rightarrow> vite_env \<Rightarrow> string option" where
  "resolveExplicitApiBaseUrl U E =
     normalizeBaseUrl U (Str (or_str (getEnvValue E ''NEXT_PUBLIC_API_URL'') (getEnvValue E ''VITE_API_BASE_URL'')))"

definition resolveExplicitWsBaseUrl :: "'u url_api \<Rightarrow> vite_env \<Rightarrow> string option" where
  "resolveExplicitWsBaseUrl U E =
     normalizeBaseUrl U (Str (or_str (getEnvValue E ''NEXT_PUBLIC_WS_URL'') (getEnvValue E ''VITE_WS_BASE_URL'')))"

text \<open>\<open>hostname\<close> is \<open>window.location.hostname\<close>, \<open>None\<close> when there is no window.\<close>

definition api_API_BASE_URL :: "'u url_api \<Rightarrow> vite_env \<Rightarrow> string option \<Rightarrow> string" where
  "api_API_BASE_URL U E hostname =
     (let explicit = resolveExplicitApiBaseUrl U E
      in if truthy explicit then the explicit
         else case hostname of
           None \<Rightarrow> []
         | Some h \<Rightarrow>
             if \<not> ve_dev E then []
             else if js_lower (safeTrimStr h) \<in> set LOCAL_HOSTS then ''http://localhost:8080''
             else [])"

definition api_WS_BASE_URL :: "'u url_api \<Rightarrow> vite_env \<Rightarrow> string option \<Rightarrow> string" where
  "api_WS_BASE_URL U E hostname =
     (let explicit = resolveExplicitWsBaseUrl U E
      in if truthy explicit then the explicit else api_API_BASE_URL U E hostname)"

section \<open>motion.ts\<close>

definition getStaggerDelay :: "nat \<Rightarrow> rat option \<Rightarrow> rat" where
  "getStaggerDelay index step = min (of_nat index * nullish step (3 / 100)) (18 / 100)"

section \<open>Lemmas\<close>

lemma admin_token_nonempty: "resolveDefaultAdminToken E \<noteq> []"
  by (simp add: resolveDefaultAdminToken_def)

text \<open>
  Outside production the configured base is never empty, and the socket base of a configured
  HTTP base is the same address with the socket scheme.
\<close>

lemma startsWith_append [simp]: "js_startsWith (p @ s) p"
  by (simp add: js_startsWith_iff)

lemma replace_prefix_hit: "replace_prefix p b (p @ s) = b @ s"
  by (simp add: replace_prefix_def)

lemma replace_prefix_miss: "\<not> js_startsWith s p \<Longrightarrow> replace_prefix p b s = s"
  by (simp add: replace_prefix_def)

lemma dash_ws_follows_api:
  assumes "env_or_empty E ''VITE_WS_URL'' = []"
  shows "dash_API_BASE_URL E = ''https://'' @ host \<Longrightarrow> dash_WS_BASE_URL E = ''wss://'' @ host"
    and "dash_API_BASE_URL E = ''http://'' @ host \<Longrightarrow> dash_WS_BASE_URL E = ''ws://'' @ host"
  using assms
  by (simp_all add: dash_WS_BASE_URL_def dash_trimTrailingSlash_def strip_trailing_slashes_def replace_prefix_def)

lemma dash_api_no_slash:
  "dash_API_BASE_URL E = [] \<or> last (dash_API_BASE_URL E) \<noteq> CHR ''/''"
proof (cases "dash_trimTrailingSlash (env_or_empty E ''VITE_API_URL'') = []")
  case True
  then show ?thesis by (simp add: dash_API_BASE_URL_def)
next
  case False
  let ?d = "dropWhile (\<lambda>c. c = CHR ''/'') (rev (env_or_empty E ''VITE_API_URL''))"
  have n: "?d \<noteq> []" using False by (simp add: dash_trimTrailingSlash_def strip_trailing_slashes_def del: dropWhile_eq_Nil_conv)
  then have "hd ?d \<noteq> CHR ''/''" by (rule hd_dropWhile)
  with False n show ?thesis
    by (simp add: dash_API_BASE_URL_def dash_trimTrailingSlash_def strip_trailing_slashes_def last_rev del: dropWhile_eq_Nil_conv)
qed

lemma local_only:
  assumes "resolveExplicitApiBaseUrl U E = None" and "api_API_BASE_URL U E hostname \<noteq> []"
  shows "ve_dev E \<and> (\<exists>h. hostname = Some h \<and> js_lower (js_trim h) \<in> {''localhost'', ''127.0.0.1'', ''::1''})"
  using assms by (auto simp: api_API_BASE_URL_def LOCAL_HOSTS_def split: option.splits if_splits)

lemma stagger_bounds:
  assumes "0 \<le> nullish step (3 / 100)"
  shows "0 \<le> getStaggerDelay i step" and "getStaggerDelay i step \<le> 18 / 100"
  using assms by (simp_all add: getStaggerDelay_def)

lemma stagger_mono:
  assumes "0 \<le> nullish step (3 / 100)" and "i \<le> j"
  shows "getStaggerDelay i step \<le> getStaggerDelay j step"
proof -
  have "of_nat i * nullish step (3 / 100) \<le> of_nat j * nullish step (3 / 100)"
    using assms by (intro mult_right_mono) simp_all
  then show ?thesis by (simp add: getStaggerDelay_def min_le_iff_disj)
qed

end
