(* ===== verification/OpsForms.thy ===== *)
theory OpsForms
  imports ToastQueue RuntimeConfig Encoding
begin

text \<open>
  The forms of \<open>src/src/components/OpsConsole.tsx\<close>: the default drafts, the edits of a draft and
  of its inline errors, the validation of the two forms, and the request bodies.
\<close>

section \<open>Drafts\<close>

definition newline :: string where "newline = [CHR 10]"

definition defaultJobDraft :: JobDraft where
  "defaultJobDraft =
     \<lparr> jd_type = ''email.send'', jd_queue = ''default'', jd_tenantId = ''tenant-a'',
       jd_priority = ''5'', jd_maxAttempts = ''5'', jd_timeoutSeconds = ''45'', jd_delaySeconds = ''0'',
       jd_scheduledAt = [], jd_workflowId = [], jd_dependencies = [], jd_idempotencyKey = [],
       jd_dedupeWindowSeconds = ''900'',
       jd_payload = ''{'' @ newline @ ''  '' @ json_quote ''recipient'' @ '': '' @ json_quote ''ops@example.com'' @ '',''
         @ newline @ ''  '' @ json_quote ''durationMs'' @ '': 250'' @ newline @ ''}'' \<rparr>"

definition defaultScheduleDraft :: ScheduleDraft where
  "defaultScheduleDraft =
     \<lparr> sd_name = [], sd_cronExpression = ''*/15 * * * *'', sd_queue = ''default'', sd_type = ''cleanup.run'',
       sd_priority = ''5'', sd_maxAttempts = ''5'', sd_timeoutSeconds = ''60'', sd_timezone = ''UTC'',
       sd_enabled = True,
       sd_payload = ''{'' @ newline @ ''  '' @ json_quote ''resource'' @ '': '' @ json_quote ''stale-cache''
         @ newline @ ''}'' \<rparr>"

text \<open>\<open>keyof JobDraft\<close> and \<open>keyof ScheduleDraft\<close>, with the value of the field.\<close>

datatype JobField =
    JF_type | JF_queue | JF_tenantId | JF_priority | JF_maxAttempts | JF_timeoutSeconds | JF_delaySeconds
  | JF_scheduledAt | JF_workflowId | JF_dependencies | JF_idempotencyKey | JF_dedupeWindowSeconds | JF_payload

fun job_field_name :: "JobField \<Rightarrow> string" where
  "job_field_name JF_type = ''type''"
| "job_field_name JF_queue = ''queue''"
| "job_field_name JF_tenantId = ''tenantId''"
| "job_field_name JF_priority = ''priority''"
| "job_field_name JF_maxAttempts = ''maxAttempts''"
| "job_field_name JF_timeoutSeconds = ''timeoutSeconds''"
| "job_field_name JF_delaySeconds = ''delaySeconds''"
| "job_field_name JF_scheduledAt = ''scheduledAt''"
| "job_field_name JF_workflowId = ''workflowId''"
| "job_field_name JF_dependencies = ''dependencies''"
| "job_field_name JF_idempotencyKey = ''idempotencyKey''"
| "job_field_name JF_dedupeWindowSeconds = ''dedupeWindowSeconds''"
| "job_field_name JF_payload = ''payload''"

fun set_job_field :: "JobField \<Rightarrow> string \<Rightarrow> JobDraft \<Rightarrow> JobDraft" where
  "set_job_field JF_type v d = d\<lparr> jd_type := v \<rparr>"
| "set_job_field JF_queue v d = d\<lparr> jd_queue := v \<rparr>"
| "set_job_field JF_tenantId v d = d\<lparr> jd_tenantId := v \<rparr>"
| "set_job_field JF_priority v d = d\<lparr> jd_priority := v \<rparr>"
| "set_job_field JF_maxAttempts v d = d\<lparr> jd_maxAttempts := v \<rparr>"
| "set_job_field JF_timeoutSeconds v d = d\<lparr> jd_timeoutSeconds := v \<rparr>"
| "set_job_field JF_delaySeconds v d = d\<lparr> jd_delaySeconds := v \<rparr>"
| "set_job_field JF_scheduledAt v d = d\<lparr> jd_scheduledAt := v \<rparr>"
| "set_job_field JF_workflowId v d = d\<lparr> jd_workflowId := v \<rparr>"
| "set_job_field JF_dependencies v d = d\<lparr> jd_dependencies := v \<rparr>"
| "set_job_field JF_idempotencyKey v d = d\<lparr> jd_idempotencyKey := v \<rparr>"
| "set_job_field JF_dedupeWindowSeconds v d = d\<lparr> jd_dedupeWindowSeconds := v \<rparr>"
| "set_job_field JF_payload v d = d\<lparr> jd_payload := v \<rparr>"

datatype ScheduleEdit =
    SE_name string | SE_cronExpression string | SE_queue string | SE_type string | SE_priority string
  | SE_maxAttempts string | SE_timeoutSeconds string | SE_timezone string | SE_enabled bool | SE_payload string

fun schedule_field_name :: "ScheduleEdit \<Rightarrow> string" where
  "schedule_field_name (SE_name v) = ''name''"
| "schedule_field_name (SE_cronExpression v) = ''cronExpression''"
| "schedule_field_name (SE_queue v) = ''queue''"
| "schedule_field_name (SE_type v) = ''type''"
| "schedule_field_name (SE_priority v) = ''priority''"
| "schedule_field_name (SE_maxAttempts v) = ''maxAttempts''"
| "schedule_field_name (SE_timeoutSeconds v) = ''timeoutSeconds''"
| "schedule_field_name (SE_timezone v) = ''timezone''"
| "schedule_field_name (SE_enabled v) = ''enabled''"
| "schedule_field_name (SE_payload v) = ''payload''"

fun set_schedule_field :: "ScheduleEdit \<Rightarrow> ScheduleDraft \<Rightarrow> ScheduleDraft" where
  "set_schedule_field (SE_name v) d = d\<lparr> sd_name := v \<rparr>"
| "set_schedule_field (SE_cronExpression v) d = d\<lparr> sd_cronExpression := v \<rparr>"
| "set_schedule_field (SE_queue v) d = d\<lparr> sd_queue := v \<rparr>"
| "set_schedule_field (SE_type v) d = d\<lparr> sd_type := v \<rparr>"
| "set_schedule_field (SE_priority v) d = d\<lparr> sd_priority := v \<rparr>"
| "set_schedule_field (SE_maxAttempts v) d = d\<lparr> sd_maxAttempts := v \<rparr>"
| "set_schedule_field (SE_timeoutSeconds v) d = d\<lparr> sd_timeoutSeconds := v \<rparr>"
| "set_schedule_field (SE_timezone v) d = d\<lparr> sd_timezone := v \<rparr>"
| "set_schedule_field (SE_enabled v) d = d\<lparr> sd_enabled := v \<rparr>"
| "set_schedule_field (SE_payload v) d = d\<lparr> sd_payload := v \<rparr>"

text \<open>The inline errors: an object from field names to messages; an empty message counts as none.\<close>

type_synonym errors = "string obj"

definition clear_error :: "string \<Rightarrow> errors \<Rightarrow> errors" where
  "clear_error field current = (if truthy (obj_get current field) then obj_delete current field else current)"

definition updateJobDraft :: "JobField \<Rightarrow> string \<Rightarrow> JobDraft \<times> errors \<Rightarrow> JobDraft \<times> errors" where
  "updateJobDraft field value s =
     (set_job_field field value (fst s), clear_error (job_field_name field) (snd s))"

definition updateScheduleDraft :: "ScheduleEdit \<Rightarrow> ScheduleDraft \<times> errors \<Rightarrow> ScheduleDraft \<times> errors" where
  "updateScheduleDraft edit s =
     (set_schedule_field edit (fst s), clear_error (schedule_field_name edit) (snd s))"

section \<open>Validation\<close>

text \<open>Comparisons with a number (\<open>NaN\<close> compares false) and \<open>n || d\<close>.\<close>

fun num_below :: "jsnum \<Rightarrow> rat \<Rightarrow> bool" where
  "num_below (Fin x) b = (x < b)"
| "num_below NInf b = True"
| "num_below _ b = False"

fun num_above :: "jsnum \<Rightarrow> rat \<Rightarrow> bool" where
  "num_above (Fin x) b = (x > b)"
| "num_above PInf b = True"
| "num_above _ b = False"

text \<open>\<open>n || d\<close>: \<open>NaN\<close> and 0 are the falsy numbers.\<close>

fun num_or :: "jsnum \<Rightarrow> rat \<Rightarrow> jsnum" where
  "num_or (Fin x) d = (if x = 0 then Fin d else Fin x)"
| "num_or NaN d = Fin d"
| "num_or PInf d = PInf"
| "num_or NInf d = NInf"

definition Number_text :: "string \<Rightarrow> jsnum" where
  "Number_text s = js_Number (Str s)"

definition error_if :: "bool \<Rightarrow> string \<Rightarrow> string \<Rightarrow> errors \<Rightarrow> errors" where
  "error_if c field message errs = (if c then obj_set errs field message else errs)"

record JobValidation =
  jv_errors :: errors
  jv_payload :: jsval
  jv_dedupeWindowSeconds :: jsnum
  jv_dependencies :: "string list"

text \<open>\<open>msg\<close> is the engine's SyntaxError text; the date field is parsed as it is written, untrimmed.\<close>

definition scheduled_ok :: "date_api \<Rightarrow> int \<Rightarrow> string \<Rightarrow> bool" where
  "scheduled_ok D now s = (case date_parse D s of None \<Rightarrow> False | Some t \<Rightarrow> t > now)"

definition validateJobForm :: "date_api \<Rightarrow> int \<Rightarrow> (string \<Rightarrow> string) \<Rightarrow> JobDraft \<Rightarrow> JobValidation" where
  "validateJobForm D now msg draft =
     (let payloadResult = safeJsonParse msg (Str (jd_payload draft));
          e1 = error_if (safeTrimStr (jd_type draft) = []) ''type'' ''Job type is required.'' [];
          e2 = error_if (safeTrimStr (jd_tenantId draft) = []) ''tenantId'' ''Tenant is required.'' e1;
          e3 = error_if (jr_error payloadResult \<noteq> []) ''payload''
                 (friendlyInlineError ''payload'' (jr_error payloadResult)) e2;
          e4 = error_if (num_below (Number_text (jd_priority draft)) 0 \<or> num_above (Number_text (jd_priority draft)) 9)
                 ''priority'' ''Priority must stay between 0 and 9.'' e3;
          e5 = error_if (safeTrimStr (jd_scheduledAt draft) \<noteq> [] \<and> \<not> scheduled_ok D now (jd_scheduledAt draft))
                 ''scheduledAt'' (friendlyInlineError ''scheduledAt'' ''scheduledAt'') e4
      in \<lparr> jv_errors = e5, jv_payload = jr_value payloadResult,
           jv_dedupeWindowSeconds = clamp_num (num_or (Number_text (jd_dedupeWindowSeconds draft)) 0) 0 86400,
           jv_dependencies = parseDependencyIds (Str (jd_dependencies draft)) \<rparr>)"

record ScheduleValidation =
  sv_errors :: errors
  sv_payload :: jsval

definition cron_fields :: "string \<Rightarrow> nat" where
  "cron_fields s = length (filter (\<lambda>w. w \<noteq> []) (js_split_run is_ws (safeTrimStr s)))"

definition validateScheduleForm :: "(string \<Rightarrow> string) \<Rightarrow> ScheduleDraft \<Rightarrow> ScheduleValidation" where
  "validateScheduleForm msg draft =
     (let payloadResult = safeJsonParse msg (Str (sd_payload draft));
          e1 = error_if (safeTrimStr (sd_name draft) = []) ''name'' ''Schedule name is required.'' [];
          e2 = error_if (cron_fields (sd_cronExpression draft) < 5) ''cronExpression''
                 (friendlyInlineError ''cronExpression'' ''cronExpression'') e1;
          e3 = error_if (safeTrimStr (sd_type draft) = []) ''type'' ''Job type is required.'' e2;
          e4 = error_if (jr_error payloadResult \<noteq> []) ''payload''
                 (friendlyInlineError ''payload'' (jr_error payloadResult)) e3
      in \<lparr> sv_errors = e4, sv_payload = jr_value payloadResult \<rparr>)"

section \<open>Request bodies\<close>

record JobBody =
  jb_type :: string
  jb_queue :: string
  jb_tenantId :: string
  jb_priority :: jsnum
  jb_maxAttempts :: jsnum
  jb_timeoutSeconds :: jsnum
  jb_delaySeconds :: jsnum
  jb_scheduledAt :: "string option"
  jb_schemaVersion :: rat
  jb_workflowId :: "string option"
  jb_dependencies :: "string list option"
  jb_dependencyPolicy :: "string option"
  jb_idempotencyKey :: "string option"
  jb_dedupeWindowSeconds :: jsnum
  jb_payload :: jsval

definition or_undefined :: "string \<Rightarrow> string option" where
  "or_undefined s = (if s = [] then None else Some s)"

text \<open>The date was validated before, so \<open>toISOString\<close> does not throw here.\<close>

definition job_body :: "date_api \<Rightarrow> JobDraft \<Rightarrow> JobValidation \<Rightarrow> JobBody" where
  "job_body D draft validation =
     \<lparr> jb_type = safeTrimStr (jd_type draft),
       jb_queue = or_str (safeTrimStr (jd_queue draft)) ''default'',
       jb_tenantId = or_str (safeTrimStr (jd_tenantId draft)) ''default'',
       jb_priority = clamp_num (num_or (Number_text (jd_priority draft)) 5) 0 9,
       jb_maxAttempts = num_max (num_or (Number_text (jd_maxAttempts draft)) 5) (Fin 1),
       jb_timeoutSeconds = num_max (num_or (Number_text (jd_timeoutSeconds draft)) 0) (Fin 0),
       jb_delaySeconds = num_max (num_or (Number_text (jd_delaySeconds draft)) 0) (Fin 0),
       jb_scheduledAt = (if safeTrimStr (jd_scheduledAt draft) \<noteq> []
         then map_option (iso_text D) (date_parse D (jd_scheduledAt draft)) else None),
       jb_schemaVersion = 1,
       jb_workflowId = or_undefined (safeTrimStr (jd_workflowId draft)),
       jb_dependencies = (if length (jv_dependencies validation) > 0 then Some (jv_dependencies validation) else None),
       jb_dependencyPolicy = (if length (jv_dependencies validation) > 0 then Some ''block'' else None),
       jb_idempotencyKey = or_undefined (safeTrimStr (jd_idempotencyKey draft)),
       jb_dedupeWindowSeconds = jv_dedupeWindowSeconds validation,
       jb_payload = jv_payload validation \<rparr>"

text \<open>JSON.stringify prints a number that is not finite as \<open>null\<close>.\<close>

fun enc_num :: "jsnum \<Rightarrow> jsval" where
  "enc_num (Fin x) = Num x"
| "enc_num _ = Null"

definition enc_job_body :: "JobBody \<Rightarrow> jsval" where
  "enc_job_body b = Obj
     [(''type'', Str (jb_type b)), (''queue'', Str (jb_queue b)), (''tenantId'', Str (jb_tenantId b)),
      (''priority'', enc_num (jb_priority b)), (''maxAttempts'', enc_num (jb_maxAttempts b)),
      (''timeoutSeconds'', enc_num (jb_timeoutSeconds b)), (''delaySeconds'', enc_num (jb_delaySeconds b)),
      (''scheduledAt'', enc_str_opt (jb_scheduledAt b)), (''schemaVersion'', Num (jb_schemaVersion b)),
      (''workflowId'', enc_str_opt (jb_workflowId b)),
      (''dependencies'', enc_opt (enc_list Str) (jb_dependencies b)),
      (''dependencyPolicy'', enc_str_opt (jb_dependencyPolicy b)),
      (''idempotencyKey'', enc_str_opt (jb_idempotencyKey b)),
      (''dedupeWindowSeconds'', enc_num (jb_dedupeWindowSeconds b)), (''payload'', jb_payload b)]"

record ScheduleBody =
  sb_name :: string
  sb_cronExpression :: string
  sb_queue :: string
  sb_type :: string
  sb_payload :: jsval
  sb_priority :: jsnum
  sb_maxAttempts :: jsnum
  sb_timeoutSeconds :: jsnum
  sb_enabled :: bool
  sb_timezone :: string

definition schedule_body :: "ScheduleDraft \<Rightarrow> jsval \<Rightarrow> ScheduleBody" where
  "schedule_body draft payload =
     \<lparr> sb_name = safeTrimStr (sd_name draft), sb_cronExpression = safeTrimStr (sd_cronExpression draft),
       sb_queue = or_str (safeTrimStr (sd_queue draft)) ''default'', sb_type = safeTrimStr (sd_type draft),
       sb_payload = payload,
       sb_priority = clamp_num (num_or (Number_text (sd_priority draft)) 5) 0 9,
       sb_maxAttempts = num_max (num_or (Number_text (sd_maxAttempts draft)) 5) (Fin 1),
       sb_timeoutSeconds = num_max (num_or (Number_text (sd_timeoutSeconds draft)) 0) (Fin 0),
       sb_enabled = sd_enabled draft, sb_timezone = or_str (safeTrimStr (sd_timezone draft)) ''UTC'' \<rparr>"

definition enc_schedule_body :: "ScheduleBody \<Rightarrow> jsval" where
  "enc_schedule_body b = Obj
     [(''name'', Str (sb_name b)), (''cronExpression'', Str (sb_cronExpression b)), (''queue'', Str (sb_queue b)),
      (''type'', Str (sb_type b)), (''payload'', sb_payload b), (''priority'', enc_num (sb_priority b)),
      (''maxAttempts'', enc_num (sb_maxAttempts b)), (''timeoutSeconds'', enc_num (sb_timeoutSeconds b)),
      (''enabled'', Bool (sb_enabled b)), (''timezone'', Str (sb_timezone b))]"

section \<open>Lemmas\<close>

lemma clamped_finite:
  assumes "lo \<le> d" and "d \<le> hi"
  shows "\<exists>x. clamp_num (num_or n d) lo hi = Fin x \<and> lo \<le> x \<and> x \<le> hi"
proof -
  have lh: "lo \<le> hi" using assms by simp
  show ?thesis
  proof (cases n)
    case (Fin x)
    then show ?thesis using clamp_bounds [OF lh] by (simp add: clamp_num_Fin)
  next
    case NaN
    then show ?thesis using clamp_bounds [OF lh] by (simp add: clamp_num_Fin)
  qed (use lh in \<open>simp_all add: clamp_num_special\<close>)
qed

text \<open>\<open>Number(priority) || 5\<close> keeps every valid priority except 0.\<close>

lemma body_priority:
  "\<exists>x. jb_priority (job_body D draft v) = Fin x \<and> 0 \<le> x \<and> x \<le> 9"
  using clamped_finite [of 0 5 9] by (simp add: job_body_def)

lemma num_at_least:
  "case num_max (num_or n d) (Fin k) of Fin x \<Rightarrow> k \<le> x | PInf \<Rightarrow> True | _ \<Rightarrow> False"
  by (cases n) (simp_all add: num_max_def)

text \<open>The numbers of a body that are bounded below (an input of Infinity is kept, and sent as null).\<close>

definition num_ge :: "jsnum \<Rightarrow> rat \<Rightarrow> bool" where
  "num_ge n k \<longleftrightarrow> (case n of Fin x \<Rightarrow> k \<le> x | PInf \<Rightarrow> True | _ \<Rightarrow> False)"

lemma body_lower_bounds:
  "num_ge (jb_maxAttempts (job_body D draft v)) 1 \<and> num_ge (jb_timeoutSeconds (job_body D draft v)) 0 \<and>
   num_ge (jb_delaySeconds (job_body D draft v)) 0"
  using num_at_least by (simp add: job_body_def num_ge_def)

lemma body_priority_value:
  assumes "Number_text (jd_priority draft) = Fin x" and "0 \<le> x" and "x \<le> 9"
  shows "jb_priority (job_body D draft v) = Fin (if x = 0 then 5 else x)"
  using assms by (simp add: job_body_def clamp_num_Fin clamp_id)

lemma obj_get_error_if:
  "obj_get (error_if c f m e) g = (if c \<and> g = f then Some m else obj_get e g)"
  by (simp add: error_if_def obj_get_set)

lemma error_if_Nil: "error_if c f m e = [] \<longleftrightarrow> \<not> c \<and> e = []"
proof -
  have "obj_get (obj_set e f m) f = Some m" by (simp add: obj_get_set)
  then have "obj_set e f m \<noteq> []" by (metis map_of.simps(1) option.distinct(1))
  then show ?thesis by (simp add: error_if_def)
qed

text \<open>Which drafts pass: the form reports no error exactly when the five conditions hold.\<close>

lemma job_form_accepts:
  "jv_errors (validateJobForm D now msg draft) = [] \<longleftrightarrow>
     js_trim (jd_type draft) \<noteq> [] \<and> js_trim (jd_tenantId draft) \<noteq> [] \<and>
     jr_error (safeJsonParse msg (Str (jd_payload draft))) = [] \<and>
     \<not> num_below (Number_text (jd_priority draft)) 0 \<and> \<not> num_above (Number_text (jd_priority draft)) 9 \<and>
     (js_trim (jd_scheduledAt draft) = [] \<or> scheduled_ok D now (jd_scheduledAt draft))"
  by (auto simp: validateJobForm_def Let_def error_if_Nil)

lemma schedule_form_accepts:
  "sv_errors (validateScheduleForm msg draft) = [] \<longleftrightarrow>
     js_trim (sd_name draft) \<noteq> [] \<and> 5 \<le> cron_fields (sd_cronExpression draft) \<and> js_trim (sd_type draft) \<noteq> [] \<and>
     jr_error (safeJsonParse msg (Str (sd_payload draft))) = []"
  by (auto simp: validateScheduleForm_def Let_def error_if_Nil)

text \<open>An accepted date reaches the server as an instant in the future.\<close>

lemma accepted_date:
  assumes "jv_errors (validateJobForm D now msg draft) = []" and "js_trim (jd_scheduledAt draft) \<noteq> []"
  shows "\<exists>t. t > now \<and> jb_scheduledAt (job_body D draft v) = Some (iso_text D t)"
  using assms by (auto simp: job_form_accepts job_body_def scheduled_ok_def split: option.splits)

text \<open>Editing a field clears its error and keeps the others.\<close>

lemma clear_error_get:
  "truthy (obj_get (clear_error f e) g) \<longleftrightarrow> g \<noteq> f \<and> truthy (obj_get e g)"
  by (auto simp: clear_error_def obj_get_delete)

end
