(* ===== verification/DemoActions.thy ===== *)
theory DemoActions
  imports OpsForms DemoData StepSystem
begin

text \<open>
  The state changes of \<open>src/src/components/OpsConsole.tsx\<close> in demo mode: the updater that each
  handler passes to \<open>setConsoleData\<close>, as a function on the console data. \<open>now\<close> is the clock during
  the update and \<open>uid\<close> the id that \<open>createToastId()\<close> returns. The second part of the theory is the
  invariant of the demo console under every sequence of these updates.
\<close>

section \<open>Jobs\<close>

definition local_duplicate :: "JobDraft \<Rightarrow> JobBody \<Rightarrow> ConsoleData \<Rightarrow> Job option" where
  "local_duplicate draft body current =
     (if safeTrimStr (jd_idempotencyKey draft) \<noteq> []
      then find (\<lambda>job. job_tenantId job = jb_tenantId body \<and> job_type job = jb_type body \<and>
                       safeTrimStr (nullish (job_idempotencyKey job) []) = safeTrimStr (jd_idempotencyKey draft))
             (cd_jobs current)
      else None)"

text \<open>The branch without a duplicate, for the job made from the draft.\<close>

definition submit_demo :: "date_api \<Rightarrow> int \<Rightarrow> Job \<Rightarrow> ConsoleData \<Rightarrow> ConsoleData" where
  "submit_demo D now nextJob current =
     appendEvent D (replaceJob D now current nextJob)
       (makeSystemEvent D now ''job.enqueued''
          (no_patch\<lparr> ep_jobId := Some (job_id nextJob), ep_queue := Some (job_queue nextJob),
                     ep_state := Some (job_state nextJob),
                     ep_message := Some (''job queued into '' @ job_queue nextJob) \<rparr>))"

definition retried_job :: "date_api \<Rightarrow> int \<Rightarrow> Job \<Rightarrow> Job" where
  "retried_job D now job =
     job\<lparr> job_state := JS_queued, job_attempts := 0, job_lastError := Some [], job_result := Undefined,
          job_updatedAt := iso_text D now, job_runAt := iso_text D now, job_startedAt := None,
          job_finishedAt := None, job_lastHeartbeatAt := None, job_leaseExpiresAt := None,
          job_throttleUntil := None, job_blockedReason := Some [], job_cancelRequested := False \<rparr>"

definition retry_demo :: "date_api \<Rightarrow> int \<Rightarrow> string \<Rightarrow> ConsoleData \<Rightarrow> ConsoleData" where
  "retry_demo D now jobId current =
     (case find_job (cd_jobs current) jobId of
        None \<Rightarrow> current
      | Some job \<Rightarrow>
          appendEvent D
            (removeDeadLetters D now (replaceJob D now current (retried_job D now job)) [jobId])
            (makeSystemEvent D now ''job.retried''
               (no_patch\<lparr> ep_jobId := Some jobId, ep_queue := Some (job_queue job),
                          ep_state := Some JS_queued, ep_message := Some ''job manually retried'' \<rparr>)))"

definition canceled_job :: "date_api \<Rightarrow> int \<Rightarrow> Job \<Rightarrow> Job" where
  "canceled_job D now job =
     job\<lparr> job_state := JS_canceled, job_updatedAt := iso_text D now, job_finishedAt := Some (iso_text D now),
          job_cancelRequested := True, job_lastError := Some ''canceled by operator'' \<rparr>"

definition cancel_demo :: "date_api \<Rightarrow> int \<Rightarrow> string \<Rightarrow> ConsoleData \<Rightarrow> ConsoleData" where
  "cancel_demo D now jobId current =
     (case find_job (cd_jobs current) jobId of
        None \<Rightarrow> current
      | Some job \<Rightarrow>
          appendEvent D (replaceJob D now current (canceled_job D now job))
            (makeSystemEvent D now ''job.canceled''
               (no_patch\<lparr> ep_jobId := Some jobId, ep_queue := Some (job_queue job),
                          ep_state := Some JS_canceled, ep_message := Some ''job cancellation requested'' \<rparr>)))"

definition priority_demo :: "date_api \<Rightarrow> int \<Rightarrow> string \<Rightarrow> rat \<Rightarrow> ConsoleData \<Rightarrow> ConsoleData" where
  "priority_demo D now jobId delta current =
     (case find_job (cd_jobs current) jobId of
        None \<Rightarrow> current
      | Some job \<Rightarrow>
          let nextPriority = clamp (job_priority job + delta) 0 9;
              updated = replaceJob D now current
                (job\<lparr> job_priority := nextPriority, job_updatedAt := iso_text D now \<rparr>)
          in appendEvent D updated
               (makeSystemEvent D now ''job.priority_changed''
                  (no_patch\<lparr> ep_jobId := Some jobId, ep_queue := Some (job_queue job),
                             ep_message := Some (''priority adjusted to '' @ number_to_string nextPriority) \<rparr>)))"

section \<open>Replays\<close>

text \<open>The two branches of \<open>replayJob\<close>: a dead letter goes back to its queue, any other job is cloned.\<close>

definition dead_replayed_job :: "date_api \<Rightarrow> int \<Rightarrow> string \<Rightarrow> jsval \<Rightarrow> Job \<Rightarrow> Job" where
  "dead_replayed_job D now queue payload job =
     job\<lparr> job_queue := queue, job_payload := payload, job_state := JS_queued, job_attempts := 0,
          job_lastError := Some [], job_finishedAt := None, job_startedAt := None,
          job_leaseExpiresAt := None, job_updatedAt := iso_text D now, job_runAt := iso_text D now \<rparr>"

definition cloned_job :: "date_api \<Rightarrow> int \<Rightarrow> string \<Rightarrow> string \<Rightarrow> jsval \<Rightarrow> Job \<Rightarrow> Job" where
  "cloned_job D now uid queue payload job =
     job\<lparr> job_id := uid, job_queue := queue, job_payload := payload, job_state := JS_queued, job_attempts := 0,
          job_createdAt := iso_text D now, job_updatedAt := iso_text D now, job_runAt := iso_text D now,
          job_startedAt := None, job_finishedAt := None, job_workerId := Some [], job_leaseExpiresAt := None,
          job_lastHeartbeatAt := None, job_lastError := Some [], job_executionMs := 0 \<rparr>"

definition replay_demo ::
    "date_api \<Rightarrow> int \<Rightarrow> string \<Rightarrow> string \<Rightarrow> string \<Rightarrow> jsval \<Rightarrow> bool \<Rightarrow> bool \<Rightarrow> ConsoleData \<Rightarrow> ConsoleData" where
  "replay_demo D now uid jobId queue payload edited isDeadLetter current =
     (case find_job (cd_jobs current) jobId of
        None \<Rightarrow> current
      | Some currentJob \<Rightarrow>
          if isDeadLetter then
            appendEvent D
              (removeDeadLetters D now
                 (replaceJob D now current (dead_replayed_job D now queue payload currentJob)) [jobId])
              (makeSystemEvent D now ''job.replayed''
                 (no_patch\<lparr> ep_jobId := Some jobId, ep_queue := Some queue, ep_state := Some JS_queued,
                    ep_message := Some (if edited then ''dead-letter replayed with edited payload''
                                        else ''dead-letter replayed with original payload'') \<rparr>))
          else
            let replayedJob = cloned_job D now uid queue payload currentJob
            in appendEvent D (replaceJob D now current replayedJob)
                 (makeSystemEvent D now ''job.replayed''
                    (no_patch\<lparr> ep_jobId := Some (job_id replayedJob), ep_queue := Some queue,
                       ep_state := Some JS_queued,
                       ep_message := Some (if edited then ''failed job cloned with edited payload''
                                           else ''failed job cloned with original payload'') \<rparr>)))"

definition bulk_replayed_job :: "date_api \<Rightarrow> int \<Rightarrow> string \<Rightarrow> jsval option \<Rightarrow> Job \<Rightarrow> Job" where
  "bulk_replayed_job D now queue payload job =
     job\<lparr> job_queue := queue, job_payload := nullish payload (job_payload job), job_state := JS_queued,
          job_attempts := 0, job_lastError := Some [], job_updatedAt := iso_text D now,
          job_runAt := iso_text D now, job_startedAt := None, job_finishedAt := None \<rparr>"

text \<open>\<open>payload\<close> is \<open>None\<close> where \<open>payload.value\<close> is \<open>null\<close>.\<close>

definition bulk_replay_one :: "date_api \<Rightarrow> int \<Rightarrow> string \<Rightarrow> jsval option \<Rightarrow> ConsoleData \<Rightarrow> string \<Rightarrow> ConsoleData" where
  "bulk_replay_one D now queue payload next jobId =
     (case find_job (cd_jobs next) jobId of
        None \<Rightarrow> next
      | Some job \<Rightarrow>
          removeDeadLetters D now (replaceJob D now next (bulk_replayed_job D now queue payload job)) [jobId])"

definition bulk_replay_demo ::
    "date_api \<Rightarrow> int \<Rightarrow> string \<Rightarrow> jsval option \<Rightarrow> string list \<Rightarrow> ConsoleData \<Rightarrow> ConsoleData" where
  "bulk_replay_demo D now queue payload selected current =
     appendEvent D (foldl (bulk_replay_one D now queue payload) current selected)
       (makeSystemEvent D now ''job.replayed''
          (no_patch\<lparr> ep_message := Some (number_to_string (of_nat (length selected)) @ '' dead-letter jobs replayed''),
                     ep_queue := Some queue \<rparr>))"

definition bulk_delete_demo :: "date_api \<Rightarrow> int \<Rightarrow> string list \<Rightarrow> ConsoleData \<Rightarrow> ConsoleData" where
  "bulk_delete_demo D now selected current =
     appendEvent D (removeDeadLetters D now current selected)
       (makeSystemEvent D now ''job.dead_letter_deleted''
          (no_patch\<lparr> ep_message := Some (number_to_string (of_nat (length selected)) @ '' dead-letter jobs deleted'') \<rparr>))"

section \<open>Queues and workers\<close>

datatype QueueAction = QA_pause | QA_resume | QA_drain

fun queue_action_name :: "QueueAction \<Rightarrow> string" where
  "queue_action_name QA_pause = ''pause''"
| "queue_action_name QA_resume = ''resume''"
| "queue_action_name QA_drain = ''drain''"

definition drained :: "date_api \<Rightarrow> int \<Rightarrow> string \<Rightarrow> Job \<Rightarrow> Job" where
  "drained D now queueName job =
     (if job_queue job = queueName \<and> job_state job \<in> {JS_queued, JS_scheduled, JS_retrying}
      then job\<lparr> job_state := JS_canceled, job_lastError := Some ''queue drained by operator'',
                job_finishedAt := Some (iso_text D now), job_updatedAt := iso_text D now \<rparr>
      else job)"

definition next_control :: "date_api \<Rightarrow> int \<Rightarrow> QueueControl option \<Rightarrow> QueueAction \<Rightarrow> QueueControl" where
  "next_control D now previous action =
     \<lparr> qc_paused = (if action = QA_pause then True else if action = QA_resume then False
                    else (case previous of None \<Rightarrow> False | Some c \<Rightarrow> qc_paused c)),
       qc_draining = (action = QA_drain), qc_scope = Scope_local, qc_updatedAt = iso_text D now \<rparr>"

definition queue_control_demo :: "date_api \<Rightarrow> int \<Rightarrow> string \<Rightarrow> QueueAction \<Rightarrow> ConsoleData \<Rightarrow> ConsoleData" where
  "queue_control_demo D now queueName action current =
     (let nextJobs = (if action = QA_drain then map (drained D now queueName) (cd_jobs current) else cd_jobs current)
      in appendEvent D
           (reconcileConsoleData D now
              (current\<lparr> cd_jobs := nextJobs,
                 cd_queueControls := obj_set (cd_queueControls current) queueName
                   (next_control D now (obj_get (cd_queueControls current) queueName) action) \<rparr>))
           (makeSystemEvent D now (''queue.'' @ queue_action_name action)
              (no_patch\<lparr> ep_queue := Some queueName,
                         ep_message := Some (queueName @ '' '' @ queue_action_name action @ ''d'') \<rparr>)))"

definition cordon_demo :: "date_api \<Rightarrow> int \<Rightarrow> string \<Rightarrow> bool \<Rightarrow> ConsoleData \<Rightarrow> ConsoleData" where
  "cordon_demo D now workerId cordoned current =
     appendEvent D
       (current\<lparr> cd_workerControls := obj_set (cd_workerControls current) workerId
          \<lparr> wc_cordoned = cordoned, wc_scope = Scope_local, wc_updatedAt = iso_text D now \<rparr> \<rparr>)
       (makeSystemEvent D now (if cordoned then ''worker.cordoned'' else ''worker.released'')
          (no_patch\<lparr> ep_workerId := Some workerId,
                     ep_message := Some (if cordoned then workerId @ '' cordoned for maintenance''
                                         else workerId @ '' returned to service'') \<rparr>))"

section \<open>Schedules\<close>

text \<open>
  The number fields of the form are inputs of type number, whose text is a finite decimal or
  empty, so the bodies' numbers are finite.
\<close>

fun finite_value :: "jsnum \<Rightarrow> rat" where
  "finite_value (Fin x) = x"
| "finite_value _ = 0"

definition saved_schedule :: "date_api \<Rightarrow> int \<Rightarrow> string \<Rightarrow> ScheduleBody \<Rightarrow> Schedule" where
  "saved_schedule D now uid body =
     \<lparr> sched_id = uid, sched_name = sb_name body, sched_cronExpression = sb_cronExpression body,
       sched_queue = sb_queue body, sched_type = sb_type body, sched_payload = sb_payload body,
       sched_priority = finite_value (sb_priority body), sched_maxAttempts = finite_value (sb_maxAttempts body),
       sched_timeoutSeconds = finite_value (sb_timeoutSeconds body), sched_enabled = sb_enabled body,
       sched_timezone = sb_timezone body, sched_nextRunAt = iso_text D (now + 15 * 60 * 1000),
       sched_lastRunAt = None, sched_createdAt = iso_text D now, sched_updatedAt = iso_text D now \<rparr>"

definition save_schedule_demo :: "date_api \<Rightarrow> int \<Rightarrow> string \<Rightarrow> ScheduleBody \<Rightarrow> ConsoleData \<Rightarrow> ConsoleData" where
  "save_schedule_demo D now uid body current =
     appendEvent D
       (reconcileConsoleData D now
          (current\<lparr> cd_schedules := saved_schedule D now uid body # cd_schedules current \<rparr>))
       (makeSystemEvent D now ''schedule.updated'' (no_patch\<lparr> ep_message := Some (sb_name body) \<rparr>))"

definition toggle_schedule_demo :: "date_api \<Rightarrow> int \<Rightarrow> Schedule \<Rightarrow> bool \<Rightarrow> ConsoleData \<Rightarrow> ConsoleData" where
  "toggle_schedule_demo D now schedule enabled current =
     appendEvent D
       (reconcileConsoleData D now
          (current\<lparr> cd_schedules := map (\<lambda>item. if sched_id item = sched_id schedule
             then item\<lparr> sched_enabled := enabled, sched_updatedAt := iso_text D now \<rparr> else item)
             (cd_schedules current) \<rparr>))
       (makeSystemEvent D now ''schedule.updated''
          (no_patch\<lparr> ep_message := Some (sched_name schedule @ '' '' @ (if enabled then ''enabled'' else ''paused'')) \<rparr>))"

definition trigger_draft :: "Schedule \<Rightarrow> JobDraft" where
  "trigger_draft schedule =
     defaultJobDraft\<lparr> jd_type := sched_type schedule, jd_queue := sched_queue schedule,
       jd_priority := number_to_string (sched_priority schedule),
       jd_maxAttempts := number_to_string (sched_maxAttempts schedule),
       jd_timeoutSeconds := number_to_string (sched_timeoutSeconds schedule),
       jd_tenantId := ''scheduler'', jd_payload := stringifyJson (sched_payload schedule) \<rparr>"

definition trigger_schedule_demo :: "date_api \<Rightarrow> int \<Rightarrow> Schedule \<Rightarrow> Job \<Rightarrow> ConsoleData \<Rightarrow> ConsoleData" where
  "trigger_schedule_demo D now schedule nextJob current =
     appendEvent D (replaceJob D now current nextJob)
       (makeSystemEvent D now ''schedule.triggered''
          (no_patch\<lparr> ep_jobId := Some (job_id nextJob), ep_queue := Some (job_queue nextJob),
                     ep_message := Some (sched_name schedule @ '' triggered manually'') \<rparr>))"

section \<open>The demo console as a transition system\<close>

text \<open>
  Every update, for any argument the interface can pass. Two side conditions: the clock (and the
  next run of a saved schedule) is in the range of dates, and the ids of new jobs are new.
\<close>

definition new_ids :: "string list \<Rightarrow> ConsoleData \<Rightarrow> bool" where
  "new_ids uids d \<longleftrightarrow> distinct uids \<and> set uids \<inter> job_id ` set (cd_jobs d) = {}"

definition good_clock :: "int \<Rightarrow> bool" where
  "good_clock now \<longleftrightarrow> valid_time now \<and> valid_time (now + 15 * 60 * 1000)"

inductive demo_step :: "date_api \<Rightarrow> ConsoleData \<Rightarrow> ConsoleData \<Rightarrow> bool" for D where
  submit: "good_clock now \<Longrightarrow> createJobFromDraft D now uid draft payload = Some job \<Longrightarrow>
    demo_step D d (submit_demo D now job d)"
| retry: "good_clock now \<Longrightarrow> demo_step D d (retry_demo D now jobId d)"
| cancel: "good_clock now \<Longrightarrow> demo_step D d (cancel_demo D now jobId d)"
| priority: "good_clock now \<Longrightarrow> demo_step D d (priority_demo D now jobId delta d)"
| replay: "good_clock now \<Longrightarrow> demo_step D d (replay_demo D now uid jobId queue payload edited dead d)"
| bulk_replay: "good_clock now \<Longrightarrow> demo_step D d (bulk_replay_demo D now queue override selected d)"
| bulk_delete: "good_clock now \<Longrightarrow> demo_step D d (bulk_delete_demo D now selected d)"
| queue_control: "good_clock now \<Longrightarrow> demo_step D d (queue_control_demo D now queueName action d)"
| cordon: "good_clock now \<Longrightarrow> demo_step D d (cordon_demo D now workerId cordoned d)"
| save_schedule: "good_clock now \<Longrightarrow> demo_step D d (save_schedule_demo D now uid body d)"
| toggle_schedule: "good_clock now \<Longrightarrow> demo_step D d (toggle_schedule_demo D now schedule enabled d)"
| trigger: "good_clock now \<Longrightarrow> createJobFromDraft D now uid (trigger_draft schedule) (sched_payload schedule) = Some job \<Longrightarrow>
    demo_step D d (trigger_schedule_demo D now schedule job d)"
| seed: "good_clock now \<Longrightarrow> new_ids (map ids [1, 2, 3, 4]) d \<Longrightarrow> demo_step D d (addLocalWorkflowJobs D now ids d)"

section \<open>The invariant\<close>

text \<open>
  Every date that a sort reads parses, job ids are distinct, and the data is in normal form: all
  lists sorted, the summary counts of the overview exact, at most 60 events.
\<close>

definition demo_inv :: "date_api \<Rightarrow> ConsoleData \<Rightarrow> bool" where
  "demo_inv D d \<longleftrightarrow> valid_data D d \<and> distinct (map job_id (cd_jobs d)) \<and>
     (\<forall>now. reconcileConsoleData D now d = d)"

text \<open>What a step builds before it normalises: the part of the invariant that is not the normal form.\<close>

definition raw_inv :: "date_api \<Rightarrow> ConsoleData \<Rightarrow> bool" where
  "raw_inv D d \<longleftrightarrow> valid_data D d \<and> distinct (map job_id (cd_jobs d))"

lemma demo_raw: "demo_inv D d \<Longrightarrow> raw_inv D d"
  by (simp add: demo_inv_def raw_inv_def)

lemma distinct_sort_jobs: "distinct (map job_id (sort_jobs D js)) = distinct (map job_id js)"
  by (simp add: sort_jobs_def)

lemma reconcile_demo_inv:
  assumes "date_ok D" and "raw_inv D d"
  shows "demo_inv D (reconcileConsoleData D now d)"
  using assms by (auto simp: demo_inv_def raw_inv_def valid_reconcile reconcile_idem distinct_sort_jobs)

lemma reconcile_events:
  "reconcileConsoleData D now (d\<lparr> cd_events := es \<rparr>) = (reconcileConsoleData D now d)\<lparr> cd_events := sortEvents D es \<rparr>"
  by (simp add: reconcileConsoleData_def Let_def)

lemma valid_events:
  "valid_data D d \<Longrightarrow> \<forall>e \<in> set es. date_parse D (ev_timestamp e) \<noteq> None \<Longrightarrow> valid_data D (d\<lparr> cd_events := es \<rparr>)"
  by (simp add: valid_data_def)

lemma append_demo_inv:
  assumes "demo_inv D d" and "\<forall>e \<in> set events. date_parse D (ev_timestamp e) \<noteq> None"
  shows "demo_inv D (appendEvents D d events)"
proof -
  obtain new where new: "set new \<subseteq> set events"
    "appendEvents D d events = (if new = [] then d else d\<lparr> cd_events := sortEvents D (cd_events d @ new) \<rparr>)"
    by (rule appendEvents_cases)
  let ?es = "cd_events d @ new"
  have ok: "\<forall>e \<in> set ?es. date_parse D (ev_timestamp e) \<noteq> None"
    using assms new(1) by (auto simp: demo_inv_def valid_data_def)
  have "demo_inv D (d\<lparr> cd_events := sortEvents D ?es \<rparr>)"
    unfolding demo_inv_def
  proof (intro conjI allI)
    show "valid_data D (d\<lparr> cd_events := sortEvents D ?es \<rparr>)"
      using assms(1) ok set_sortEvents [of D ?es] by (intro valid_events) (auto simp: demo_inv_def)
    show "distinct (map job_id (cd_jobs (d\<lparr> cd_events := sortEvents D ?es \<rparr>)))"
      using assms(1) by (simp add: demo_inv_def)
    show "reconcileConsoleData D now (d\<lparr> cd_events := sortEvents D ?es \<rparr>) = d\<lparr> cd_events := sortEvents D ?es \<rparr>" for now
      using assms(1) unfolding reconcile_events sortEvents_idem [OF ok] by (simp add: demo_inv_def)
  qed
  with new(2) assms(1) show ?thesis by simp
qed

lemma good_clock_parses:
  assumes "date_ok D" and "good_clock now"
  shows "date_parse D (iso_text D now) = Some now"
    and "date_parse D (iso_text D (now + 15 * 60 * 1000)) = Some (now + 15 * 60 * 1000)"
  using assms by (simp_all add: good_clock_def date_ok_roundtrip)

lemma event_demo_inv:
  assumes "date_ok D" and "good_clock now" and "ep_timestamp p = None" and "demo_inv D d"
  shows "demo_inv D (appendEvent D d (makeSystemEvent D now kind p))"
  unfolding appendEvent_def
  using assms by (intro append_demo_inv) (simp_all add: makeSystemEvent_def good_clock_parses)

lemma raw_upsert:
  assumes "raw_inv D d" and "date_parse D (job_updatedAt j) \<noteq> None"
  shows "raw_inv D (d\<lparr> cd_jobs := upsert_job j (cd_jobs d) \<rparr>)"
proof -
  have "set (upsert_job j (cd_jobs d)) \<subseteq> insert j (set (cd_jobs d))" by (auto simp: upsert_job_def)
  then show ?thesis using assms by (auto simp: raw_inv_def valid_data_def distinct_upsert_job)
qed

lemma replace_demo_inv:
  assumes "date_ok D" and "demo_inv D d" and "date_parse D (job_updatedAt j) \<noteq> None"
  shows "demo_inv D (replaceJob D now d j)"
  unfolding replaceJob_def
  using assms by (intro reconcile_demo_inv raw_upsert demo_raw)

lemma remove_demo_inv:
  assumes "date_ok D" and "demo_inv D d"
  shows "demo_inv D (removeDeadLetters D now d ids)"
  unfolding removeDeadLetters_def
  using assms by (intro reconcile_demo_inv) (auto simp: demo_inv_def raw_inv_def valid_data_def)

lemmas demo_intros = event_demo_inv replace_demo_inv remove_demo_inv

lemma bulk_one_inv:
  assumes "date_ok D" and "good_clock now" and "demo_inv D d"
  shows "demo_inv D (bulk_replay_one D now queue payload d jobId)"
proof (cases "find_job (cd_jobs d) jobId")
  case (Some job)
  then show ?thesis
    using assms by (simp add: bulk_replay_one_def demo_intros bulk_replayed_job_def good_clock_parses)
qed (simp add: bulk_replay_one_def assms(3))

lemma bulk_fold_inv:
  "date_ok D \<Longrightarrow> good_clock now \<Longrightarrow> demo_inv D d \<Longrightarrow>
   demo_inv D (foldl (bulk_replay_one D now queue payload) d selected)"
  by (induction selected arbitrary: d) (simp_all add: bulk_one_inv)

lemma raw_drained:
  assumes "raw_inv D d" and "date_ok D" and "good_clock now"
  shows "raw_inv D (d\<lparr> cd_jobs := map (drained D now q) (cd_jobs d), cd_queueControls := c \<rparr>)"
proof -
  have "map job_id (map (drained D now q) js) = map job_id js" for js
    by (induction js) (simp_all add: drained_def)
  then show ?thesis
    using assms good_clock_parses [OF assms(2,3)] by (auto simp: raw_inv_def valid_data_def drained_def simp del: map_map)
qed

lemma raw_schedules:
  assumes "raw_inv D d" and "\<forall>s \<in> set ss. date_parse D (sched_nextRunAt s) \<noteq> None"
  shows "raw_inv D (d\<lparr> cd_schedules := ss \<rparr>)"
  using assms by (simp add: raw_inv_def valid_data_def)

lemma reconcile_controls:
  "reconcileConsoleData D now (d\<lparr> cd_workerControls := c \<rparr>) =
   (reconcileConsoleData D now d)\<lparr> cd_workerControls := c \<rparr>"
  by (simp add: reconcileConsoleData_def Let_def)

lemma control_demo_inv:
  "demo_inv D d \<Longrightarrow> demo_inv D (d\<lparr> cd_workerControls := c \<rparr>)"
  unfolding demo_inv_def reconcile_controls by (simp add: valid_data_def)

lemma draft_job_updatedAt:
  "createJobFromDraft D now uid draft payload = Some job \<Longrightarrow> job_updatedAt job = iso_text D now \<and> job_id job = uid"
  by (auto simp: createJobFromDraft_def Let_def split: option.splits)

lemma seed_demo_inv:
  assumes "date_ok D" and "good_clock now" and "demo_inv D d" and "new_ids (map ids [1, 2, 3, 4]) d"
  shows "demo_inv D (addLocalWorkflowJobs D now ids d)"
proof -
  have "\<forall>e \<in> set (cd_events d). date_parse D (ev_timestamp e) \<noteq> None"
    using assms(3) by (simp add: demo_inv_def valid_data_def)
  then show ?thesis
    unfolding addLocalWorkflowJobs_def Let_def
    using assms good_clock_parses [OF assms(1,2)]
    by (intro reconcile_demo_inv)
      (auto simp: demo_inv_def raw_inv_def valid_data_def seeded_job_def makeSystemEvent_def no_patch_def new_ids_def)
qed

text \<open>Every step keeps the invariant, so it holds after any session of demo actions.\<close>

theorem demo_step_inv:
  assumes "demo_step D d d'" and "date_ok D" and "demo_inv D d"
  shows "demo_inv D d'"
  using assms
proof cases
  case (submit now uid draft payload job)
  then show ?thesis using assms(2,3) draft_job_updatedAt [OF submit(3)]
    by (simp add: submit_demo_def demo_intros good_clock_parses no_patch_def)
next
  case (retry now jobId)
  then show ?thesis using assms(2,3)
    by (auto simp: retry_demo_def demo_intros retried_job_def good_clock_parses no_patch_def split: option.split)
next
  case (cancel now jobId)
  then show ?thesis using assms(2,3)
    by (auto simp: cancel_demo_def demo_intros canceled_job_def good_clock_parses no_patch_def split: option.split)
next
  case (priority now jobId delta)
  then show ?thesis using assms(2,3)
    by (auto simp: priority_demo_def Let_def demo_intros good_clock_parses no_patch_def split: option.split)
next
  case (replay now uid jobId queue payload edited dead)
  then show ?thesis using assms(2,3)
    by (auto simp: replay_demo_def Let_def demo_intros dead_replayed_job_def cloned_job_def good_clock_parses
        no_patch_def split: option.split)
next
  case (bulk_replay now queue override selected)
  then show ?thesis using assms(2,3)
    by (simp add: bulk_replay_demo_def event_demo_inv bulk_fold_inv no_patch_def)
next
  case (bulk_delete now selected)
  then show ?thesis using assms(2,3)
    by (simp add: bulk_delete_demo_def demo_intros no_patch_def)
next
  case (queue_control now queueName action)
  have "raw_inv D (d\<lparr> cd_jobs := if action = QA_drain then map (drained D now queueName) (cd_jobs d) else cd_jobs d,
      cd_queueControls := c \<rparr>)" for c
    using raw_drained [OF demo_raw [OF assms(3)] assms(2) queue_control(2)] demo_raw [OF assms(3)]
    by (simp add: raw_inv_def valid_data_def)
  with queue_control show ?thesis using assms(2)
    by (simp only: queue_control_demo_def Let_def) (intro event_demo_inv reconcile_demo_inv; simp add: no_patch_def)
next
  case (cordon now workerId cordoned)
  then show ?thesis using assms(2,3)
    by (simp add: cordon_demo_def event_demo_inv control_demo_inv no_patch_def)
next
  case (save_schedule now uid body)
  then show ?thesis using assms(2,3) demo_raw [OF assms(3)] good_clock_parses [OF assms(2) save_schedule(2)]
    by (auto simp: save_schedule_demo_def saved_schedule_def raw_inv_def valid_data_def no_patch_def
        intro!: event_demo_inv reconcile_demo_inv raw_schedules)
next
  case (toggle_schedule now schedule enabled)
  then show ?thesis using assms(2,3) demo_raw [OF assms(3)]
    by (auto simp: toggle_schedule_demo_def raw_inv_def valid_data_def no_patch_def
        intro!: event_demo_inv reconcile_demo_inv raw_schedules)
next
  case (trigger now uid schedule job)
  then show ?thesis using assms(2,3) draft_job_updatedAt [OF trigger(3)]
    by (simp add: trigger_schedule_demo_def demo_intros good_clock_parses no_patch_def)
next
  case (seed now ids)
  then show ?thesis using assms(2,3) by (simp add: seed_demo_inv)
qed

lemma demo_start_inv:
  assumes "date_ok D" and "demo_clock now" and "inj ids"
  shows "demo_inv D (createDemoConsoleData D now ids)"
proof -
  have "cd_jobs (demo_data D now ids) = demo_jobs D now (demo_ids ids)"
    by (simp add: demo_data_def Let_def)
  then have "raw_inv D (demo_data D now ids)"
    using assms by (simp add: raw_inv_def demo_data_valid demo_ids_distinct)
  then show ?thesis
    unfolding createDemoConsoleData_def by (rule reconcile_demo_inv [OF assms(1)])
qed

definition demo_start :: "date_api \<Rightarrow> ConsoleData \<Rightarrow> bool" where
  "demo_start D d \<longleftrightarrow> (\<exists>now ids. demo_clock now \<and> inj ids \<and> d = createDemoConsoleData D now ids)"

interpretation demo: step_system "\<lambda>d. date_ok D \<and> demo_start D d" "demo_step D" "\<lambda>d. date_ok D \<and> demo_inv D d" for D
  by unfold_locales (auto simp: demo_start_def demo_start_inv demo_step_inv)

section \<open>What the actions do\<close>

lemma append_jobs [simp]:
  "cd_jobs (appendEvents D d es) = cd_jobs d" "cd_snapshot (appendEvents D d es) = cd_snapshot d"
  "cd_queueControls (appendEvents D d es) = cd_queueControls d"
  "cd_jobs (appendEvent D d e) = cd_jobs d" "cd_snapshot (appendEvent D d e) = cd_snapshot d"
  "cd_queueControls (appendEvent D d e) = cd_queueControls d"
  by (simp_all add: appendEvent_def appendEvents_def Let_def split: prod.split)

lemma find_job_remove [simp]:
  "distinct (map job_id (cd_jobs d)) \<Longrightarrow>
   find_job (cd_jobs (removeDeadLetters D now d ids)) = find_job (cd_jobs d)"
  by (simp add: removeDeadLetters_def)

lemma find_job_id: "find_job js k = Some j \<Longrightarrow> job_id j = k"
  by (induction js) (auto split: if_splits)

lemma distinct_replace [simp]:
  "distinct (map job_id (cd_jobs d)) \<Longrightarrow> distinct (map job_id (cd_jobs (replaceJob D now d j)))"
  by (simp add: replaceJob_def distinct_sort_jobs distinct_upsert_job)

text \<open>A retry queues the job again, takes it out of the dead letters, and touches no other job.\<close>

lemma retry_effect:
  assumes "demo_inv D d" and "find_job (cd_jobs d) jobId = Some job"
  shows "find_job (cd_jobs (retry_demo D now jobId d)) = (find_job (cd_jobs d))(jobId \<mapsto> retried_job D now job)"
    and "findDeadLetter (retry_demo D now jobId d) jobId = None"
proof -
  have dist: "distinct (map job_id (cd_jobs d))" using assms(1) by (simp add: demo_inv_def)
  have i: "job_id (retried_job D now job) = jobId"
    using find_job_id [OF assms(2)] by (simp add: retried_job_def)
  show "find_job (cd_jobs (retry_demo D now jobId d)) = (find_job (cd_jobs d))(jobId \<mapsto> retried_job D now job)"
    using assms(2) dist i by (simp add: retry_demo_def find_job_replaceJob)
  have "set (sn_deadLetters (cd_snapshot (retry_demo D now jobId d)))
      = set (sn_deadLetters (cd_snapshot (removeDeadLetters D now
          (replaceJob D now d (retried_job D now job)) [jobId])))"
    using assms(2) by (simp add: retry_demo_def)
  then show "findDeadLetter (retry_demo D now jobId d) jobId = None"
    unfolding findDeadLetter_None removed_dead_letters by simp
qed

lemma drained_not_waiting: "job_queue (drained D now q j) = q \<Longrightarrow> \<not> waiting (job_state (drained D now q j))"
  unfolding drained_def waiting_def by (auto split: if_split_asm)

text \<open>After a drain no job of the queue waits, jobs of other queues are as before, and the rest too.\<close>

lemma drain_effect:
  fixes now :: int and q :: string
  assumes "demo_inv D d"
  defines "d' \<equiv> queue_control_demo D now q QA_drain d"
  shows "mset (cd_jobs d') = image_mset (drained D now q) (mset (cd_jobs d))"
    and "j \<in> set (cd_jobs d') \<Longrightarrow> job_queue j = q \<Longrightarrow> \<not> waiting (job_state j)"
    and "obj_get (ov_queueLengths (sn_overview (cd_snapshot d'))) q \<in> {None, Some 0}"
    and "obj_get (cd_queueControls d') q = Some (next_control D now (obj_get (cd_queueControls d) q) QA_drain)"
proof -
  show m: "mset (cd_jobs d') = image_mset (drained D now q) (mset (cd_jobs d))"
    by (simp add: d'_def queue_control_demo_def Let_def)
  then have s: "set (cd_jobs d') = drained D now q ` set (cd_jobs d)"
    by (metis set_image_mset set_mset_mset)
  show w: "\<not> waiting (job_state j)" if "j \<in> set (cd_jobs d')" "job_queue j = q" for j
  proof -
    from that(1) s obtain j0 where "j = drained D now q j0" by (metis imageE)
    with that(2) show "\<not> waiting (job_state j)" by (simp add: drained_not_waiting)
  qed
  have "filter (\<lambda>j. job_queue j = q \<and> waiting (job_state j)) (cd_jobs d') = []"
    using w by (auto simp: filter_empty_conv)
  then have z: "jobs_where (\<lambda>j. job_queue j = q \<and> waiting (job_state j)) (cd_jobs d') = 0"
    by (simp add: jobs_where_def)
  have "\<exists>jobs. ov_queueLengths (sn_overview (cd_snapshot d')) =
      su_queueLengths (summarizeJobs jobs (sn_workers (cd_snapshot d)) (sn_rateLimits (cd_snapshot d))) \<and> jobs = cd_jobs d'"
    by (simp add: d'_def queue_control_demo_def Let_def reconcileConsoleData_def apply_summary_def)
  then show "obj_get (ov_queueLengths (sn_overview (cd_snapshot d'))) q \<in> {None, Some 0}"
    using z by (auto simp: summarize_queues)
  show "obj_get (cd_queueControls d') q = Some (next_control D now (obj_get (cd_queueControls d) q) QA_drain)"
    by (simp add: d'_def queue_control_demo_def Let_def obj_get_set)
qed

lemma priority_effect:
  assumes "demo_inv D d" and "find_job (cd_jobs d) jobId = Some job"
  obtains j where "find_job (cd_jobs (priority_demo D now jobId delta d)) jobId = Some j"
    and "0 \<le> job_priority j" and "job_priority j \<le> 9"
    and "0 \<le> job_priority job + delta \<Longrightarrow> job_priority job + delta \<le> 9 \<Longrightarrow>
         job_priority j = job_priority job + delta"
proof -
  have dist: "distinct (map job_id (cd_jobs d))" using assms(1) by (simp add: demo_inv_def)
  let ?j = "job\<lparr> job_priority := clamp (job_priority job + delta) 0 9, job_updatedAt := iso_text D now \<rparr>"
  have "find_job (cd_jobs (priority_demo D now jobId delta d)) jobId = Some ?j"
    using assms(2) dist find_job_id [OF assms(2)]
    by (simp add: priority_demo_def Let_def find_job_replaceJob)
  then show thesis using clamp_bounds [of 0 9 "job_priority job + delta"]
    by (intro that [of ?j]) (simp_all add: clamp_id)
qed

end
