(* ===== verification/OpsHandlers.thy ===== *)
theory OpsHandlers
  imports DemoActions RequestClient
begin

text \<open>
  The handlers of \<open>src/src/components/OpsConsole.tsx\<close>. A handler that talks to the API is two
  definitions: \<open>X\<close> runs up to the request (or, in demo mode, to its end), and \<open>X_done\<close> is the part
  after the answer, given to \<open>settle\<close>, which also models the \<open>finally\<close> of \<open>runBusy\<close>. Calls of
  \<open>enqueueToast\<close>, \<open>requestJson\<close> and \<open>refreshConsole\<close> are logged in order.
\<close>

record LiveRequest =
  lr_route :: ApiRoute
  lr_body :: "jsval option"

record RefreshCall =
  rc_quiet :: bool
  rc_force :: bool

record OpsState =
  os_data :: ConsoleData
  os_selectedJobId :: string
  os_selectedTab :: string
  os_jobDraft :: JobDraft
  os_jobErrors :: errors
  os_scheduleDraft :: ScheduleDraft
  os_scheduleErrors :: errors
  os_selectedDeadLetters :: "string list"
  os_bulkReplayQueue :: string
  os_bulkReplayPayload :: string
  os_busy :: "bool obj"
  os_toasts :: "ToastInput list"
  os_sent :: "LiveRequest list"
  os_refreshes :: "RefreshCall list"

section \<open>Shared pieces\<close>

definition toast_of :: "ToastTone \<Rightarrow> string \<Rightarrow> string \<Rightarrow> ToastInput" where
  "toast_of tone title description =
     \<lparr> ti_key = None, ti_title = title, ti_description = Some description, ti_tone = tone,
       ti_cooldownMs = None, ti_durationMs = None \<rparr>"

definition notify :: "ToastInput \<Rightarrow> OpsState \<Rightarrow> OpsState" where
  "notify t s = s\<lparr> os_toasts := os_toasts s @ [t] \<rparr>"

definition setBusy :: "string \<Rightarrow> bool \<Rightarrow> OpsState \<Rightarrow> OpsState" where
  "setBusy key value s =
     s\<lparr> os_busy := (if value then obj_set (os_busy s) key True else obj_delete (os_busy s) key) \<rparr>"

text \<open>\<open>runBusy\<close> around a task that does not wait.\<close>

definition runBusy :: "string \<Rightarrow> (OpsState \<Rightarrow> OpsState) \<Rightarrow> OpsState \<Rightarrow> OpsState" where
  "runBusy key task s = setBusy key False (task (setBusy key True s))"

text \<open>\<open>runBusy\<close> around a request: up to the await, and after it.\<close>

definition send :: "string \<Rightarrow> ApiRoute \<Rightarrow> jsval option \<Rightarrow> OpsState \<Rightarrow> OpsState" where
  "send key route body s =
     (let s1 = setBusy key True s in s1\<lparr> os_sent := os_sent s1 @ [\<lparr> lr_route = route, lr_body = body \<rparr>] \<rparr>)"

definition settle :: "string \<Rightarrow> (RequestError + 'r) \<Rightarrow> ('r \<Rightarrow> OpsState \<Rightarrow> OpsState) \<Rightarrow> OpsState \<Rightarrow> OpsState" where
  "settle key outcome done' s =
     setBusy key False (case outcome of Inl e \<Rightarrow> s | Inr r \<Rightarrow> done' r s)"

definition refresh_quietly :: "OpsState \<Rightarrow> OpsState" where
  "refresh_quietly s = s\<lparr> os_refreshes := os_refreshes s @ [\<lparr> rc_quiet = True, rc_force = True \<rparr>] \<rparr>"

definition update_data :: "(ConsoleData \<Rightarrow> ConsoleData) \<Rightarrow> OpsState \<Rightarrow> OpsState" where
  "update_data f s = s\<lparr> os_data := f (os_data s) \<rparr>"

definition notifyUnsupportedLiveControl :: "string \<Rightarrow> string \<Rightarrow> OpsState \<Rightarrow> OpsState" where
  "notifyUnsupportedLiveControl title description s =
     notify ((toast_of Tone_info title description)
       \<lparr> ti_key := Some (''unsupported-live-control:'' @ title), ti_cooldownMs := Some 8000 \<rparr>) s"

definition count_text :: "'a list \<Rightarrow> string" where
  "count_text xs = number_to_string (of_nat (length xs))"

section \<open>Submitting a job\<close>

text \<open>
  \<open>None\<close>: \<open>createJobFromDraft\<close> throws inside the state updater (a delay beyond the range of
  dates), which React reports to the error boundary.
\<close>

definition submit_local :: "date_api \<Rightarrow> int \<Rightarrow> string \<Rightarrow> JobValidation \<Rightarrow> OpsState \<Rightarrow> OpsState option" where
  "submit_local D now uid validation s =
     (let draft = os_jobDraft s
      in case local_duplicate draft (job_body D draft validation) (os_data s) of
           Some duplicate \<Rightarrow>
             Some (notify (toast_of Tone_warning ''Local duplicate suppressed''
                ''The job matched an existing idempotency key in the current console session.'')
              (s\<lparr> os_selectedJobId := job_id duplicate \<rparr>))
         | None \<Rightarrow>
             (case createJobFromDraft D now uid draft (jv_payload validation) of
                None \<Rightarrow> None
              | Some nextJob \<Rightarrow>
                  Some (notify (toast_of Tone_success ''Job enqueued in demo mode''
                     (job_type nextJob @ '' is now visible in the console state model.''))
                   (update_data (submit_demo D now nextJob)
                     (s\<lparr> os_selectedJobId := job_id nextJob, os_selectedTab := ''jobs'' \<rparr>)))))"

definition submitJob ::
    "date_api \<Rightarrow> int \<Rightarrow> (string \<Rightarrow> string) \<Rightarrow> bool \<Rightarrow> string \<Rightarrow> OpsState \<Rightarrow> OpsState option" where
  "submitJob D now msg liveMode uid s =
     (let validation = validateJobForm D now msg (os_jobDraft s)
      in if jv_errors validation \<noteq> [] \<or> \<not> js_truthy (jv_payload validation) then
           Some (notify (toast_of Tone_warning ''Job submission needs attention''
              ''Fix the inline field errors before enqueueing work.'')
            (s\<lparr> os_jobErrors := jv_errors validation \<rparr>))
         else if liveMode then
           Some (send ''submit-job'' R_jobs (Some (enc_job_body (job_body D (os_jobDraft s) validation))) s)
         else map_option (setBusy ''submit-job'' False)
                (submit_local D now uid validation (setBusy ''submit-job'' True s)))"

definition submitJob_done :: "date_api \<Rightarrow> int \<Rightarrow> EnqueueResult \<Rightarrow> OpsState \<Rightarrow> OpsState" where
  "submitJob_done D now result s =
     (let job = enq_job result;
          s1 = (update_data (\<lambda>current. replaceJob D now current job) s)
                 \<lparr> os_selectedJobId := job_id job, os_selectedTab := ''jobs'' \<rparr>
      in refresh_quietly (notify
           (if enq_duplicateSuppressed result
            then toast_of Tone_warning ''Submission deduplicated''
                   (''Suppressed duplicate submission for ''
                     @ or_str_opt (job_idempotencyKey job) (job_id job) @ ''.'')
            else toast_of Tone_success ''Job enqueued''
                   (job_type job @ '' entered '' @ job_queue job @ ''.'')) s1))"

section \<open>Retry, cancel and priority\<close>

definition retry_toast :: ToastInput where
  "retry_toast = toast_of Tone_success ''Retry queued'' ''The job was moved back to the runnable queue.''"

definition retryJob :: "date_api \<Rightarrow> int \<Rightarrow> bool \<Rightarrow> string \<Rightarrow> OpsState \<Rightarrow> OpsState" where
  "retryJob D now liveMode jobId s =
     (if liveMode then send (''job-retry-'' @ jobId) (R_jobRetry jobId) None s
      else runBusy (''job-retry-'' @ jobId)
             (\<lambda>s. notify retry_toast (update_data (retry_demo D now jobId) s)) s)"

definition retryJob_done :: "date_api \<Rightarrow> int \<Rightarrow> string \<Rightarrow> Job \<Rightarrow> OpsState \<Rightarrow> OpsState" where
  "retryJob_done D now jobId job s =
     notify retry_toast (refresh_quietly
       (update_data (\<lambda>current. removeDeadLetters D now (replaceJob D now current job) [jobId]) s))"

definition cancel_toast :: ToastInput where
  "cancel_toast = toast_of Tone_info ''Cancellation requested''
     ''Queued and scheduled work was marked for cancellation.''"

definition cancelJob :: "date_api \<Rightarrow> int \<Rightarrow> bool \<Rightarrow> string \<Rightarrow> OpsState \<Rightarrow> OpsState" where
  "cancelJob D now liveMode jobId s =
     (if liveMode then send (''job-cancel-'' @ jobId) (R_jobCancel jobId) None s
      else runBusy (''job-cancel-'' @ jobId)
             (\<lambda>s. notify cancel_toast (update_data (cancel_demo D now jobId) s)) s)"

definition cancelJob_done :: "date_api \<Rightarrow> int \<Rightarrow> Job \<Rightarrow> OpsState \<Rightarrow> OpsState" where
  "cancelJob_done D now job s =
     notify cancel_toast (refresh_quietly (update_data (\<lambda>current. replaceJob D now current job) s))"

definition adjustPriority :: "date_api \<Rightarrow> int \<Rightarrow> bool \<Rightarrow> string \<Rightarrow> rat \<Rightarrow> OpsState \<Rightarrow> OpsState" where
  "adjustPriority D now liveMode jobId delta s =
     (if liveMode then
        notifyUnsupportedLiveControl ''Priority changes stay read-only in live mode''
          ''Priority changes are demo-only because the live API does not expose a priority mutation endpoint.'' s
      else notify (toast_of Tone_info ''Priority updated''
               ''This priority change is enforced inside the console state model.'')
             (update_data (priority_demo D now jobId delta) s))"

section \<open>Replays\<close>

definition replay_toast :: "bool \<Rightarrow> Job \<Rightarrow> string \<Rightarrow> ToastInput" where
  "replay_toast edited job queue =
     toast_of Tone_success (if edited then ''Replay issued with edited payload'' else ''Replay issued'')
       (job_type job @ '' will re-enter '' @ queue @ ''.'')"

definition dead_replay_body :: "string list \<Rightarrow> string \<Rightarrow> jsval \<Rightarrow> jsval" where
  "dead_replay_body jobIds queue payload =
     Obj [(''jobIds'', enc_list Str jobIds), (''queue'', Str queue), (''payload'', payload)]"

definition clone_body :: "Job \<Rightarrow> string \<Rightarrow> jsval \<Rightarrow> jsval" where
  "clone_body job queue payload = Obj
     [(''type'', Str (job_type job)), (''queue'', Str queue), (''tenantId'', Str (job_tenantId job)),
      (''priority'', Num (job_priority job)), (''maxAttempts'', Num (job_maxAttempts job)),
      (''timeoutSeconds'', Num (job_timeoutSeconds job)), (''schemaVersion'', Num (job_schemaVersion job)),
      (''workflowId'', enc_str_opt (or_undefined (nullish (job_workflowId job) []))),
      (''parentJobId'', enc_str_opt (or_undefined (nullish (job_parentJobId job) []))),
      (''payload'', payload)]"

definition replayJob ::
    "date_api \<Rightarrow> int \<Rightarrow> (string \<Rightarrow> string) \<Rightarrow> bool \<Rightarrow> string \<Rightarrow> string \<Rightarrow> string \<Rightarrow> string \<Rightarrow> bool \<Rightarrow> OpsState \<Rightarrow> OpsState" where
  "replayJob D now msg liveMode uid jobId queue payloadText edited s =
     (let parsedPayload = safeJsonParse msg (Str payloadText);
          key = ''job-replay-'' @ jobId;
          payload = jr_value parsedPayload
      in if jr_error parsedPayload \<noteq> [] \<or> \<not> js_truthy payload then
           notify (toast_of Tone_warning ''Replay payload is invalid''
             (or_str (jr_error parsedPayload) ''Provide valid JSON before replaying this job.'')) s
         else case find_job (cd_jobs (os_data s)) jobId of
           None \<Rightarrow> runBusy key (\<lambda>s. s) s
         | Some job \<Rightarrow>
             let deadLetter = findDeadLetter (os_data s) jobId
             in if liveMode then
                  (if deadLetter \<noteq> None then
                     send key R_deadLettersReplay (Some (dead_replay_body [jobId] queue payload)) s
                   else send key R_jobs (Some (clone_body job queue payload)) s)
                else runBusy key (\<lambda>s. notify (replay_toast edited job queue)
                   (update_data (replay_demo D now uid jobId queue payload edited (deadLetter \<noteq> None))
                     (if deadLetter = None then s\<lparr> os_selectedJobId := uid \<rparr> else s))) s)"

definition replayJob_done :: "bool \<Rightarrow> Job \<Rightarrow> string \<Rightarrow> OpsState \<Rightarrow> OpsState" where
  "replayJob_done edited job queue s = notify (replay_toast edited job queue) (refresh_quietly s)"

definition bulk_replay_toast :: "string list \<Rightarrow> ToastInput" where
  "bulk_replay_toast selected =
     toast_of Tone_success ''Bulk replay issued'' (count_text selected @ '' dead-letter jobs were replayed.'')"

definition replaySelectedDeadLetters ::
    "date_api \<Rightarrow> int \<Rightarrow> (string \<Rightarrow> string) \<Rightarrow> bool \<Rightarrow> OpsState \<Rightarrow> OpsState" where
  "replaySelectedDeadLetters D now msg liveMode s =
     (let selected = os_selectedDeadLetters s;
          queue = os_bulkReplayQueue s;
          payload = (if safeTrimStr (os_bulkReplayPayload s) \<noteq> [] then safeJsonParse msg (Str (os_bulkReplayPayload s))
                     else \<lparr> jr_value = Null, jr_error = [] \<rparr>);
          override = (if jr_value payload = Null then None else Some (jr_value payload))
      in if length selected = 0 then
           notify (toast_of Tone_warning ''Select dead-letter jobs first''
             ''Bulk replay requires at least one selected dead-letter record.'') s
         else if jr_error payload \<noteq> [] then
           notify (toast_of Tone_warning ''Replay override is invalid'' (jr_error payload)) s
         else if liveMode then
           send ''bulk-replay'' R_deadLettersReplay
             (Some (dead_replay_body selected queue (nullish override Undefined))) s
         else runBusy ''bulk-replay''
           (\<lambda>s. notify (bulk_replay_toast selected)
              ((update_data (bulk_replay_demo D now queue override selected) s)
                 \<lparr> os_selectedDeadLetters := [], os_bulkReplayPayload := [] \<rparr>)) s)"

definition replaySelected_done :: "string list \<Rightarrow> OpsState \<Rightarrow> OpsState" where
  "replaySelected_done selected s =
     notify (bulk_replay_toast selected)
       ((refresh_quietly s)\<lparr> os_selectedDeadLetters := [], os_bulkReplayPayload := [] \<rparr>)"

definition delete_toast :: ToastInput where
  "delete_toast = toast_of Tone_info ''Dead-letter records deleted''
     ''The selected DLQ metadata was removed from the console.''"

definition deleteSelectedDeadLetters :: "date_api \<Rightarrow> int \<Rightarrow> bool \<Rightarrow> OpsState \<Rightarrow> OpsState" where
  "deleteSelectedDeadLetters D now liveMode s =
     (let selected = os_selectedDeadLetters s
      in if length selected = 0 then
           notify (toast_of Tone_warning ''Select dead-letter jobs first''
             ''Bulk delete requires at least one selected record.'') s
         else if liveMode then
           send ''bulk-delete'' R_deadLettersDelete (Some (Obj [(''jobIds'', enc_list Str selected)])) s
         else runBusy ''bulk-delete''
           (\<lambda>s. notify delete_toast
              ((update_data (bulk_delete_demo D now selected) s)\<lparr> os_selectedDeadLetters := [] \<rparr>)) s)"

definition deleteSelected_done :: "OpsState \<Rightarrow> OpsState" where
  "deleteSelected_done s = notify delete_toast ((refresh_quietly s)\<lparr> os_selectedDeadLetters := [] \<rparr>)"

section \<open>Queues and workers\<close>

definition setQueueControl :: "date_api \<Rightarrow> int \<Rightarrow> bool \<Rightarrow> string \<Rightarrow> QueueAction \<Rightarrow> OpsState \<Rightarrow> OpsState" where
  "setQueueControl D now liveMode queueName action s =
     (if liveMode then
        notifyUnsupportedLiveControl ''Queue controls stay read-only in live mode''
          ''Queue pause, resume, and drain are demo-only until the API exposes queue administration endpoints.'' s
      else notify (toast_of (if action = QA_resume then Tone_success else Tone_info)
               (queueName @ '' '' @ queue_action_name action @ ''d'')
               ''The queue control mutated the demo state model immediately.'')
             (update_data (queue_control_demo D now queueName action) s))"

definition toggleWorkerCordon :: "date_api \<Rightarrow> int \<Rightarrow> bool \<Rightarrow> string \<Rightarrow> bool \<Rightarrow> OpsState \<Rightarrow> OpsState" where
  "toggleWorkerCordon D now liveMode workerId cordoned s =
     (if liveMode then
        notifyUnsupportedLiveControl ''Worker maintenance stays read-only in live mode''
          ''Worker cordon is demo-only until the backend exposes maintenance controls.'' s
      else notify (toast_of (if cordoned then Tone_warning else Tone_success)
               (if cordoned then ''Worker cordoned'' else ''Worker returned to service'')
               ''The demo worker state changed immediately.'')
             (update_data (cordon_demo D now workerId cordoned) s))"

section \<open>Schedules\<close>

definition saved_toast :: "ScheduleBody \<Rightarrow> ToastInput" where
  "saved_toast body = toast_of Tone_success ''Schedule saved''
     (sb_name body @ '' is now part of the schedule control plane.'')"

definition submitSchedule ::
    "date_api \<Rightarrow> int \<Rightarrow> (string \<Rightarrow> string) \<Rightarrow> bool \<Rightarrow> string \<Rightarrow> OpsState \<Rightarrow> OpsState" where
  "submitSchedule D now msg liveMode uid s =
     (let validation = validateScheduleForm msg (os_scheduleDraft s);
          body = schedule_body (os_scheduleDraft s) (sv_payload validation)
      in if sv_errors validation \<noteq> [] \<or> \<not> js_truthy (sv_payload validation) then
           notify (toast_of Tone_warning ''Schedule definition needs attention''
              ''Fix the inline errors before saving the schedule.'')
            (s\<lparr> os_scheduleErrors := sv_errors validation \<rparr>)
         else if liveMode then send ''schedule-submit'' R_schedules (Some (enc_schedule_body body)) s
         else runBusy ''schedule-submit''
           (\<lambda>s. (notify (saved_toast body) (update_data (save_schedule_demo D now uid body) s))
                  \<lparr> os_scheduleDraft := defaultScheduleDraft \<rparr>) s)"

definition submitSchedule_done :: "ScheduleBody \<Rightarrow> OpsState \<Rightarrow> OpsState" where
  "submitSchedule_done body s =
     (notify (saved_toast body) (refresh_quietly s))\<lparr> os_scheduleDraft := defaultScheduleDraft \<rparr>"

definition toggle_toast :: "Schedule \<Rightarrow> bool \<Rightarrow> ToastInput" where
  "toggle_toast schedule enabled = toast_of (if enabled then Tone_success else Tone_warning)
     (if enabled then ''Schedule resumed'' else ''Schedule paused'') (sched_name schedule)"

definition toggle_body :: "Schedule \<Rightarrow> bool \<Rightarrow> jsval" where
  "toggle_body schedule enabled = Obj
     [(''name'', Str (sched_name schedule)), (''cronExpression'', Str (sched_cronExpression schedule)),
      (''queue'', Str (sched_queue schedule)), (''type'', Str (sched_type schedule)),
      (''payload'', sched_payload schedule), (''priority'', Num (sched_priority schedule)),
      (''maxAttempts'', Num (sched_maxAttempts schedule)),
      (''timeoutSeconds'', Num (sched_timeoutSeconds schedule)), (''enabled'', Bool enabled),
      (''timezone'', Str (sched_timezone schedule))]"

definition toggleSchedule :: "date_api \<Rightarrow> int \<Rightarrow> bool \<Rightarrow> Schedule \<Rightarrow> bool \<Rightarrow> OpsState \<Rightarrow> OpsState" where
  "toggleSchedule D now liveMode schedule enabled s =
     (let key = ''schedule-'' @ sched_id schedule
      in if liveMode then send key R_schedules (Some (toggle_body schedule enabled)) s
         else runBusy key (\<lambda>s. notify (toggle_toast schedule enabled)
                (update_data (toggle_schedule_demo D now schedule enabled) s)) s)"

definition toggleSchedule_done :: "Schedule \<Rightarrow> bool \<Rightarrow> OpsState \<Rightarrow> OpsState" where
  "toggleSchedule_done schedule enabled s = notify (toggle_toast schedule enabled) (refresh_quietly s)"

definition trigger_toast :: "Schedule \<Rightarrow> ToastInput" where
  "trigger_toast schedule = toast_of Tone_success ''Schedule triggered'' (sched_name schedule)"

definition trigger_body :: "Schedule \<Rightarrow> jsval" where
  "trigger_body schedule = Obj
     [(''type'', Str (sched_type schedule)), (''queue'', Str (sched_queue schedule)),
      (''priority'', Num (sched_priority schedule)), (''maxAttempts'', Num (sched_maxAttempts schedule)),
      (''timeoutSeconds'', Num (sched_timeoutSeconds schedule)), (''schemaVersion'', Num 1),
      (''payload'', sched_payload schedule), (''tenantId'', Str ''scheduler'')]"

text \<open>The draft of a trigger has no delay and no date, so making its job does not throw in demo mode.\<close>

definition triggerSchedule :: "date_api \<Rightarrow> int \<Rightarrow> bool \<Rightarrow> string \<Rightarrow> Schedule \<Rightarrow> OpsState \<Rightarrow> OpsState option" where
  "triggerSchedule D now liveMode uid schedule s =
     (let key = ''schedule-trigger-'' @ sched_id schedule
      in if liveMode then Some (send key R_jobs (Some (trigger_body schedule)) s)
         else case createJobFromDraft D now uid (trigger_draft schedule) (sched_payload schedule) of
           None \<Rightarrow> None
         | Some nextJob \<Rightarrow> Some (runBusy key
             (\<lambda>s. notify (trigger_toast schedule)
                ((update_data (trigger_schedule_demo D now schedule nextJob) s)
                   \<lparr> os_selectedJobId := job_id nextJob \<rparr>)) s))"

definition triggerSchedule_done :: "Schedule \<Rightarrow> OpsState \<Rightarrow> OpsState" where
  "triggerSchedule_done schedule s = notify (trigger_toast schedule) (refresh_quietly s)"

definition seed_toast :: ToastInput where
  "seed_toast = toast_of Tone_success ''Workflow seeded''
     ''A fan-out/fan-in thumbnail workflow was injected into the console.''"

definition seedWorkflow :: "date_api \<Rightarrow> int \<Rightarrow> bool \<Rightarrow> (nat \<Rightarrow> string) \<Rightarrow> OpsState \<Rightarrow> OpsState" where
  "seedWorkflow D now liveMode ids s =
     (if liveMode then
        send ''seed-workflow'' R_workflowDemoThumbnail
          (Some (Obj [(''tenantId'', Str (or_str (safeTrimStr (jd_tenantId (os_jobDraft s))) ''tenant-a''))])) s
      else runBusy ''seed-workflow'' (\<lambda>s. notify seed_toast (update_data (addLocalWorkflowJobs D now ids) s)) s)"

definition seedWorkflow_done :: "OpsState \<Rightarrow> OpsState" where
  "seedWorkflow_done s = notify seed_toast (refresh_quietly s)"

section \<open>Selections and the effects that repair them\<close>

definition toggleDeadLetterSelection :: "string \<Rightarrow> OpsState \<Rightarrow> OpsState" where
  "toggleDeadLetterSelection jobId s =
     s\<lparr> os_selectedDeadLetters :=
          (if jobId \<in> set (os_selectedDeadLetters s)
           then filter (\<lambda>item. item \<noteq> jobId) (os_selectedDeadLetters s)
           else os_selectedDeadLetters s @ [jobId]) \<rparr>"

fun tab_key_string :: "TabKey \<Rightarrow> string" where
  "tab_key_string Tab_overview = ''overview''"
| "tab_key_string Tab_jobs = ''jobs''"
| "tab_key_string Tab_queues = ''queues''"
| "tab_key_string Tab_workers = ''workers''"
| "tab_key_string Tab_schedules = ''schedules''"
| "tab_key_string Tab_dead_letter = ''dead-letter''"
| "tab_key_string Tab_workflows = ''workflows''"
| "tab_key_string Tab_metrics = ''metrics''"
| "tab_key_string Tab_events = ''events''"

definition tab_key :: "string \<Rightarrow> string" where
  "tab_key selectedTab =
     (if list_ex (\<lambda>t. tab_key_string (fst t) = selectedTab) TABS then selectedTab else ''overview'')"

definition effect_tab :: "OpsState \<Rightarrow> OpsState" where
  "effect_tab s =
     (if tab_key (os_selectedTab s) \<noteq> os_selectedTab s
      then s\<lparr> os_selectedTab := tab_key (os_selectedTab s) \<rparr> else s)"

definition effect_selected_job :: "OpsState \<Rightarrow> OpsState" where
  "effect_selected_job s =
     (if os_selectedJobId s \<noteq> [] \<and> \<not> list_ex (\<lambda>job. job_id job = os_selectedJobId s) (cd_jobs (os_data s))
      then s\<lparr> os_selectedJobId := [] \<rparr> else s)"

definition effect_dead_letters :: "OpsState \<Rightarrow> OpsState" where
  "effect_dead_letters s =
     s\<lparr> os_selectedDeadLetters := filter (\<lambda>jobId. list_ex (\<lambda>item. dl_jobId item = jobId)
          (sn_deadLetters (cd_snapshot (os_data s)))) (os_selectedDeadLetters s) \<rparr>"

text \<open>The connection settings and their reset.\<close>

record Connection =
  cn_baseUrl :: string
  cn_token :: string
  cn_liveMode :: bool
  cn_liveUpdates :: bool

definition reset_toast :: "string \<Rightarrow> ToastInput" where
  "reset_toast defaultToken =
     (toast_of Tone_info ''Connection settings reset''
        (''Restored the default API endpoint'' @ (if defaultToken \<noteq> [] then '' and token'' else []) @ ''.''))
       \<lparr> ti_key := Some ''connection-settings-reset'' \<rparr>"

definition resetConnectionSettings ::
    "string \<Rightarrow> string \<Rightarrow> Connection \<times> OpsState \<Rightarrow> Connection \<times> OpsState" where
  "resetConnectionSettings defaultBaseUrl defaultToken cs =
     ((fst cs)\<lparr> cn_baseUrl := defaultBaseUrl, cn_token := defaultToken, cn_liveMode := True, cn_liveUpdates := True \<rparr>,
      notify (reset_toast defaultToken) (snd cs))"

section \<open>Lemmas\<close>

lemma notify_fields [simp]:
  "os_data (notify t s) = os_data s" "os_sent (notify t s) = os_sent s" "os_busy (notify t s) = os_busy s"
  "os_selectedJobId (notify t s) = os_selectedJobId s" "os_refreshes (notify t s) = os_refreshes s"
  by (simp_all add: notify_def)

lemma busy_fields [simp]:
  "os_data (setBusy k v s) = os_data s" "os_sent (setBusy k v s) = os_sent s"
  "os_jobDraft (setBusy k v s) = os_jobDraft s" "os_toasts (setBusy k v s) = os_toasts s"
  by (simp_all add: setBusy_def)

lemma update_fields [simp]:
  "os_data (update_data f s) = f (os_data s)" "os_data (refresh_quietly s) = os_data s"
  "os_data (send k r b s) = os_data s" "os_data (notifyUnsupportedLiveControl t d s) = os_data s"
  "os_data (runBusy k task s) = os_data (task (setBusy k True s))"
  by (simp_all add: update_data_def refresh_quietly_def send_def notifyUnsupportedLiveControl_def runBusy_def Let_def)

text \<open>Every demo-mode handler leaves the data alone or makes one step of the demo transition system.\<close>

definition demo_refines :: "date_api \<Rightarrow> OpsState \<Rightarrow> OpsState \<Rightarrow> bool" where
  "demo_refines D s s' \<longleftrightarrow> os_data s' = os_data s \<or> demo_step D (os_data s) (os_data s')"

lemma submit_refines:
  assumes "good_clock now" and "submitJob D now msg False uid s = Some s'"
  shows "demo_refines D s s'"
  using assms
  by (auto simp: submitJob_def submit_local_def demo_refines_def Let_def
      intro: demo_step.submit split: if_splits option.splits)

lemma trigger_refines:
  assumes "good_clock now" and "triggerSchedule D now False uid schedule s = Some s'"
  shows "demo_refines D s s'"
  using assms
  by (auto simp: triggerSchedule_def demo_refines_def Let_def intro: demo_step.trigger split: option.splits)

lemma handlers_refine:
  assumes "good_clock now"
  shows "demo_refines D s (retryJob D now False jobId s)"
    and "demo_refines D s (cancelJob D now False jobId s)"
    and "demo_refines D s (adjustPriority D now False jobId delta s)"
    and "demo_refines D s (replaySelectedDeadLetters D now msg False s)"
    and "demo_refines D s (deleteSelectedDeadLetters D now False s)"
    and "demo_refines D s (setQueueControl D now False queueName action s)"
    and "demo_refines D s (toggleWorkerCordon D now False workerId cordoned s)"
    and "demo_refines D s (submitSchedule D now msg False uid s)"
    and "demo_refines D s (toggleSchedule D now False schedule enabled s)"
  using assms
  by (simp_all add: demo_refines_def retryJob_def cancelJob_def adjustPriority_def replaySelectedDeadLetters_def
      deleteSelectedDeadLetters_def setQueueControl_def toggleWorkerCordon_def submitSchedule_def
      toggleSchedule_def Let_def demo_step.intros)

lemma replay_refines:
  assumes "good_clock now"
  shows "demo_refines D s (replayJob D now msg False uid jobId queue text edited s)"
  using assms by (auto simp: replayJob_def demo_refines_def Let_def intro: demo_step.replay split: option.splits)

lemma seed_refines:
  assumes "good_clock now" and "new_ids (map ids [1, 2, 3, 4]) (os_data s)"
  shows "demo_refines D s (seedWorkflow D now False ids s)"
  using assms by (auto simp: seedWorkflow_def demo_refines_def intro: demo_step.seed)

text \<open>Live mode: a rejected request changes nothing but the busy flag, which every outcome clears.\<close>

lemma settle_rejected: "settle key (Inl e) f s = setBusy key False s"
  by (simp add: settle_def)

lemma settle_idle: "obj_get (os_busy (settle key outcome f s)) key = None"
  by (simp add: settle_def setBusy_def obj_get_delete)

lemma send_busy: "obj_get (os_busy (send key r b s)) key = Some True"
  by (simp add: send_def setBusy_def obj_get_set Let_def)

lemma live_controls_readonly:
  "os_data (adjustPriority D now True jobId delta s) = os_data s"
  "os_data (setQueueControl D now True queueName action s) = os_data s"
  "os_data (toggleWorkerCordon D now True workerId cordoned s) = os_data s"
  by (simp_all add: adjustPriority_def setQueueControl_def toggleWorkerCordon_def)

text \<open>The answers of the API keep the normal form of the console data.\<close>

lemma answers_keep_inv:
  assumes "date_ok D" and "demo_inv D (os_data s)"
  shows "date_parse D (job_updatedAt (enq_job result)) \<noteq> None \<Longrightarrow> demo_inv D (os_data (submitJob_done D now result s))"
    and "date_parse D (job_updatedAt job) \<noteq> None \<Longrightarrow> demo_inv D (os_data (retryJob_done D now jobId job s))"
    and "date_parse D (job_updatedAt job) \<noteq> None \<Longrightarrow> demo_inv D (os_data (cancelJob_done D now job s))"
proof -
  note r = replace_demo_inv [OF assms] and d = remove_demo_inv [OF assms(1)]
  show "date_parse D (job_updatedAt (enq_job result)) \<noteq> None \<Longrightarrow> demo_inv D (os_data (submitJob_done D now result s))"
    using r by (simp add: submitJob_done_def Let_def)
  show "date_parse D (job_updatedAt job) \<noteq> None \<Longrightarrow> demo_inv D (os_data (retryJob_done D now jobId job s))"
    using r d by (simp add: retryJob_done_def)
  show "date_parse D (job_updatedAt job) \<noteq> None \<Longrightarrow> demo_inv D (os_data (cancelJob_done D now job s))"
    using r by (simp add: cancelJob_done_def)
qed

text \<open>A form that does not validate sends nothing and changes no data.\<close>

lemma submit_rejected:
  assumes "jv_errors (validateJobForm D now msg (os_jobDraft s)) \<noteq> [] \<or>
    \<not> js_truthy (jv_payload (validateJobForm D now msg (os_jobDraft s)))"
  shows "\<exists>s'. submitJob D now msg liveMode uid s = Some s' \<and> os_data s' = os_data s \<and>
    os_sent s' = os_sent s \<and> os_busy s' = os_busy s"
  using assms by (simp add: submitJob_def Let_def)

text \<open>An accepted form in live mode sends one request, whose priority is in range.\<close>

lemma submit_sends:
  assumes "jv_errors (validateJobForm D now msg (os_jobDraft s)) = []"
    and "js_truthy (jv_payload (validateJobForm D now msg (os_jobDraft s)))"
  obtains s' body where "submitJob D now msg True uid s = Some s'" and "os_data s' = os_data s"
    and "os_sent s' = os_sent s @ [\<lparr> lr_route = R_jobs, lr_body = Some (enc_job_body body) \<rparr>]"
    and "\<exists>x. jb_priority body = Fin x \<and> 0 \<le> x \<and> x \<le> 9" and "num_ge (jb_maxAttempts body) 1"
    and "num_ge (jb_timeoutSeconds body) 0" and "num_ge (jb_delaySeconds body) 0"
proof -
  let ?b = "job_body D (os_jobDraft s) (validateJobForm D now msg (os_jobDraft s))"
  show thesis
    using assms body_priority [of D "os_jobDraft s" "validateJobForm D now msg (os_jobDraft s)"]
      body_lower_bounds [of D "os_jobDraft s" "validateJobForm D now msg (os_jobDraft s)"]
    by (intro that [of "send ''submit-job'' R_jobs (Some (enc_job_body ?b)) s" ?b])
      (simp_all add: submitJob_def send_def Let_def)
qed

text \<open>A valid priority 0 is kept in demo mode and sent as 5 in live mode.\<close>

lemma priority_zero:
  assumes "Number_text (jd_priority draft) = Fin 0" and "createJobFromDraft D now uid draft payload = Some job"
  shows "job_priority job = 0" and "jb_priority (job_body D draft v) = Fin 5"
proof -
  show "job_priority job = 0"
    using assms by (auto simp: createJobFromDraft_def Let_def asNumber_def Number_text_def clamp_def split: option.splits)
  show "jb_priority (job_body D draft v) = Fin 5"
    using body_priority_value [OF assms(1)] by simp
qed

lemma trigger_never_throws:
  "createJobFromDraft D now uid (trigger_draft schedule) payload \<noteq> None"
proof -
  have "asNumber (Str ''0'') 0 = 0" by code_simp
  then show ?thesis
    by (simp add: createJobFromDraft_def draft_runAt_def trigger_draft_def defaultJobDraft_def Let_def)
qed

text \<open>The repairing effects: afterwards every selection exists, and they are idempotent.\<close>

lemma tab_key_valid: "tab_key t \<in> tab_key_string ` fst ` set TABS"
  by (auto simp: tab_key_def list_ex_iff TABS_def)

lemma effect_selected_job_ok:
  "os_selectedJobId (effect_selected_job s) = [] \<or>
   (\<exists>job \<in> set (cd_jobs (os_data s)). job_id job = os_selectedJobId (effect_selected_job s))"
  by (auto simp: effect_selected_job_def list_ex_iff)

lemma effect_dead_letters_ok:
  "set (os_selectedDeadLetters (effect_dead_letters s)) \<subseteq> dl_jobId ` set (sn_deadLetters (cd_snapshot (os_data s)))"
  by (auto simp: effect_dead_letters_def list_ex_iff)

lemma toggle_selection_member:
  "x \<in> set (os_selectedDeadLetters (toggleDeadLetterSelection k s)) \<longleftrightarrow>
   (if x = k then k \<notin> set (os_selectedDeadLetters s) else x \<in> set (os_selectedDeadLetters s))"
  by (auto simp: toggleDeadLetterSelection_def)

end
