(* ===== verification/LiveStatus.thy ===== *)
theory LiveStatus
  imports Console Transport
begin

text \<open>
  What \<open>src/src/hooks/useDashboardLiveData.ts\<close> derives from its state: the transport mode and the
  health that the console shows, the toast on recovery, the next polling delay, and the
  inspection of the selected job.
\<close>

text \<open>\<open>pollIntervalMs\<close> is a number of milliseconds; \<open>resolvedBaseUrl\<close> is \<open>None\<close> for \<open>null\<close>.\<close>

record LiveOptions =
  lo_resolvedBaseUrl :: "string option"
  lo_resolvedRealtimeBaseUrl :: "string option"
  lo_token :: string
  lo_liveMode :: bool
  lo_liveUpdates :: bool
  lo_pollIntervalMs :: rat
  lo_selectedJobId :: string

definition resolve_options ::
    "'u url_api \<Rightarrow> string \<Rightarrow> string option \<Rightarrow> string \<Rightarrow> bool \<Rightarrow> bool \<Rightarrow> PollingPreset \<Rightarrow> string \<Rightarrow> LiveOptions" where
  "resolve_options U baseUrlInput realtimeBaseUrlInput token liveMode liveUpdates pollIntervalMs selectedJobId =
     \<lparr> lo_resolvedBaseUrl = normalizeBaseUrl U (Str baseUrlInput),
       lo_resolvedRealtimeBaseUrl =
         normalizeBaseUrl U (Str (or_str (nullish realtimeBaseUrlInput []) baseUrlInput)),
       lo_token = token, lo_liveMode = liveMode, lo_liveUpdates = liveUpdates,
       lo_pollIntervalMs = preset_ms pollIntervalMs, lo_selectedJobId = selectedJobId \<rparr>"

definition EVENT_BATCH_WINDOW_MS :: rat where "EVENT_BATCH_WINDOW_MS = 180"
definition CONSOLE_REFRESH_DEBOUNCE_MS :: rat where "CONSOLE_REFRESH_DEBOUNCE_MS = 320"
definition INSPECTION_REFRESH_DEBOUNCE_MS :: rat where "INSPECTION_REFRESH_DEBOUNCE_MS = 450"
definition MIN_POLLING_FALLBACK_MS :: rat where "MIN_POLLING_FALLBACK_MS = 15000"

definition initialTransportStatus :: TransportStatus where
  "initialTransportStatus =
     \<lparr> ts_mode = TM_offline, ts_state = TS_idle, ts_attempt = 0, ts_lastMessageAt = [], ts_lastFailureAt = [],
       ts_lastError = [], ts_degradedReason = [], ts_nextRetryAt = [] \<rparr>"

definition sameTransportStatus :: "TransportStatus \<Rightarrow> TransportStatus \<Rightarrow> bool" where
  "sameTransportStatus left right \<longleftrightarrow>
     ts_mode left = ts_mode right \<and> ts_state left = ts_state right \<and> ts_attempt left = ts_attempt right \<and>
     ts_lastMessageAt left = ts_lastMessageAt right \<and> ts_lastFailureAt left = ts_lastFailureAt right \<and>
     ts_lastError left = ts_lastError right \<and> ts_degradedReason left = ts_degradedReason right \<and>
     ts_nextRetryAt left = ts_nextRetryAt right"

section \<open>Transport mode and health\<close>

definition transportMode :: "LiveOptions \<Rightarrow> TransportStatus \<Rightarrow> nat \<Rightarrow> string \<Rightarrow> TransportMode" where
  "transportMode opts ts consecutiveFailures lastSuccessfulAt =
     (if \<not> lo_liveMode opts then TM_demo
      else if \<not> truthy (lo_resolvedBaseUrl opts) then TM_offline
      else if lo_liveUpdates opts \<and> ts_mode ts = TM_websocket \<and> ts_state ts = TS_live then TM_websocket
      else if lo_liveUpdates opts \<and> ts_mode ts = TM_sse \<and> ts_state ts = TS_live then TM_sse
      else if lo_pollIntervalMs opts > 0 then
        (if consecutiveFailures > 0 \<and> lastSuccessfulAt = [] then TM_offline else TM_polling)
      else if consecutiveFailures > 0 then TM_degraded else TM_offline)"

definition liveHealth :: "LiveOptions \<Rightarrow> TransportStatus \<Rightarrow> nat \<Rightarrow> string \<Rightarrow> LiveHealth" where
  "liveHealth opts ts consecutiveFailures lastSuccessfulAt =
     (if \<not> lo_liveMode opts then LH_demo
      else if \<not> truthy (lo_resolvedBaseUrl opts) then LH_offline
      else if lo_pollIntervalMs opts \<le> 0 \<and> \<not> lo_liveUpdates opts then LH_paused
      else if consecutiveFailures > 0 then (if lastSuccessfulAt \<noteq> [] then LH_degraded else LH_offline)
      else if lo_liveUpdates opts \<and> ts_state ts = TS_connecting \<and> lastSuccessfulAt \<noteq> [] then LH_reconnecting
      else if lo_liveUpdates opts \<and> transportMode opts ts consecutiveFailures lastSuccessfulAt = TM_polling then LH_degraded
      else LH_live)"

definition hasLiveData :: "LiveOptions \<Rightarrow> ConsoleData \<Rightarrow> bool" where
  "hasLiveData opts d \<longleftrightarrow> lo_liveMode opts \<and> cd_source d = Source_live \<and> cd_lastHydratedAt d \<noteq> []"

definition troubled :: "LiveHealth \<Rightarrow> bool" where
  "troubled h \<longleftrightarrow> h \<in> {LH_degraded, LH_offline, LH_reconnecting}"

text \<open>The effect on \<open>degradedSince\<close>.\<close>

definition update_degradedSince :: "string \<Rightarrow> LiveHealth \<Rightarrow> TransportStatus \<Rightarrow> string \<Rightarrow> string" where
  "update_degradedSince nowText health ts current =
     (if troubled health then or_str current (or_str (ts_lastFailureAt ts) nowText) else [])"

text \<open>The toast on recovery, from the previous health and mode to the next.\<close>

definition recovered_toast ::
    "LiveHealth \<Rightarrow> TransportMode \<Rightarrow> LiveHealth \<Rightarrow> TransportMode \<Rightarrow> string \<Rightarrow> (string \<times> string) option" where
  "recovered_toast previousHealth previousMode health mode lastSuccessfulAt =
     (let recovered = troubled previousHealth \<and> mode \<in> {TM_websocket, TM_sse} \<and> health = LH_live \<and>
                      lastSuccessfulAt \<noteq> []
      in if recovered \<and> (previousMode \<noteq> mode \<or> previousHealth \<noteq> health)
         then Some (''Realtime transport recovered'',
                formatTransportMode mode @ '' is healthy again and the dashboard kept its last good data.'')
         else None)"

section \<open>Polling\<close>

text \<open>The delay of \<open>scheduleNext\<close>: \<open>None\<close> when polling is off.\<close>

definition next_poll_delay :: "LiveOptions \<Rightarrow> TransportStatus \<Rightarrow> nat \<Rightarrow> rat option" where
  "next_poll_delay opts ts consecutiveFailures =
     (case getNextPollDelay (lo_pollIntervalMs opts) consecutiveFailures of
        None \<Rightarrow> None
      | Some baseDelay \<Rightarrow>
          let usingRealtime = lo_liveUpdates opts \<and> ts_mode ts \<in> {TM_websocket, TM_sse}
          in Some (if usingRealtime then baseDelay else max baseDelay MIN_POLLING_FALLBACK_MS))"

section \<open>Inspections\<close>

definition refresh_dead_letter :: "Job \<Rightarrow> DeadLetter nullable \<Rightarrow> DeadLetter nullable" where
  "refresh_dead_letter latestJob deadLetter =
     (case deadLetter of
        Some (Some d) \<Rightarrow>
          (if map_option job_id (dl_job d) = Some (job_id latestJob)
           then Some (Some (d\<lparr> dl_job := Some latestJob \<rparr>)) else deadLetter)
      | _ \<Rightarrow> deadLetter)"

definition with_latest_job :: "Job \<Rightarrow> JobInspection \<Rightarrow> JobInspection" where
  "with_latest_job latestJob existing =
     existing\<lparr> insp_job := latestJob, insp_deadLetter := refresh_dead_letter latestJob (insp_deadLetter existing) \<rparr>"

text \<open>The effect that merges a newer job into the cached inspection of the selected job.\<close>

definition merge_inspection :: "string \<Rightarrow> ConsoleData \<Rightarrow> JobInspection obj \<Rightarrow> JobInspection obj" where
  "merge_inspection selectedJobId d current =
     (if selectedJobId = [] then current
      else case (obj_get current selectedJobId, find_job (cd_jobs d) selectedJobId) of
        (Some existing, Some latestJob) \<Rightarrow>
          if job_updatedAt (insp_job existing) = job_updatedAt latestJob \<and>
             job_state (insp_job existing) = job_state latestJob
          then current
          else obj_set current selectedJobId (with_latest_job latestJob existing)
      | _ \<Rightarrow> current)"

text \<open>\<open>None\<close> is the RangeError of the fallback; \<open>Some None\<close> is \<open>null\<close>.\<close>

definition selectedInspection ::
    "date_api \<Rightarrow> string \<Rightarrow> ConsoleData \<Rightarrow> JobInspection obj \<Rightarrow> JobInspection option option" where
  "selectedInspection D selectedJobId d inspectionCache =
     (if selectedJobId = [] then Some None
      else case obj_get inspectionCache selectedJobId of
        Some cached \<Rightarrow>
          (case find_job (cd_jobs d) selectedJobId of
             None \<Rightarrow> Some (Some cached)
           | Some latestJob \<Rightarrow> Some (Some (with_latest_job latestJob cached)))
      | None \<Rightarrow> getInspection D (d\<lparr> cd_inspections := inspectionCache \<rparr>) selectedJobId)"

section \<open>Lemmas\<close>

lemma sameTransportStatus_eq: "sameTransportStatus a b \<longleftrightarrow> a = b"
  by (cases a; cases b) (auto simp: sameTransportStatus_def)

text \<open>A realtime mode is shown only when its transport is live; the demo mode exactly in demo mode.\<close>

lemma realtime_mode_live:
  "transportMode opts ts n t \<in> {TM_websocket, TM_sse} \<Longrightarrow>
   lo_liveMode opts \<and> lo_liveUpdates opts \<and> ts_state ts = TS_live \<and> ts_mode ts = transportMode opts ts n t"
  by (auto simp: transportMode_def split: if_splits)

lemma demo_mode_iff: "transportMode opts ts n t = TM_demo \<longleftrightarrow> \<not> lo_liveMode opts"
  by (simp add: transportMode_def)

lemma demo_health_iff: "liveHealth opts ts n t = LH_demo \<longleftrightarrow> \<not> lo_liveMode opts"
  by (simp add: liveHealth_def)

lemma live_health_sound:
  "liveHealth opts ts n t = LH_live \<Longrightarrow> n = 0 \<and> truthy (lo_resolvedBaseUrl opts) \<and> lo_liveMode opts \<and>
     (lo_pollIntervalMs opts > 0 \<or> lo_liveUpdates opts)"
  by (auto simp: liveHealth_def split: if_splits)

text \<open>
  The exported \<open>resolveLiveHealth\<close> of \<open>live-refresh.ts\<close> and the rule inlined in the hook agree, but
  for one case: streaming wanted, no failure, and the mode is polling. There the hook says
  degraded.
\<close>

definition health_input :: "LiveOptions \<Rightarrow> TransportStatus \<Rightarrow> nat \<Rightarrow> string \<Rightarrow> HealthInput" where
  "health_input opts ts n t =
     \<lparr> hi_liveMode = lo_liveMode opts, hi_pollIntervalMs = lo_pollIntervalMs opts, hi_liveUpdates = lo_liveUpdates opts,
       hi_hasLiveData = (t \<noteq> []), hi_resolvedBaseUrl = lo_resolvedBaseUrl opts, hi_consecutiveFailures = n,
       hi_socketConnected = (ts_state ts \<noteq> TS_connecting), hi_socketDesired = lo_liveUpdates opts \<rparr>"

lemma health_agrees:
  "liveHealth opts ts n t =
    (if resolveLiveHealth (health_input opts ts n t) = LH_live \<and> lo_liveUpdates opts \<and> transportMode opts ts n t = TM_polling
     then LH_degraded else resolveLiveHealth (health_input opts ts n t))"
  by (simp add: liveHealth_def resolveLiveHealth_def health_input_def)

lemma next_poll_delay_bounds:
  assumes "next_poll_delay opts ts n = Some x"
  shows "0 < x" and "x \<le> max 60000 (lo_pollIntervalMs opts)"
    and "\<not> lo_liveUpdates opts \<Longrightarrow> MIN_POLLING_FALLBACK_MS \<le> x"
proof -
  obtain b where b: "getNextPollDelay (lo_pollIntervalMs opts) n = Some b"
    and x: "x = (if lo_liveUpdates opts \<and> ts_mode ts \<in> {TM_websocket, TM_sse} then b else max b MIN_POLLING_FALLBACK_MS)"
    using assms by (auto simp: next_poll_delay_def Let_def split: option.splits)
  have p: "0 < lo_pollIntervalMs opts" using b by (auto simp: getNextPollDelay_def split: if_splits)
  have bb: "0 < b" "b \<le> max 60000 (lo_pollIntervalMs opts)"
    using b p by (auto simp: getNextPollDelay_def Let_def min_less_iff_disj split: if_splits)
  show "0 < x" using x bb(1) by (auto simp: less_max_iff_disj)
  show "x \<le> max 60000 (lo_pollIntervalMs opts)" using x bb(2) by (auto simp: MIN_POLLING_FALLBACK_MS_def)
  show "MIN_POLLING_FALLBACK_MS \<le> x" if "\<not> lo_liveUpdates opts" using x that by simp
qed

text \<open>Merging the latest job is idempotent, and afterwards the cache shows the latest state.\<close>

lemma refresh_dead_letter_idem:
  "refresh_dead_letter j (refresh_dead_letter j dl) = refresh_dead_letter j dl"
  by (auto simp: refresh_dead_letter_def split: option.splits)

lemma with_latest_job_idem: "with_latest_job j (with_latest_job j i) = with_latest_job j i"
  by (simp add: with_latest_job_def refresh_dead_letter_idem)

lemma merge_inspection_idem: "merge_inspection k d (merge_inspection k d c) = merge_inspection k d c"
  by (auto simp: merge_inspection_def obj_get_set with_latest_job_def split: option.split)

lemma merge_inspection_other: "k' \<noteq> k \<Longrightarrow> obj_get (merge_inspection k d c) k' = obj_get c k'"
  by (auto simp: merge_inspection_def obj_get_set split: option.split)

lemma merge_inspection_latest:
  assumes "obj_get c k = Some i" and "find_job (cd_jobs d) k = Some j" and "k \<noteq> []"
  obtains i' where "obj_get (merge_inspection k d c) k = Some i'"
    and "job_updatedAt (insp_job i') = job_updatedAt j" and "job_state (insp_job i') = job_state j"
proof (cases "job_updatedAt (insp_job i) = job_updatedAt j \<and> job_state (insp_job i) = job_state j")
  case True
  then show ?thesis using assms that [of i] by (simp add: merge_inspection_def)
next
  case False
  then show ?thesis
    using assms that [of "with_latest_job j i"]
    by (auto simp: merge_inspection_def obj_get_set with_latest_job_def)
qed

text \<open>The selected inspection always shows the job of the list.\<close>

lemma selected_shows_latest:
  assumes "selectedInspection D k d c = Some (Some i)" and "find_job (cd_jobs d) k = Some j"
  shows "insp_job i = j"
proof (cases "obj_get c k")
  case (Some cached)
  then show ?thesis
    using assms(1,2) by (auto simp: selectedInspection_def with_latest_job_def split: if_splits)
next
  case None
  have f: "find (\<lambda>candidate. job_id candidate = k) (cd_jobs d) = Some j"
    using assms(2) by (simp add: find_job_def)
  show ?thesis
    using assms(1) None f
    by (auto simp: selectedInspection_def getInspection_def createInspectionFallback_def Let_def
        split: if_splits option.splits)
qed

text \<open>A recovery is announced only when health returns from trouble to live on a streaming transport.\<close>

lemma recovered_toast_iff:
  "recovered_toast ph pm h m t \<noteq> None \<longleftrightarrow> troubled ph \<and> h = LH_live \<and> m \<in> {TM_websocket, TM_sse} \<and> t \<noteq> []"
  by (auto simp: recovered_toast_def troubled_def Let_def)

end
