(* ===== verification/LiveFetch.thy ===== *)
theory LiveFetch
  imports LiveStatus DemoData RequestClient StepSystem
begin

text \<open>
  The refresh machinery of \<open>src/src/hooks/useDashboardLiveData.ts\<close>: the map that shares requests in
  flight by key, the refresh of the console data (four requests under one AbortController), the
  refresh of one inspection, and the reset on a change of mode.

  The React state and the refs of the hook are one record. A ref that an effect keeps equal to a
  state variable is that variable. The browser's side: the pending requests, the values of the
  resolved ones, and the pending asynchronous functions (a refresh waits for \<open>Promise.all\<close> of four
  requests). A request settles in one step, together with the continuations that wait for it, in
  the order of their creation.
\<close>

section \<open>State\<close>

datatype Response =
    Rs_snapshot DashboardSnapshot
  | Rs_jobs "Job list"
  | Rs_schedules "Schedule list"
  | Rs_workers "WorkerStatus list"
  | Rs_inspection JobInspection

record Request =
  rq_key :: string
  rq_ctrl :: nat

record Fetch =
  ft_ctrl :: nat
  ft_quiet :: bool
  ft_need :: "nat list"

record InspectionFetch =
  if_jobId :: string
  if_ctrl :: nat
  if_request :: nat
  if_previous :: "string option option"

record InspectionMeta =
  im_busy :: bool
  im_error :: string
  im_lastUpdatedAt :: string

record Live =
  lv_data :: ConsoleData
  lv_inspectionCache :: "JobInspection obj"
  lv_inspectionMeta :: "InspectionMeta obj"
  lv_loading :: bool
  lv_isRefreshing :: bool
  lv_globalError :: string
  lv_lastAttemptAt :: string
  lv_lastSuccessfulAt :: string
  lv_lastFetchAt :: string
  lv_consecutiveFailures :: nat
  lv_currentPollDelayMs :: rat
  lv_transport :: TransportStatus
  lv_dataSignature :: "string option"
  lv_inspectionSignature :: "string \<rightharpoonup> string option"
  lv_fetchPromise :: "nat option"
  lv_fetchController :: "nat option"
  lv_requestMap :: "string \<rightharpoonup> nat"
  lv_inspectionPromise :: "string \<rightharpoonup> nat"
  lv_inspectionController :: "string \<rightharpoonup> nat"
  br_aborted :: "nat set"
  br_requests :: "nat \<rightharpoonup> Request"
  br_results :: "nat \<rightharpoonup> Response"
  br_fetches :: "(nat \<times> Fetch) list"
  br_inspections :: "(nat \<times> InspectionFetch) list"
  br_next :: nat

definition initial_live :: "ConsoleData \<Rightarrow> Live" where
  "initial_live d =
     \<lparr> lv_data = d, lv_inspectionCache = [], lv_inspectionMeta = [], lv_loading = True, lv_isRefreshing = False,
       lv_globalError = [], lv_lastAttemptAt = [], lv_lastSuccessfulAt = [], lv_lastFetchAt = [],
       lv_consecutiveFailures = 0, lv_currentPollDelayMs = 0, lv_transport = initialTransportStatus,
       lv_dataSignature = Some [], lv_inspectionSignature = Map.empty, lv_fetchPromise = None,
       lv_fetchController = None, lv_requestMap = Map.empty, lv_inspectionPromise = Map.empty,
       lv_inspectionController = Map.empty, br_aborted = {}, br_requests = Map.empty, br_results = Map.empty,
       br_fetches = [], br_inspections = [], br_next = 0 \<rparr>"

section \<open>Shared requests\<close>

definition dedupeKey :: "string option \<Rightarrow> string \<Rightarrow> string option \<Rightarrow> string option \<Rightarrow> string" where
  "dedupeKey method path body requestKey =
     nullish requestKey (nullish method ''GET'' @ '':'' @ path @ '':'' @ nullish body [])"

text \<open>\<open>requestJson\<close> of the hook up to its await: the id of the promise it waits for.\<close>

definition share_request :: "string \<Rightarrow> nat \<Rightarrow> Live \<Rightarrow> nat \<times> Live" where
  "share_request key ctrl s =
     (case lv_requestMap s key of
        Some existing \<Rightarrow> (existing, s)
      | None \<Rightarrow>
          (br_next s, s\<lparr> lv_requestMap := (lv_requestMap s)(key \<mapsto> br_next s),
             br_requests := (br_requests s)(br_next s \<mapsto> \<lparr> rq_key = key, rq_ctrl = ctrl \<rparr>),
             br_next := br_next s + 1 \<rparr>))"

definition abort_controller :: "nat option \<Rightarrow> Live \<Rightarrow> Live" where
  "abort_controller c s = s\<lparr> br_aborted := br_aborted s \<union> set_option c \<rparr>"

section \<open>Refreshing the console\<close>

definition invalid_base :: string where
  "invalid_base = ''API base URL is invalid.''"

definition refuse_refresh :: "bool \<Rightarrow> Live \<Rightarrow> Live" where
  "refuse_refresh quiet s =
     s\<lparr> lv_loading := False,
        lv_isRefreshing := (if quiet then lv_isRefreshing s else False),
        lv_currentPollDelayMs := 0,
        lv_globalError :=
          ''API base URL is invalid. Live data is paused until the connection settings are corrected.'',
        lv_transport := (lv_transport s)\<lparr> ts_mode := TM_offline, ts_state := TS_offline,
          ts_degradedReason := invalid_base, ts_lastError := invalid_base \<rparr>,
        lv_consecutiveFailures := (if lv_consecutiveFailures s = 0 then 1 else lv_consecutiveFailures s) \<rparr>"

definition console_keys :: "string list" where
  "console_keys = [''dashboard-snapshot'', ''dashboard-jobs'', ''dashboard-schedules'', ''dashboard-workers'']"

text \<open>The four requests, in order.\<close>

fun share_all :: "nat \<Rightarrow> string list \<Rightarrow> Live \<Rightarrow> nat list \<times> Live" where
  "share_all ctrl [] s = ([], s)"
| "share_all ctrl (key # keys) s =
     (let (r, s1) = share_request key ctrl s; (rs, s2) = share_all ctrl keys s1 in (r # rs, s2))"

definition start_fetch :: "bool \<Rightarrow> Live \<Rightarrow> Live" where
  "start_fetch quiet s =
     (let s1 = abort_controller (lv_fetchController s) s;
          ctrl = br_next s1;
          s2 = s1\<lparr> br_next := ctrl + 1, lv_fetchController := Some ctrl \<rparr>;
          s3 = (if lv_lastSuccessfulAt s2 = [] then s2\<lparr> lv_loading := True \<rparr>
                else if \<not> quiet then s2\<lparr> lv_isRefreshing := True \<rparr> else s2);
          (need, s4) = share_all ctrl console_keys s3;
          fid = br_next s4
      in s4\<lparr> br_next := fid + 1, lv_fetchPromise := Some fid,
             br_fetches := br_fetches s4 @ [(fid, \<lparr> ft_ctrl = ctrl, ft_quiet = quiet, ft_need = need \<rparr>)] \<rparr>)"

definition refreshConsole :: "date_api \<Rightarrow> int \<Rightarrow> LiveOptions \<Rightarrow> bool \<Rightarrow> bool \<Rightarrow> Live \<Rightarrow> Live" where
  "refreshConsole D now opts quiet force s =
     (if \<not> lo_liveMode opts then s
      else let s1 = (if quiet then s else s\<lparr> lv_lastAttemptAt := iso_text D now \<rparr>)
           in if \<not> truthy (lo_resolvedBaseUrl opts) then refuse_refresh quiet s1
              else if lv_fetchPromise s1 \<noteq> None \<and> \<not> force then s1
              else start_fetch quiet s1)"

text \<open>The new console data; what the operator did locally is kept.\<close>

definition hydrate ::
    "date_api \<Rightarrow> int \<Rightarrow> DashboardSnapshot \<Rightarrow> Job list \<Rightarrow> Schedule list \<Rightarrow> WorkerStatus list \<Rightarrow> ConsoleData \<Rightarrow> ConsoleData" where
  "hydrate D now snapshot jobs schedules workerStatuses current =
     (let next = stabilizeConsoleData current (createConsoleDataFromApi D now
            \<lparr> hy_snapshot = snapshot, hy_jobs = jobs, hy_schedules = schedules, hy_workerStatuses = workerStatuses,
              hy_events = Some (if cd_source current = Source_live then cd_events current else []) \<rparr>)
      in next\<lparr> cd_inspections := cd_inspections current, cd_queueControls := cd_queueControls current,
               cd_workerControls := cd_workerControls current \<rparr>)"

text \<open>The \<open>finally\<close> block of the refresh \<open>fid\<close>.\<close>

definition finish_fetch :: "nat \<Rightarrow> Fetch \<Rightarrow> Live \<Rightarrow> Live" where
  "finish_fetch fid f s =
     s\<lparr> lv_fetchController := (if lv_fetchController s = Some (ft_ctrl f) then None else lv_fetchController s),
        lv_fetchPromise := None, lv_loading := False,
        lv_isRefreshing := (if ft_quiet f then lv_isRefreshing s else False),
        br_fetches := filter (\<lambda>(i, g). i \<noteq> fid) (br_fetches s) \<rparr>"

definition fetch_succeeds ::
    "date_api \<Rightarrow> int \<Rightarrow> nat \<Rightarrow> Fetch \<Rightarrow> DashboardSnapshot \<Rightarrow> Job list \<Rightarrow> Schedule list \<Rightarrow> WorkerStatus list \<Rightarrow> Live \<Rightarrow> Live" where
  "fetch_succeeds D now fid f snapshot jobs schedules workerStatuses s =
     finish_fetch fid f
       (if ft_ctrl f \<in> br_aborted s then s
        else let nextSignature = createConsolePayloadSignature snapshot jobs schedules workerStatuses;
                 refreshedAt = iso_text D now;
                 s1 = (if cd_source (lv_data s) \<noteq> Source_live \<or> nextSignature \<noteq> lv_dataSignature s
                       then s\<lparr> lv_dataSignature := nextSignature,
                              lv_data := hydrate D now snapshot jobs schedules workerStatuses (lv_data s) \<rparr>
                       else s)
             in s1\<lparr> lv_lastSuccessfulAt := refreshedAt, lv_lastFetchAt := refreshedAt,
                    lv_consecutiveFailures := 0, lv_globalError := [] \<rparr>)"

text \<open>\<open>formatRequestError\<close> of a RequestError.\<close>

definition error_text :: "RequestError \<Rightarrow> string" where
  "error_text e = formatRequestError (Err ''Error'' (re_message e))"

definition fetch_fails :: "nat \<Rightarrow> Fetch \<Rightarrow> RequestError \<Rightarrow> Live \<Rightarrow> Live" where
  "fetch_fails fid f e s =
     finish_fetch fid f
       (if ft_ctrl f \<in> br_aborted s then s
        else s\<lparr> lv_globalError := error_text e, lv_consecutiveFailures := lv_consecutiveFailures s + 1 \<rparr>)"

text \<open>A refresh that waits for request \<open>r\<close> hears of its outcome.\<close>

definition fetch_hears ::
    "date_api \<Rightarrow> int \<Rightarrow> nat \<Rightarrow> RequestError option \<Rightarrow> Live \<Rightarrow> nat \<times> Fetch \<Rightarrow> Live" where
  "fetch_hears D now r failure s x =
     (let (fid, f) = x
      in if r \<notin> set (ft_need f) then s
         else case failure of
           Some e \<Rightarrow> fetch_fails fid f e s
         | None \<Rightarrow>
             (case map (br_results s) (ft_need f) of
                [Some (Rs_snapshot snapshot), Some (Rs_jobs jobs), Some (Rs_schedules schedules),
                 Some (Rs_workers workerStatuses)] \<Rightarrow>
                  fetch_succeeds D now fid f snapshot jobs schedules workerStatuses s
              | _ \<Rightarrow> s))"

section \<open>Refreshing an inspection\<close>

definition set_meta :: "string \<Rightarrow> InspectionMeta \<Rightarrow> Live \<Rightarrow> Live" where
  "set_meta jobId m s = s\<lparr> lv_inspectionMeta := obj_set (lv_inspectionMeta s) jobId m \<rparr>"

definition meta_updatedAt :: "string \<Rightarrow> Live \<Rightarrow> string" where
  "meta_updatedAt jobId s =
     (case obj_get (lv_inspectionMeta s) jobId of None \<Rightarrow> [] | Some m \<Rightarrow> im_lastUpdatedAt m)"

text \<open>\<open>None\<close>: \<open>getInspection\<close> throws.\<close>

definition applyInspectionFallback :: "date_api \<Rightarrow> string \<Rightarrow> Live \<Rightarrow> Live option" where
  "applyInspectionFallback D jobId s =
     (case getInspection D ((lv_data s)\<lparr> cd_inspections := lv_inspectionCache s \<rparr>) jobId of
        None \<Rightarrow> None
      | Some None \<Rightarrow> Some s
      | Some (Some fallback) \<Rightarrow>
          let signature = createInspectionSignature fallback
          in if lv_inspectionSignature s jobId = Some signature then Some s
             else Some (s\<lparr> lv_inspectionSignature := (lv_inspectionSignature s)(jobId \<mapsto> signature),
                           lv_inspectionCache := obj_set (lv_inspectionCache s) jobId fallback \<rparr>))"

definition inspection_key :: "string \<Rightarrow> string" where
  "inspection_key jobId = ''inspection:'' @ jobId"

definition start_inspection :: "string \<Rightarrow> Live \<Rightarrow> Live" where
  "start_inspection jobId s =
     (let s1 = abort_controller (lv_inspectionController s jobId) s;
          ctrl = br_next s1;
          s2 = s1\<lparr> br_next := ctrl + 1, lv_inspectionController := (lv_inspectionController s1)(jobId \<mapsto> ctrl) \<rparr>;
          s3 = set_meta jobId \<lparr> im_busy = True, im_error = [], im_lastUpdatedAt = meta_updatedAt jobId s2 \<rparr> s2;
          (r, s4) = share_request (inspection_key jobId) ctrl s3;
          pid = br_next s4
      in s4\<lparr> br_next := pid + 1, lv_inspectionPromise := (lv_inspectionPromise s4)(jobId \<mapsto> pid),
             br_inspections := br_inspections s4 @ [(pid, \<lparr> if_jobId = jobId, if_ctrl = ctrl, if_request = r,
               if_previous = lv_inspectionSignature s3 jobId \<rparr>)] \<rparr>)"

definition refreshInspection :: "date_api \<Rightarrow> int \<Rightarrow> LiveOptions \<Rightarrow> string \<Rightarrow> bool \<Rightarrow> Live \<Rightarrow> Live" where
  "refreshInspection D now opts jobId force s =
     (if jobId = [] then s
      else if \<not> lo_liveMode opts \<or> cd_source (lv_data s) \<noteq> Source_live then
        (case applyInspectionFallback D jobId s of
           None \<Rightarrow> s
         | Some s1 \<Rightarrow> set_meta jobId \<lparr> im_busy = False, im_error = [],
             im_lastUpdatedAt = or_str (meta_updatedAt jobId s1) (iso_text D now) \<rparr> s1)
      else if lv_inspectionPromise s jobId \<noteq> None \<and> \<not> force then s
      else start_inspection jobId s)"

definition finish_inspection :: "nat \<Rightarrow> InspectionFetch \<Rightarrow> Live \<Rightarrow> Live" where
  "finish_inspection pid p s =
     s\<lparr> lv_inspectionController :=
          (if lv_inspectionController s (if_jobId p) = Some (if_ctrl p)
           then (lv_inspectionController s)(if_jobId p := None) else lv_inspectionController s),
        lv_inspectionPromise := (lv_inspectionPromise s)(if_jobId p := None),
        br_inspections := filter (\<lambda>(i, q). i \<noteq> pid) (br_inspections s) \<rparr>"

definition inspection_succeeds :: "date_api \<Rightarrow> int \<Rightarrow> nat \<Rightarrow> InspectionFetch \<Rightarrow> JobInspection \<Rightarrow> Live \<Rightarrow> Live" where
  "inspection_succeeds D now pid p inspection s =
     finish_inspection pid p
       (if if_ctrl p \<in> br_aborted s then s
        else let signature = createInspectionSignature inspection;
                 jobId = if_jobId p;
                 s1 = s\<lparr> lv_inspectionSignature := (lv_inspectionSignature s)(jobId \<mapsto> signature) \<rparr>;
                 s2 = (if Some signature \<noteq> if_previous p
                       then s1\<lparr> lv_inspectionCache := obj_set (lv_inspectionCache s1) jobId inspection \<rparr> else s1)
             in set_meta jobId \<lparr> im_busy = False, im_error = [], im_lastUpdatedAt = iso_text D now \<rparr> s2)"

definition inspection_fails :: "date_api \<Rightarrow> nat \<Rightarrow> InspectionFetch \<Rightarrow> RequestError \<Rightarrow> Live \<Rightarrow> Live" where
  "inspection_fails D pid p e s =
     finish_inspection pid p
       (if if_ctrl p \<in> br_aborted s then s
        else case applyInspectionFallback D (if_jobId p) s of
          None \<Rightarrow> s
        | Some s1 \<Rightarrow> set_meta (if_jobId p) \<lparr> im_busy = False, im_error = error_text e,
            im_lastUpdatedAt = meta_updatedAt (if_jobId p) s1 \<rparr> s1)"

definition inspection_hears ::
    "date_api \<Rightarrow> int \<Rightarrow> nat \<Rightarrow> RequestError + Response \<Rightarrow> Live \<Rightarrow> nat \<times> InspectionFetch \<Rightarrow> Live" where
  "inspection_hears D now r outcome s x =
     (let (pid, p) = x
      in if if_request p \<noteq> r then s
         else case outcome of
           Inl e \<Rightarrow> inspection_fails D pid p e s
         | Inr (Rs_inspection inspection) \<Rightarrow> inspection_succeeds D now pid p inspection s
         | Inr _ \<Rightarrow> s)"

section \<open>A request settles\<close>

definition settle_request :: "date_api \<Rightarrow> int \<Rightarrow> nat \<Rightarrow> RequestError + Response \<Rightarrow> Live \<Rightarrow> Live" where
  "settle_request D now r outcome s =
     (case br_requests s r of
        None \<Rightarrow> s
      | Some q \<Rightarrow>
          let s1 = s\<lparr> lv_requestMap := (lv_requestMap s)(rq_key q := None),
                      br_requests := (br_requests s)(r := None),
                      br_results := (case outcome of Inl e \<Rightarrow> br_results s
                                     | Inr v \<Rightarrow> (br_results s)(r \<mapsto> v)) \<rparr>;
              failure = (case outcome of Inl e \<Rightarrow> Some e | Inr v \<Rightarrow> None);
              s2 = foldl (fetch_hears D now r failure) s1 (br_fetches s1)
          in foldl (inspection_hears D now r outcome) s2 (br_inspections s2))"

section \<open>A change of mode\<close>

text \<open>
  The effect on \<open>liveMode\<close>, less the event queue and the transport manager, which have their own
  theories. \<open>demo\<close> is \<open>createDemoConsoleData()\<close>.
\<close>

definition mode_effect :: "bool \<Rightarrow> ConsoleData \<Rightarrow> Live \<Rightarrow> Live" where
  "mode_effect liveMode demo s =
     (let s1 = s\<lparr> br_aborted := br_aborted s \<union> set_option (lv_fetchController s) \<union> ran (lv_inspectionController s),
                  lv_dataSignature := Some [], lv_inspectionSignature := Map.empty, lv_lastSuccessfulAt := [],
                  lv_consecutiveFailures := 0, lv_currentPollDelayMs := 0, lv_globalError := [],
                  lv_lastAttemptAt := [], lv_lastFetchAt := [], lv_isRefreshing := False,
                  lv_inspectionCache := [], lv_inspectionMeta := [] \<rparr>
      in if \<not> liveMode then
           s1\<lparr> lv_transport := initialTransportStatus\<lparr> ts_mode := TM_demo, ts_state := TS_demo \<rparr>,
               lv_loading := False,
               lv_data := (if cd_source (lv_data s1) = Source_demo then lv_data s1 else demo) \<rparr>
         else s1\<lparr> lv_transport := initialTransportStatus, lv_loading := True,
                  lv_data := createEmptyConsoleData Source_live \<rparr>)"

text \<open>
  The effect that runs the transport: the new status, and whether a manager is started.
\<close>

definition transport_effect :: "LiveOptions \<Rightarrow> bool \<Rightarrow> TransportStatus \<Rightarrow> TransportStatus \<times> bool" where
  "transport_effect opts isVisible current =
     (if \<not> lo_liveMode opts then (current, False)
      else if \<not> truthy (lo_resolvedBaseUrl opts) then
        (initialTransportStatus\<lparr> ts_mode := TM_offline, ts_state := TS_offline,
           ts_degradedReason := invalid_base, ts_lastError := invalid_base \<rparr>, False)
      else if \<not> isVisible then
        (current\<lparr> ts_state := TS_paused, ts_attempt := 0, ts_nextRetryAt := [] \<rparr>, False)
      else if \<not> lo_liveUpdates opts then
        (current\<lparr> ts_mode := (if lo_pollIntervalMs opts > 0 then TM_polling else TM_offline),
                  ts_state := (if lo_pollIntervalMs opts > 0 then TS_polling else TS_paused),
                  ts_attempt := 0, ts_nextRetryAt := [], ts_degradedReason := [], ts_lastError := [] \<rparr>, False)
      else (current, True))"

definition malformed_effect :: "date_api \<Rightarrow> int \<Rightarrow> TransportStatus \<Rightarrow> TransportStatus" where
  "malformed_effect D now current =
     current\<lparr> ts_lastError := ''Ignored a malformed realtime message.'', ts_lastFailureAt := iso_text D now \<rparr>"

text \<open>The polling effect at its start, and \<open>scheduleNext\<close> after a run.\<close>

definition poll_effect :: "date_api \<Rightarrow> int \<Rightarrow> LiveOptions \<Rightarrow> bool \<Rightarrow> Live \<Rightarrow> Live" where
  "poll_effect D now opts isVisible s =
     (if \<not> lo_liveMode opts then s
      else if \<not> truthy (lo_resolvedBaseUrl opts) then
        refreshConsole D now opts True False (s\<lparr> lv_currentPollDelayMs := 0 \<rparr>)
      else if \<not> isVisible then s\<lparr> lv_currentPollDelayMs := 0 \<rparr>
      else refreshConsole D now opts (lv_lastSuccessfulAt s \<noteq> []) False s)"

definition schedule_next :: "LiveOptions \<Rightarrow> Live \<Rightarrow> Live \<times> rat option" where
  "schedule_next opts s =
     (let delay = next_poll_delay opts (lv_transport s) (lv_consecutiveFailures s)
      in (s\<lparr> lv_currentPollDelayMs := nullish delay 0 \<rparr>, delay))"

section \<open>The transition system\<close>

text \<open>
  A request whose signal was aborted can only reject; a resolved value has been checked by the
  parser of its key.
\<close>

definition response_fits :: "string \<Rightarrow> Response \<Rightarrow> bool" where
  "response_fits key v =
     (case v of
        Rs_snapshot _ \<Rightarrow> key = ''dashboard-snapshot''
      | Rs_jobs _ \<Rightarrow> key = ''dashboard-jobs''
      | Rs_schedules _ \<Rightarrow> key = ''dashboard-schedules''
      | Rs_workers _ \<Rightarrow> key = ''dashboard-workers''
      | Rs_inspection _ \<Rightarrow> js_startsWith key ''inspection:'')"

inductive live_step :: "date_api \<Rightarrow> Live \<Rightarrow> Live \<Rightarrow> bool" for D where
  step_refresh: "live_step D s (refreshConsole D now opts quiet force s)"
| step_inspect: "live_step D s (refreshInspection D now opts jobId force s)"
| step_settle: "br_requests s r = Some q \<Longrightarrow> (rq_ctrl q \<in> br_aborted s \<Longrightarrow> \<exists>e. outcome = Inl e) \<Longrightarrow>
    (\<And>v. outcome = Inr v \<Longrightarrow> response_fits (rq_key q) v) \<Longrightarrow>
    live_step D s (settle_request D now r outcome s)"
| step_mode: "live_step D s (mode_effect liveMode demo s)"

section \<open>The invariant\<close>

text \<open>
  A key of the request map leads to the pending request of that key and every pending request is
  in the map, so at most one request per key is in flight. A pending refresh waits for the
  requests of its four keys, at least one of them pending; \<open>fetchPromiseRef\<close> is a pending refresh.
\<close>

definition map_ok :: "Live \<Rightarrow> bool" where
  "map_ok s \<longleftrightarrow> (\<forall>key r. lv_requestMap s key = Some r \<longleftrightarrow> (\<exists>q. br_requests s r = Some q \<and> rq_key q = key))"

definition waits :: "Live \<Rightarrow> string \<Rightarrow> nat \<Rightarrow> bool" where
  "waits s key r \<longleftrightarrow> (\<exists>q. br_requests s r = Some q \<and> rq_key q = key) \<or>
     (\<exists>v. br_results s r = Some v \<and> response_fits key v)"

definition pending :: "Live \<Rightarrow> nat \<Rightarrow> bool" where
  "pending s r \<longleftrightarrow> br_requests s r \<noteq> None"

definition fetch_ok :: "Live \<Rightarrow> nat \<times> Fetch \<Rightarrow> bool" where
  "fetch_ok s x \<longleftrightarrow> list_all2 (waits s) console_keys (ft_need (snd x)) \<and>
     (\<exists>r \<in> set (ft_need (snd x)). pending s r) \<and> fst x < br_next s \<and> ft_ctrl (snd x) < br_next s"

text \<open>Requests are numbered as they are sent; a resolved one is pending no more.\<close>

definition ids_ok :: "Live \<Rightarrow> bool" where
  "ids_ok s \<longleftrightarrow> (\<forall>r. pending s r \<longrightarrow> r < br_next s \<and> br_results s r = None) \<and>
     (\<forall>r. br_results s r \<noteq> None \<longrightarrow> r < br_next s)"

definition inspection_ok :: "Live \<Rightarrow> nat \<times> InspectionFetch \<Rightarrow> bool" where
  "inspection_ok s x \<longleftrightarrow>
     (\<exists>q. br_requests s (if_request (snd x)) = Some q \<and> rq_key q = inspection_key (if_jobId (snd x)))"

definition live_inv :: "Live \<Rightarrow> bool" where
  "live_inv s \<longleftrightarrow> map_ok s \<and> ids_ok s \<and>
     (\<forall>x \<in> set (br_fetches s). fetch_ok s x) \<and> distinct (map fst (br_fetches s)) \<and>
     (\<forall>x \<in> set (br_inspections s). inspection_ok s x) \<and>
     (\<forall>f. lv_fetchPromise s = Some f \<longrightarrow> f \<in> fst ` set (br_fetches s))"

lemma live_invD:
  assumes "live_inv s"
  shows "map_ok s" "ids_ok s" "x \<in> set (br_fetches s) \<Longrightarrow> fetch_ok s x"
    "distinct (map fst (br_fetches s))" "y \<in> set (br_inspections s) \<Longrightarrow> inspection_ok s y"
    "lv_fetchPromise s = Some f \<Longrightarrow> f \<in> fst ` set (br_fetches s)"
  using assms by (simp_all add: live_inv_def)

text \<open>The invariant reads only these fields.\<close>

lemma live_inv_cong:
  assumes "lv_requestMap s' = lv_requestMap s" "br_requests s' = br_requests s" "br_results s' = br_results s"
    "br_fetches s' = br_fetches s" "br_inspections s' = br_inspections s" "br_next s' = br_next s"
    "lv_fetchPromise s' = lv_fetchPromise s"
  shows "live_inv s' = live_inv s"
  unfolding live_inv_def map_ok_def ids_ok_def pending_def fetch_ok_def inspection_ok_def waits_def [abs_def] using assms by simp

lemma initial_live_inv: "live_inv (initial_live d)"
  by (simp add: live_inv_def initial_live_def map_ok_def ids_ok_def pending_def)

subsection \<open>Sharing\<close>

text \<open>What grows when requests are shared or sent: nothing pending or resolved is lost.\<close>

definition extends :: "Live \<Rightarrow> Live \<Rightarrow> bool" where
  "extends s s' \<longleftrightarrow> (\<forall>r q. br_requests s r = Some q \<longrightarrow> br_requests s' r = Some q) \<and>
     br_results s' = br_results s \<and> br_next s \<le> br_next s' \<and> br_fetches s' = br_fetches s \<and>
     br_inspections s' = br_inspections s \<and> lv_fetchPromise s' = lv_fetchPromise s \<and>
     lv_fetchController s' = lv_fetchController s"

lemma extends_refl: "extends s s"
  by (simp add: extends_def)

lemma extends_trans: "extends a b \<Longrightarrow> extends b c \<Longrightarrow> extends a c"
  by (auto simp: extends_def)

lemma extends_waits: "extends s s' \<Longrightarrow> waits s key r \<Longrightarrow> waits s' key r"
  unfolding extends_def waits_def by metis

lemma extends_pending: "extends s s' \<Longrightarrow> pending s r \<Longrightarrow> pending s' r"
  unfolding extends_def pending_def by blast

lemma extends_fetch_ok:
  assumes e: "extends s s'" and f: "fetch_ok s x"
  shows "fetch_ok s' x"
proof -
  have "list_all2 (waits s') console_keys (ft_need (snd x))"
    using f extends_waits [OF e] unfolding fetch_ok_def by (blast intro: list_all2_mono)
  moreover have "br_next s \<le> br_next s'" using e by (simp add: extends_def)
  ultimately show ?thesis
    using f extends_pending [OF e] unfolding fetch_ok_def by (meson order_less_le_trans)
qed

lemma extends_inspection_ok: "extends s s' \<Longrightarrow> inspection_ok s x \<Longrightarrow> inspection_ok s' x"
  unfolding extends_def inspection_ok_def by blast

lemma extends_inv:
  assumes "live_inv s" and "extends s s'" and "map_ok s'" and "ids_ok s'"
  shows "live_inv s'"
proof -
  have f: "br_fetches s' = br_fetches s" "br_inspections s' = br_inspections s"
    "lv_fetchPromise s' = lv_fetchPromise s" "lv_fetchController s' = lv_fetchController s"
    using assms(2) by (simp_all add: extends_def)
  show ?thesis
    unfolding live_inv_def f
    using live_invD [OF assms(1)] extends_fetch_ok [OF assms(2)] extends_inspection_ok [OF assms(2)] assms(3,4)
    by blast
qed

lemma share_request_spec:
  assumes "live_inv s" and "share_request key ctrl s = (r, s')"
  shows "live_inv s'" and "extends s s'" and "\<exists>q. br_requests s' r = Some q \<and> rq_key q = key"
proof -
  note m = live_invD(1) [OF assms(1)]
  have "live_inv s' \<and> extends s s' \<and> (\<exists>q. br_requests s' r = Some q \<and> rq_key q = key)"
  proof (cases "lv_requestMap s key")
    case (Some e)
    then have "r = e" "s' = s" using assms(2) by (simp_all add: share_request_def)
    then show ?thesis using assms(1) extends_refl m Some by (simp add: map_ok_def)
  next
    case None
    let ?n = "br_next s" and ?q = "\<lparr> rq_key = key, rq_ctrl = ctrl \<rparr>"
    have r: "r = ?n" and s': "s' = s\<lparr> lv_requestMap := (lv_requestMap s)(key \<mapsto> ?n),
        br_requests := (br_requests s)(?n \<mapsto> ?q), br_next := ?n + 1 \<rparr>"
      using assms(2) None unfolding share_request_def by auto
    have fresh: "br_requests s ?n = None"
      using live_invD(2) [OF assms(1)] unfolding ids_ok_def pending_def by (metis less_irrefl)
    have ext: "extends s s'" unfolding extends_def s' using fresh by auto
    have mo: "map_ok s'"
      unfolding map_ok_def
    proof (intro allI)
      fix k x
      have iff: "lv_requestMap s k = Some x \<longleftrightarrow> (\<exists>q. br_requests s x = Some q \<and> rq_key q = k)"
        using m by (simp add: map_ok_def)
      have none: "\<not> (\<exists>q. br_requests s x = Some q \<and> rq_key q = key)"
        using m None by (metis map_ok_def option.distinct(1))
      show "lv_requestMap s' k = Some x \<longleftrightarrow> (\<exists>q. br_requests s' x = Some q \<and> rq_key q = k)"
        using iff none fresh by (cases "k = key"; cases "x = ?n") (auto simp: s')
    qed
    have "ids_ok s'"
      unfolding ids_ok_def
    proof (intro conjI allI impI)
      fix x
      have ids: "pending s x \<Longrightarrow> x < ?n \<and> br_results s x = None" "br_results s x \<noteq> None \<Longrightarrow> x < ?n"
        using live_invD(2) [OF assms(1)] by (simp_all add: ids_ok_def)
      show "x < br_next s'" if "pending s' x"
        using that ids(1) by (cases "x = ?n") (auto simp: s' pending_def)
      show "br_results s' x = None" if "pending s' x"
        using that ids by (cases "x = ?n"; cases "br_results s x") (auto simp: s' pending_def)
      show "x < br_next s'" if "br_results s' x \<noteq> None"
        using that ids(2) by (auto simp: s')
    qed
    then have "live_inv s'" using extends_inv [OF assms(1) ext mo] by blast
    then show ?thesis using ext r s' by auto
  qed
  then show "live_inv s'" "extends s s'" "\<exists>q. br_requests s' r = Some q \<and> rq_key q = key" by simp_all
qed

lemma share_all_spec:
  assumes "live_inv s" and "share_all ctrl keys s = (rs, s')"
  shows "live_inv s' \<and> extends s s' \<and>
    list_all2 (\<lambda>key r. \<exists>q. br_requests s' r = Some q \<and> rq_key q = key) keys rs"
  using assms
proof (induction ctrl keys s arbitrary: rs s' rule: share_all.induct)
  case (1 ctrl s)
  then show ?case by (simp add: extends_refl)
next
  case (2 ctrl key keys s)
  obtain r s1 where 1: "share_request key ctrl s = (r, s1)" by (metis surj_pair)
  obtain rs2 s2 where 2: "share_all ctrl keys s1 = (rs2, s2)" by (metis surj_pair)
  have eq: "rs = r # rs2" "s' = s2" using "2.prems"(2) 1 2 by simp_all
  note sp = share_request_spec [OF "2.prems"(1) 1]
  have ih: "live_inv s2" "extends s1 s2"
    "list_all2 (\<lambda>key r. \<exists>q. br_requests s2 r = Some q \<and> rq_key q = key) keys rs2"
    using "2.IH" [OF 1 [symmetric] refl sp(1) 2] by simp_all
  have "\<exists>q. br_requests s2 r = Some q \<and> rq_key q = key"
    using sp(3) ih(2) unfolding extends_def by blast
  then show ?case using ih sp(2) extends_trans eq by auto
qed

subsection \<open>Settling\<close>

text \<open>States that agree on what the invariant reads.\<close>

definition same_core :: "Live \<Rightarrow> Live \<Rightarrow> bool" where
  "same_core s s' \<longleftrightarrow> lv_requestMap s' = lv_requestMap s \<and> br_requests s' = br_requests s \<and>
     br_results s' = br_results s \<and> br_fetches s' = br_fetches s \<and> br_inspections s' = br_inspections s \<and>
     br_next s' = br_next s \<and> lv_fetchPromise s' = lv_fetchPromise s \<and>
     lv_fetchController s' = lv_fetchController s \<and> br_aborted s' = br_aborted s \<and>
     lv_inspectionController s' = lv_inspectionController s"

definition typed_results :: "Live \<Rightarrow> Fetch \<Rightarrow> bool" where
  "typed_results s f \<longleftrightarrow> (\<exists>a b c d. map (br_results s) (ft_need f) =
     [Some (Rs_snapshot a), Some (Rs_jobs b), Some (Rs_schedules c), Some (Rs_workers d)])"

definition fetch_done :: "nat \<Rightarrow> RequestError option \<Rightarrow> Live \<Rightarrow> Fetch \<Rightarrow> bool" where
  "fetch_done r failure s f \<longleftrightarrow> r \<in> set (ft_need f) \<and> (failure \<noteq> None \<or> typed_results s f)"

lemma fetch_fails_core: "\<exists>u. fetch_fails fid f e s = finish_fetch fid f u \<and> same_core s u"
  unfolding fetch_fails_def by (intro exI conjI, rule refl) (simp add: same_core_def)

lemma fetch_succeeds_core: "\<exists>u. fetch_succeeds D now fid f a b c d s = finish_fetch fid f u \<and> same_core s u"
  unfolding fetch_succeeds_def by (intro exI conjI, rule refl) (simp add: same_core_def Let_def)

lemma fetch_hears_idle:
  assumes "\<not> fetch_done r failure s f"
  shows "fetch_hears D now r failure s (fid, f) = s"
proof (cases "r \<in> set (ft_need f)")
  case True
  then have "failure = None" "\<not> typed_results s f" using assms by (auto simp: fetch_done_def)
  then show ?thesis
    unfolding fetch_hears_def typed_results_def by (auto split: list.split option.split Response.split)
qed (simp add: fetch_hears_def)

lemma fetch_hears_done:
  assumes "fetch_done r failure s f"
  shows "\<exists>u. fetch_hears D now r failure s (fid, f) = finish_fetch fid f u \<and> same_core s u"
proof (cases failure)
  case None
  then obtain a b c d where "r \<in> set (ft_need f)" "map (br_results s) (ft_need f) =
     [Some (Rs_snapshot a), Some (Rs_jobs b), Some (Rs_schedules c), Some (Rs_workers d)]"
    using assms by (auto simp: fetch_done_def typed_results_def)
  then have "fetch_hears D now r failure s (fid, f) = fetch_succeeds D now fid f a b c d s"
    using None by (simp add: fetch_hears_def)
  then show ?thesis using fetch_succeeds_core by simp
next
  case (Some e)
  then have "fetch_hears D now r failure s (fid, f) = fetch_fails fid f e s"
    using assms by (simp add: fetch_hears_def fetch_done_def)
  then show ?thesis using fetch_fails_core by simp
qed

text \<open>Between the settlement of \<open>r\<close> and the last continuation: who still has to hear of it.\<close>

definition settling :: "nat \<Rightarrow> RequestError option \<Rightarrow> (nat \<times> Fetch) list \<Rightarrow> (nat \<times> InspectionFetch) list \<Rightarrow> Live \<Rightarrow> bool" where
  "settling r failure xs ys s \<longleftrightarrow> map_ok s \<and> ids_ok s \<and>
     (\<forall>x \<in> set (br_fetches s). fetch_ok s x \<or> x \<in> set xs \<and> fetch_done r failure s (snd x)) \<and>
     distinct (map fst (br_fetches s)) \<and>
     set xs \<subseteq> set (br_fetches s) \<and> distinct (map fst xs) \<and>
     (\<forall>y \<in> set (br_inspections s). inspection_ok s y \<or> y \<in> set ys \<and> if_request (snd y) = r) \<and>
     (\<forall>f. lv_fetchPromise s = Some f \<longrightarrow> f \<in> fst ` set (br_fetches s))"

lemma settling_done: "settling r failure [] [] s = live_inv s"
  by (simp add: settling_def live_inv_def)

lemma core_facts:
  assumes "br_requests s' = br_requests s" "br_results s' = br_results s"
  shows "pending s' = pending s" "waits s' = waits s" "inspection_ok s' = inspection_ok s"
    "fetch_done r failure s' = fetch_done r failure s" "br_next s' = br_next s \<Longrightarrow> fetch_ok s' = fetch_ok s"
    "lv_requestMap s' = lv_requestMap s \<Longrightarrow> map_ok s' = map_ok s" "br_next s' = br_next s \<Longrightarrow> ids_ok s' = ids_ok s"
proof -
  show p: "pending s' = pending s" "inspection_ok s' = inspection_ok s" and w: "waits s' = waits s"
    "fetch_done r failure s' = fetch_done r failure s"
    by (intro ext, simp add: pending_def waits_def inspection_ok_def fetch_done_def typed_results_def assms)+
  show "fetch_ok s' = fetch_ok s" if "br_next s' = br_next s"
    by (rule ext) (simp only: fetch_ok_def p w that)
  show "map_ok s' = map_ok s" if "lv_requestMap s' = lv_requestMap s"
    by (simp only: map_ok_def assms that)
  show "ids_ok s' = ids_ok s" if "br_next s' = br_next s"
    by (simp only: ids_ok_def p assms that)
qed

lemma fetch_hears_settling:
  assumes inv: "settling r failure (x # xs) ys s"
  shows "settling r failure xs ys (fetch_hears D now r failure s x)"
proof -
  obtain fid f where x: "x = (fid, f)" by fastforce
  show ?thesis
  proof (cases "fetch_done r failure s f")
    case False
    then have "fetch_hears D now r failure s x = s" by (simp add: x fetch_hears_idle)
    moreover have "settling r failure xs ys s" using inv False by (auto simp: settling_def x)
    ultimately show ?thesis by simp
  next
    case True
    then obtain u where u: "fetch_hears D now r failure s x = finish_fetch fid f u" "same_core s u"
      using fetch_hears_done x by blast
    let ?s = "finish_fetch fid f u"
    have c: "br_requests ?s = br_requests s" "br_results ?s = br_results s" "br_next ?s = br_next s"
      "lv_requestMap ?s = lv_requestMap s" "br_inspections ?s = br_inspections s"
      "br_fetches ?s = filter (\<lambda>(i, g). i \<noteq> fid) (br_fetches s)" "lv_fetchPromise ?s = None"
      using u(2) by (auto simp: same_core_def finish_fetch_def)
    note cf = core_facts [OF c(1,2)] 
    have m: "map_ok ?s" "ids_ok ?s"
      using inv cf c(3,4) by (auto simp: settling_def)
    have fe: "fetch_ok ?s z \<or> z \<in> set xs \<and> fetch_done r failure ?s (snd z)" if "z \<in> set (br_fetches ?s)" for z
    proof -
      have "z \<in> set (br_fetches s)" "z \<noteq> x" using that c(6) x by auto
      then show ?thesis using inv cf c(3) unfolding settling_def by auto
    qed
    have di: "distinct (map fst (br_fetches ?s))"
      using inv c(6) by (auto simp: settling_def distinct_map_filter)
    have xs: "set xs \<subseteq> set (br_fetches ?s)" "distinct (map fst xs)"
      using inv c(6) x by (auto simp: settling_def case_prod_beta)
    have ins: "inspection_ok ?s y \<or> y \<in> set ys \<and> if_request (snd y) = r" if "y \<in> set (br_inspections ?s)" for y
      using that inv cf c(5) by (simp add: settling_def)
    have "lv_fetchPromise ?s = Some g \<longrightarrow> g \<in> fst ` set (br_fetches ?s)" for g using c(7) by simp
    then show ?thesis unfolding u(1) settling_def using m fe di xs ins by blast
  qed
qed

lemma fetches_settle:
  "settling r failure xs ys s \<Longrightarrow> settling r failure [] ys (foldl (fetch_hears D now r failure) s xs)"
  by (induction xs arbitrary: s) (simp_all add: fetch_hears_settling)

lemma finish_inspection_settling:
  assumes inv: "settling r failure [] ((pid, p) # ys) s" and u: "same_core s u"
  shows "settling r failure [] ys (finish_inspection pid p u)"
proof -
  let ?s = "finish_inspection pid p u"
  have c: "br_requests ?s = br_requests s" "br_results ?s = br_results s" "br_next ?s = br_next s"
    "lv_requestMap ?s = lv_requestMap s" "br_fetches ?s = br_fetches s" "lv_fetchPromise ?s = lv_fetchPromise s"
    "lv_fetchController ?s = lv_fetchController s"
    "br_inspections ?s = filter (\<lambda>(i, g). i \<noteq> pid) (br_inspections s)"
    using u by (simp_all add: same_core_def finish_inspection_def)
  note cf = core_facts [OF c(1,2)]
  have "inspection_ok ?s y \<or> y \<in> set ys \<and> if_request (snd y) = r" if "y \<in> set (br_inspections ?s)" for y
    using that inv cf c(8) by (auto simp: settling_def)
  then show ?thesis using inv cf c unfolding settling_def by auto
qed

lemma fallback_core: "applyInspectionFallback D jobId s = Some s' \<Longrightarrow> same_core s s'"
  by (auto simp: applyInspectionFallback_def same_core_def Let_def split: option.splits if_splits)

lemma set_meta_core: "same_core s s' \<Longrightarrow> same_core s (set_meta jobId m s')"
  by (simp add: same_core_def set_meta_def)

lemma inspection_hears_settling:
  assumes inv: "settling r failure [] (y # ys) s" and out: "\<And>v. if_request (snd y) = r \<Longrightarrow> outcome = Inr v \<Longrightarrow> \<exists>i. v = Rs_inspection i"
  shows "settling r failure [] ys (inspection_hears D now r outcome s y)"
proof -
  obtain pid p where y: "y = (pid, p)" by fastforce
  show ?thesis
  proof (cases "if_request p = r")
    case False
    then have "inspection_hears D now r outcome s y = s" by (simp add: y inspection_hears_def)
    then show ?thesis using inv False by (auto simp: settling_def y)
  next
    case True
    have "\<exists>u. inspection_hears D now r outcome s y = finish_inspection pid p u \<and> same_core s u"
    proof (cases outcome)
      case (Inl e)
      then have "inspection_hears D now r outcome s y = inspection_fails D pid p e s"
        using True by (simp add: y inspection_hears_def)
      then show ?thesis
        unfolding inspection_fails_def
        by (intro exI conjI, assumption) (auto simp: same_core_def set_meta_def split: option.split dest: fallback_core)
    next
      case (Inr v)
      then obtain i where "v = Rs_inspection i" using out True y by auto
      then have "inspection_hears D now r outcome s y = inspection_succeeds D now pid p i s"
        using True Inr by (simp add: y inspection_hears_def)
      then show ?thesis
        unfolding inspection_succeeds_def
        by (intro exI conjI, assumption) (simp add: same_core_def set_meta_def Let_def)
    qed
    then show ?thesis using finish_inspection_settling inv y by metis
  qed
qed

lemma inspections_settle:
  assumes "settling r failure [] ys s"
    and "\<And>y v. y \<in> set ys \<Longrightarrow> if_request (snd y) = r \<Longrightarrow> outcome = Inr v \<Longrightarrow> \<exists>i. v = Rs_inspection i"
  shows "settling r failure [] [] (foldl (inspection_hears D now r outcome) s ys)"
  using assms
proof (induction ys arbitrary: s)
  case (Cons y ys)
  have "settling r failure [] ys (inspection_hears D now r outcome s y)"
    by (rule inspection_hears_settling [OF Cons.prems(1)], rule Cons.prems(2)) simp_all
  then have "settling r failure [] [] (foldl (inspection_hears D now r outcome) (inspection_hears D now r outcome s y) ys)"
    by (rule Cons.IH) (rule Cons.prems(2), simp_all)
  then show ?case by simp
qed simp

lemma fetches_keep_inspections: "br_inspections (foldl (fetch_hears D now r failure) s xs) = br_inspections s"
proof (induction xs arbitrary: s)
  case (Cons x xs)
  have "br_inspections (fetch_hears D now r failure s x) = br_inspections s"
  proof (cases "fetch_done r failure s (snd x)")
    case True
    then show ?thesis
      using fetch_hears_done [OF True, of D now "fst x"] by (auto simp: same_core_def finish_fetch_def)
  next
    case False
    then show ?thesis using fetch_hears_idle [of r failure s "snd x" D now "fst x"] by simp
  qed
  then show ?case using Cons.IH by simp
qed simp

lemma typed_resolved:
  assumes "list_all2 (waits s) console_keys need" and "\<And>r. r \<in> set need \<Longrightarrow> \<not> pending s r"
  shows "\<exists>a b c d. map (br_results s) need =
     [Some (Rs_snapshot a), Some (Rs_jobs b), Some (Rs_schedules c), Some (Rs_workers d)]"
proof -
  obtain r1 r2 r3 r4 where n: "need = [r1, r2, r3, r4]"
    and w: "waits s ''dashboard-snapshot'' r1" "waits s ''dashboard-jobs'' r2"
      "waits s ''dashboard-schedules'' r3" "waits s ''dashboard-workers'' r4"
    using assms(1) unfolding console_keys_def by (auto simp: list_all2_Cons1)
  have val: "\<exists>v. br_results s x = Some v \<and> response_fits key v" if "waits s key x" "x \<in> set need" for key x
    using that assms(2) [of x] by (auto simp: waits_def pending_def)
  have "\<exists>a. br_results s r1 = Some (Rs_snapshot a)"
    using val [OF w(1)] n by (fastforce simp: response_fits_def split: Response.splits)
  moreover have "\<exists>b. br_results s r2 = Some (Rs_jobs b)"
    using val [OF w(2)] n by (fastforce simp: response_fits_def split: Response.splits)
  moreover have "\<exists>c. br_results s r3 = Some (Rs_schedules c)"
    using val [OF w(3)] n by (fastforce simp: response_fits_def split: Response.splits)
  moreover have "\<exists>d. br_results s r4 = Some (Rs_workers d)"
    using val [OF w(4)] n by (fastforce simp: response_fits_def split: Response.splits)
  ultimately show ?thesis using n by auto
qed

lemma inspection_response:
  assumes "response_fits (inspection_key jobId) v"
  shows "\<exists>i. v = Rs_inspection i"
  using assms by (cases v) (auto simp: response_fits_def inspection_key_def)

text \<open>The state right after \<open>r\<close> has left the map: only those that wait for \<open>r\<close> are behind.\<close>

lemma unshare_settling:
  assumes inv: "live_inv s" and q: "br_requests s r = Some q"
    and fits: "\<And>v. outcome = Inr v \<Longrightarrow> response_fits (rq_key q) v"
    and s1: "s1 = s\<lparr> lv_requestMap := (lv_requestMap s)(rq_key q := None), br_requests := (br_requests s)(r := None),
                     br_results := (case outcome of Inl e \<Rightarrow> br_results s | Inr v \<Rightarrow> (br_results s)(r \<mapsto> v)) \<rparr>"
    and failure: "failure = (case outcome of Inl e \<Rightarrow> Some e | Inr v \<Rightarrow> None)"
  shows "settling r failure (br_fetches s1) (br_inspections s1) s1"
proof -
  note m = live_invD(1) [OF inv]
  have mo: "map_ok s1"
    unfolding map_ok_def
  proof (intro allI)
    fix k x
    have a: "lv_requestMap s k = Some x \<longleftrightarrow> (\<exists>p. br_requests s x = Some p \<and> rq_key p = k)"
      and b: "lv_requestMap s (rq_key q) = Some r" using m q by (simp_all add: map_ok_def)
    show "lv_requestMap s1 k = Some x \<longleftrightarrow> (\<exists>p. br_requests s1 x = Some p \<and> rq_key p = k)"
    proof (cases "x = r")
      case True
      then show ?thesis using a b q by (auto simp: s1)
    next
      case False
      have "\<not> (\<exists>p. br_requests s x = Some p \<and> rq_key p = rq_key q)"
        using m b False unfolding map_ok_def by (metis option.inject)
      then show ?thesis using a False by (cases "k = rq_key q") (auto simp: s1)
    qed
  qed
  have pe: "pending s1 x \<longleftrightarrow> pending s x \<and> x \<noteq> r" for x by (simp add: pending_def s1)
  have pr: "pending s r" using q by (simp add: pending_def)
  have ids: "ids_ok s1"
    using live_invD(2) [OF inv] pr pe by (auto simp: ids_ok_def s1 pending_def split: sum.split)
  have wa: "waits s1 key x" if w: "waits s key x" and ok: "x \<noteq> r \<or> failure = None" for key x
  proof (cases "x = r")
    case False
    then show ?thesis using w by (auto simp: waits_def s1 split: sum.split)
  next
    case True
    then obtain v where v: "outcome = Inr v" using ok failure by (cases outcome) auto
    have "br_results s r = None" using live_invD(2) [OF inv] pr by (simp add: ids_ok_def)
    then have "rq_key q = key" using w True q by (simp add: waits_def)
    then show ?thesis using fits [OF v] v True by (simp add: waits_def s1)
  qed
  have fe: "fetch_ok s1 x \<or> x \<in> set (br_fetches s1) \<and> fetch_done r failure s1 (snd x)"
    if x: "x \<in> set (br_fetches s1)" for x
  proof -
    have ok: "fetch_ok s x" using live_invD(3) [OF inv] x by (simp add: s1)
    have bounds: "fst x < br_next s1" "ft_ctrl (snd x) < br_next s1" using ok by (simp_all add: fetch_ok_def s1)
    show ?thesis
    proof (cases "r \<in> set (ft_need (snd x)) \<and> failure \<noteq> None")
      case True
      then show ?thesis using x by (simp add: fetch_done_def)
    next
      case False
      have all: "list_all2 (waits s1) console_keys (ft_need (snd x))"
        using ok False wa unfolding fetch_ok_def list_all2_conv_all_nth by (metis nth_mem)
      show ?thesis
      proof (cases "\<exists>y \<in> set (ft_need (snd x)). pending s1 y")
        case True
        then show ?thesis using all bounds by (simp add: fetch_ok_def)
      next
        case no: False
        then have "typed_results s1 (snd x)" unfolding typed_results_def by (intro typed_resolved [OF all]) simp
        moreover have "r \<in> set (ft_need (snd x))" using no ok pe unfolding fetch_ok_def by blast
        ultimately show ?thesis using x by (simp add: fetch_done_def)
      qed
    qed
  qed
  have ins: "inspection_ok s1 y \<or> y \<in> set (br_inspections s1) \<and> if_request (snd y) = r"
    if y: "y \<in> set (br_inspections s1)" for y
    using live_invD(5) [OF inv, of y] y by (auto simp: inspection_ok_def s1)
  show ?thesis
    unfolding settling_def
    using mo ids fe ins live_invD(4,6) [OF inv] by (auto simp: s1)
qed

theorem settle_request_inv:
  assumes inv: "live_inv s" and q: "br_requests s r = Some q"
    and fits: "\<And>v. outcome = Inr v \<Longrightarrow> response_fits (rq_key q) v"
  shows "live_inv (settle_request D now r outcome s)"
proof -
  define s1 where "s1 = s\<lparr> lv_requestMap := (lv_requestMap s)(rq_key q := None), br_requests := (br_requests s)(r := None),
    br_results := (case outcome of Inl e \<Rightarrow> br_results s | Inr v \<Rightarrow> (br_results s)(r \<mapsto> v)) \<rparr>"
  define failure where "failure = (case outcome of Inl e \<Rightarrow> Some e | Inr v \<Rightarrow> None)"
  define s2 where "s2 = foldl (fetch_hears D now r failure) s1 (br_fetches s1)"
  have eq: "settle_request D now r outcome s = foldl (inspection_hears D now r outcome) s2 (br_inspections s2)"
    using q by (simp add: settle_request_def Let_def s1_def failure_def s2_def)
  have i: "br_inspections s2 = br_inspections s1" by (simp add: s2_def fetches_keep_inspections)
  have "settling r failure [] (br_inspections s1) s2"
    unfolding s2_def by (rule fetches_settle, rule unshare_settling [OF inv q fits s1_def failure_def])
  moreover have "\<exists>i. v = Rs_inspection i"
    if "y \<in> set (br_inspections s1)" "if_request (snd y) = r" "outcome = Inr v" for y v
  proof -
    have "inspection_ok s y" using live_invD(5) [OF inv, of y] that(1) by (simp add: s1_def)
    then have "rq_key q = inspection_key (if_jobId (snd y))" using that(2) q by (simp add: inspection_ok_def)
    then show ?thesis using fits [OF that(3)] inspection_response by simp
  qed
  ultimately have "settling r failure [] [] (foldl (inspection_hears D now r outcome) s2 (br_inspections s2))"
    unfolding i by (rule inspections_settle)
  then show ?thesis by (simp add: eq settling_done)
qed

end
