(* ===== verification/OpsViews.thy ===== *)
theory OpsViews
  imports OpsHandlers LiveFetch
begin

text \<open>
  The derived values of \<open>src/src/components/OpsConsole.tsx\<close>: the views of queues and workers, the
  filtered lists of the sections, the busy flags and the status texts.
\<close>

section \<open>Summaries by queue and by worker\<close>

record QueueCounts =
  qn_active :: rat
  qn_queued :: rat
  qn_throttled :: rat
  qn_blocked :: rat
  qn_completed :: rat

definition zero_counts :: QueueCounts where
  "zero_counts = \<lparr> qn_active = 0, qn_queued = 0, qn_throttled = 0, qn_blocked = 0, qn_completed = 0 \<rparr>"

definition count_job :: "JobState \<Rightarrow> QueueCounts \<Rightarrow> QueueCounts" where
  "count_job st c =
     c\<lparr> qn_active := qn_active c + (if st = JS_active then 1 else 0),
        qn_queued := qn_queued c + (if st \<in> {JS_queued, JS_retrying, JS_scheduled} then 1 else 0),
        qn_throttled := qn_throttled c + (if st = JS_throttled then 1 else 0),
        qn_blocked := qn_blocked c + (if st = JS_blocked then 1 else 0),
        qn_completed := qn_completed c + (if st = JS_completed then 1 else 0) \<rparr>"

text \<open>The body of the loop of \<open>queueJobSummary\<close>: the counts by queue, the completed jobs by worker.\<close>

definition summary_step :: "QueueCounts obj \<times> rat obj \<Rightarrow> Job \<Rightarrow> QueueCounts obj \<times> rat obj" where
  "summary_step s job =
     (let (byQueue, completedByWorker) = s;
          byQueue' = (case obj_get byQueue (job_queue job) of
                        None \<Rightarrow> byQueue
                      | Some queue \<Rightarrow> obj_set byQueue (job_queue job) (count_job (job_state job) queue));
          completedByWorker' =
            (case job_workerId job of
               None \<Rightarrow> completedByWorker
             | Some w \<Rightarrow> if w \<noteq> [] \<and> job_state job = JS_completed
                         then obj_set completedByWorker w (nullish (obj_get completedByWorker w) 0 + 1)
                         else completedByWorker)
      in (byQueue', completedByWorker'))"

definition queueJobSummary :: "Job list \<Rightarrow> QueueCounts obj \<times> rat obj" where
  "queueJobSummary jobs =
     foldl summary_step (obj_from_entries (map (\<lambda>queueName. (queueName, zero_counts)) QUEUES), []) jobs"

definition deadLetterCountsByQueue :: "DeadLetter list \<Rightarrow> rat obj" where
  "deadLetterCountsByQueue ds =
     foldl (\<lambda>result item. obj_set result (dl_queue item) (nullish (obj_get result (dl_queue item)) 0 + 1)) [] ds"

definition policy_step :: "RateLimitStatus list obj \<Rightarrow> RateLimitStatus \<Rightarrow> RateLimitStatus list obj" where
  "policy_step result item =
     (case pol_scopeValue (rl_policy item) of
        None \<Rightarrow> result
      | Some v \<Rightarrow> if pol_scope (rl_policy item) = ''queue'' \<and> v \<noteq> []
                  then obj_set result v (nullish (obj_get result v) [] @ [item]) else result)"

definition queuePoliciesByQueue :: "RateLimitStatus list \<Rightarrow> RateLimitStatus list obj" where
  "queuePoliciesByQueue rs = foldl policy_step [] rs"

definition workerStatusesById :: "WorkerStatus list \<Rightarrow> WorkerStatus obj" where
  "workerStatusesById ws = foldl (\<lambda>result item. obj_set result (ws_workerId item) item) [] ws"

section \<open>Views\<close>

definition queue_saturation :: "RateLimitStatus list \<Rightarrow> rat \<Rightarrow> rat" where
  "queue_saturation policies activeJobs =
     min 100 (case policies of
                p # _ \<Rightarrow> rl_activeCount p / max (pol_limit (rl_policy p)) 1 * 100
              | [] \<Rightarrow> activeJobs * 16)"

definition queue_view :: "ConsoleData \<Rightarrow> string \<Rightarrow> QueueView" where
  "queue_view d queueName =
     (let summary = obj_get (fst (queueJobSummary (cd_jobs d))) queueName;
          policies = nullish (obj_get (queuePoliciesByQueue (sn_rateLimits (cd_snapshot d))) queueName) [];
          activeJobs = nullish (map_option qn_active summary) 0
      in \<lparr> qv_queueName = queueName, qv_control = obj_get (cd_queueControls d) queueName,
           qv_activeJobs = activeJobs, qv_queuedJobs = nullish (map_option qn_queued summary) 0,
           qv_backlog = nullish (obj_get (ov_queueLengths (sn_overview (cd_snapshot d))) queueName) 0,
           qv_throttled = nullish (map_option qn_throttled summary) 0,
           qv_blocked = nullish (map_option qn_blocked summary) 0,
           qv_deadLetters = nullish (obj_get (deadLetterCountsByQueue (sn_deadLetters (cd_snapshot d))) queueName) 0,
           qv_saturation = queue_saturation policies activeJobs, qv_policies = policies \<rparr>)"

definition queueViews :: "ConsoleData \<Rightarrow> QueueView list" where
  "queueViews d = map (queue_view d) QUEUES"

definition worker_view :: "ConsoleData \<Rightarrow> WorkerLeaseHealth \<Rightarrow> WorkerView" where
  "worker_view d health =
     (let status = obj_get (workerStatusesById (cd_workerStatuses d)) (wl_workerId health);
          control = obj_get (cd_workerControls d) (wl_workerId health)
      in WorkerLeaseHealth.extend (health\<lparr> wl_version := nullish (map_option ws_version status) (wl_version health) \<rparr>)
           (WorkerView.fields
              (nullish (map_option ws_concurrency status) 0)
              (case control of
                 Some c \<Rightarrow> if wc_cordoned c then ''maintenance'' else or_str_opt (map_option ws_status status) (wl_status health)
               | None \<Rightarrow> or_str_opt (map_option ws_status status) (wl_status health))
              (nullish (obj_get (snd (queueJobSummary (cd_jobs d))) (wl_workerId health)) 0)
              (case status of
                 None \<Rightarrow> 0
               | Some st \<Rightarrow> if ws_concurrency st \<noteq> 0
                           then min (wl_activeLeaseCount health / ws_concurrency st * 100) 100 else 0)))"

definition workerViews :: "ConsoleData \<Rightarrow> WorkerView list" where
  "workerViews d = map (worker_view d) (sn_workers (cd_snapshot d))"

section \<open>Filters\<close>

text \<open>\<open>safeTrim(value).toLowerCase().includes(query)\<close> of one of the values.\<close>

definition field_value :: "string option \<Rightarrow> string" where
  "field_value v = js_lower (safeTrim (case v of None \<Rightarrow> Undefined | Some s \<Rightarrow> Str s) [])"

definition matches :: "string \<Rightarrow> string option list \<Rightarrow> bool" where
  "matches query values \<longleftrightarrow> query = [] \<or> list_ex (\<lambda>v. js_includes (field_value v) query) values"

definition query_text :: "string \<Rightarrow> string" where
  "query_text s = js_lower (safeTrimStr s)"

record JobFilters =
  jf_state :: string
  jf_queue :: string
  jf_sort :: string
  jf_tenant :: string

record DeadLetterFilters =
  df_queue :: string
  df_errorType :: string
  df_search :: string

definition job_shown :: "JobFilters \<Rightarrow> string \<Rightarrow> Job \<Rightarrow> bool" where
  "job_shown f search job \<longleftrightarrow>
     (jf_state f = ''all'' \<or> job_state_string (job_state job) = jf_state f) \<and>
     (jf_queue f = ''all'' \<or> job_queue job = jf_queue f) \<and>
     (query_text (jf_tenant f) = [] \<or> js_includes (js_lower (job_tenantId job)) (query_text (jf_tenant f))) \<and>
     matches search [Some (job_type job), Some (job_id job), Some (job_queue job), Some (job_tenantId job),
                     job_workflowId job, job_idempotencyKey job]"

definition job_order :: "date_api \<Rightarrow> string \<Rightarrow> Job comparator" where
  "job_order D key =
     (if key = ''priority'' then by_desc (\<lambda>j. Some (job_priority j))
      else if key = ''created'' then by_desc (\<lambda>j. getTime D (job_createdAt j))
      else if key = ''latency'' then by_desc (\<lambda>j. Some (job_executionMs j))
      else by_desc (\<lambda>j. getTime D (job_updatedAt j)))"

definition visibleJobs :: "date_api \<Rightarrow> JobFilters \<Rightarrow> string \<Rightarrow> ConsoleData \<Rightarrow> Job list" where
  "visibleJobs D f searchQuery d =
     js_sort (job_order D (jf_sort f)) (filter (job_shown f (query_text searchQuery)) (cd_jobs d))"

definition visibleDeadLetters :: "DeadLetterFilters \<Rightarrow> ConsoleData \<Rightarrow> DeadLetter list" where
  "visibleDeadLetters f d =
     filter (\<lambda>item.
         (df_queue f = ''all'' \<or> dl_queue item = df_queue f) \<and>
         (df_errorType f = ''all'' \<or>
          safeTrim (case dl_errorType item of None \<Rightarrow> Undefined | Some s \<Rightarrow> Str s) [] = df_errorType f) \<and>
         matches (query_text (df_search f))
           [map_option job_type (dl_job item), Some (dl_jobId item), dl_errorType item, Some (dl_errorMessage item),
            Some (dl_queue item)])
       (sn_deadLetters (cd_snapshot d))"

definition visibleWorkers :: "string \<Rightarrow> ConsoleData \<Rightarrow> WorkerView list" where
  "visibleWorkers workerFilter d =
     filter (\<lambda>worker. matches (query_text workerFilter)
         [Some (wl_workerId worker), Some (wl_hostname worker), Some (wv_effectiveStatus worker),
          Some (js_join '' '' (wl_queues worker))])
       (workerViews d)"

definition visibleSchedules :: "string \<Rightarrow> ConsoleData \<Rightarrow> Schedule list" where
  "visibleSchedules scheduleFilter d =
     filter (\<lambda>schedule. matches (query_text scheduleFilter)
         [Some (sched_name schedule), Some (sched_type schedule), Some (sched_queue schedule),
          Some (sched_cronExpression schedule)])
       (cd_schedules d)"

definition visibleEvents :: "string \<Rightarrow> string \<Rightarrow> ConsoleData \<Rightarrow> SystemEvent list" where
  "visibleEvents eventFilter searchQuery d =
     filter (\<lambda>item. matches (query_text (or_str eventFilter searchQuery))
         [Some (ev_kind item), ev_message item, ev_jobId item, ev_queue item, ev_workerId item])
       (cd_events d)"

section \<open>Status\<close>

definition leaderHealthy :: "ConsoleData \<Rightarrow> bool" where
  "leaderHealthy d \<longleftrightarrow> truthy (ld_schedulerId (sn_leader (cd_snapshot d))) \<and>
     ld_isLeaderHealthy (sn_leader (cd_snapshot d)) = Some True"

definition is_busy :: "bool obj \<Rightarrow> string \<Rightarrow> bool" where
  "is_busy busyMap key \<longleftrightarrow> obj_get busyMap key = Some True"

record JobsBusy =
  jb_submit :: bool
  jb_seed :: bool
  jb_retry :: "string \<Rightarrow> bool"
  jb_cancel :: "string \<Rightarrow> bool"

definition jobsBusy :: "bool obj \<Rightarrow> JobsBusy" where
  "jobsBusy busyMap =
     \<lparr> jb_submit = is_busy busyMap ''submit-job'', jb_seed = is_busy busyMap ''seed-workflow'',
       jb_retry = (\<lambda>jobId. is_busy busyMap (''job-retry-'' @ jobId)),
       jb_cancel = (\<lambda>jobId. is_busy busyMap (''job-cancel-'' @ jobId)) \<rparr>"

record DeadLetterBusy =
  db_replay :: bool
  db_delete :: bool

definition deadLetterBusy :: "bool obj \<Rightarrow> DeadLetterBusy" where
  "deadLetterBusy busyMap =
     \<lparr> db_replay = is_busy busyMap ''bulk-replay'', db_delete = is_busy busyMap ''bulk-delete'' \<rparr>"

text \<open>The \<open>liveMeta\<close> that \<open>useDashboardLiveData\<close> returns.\<close>

record LiveMeta =
  lm_health :: LiveHealth
  lm_transportMode :: TransportMode
  lm_transportLabel :: string
  lm_connectionState :: TransportConnectionState
  lm_isVisible :: bool
  lm_lastAttemptAt :: string
  lm_lastSuccessfulAt :: string
  lm_lastFetchAt :: string
  lm_lastMessageAt :: string
  lm_degradedSince :: string
  lm_degradedReason :: string
  lm_consecutiveFailures :: nat
  lm_reconnectAttempt :: nat
  lm_currentPollDelayMs :: rat
  lm_nextRetryAt :: string
  lm_hasLiveData :: bool
  lm_dataStale :: bool

definition live_meta :: "LiveOptions \<Rightarrow> bool \<Rightarrow> string \<Rightarrow> Live \<Rightarrow> LiveMeta" where
  "live_meta opts isVisible degradedSince s =
     (let ts = lv_transport s; failures = lv_consecutiveFailures s; good = lv_lastSuccessfulAt s;
          mode = transportMode opts ts failures good; health = liveHealth opts ts failures good
      in \<lparr> lm_health = health, lm_transportMode = mode, lm_transportLabel = formatTransportMode mode,
           lm_connectionState = ts_state ts, lm_isVisible = isVisible, lm_lastAttemptAt = lv_lastAttemptAt s,
           lm_lastSuccessfulAt = good, lm_lastFetchAt = lv_lastFetchAt s, lm_lastMessageAt = ts_lastMessageAt ts,
           lm_degradedSince = degradedSince, lm_degradedReason = or_str (ts_degradedReason ts) (lv_globalError s),
           lm_consecutiveFailures = failures, lm_reconnectAttempt = ts_attempt ts,
           lm_currentPollDelayMs = lv_currentPollDelayMs s, lm_nextRetryAt = ts_nextRetryAt ts,
           lm_hasLiveData = hasLiveData opts (lv_data s),
           lm_dataStale = (health = LH_degraded \<or> health = LH_offline \<or> health = LH_reconnecting) \<rparr>)"

definition liveStatusDetail :: "bool \<Rightarrow> bool \<Rightarrow> LiveMeta \<Rightarrow> string" where
  "liveStatusDetail liveMode liveUpdates m =
     (if \<not> liveMode then ''Demo data only''
      else if lm_health m = LH_offline then
        (if lm_hasLiveData m then ''The dashboard is holding the last good snapshot while the API is unreachable.''
         else ''The dashboard has not received a live snapshot yet.'')
      else if lm_health m = LH_paused then ''Realtime transport is paused and polling is disabled.''
      else if lm_health m = LH_reconnecting then
        ''Realtime transport is recovering while '' @ js_lower (lm_transportLabel m) @ '' protects the dashboard.''
      else if lm_transportMode m = TM_websocket then ''WebSocket is the active live transport.''
      else if lm_transportMode m = TM_sse then ''SSE is carrying the live event stream.''
      else if lm_transportMode m = TM_polling then
        (if liveUpdates then ''Realtime transport is degraded, so the dashboard is running in polling mode.''
         else ''Polling is active without realtime streaming.'')
      else if lm_health m = LH_degraded then
        ''The dashboard is degraded but stable, with stale-while-revalidate enabled.''
      else ''Live updates are healthy.'')"

fun state_string :: "TransportConnectionState \<Rightarrow> string" where
  "state_string TS_idle = ''idle''"
| "state_string TS_connecting = ''connecting''"
| "state_string TS_live = ''live''"
| "state_string TS_polling = ''polling''"
| "state_string TS_degraded = ''degraded''"
| "state_string TS_offline = ''offline''"
| "state_string TS_paused = ''paused''"
| "state_string TS_demo = ''demo''"

record StatusItem =
  si_label :: string
  si_value :: string
  si_detail :: string

definition status_item :: "string \<Rightarrow> string \<Rightarrow> string \<Rightarrow> StatusItem" where
  "status_item label value detail = \<lparr> si_label = label, si_value = value, si_detail = detail \<rparr>"

definition commandStatusItems :: "date_api \<Rightarrow> int \<Rightarrow> LiveMeta \<Rightarrow> ConsoleData \<Rightarrow> StatusItem list" where
  "commandStatusItems D now m d =
     (let ov = sn_overview (cd_snapshot d)
      in [status_item ''Snapshot''
            (formatRelative D now (Some (or_str (lm_lastSuccessfulAt m) (ov_lastUpdatedAt ov))))
            (if lm_dataStale m then ''holding the last steady view'' else ''fresh''),
          status_item ''Transport'' (lm_transportLabel m) (state_string (lm_connectionState m)),
          status_item ''Leader'' (if leaderHealthy d then ''healthy'' else ''stale'')
            (or_str_opt (ld_schedulerId (sn_leader (cd_snapshot d))) ''no leader lease''),
          status_item ''Queue backlog'' (number_to_string (ov_queuedJobs ov + ov_scheduledJobs ov))
            (number_to_string (ov_activeJobs ov) @ '' active'')])"

section \<open>What the summaries count\<close>

definition job_counts :: "(Job \<Rightarrow> bool) \<Rightarrow> Job list \<Rightarrow> QueueCounts \<Rightarrow> QueueCounts" where
  "job_counts P jobs c =
     \<lparr> qn_active = qn_active c + jobs_where (\<lambda>j. P j \<and> job_state j = JS_active) jobs,
       qn_queued = qn_queued c + jobs_where (\<lambda>j. P j \<and> waiting (job_state j)) jobs,
       qn_throttled = qn_throttled c + jobs_where (\<lambda>j. P j \<and> job_state j = JS_throttled) jobs,
       qn_blocked = qn_blocked c + jobs_where (\<lambda>j. P j \<and> job_state j = JS_blocked) jobs,
       qn_completed = qn_completed c + jobs_where (\<lambda>j. P j \<and> job_state j = JS_completed) jobs \<rparr>"

lemma job_counts_Nil [simp]: "job_counts P [] c = c"
  by (simp add: job_counts_def)

lemma job_counts_Cons:
  "job_counts P (j # js) c = job_counts P js (if P j then count_job (job_state j) c else c)"
  by (simp add: job_counts_def count_job_def waiting_def)

lemma summary_fold_queue:
  "obj_get (fst (foldl summary_step s jobs)) q =
     map_option (job_counts (\<lambda>j. job_queue j = q) jobs) (obj_get (fst s) q)"
proof (induction jobs arbitrary: s)
  case Nil
  then show ?case by (cases "obj_get (fst s) q") simp_all
next
  case (Cons j js)
  have step: "obj_get (fst (summary_step s j)) q =
      map_option (if job_queue j = q then count_job (job_state j) else id) (obj_get (fst s) q)"
    by (cases "obj_get (fst s) (job_queue j)"; cases "job_queue j = q")
      (auto simp: summary_step_def Let_def case_prod_beta obj_get_set option.map_id0)
  show ?case
    using Cons [of "summary_step s j"] unfolding foldl_Cons step
    by (cases "obj_get (fst s) q") (simp_all add: job_counts_Cons)
qed

lemma queue_summary:
  "obj_get (fst (queueJobSummary jobs)) q =
     (if q \<in> set QUEUES then Some (job_counts (\<lambda>j. job_queue j = q) jobs zero_counts) else None)"
proof -
  have "obj_get (obj_from_entries (map (\<lambda>queueName. (queueName, zero_counts)) QUEUES)) q =
      (if q \<in> set QUEUES then Some zero_counts else None)"
    by (auto simp: obj_from_entries_def obj_get_spread QUEUES_def)
  then show ?thesis unfolding queueJobSummary_def summary_fold_queue by simp
qed

lemma summary_fold_worker:
  assumes "w \<noteq> []"
  shows "nullish (obj_get (snd (foldl summary_step s jobs)) w) 0 =
    nullish (obj_get (snd s) w) 0 + jobs_where (\<lambda>j. job_workerId j = Some w \<and> job_state j = JS_completed) jobs"
proof (induction jobs arbitrary: s)
  case (Cons j js)
  have "nullish (obj_get (snd (summary_step s j)) w) 0 =
      nullish (obj_get (snd s) w) 0 + (if job_workerId j = Some w \<and> job_state j = JS_completed then 1 else 0)"
    using assms by (auto simp: summary_step_def Let_def case_prod_beta obj_get_set nullish_def split: option.split)
  then show ?case using Cons [of "summary_step s j"] by simp
qed simp

lemma dead_letter_counts_fold:
  "nullish (obj_get (foldl (\<lambda>result item. obj_set result (dl_queue item)
      (nullish (obj_get result (dl_queue item)) 0 + 1)) o' ds) q) (0 :: rat) =
   nullish (obj_get o' q) 0 + of_nat (length (filter (\<lambda>item. dl_queue item = q) ds))"
  by (induction ds arbitrary: o') (auto simp: obj_get_set nullish_def)

lemma dead_letter_counts:
  "nullish (obj_get (deadLetterCountsByQueue ds) q) 0 = of_nat (length (filter (\<lambda>item. dl_queue item = q) ds))"
  unfolding deadLetterCountsByQueue_def dead_letter_counts_fold by (simp add: nullish_def)

definition queue_policy :: "string \<Rightarrow> RateLimitStatus \<Rightarrow> bool" where
  "queue_policy q item \<longleftrightarrow> pol_scope (rl_policy item) = ''queue'' \<and> pol_scopeValue (rl_policy item) = Some q"

lemma policies_fold:
  assumes "q \<noteq> []"
  shows "nullish (obj_get (foldl policy_step o' rs) q) [] = nullish (obj_get o' q) [] @ filter (queue_policy q) rs"
proof (induction rs arbitrary: o')
  case (Cons r rs)
  have "nullish (obj_get (policy_step o' r) q) [] = nullish (obj_get o' q) [] @ (if queue_policy q r then [r] else [])"
    using assms by (auto simp: policy_step_def queue_policy_def obj_get_set nullish_def split: option.split)
  then show ?case using Cons [of "policy_step o' r"] by simp
qed simp

lemma queue_policies: "q \<noteq> [] \<Longrightarrow> nullish (obj_get (queuePoliciesByQueue rs) q) [] = filter (queue_policy q) rs"
  unfolding queuePoliciesByQueue_def by (simp add: policies_fold)

text \<open>The last status of a worker counts.\<close>

lemma worker_status: "obj_get (workerStatusesById ws) i = find (\<lambda>w. ws_workerId w = i) (rev ws)"
proof -
  have "obj_get (foldl (\<lambda>result item. obj_set result (ws_workerId item) item) o' ws) i =
      (case find (\<lambda>w. ws_workerId w = i) (rev ws) of None \<Rightarrow> obj_get o' i | Some w \<Rightarrow> Some w)" for o'
    by (induction ws arbitrary: o' rule: rev_induct) (auto simp: obj_get_set)
  then show ?thesis by (simp add: workerStatusesById_def split: option.split)
qed

section \<open>The views\<close>

lemma queue_names: "map qv_queueName (queueViews d) = QUEUES"
  by (simp add: queueViews_def queue_view_def Let_def o_def)

lemma queue_view_counts:
  assumes "q \<in> set QUEUES"
  shows "qv_activeJobs (queue_view d q) = jobs_where (\<lambda>j. job_queue j = q \<and> job_state j = JS_active) (cd_jobs d)"
    and "qv_queuedJobs (queue_view d q) = jobs_where (\<lambda>j. job_queue j = q \<and> waiting (job_state j)) (cd_jobs d)"
    and "qv_throttled (queue_view d q) = jobs_where (\<lambda>j. job_queue j = q \<and> job_state j = JS_throttled) (cd_jobs d)"
    and "qv_blocked (queue_view d q) = jobs_where (\<lambda>j. job_queue j = q \<and> job_state j = JS_blocked) (cd_jobs d)"
    and "qv_deadLetters (queue_view d q) =
      of_nat (length (filter (\<lambda>item. dl_queue item = q) (sn_deadLetters (cd_snapshot d))))"
    and "qv_policies (queue_view d q) = filter (queue_policy q) (sn_rateLimits (cd_snapshot d))"
proof -
  have "q \<noteq> []" using assms by (auto simp: QUEUES_def)
  then show "qv_policies (queue_view d q) = filter (queue_policy q) (sn_rateLimits (cd_snapshot d))"
    by (simp add: queue_view_def Let_def queue_policies)
qed (use assms in \<open>simp_all add: queue_view_def Let_def queue_summary job_counts_def zero_counts_def nullish_def [of "Some _"]
      dead_letter_counts\<close>)

text \<open>On reconciled data the backlog of the overview and the queued jobs of the view are one number.\<close>

lemma backlog_agrees:
  assumes "q \<in> set QUEUES"
  shows "qv_backlog (queue_view (reconcileConsoleData D now d) q) = qv_queuedJobs (queue_view (reconcileConsoleData D now d) q)"
  using assms unfolding queue_view_counts(2) [OF assms]
  by (simp add: queue_view_def Let_def reconcileConsoleData_def apply_summary_def summarize_queues nullish_def)

lemma queue_saturation_bounds:
  assumes "\<forall>r \<in> set policies. 0 \<le> rl_activeCount r" and "0 \<le> n"
  shows "0 \<le> queue_saturation policies n" and "queue_saturation policies n \<le> 100"
  using assms by (auto simp: queue_saturation_def split: list.split intro!: divide_nonneg_pos mult_nonneg_nonneg)

lemma worker_view_fields:
  "wl_workerId (worker_view d h) = wl_workerId h"
  "wv_throughput (worker_view d h) = nullish (obj_get (snd (queueJobSummary (cd_jobs d))) (wl_workerId h)) 0"
  "wv_saturation (worker_view d h) =
     (case obj_get (workerStatusesById (cd_workerStatuses d)) (wl_workerId h) of
        None \<Rightarrow> 0
      | Some st \<Rightarrow> if ws_concurrency st \<noteq> 0 then min (wl_activeLeaseCount h / ws_concurrency st * 100) 100 else 0)"
  "wv_effectiveStatus (worker_view d h) =
     (case obj_get (cd_workerControls d) (wl_workerId h) of
        Some c \<Rightarrow> if wc_cordoned c then ''maintenance''
                  else or_str_opt (map_option ws_status (obj_get (workerStatusesById (cd_workerStatuses d)) (wl_workerId h))) (wl_status h)
      | None \<Rightarrow> or_str_opt (map_option ws_status (obj_get (workerStatusesById (cd_workerStatuses d)) (wl_workerId h))) (wl_status h))"
  by (simp_all add: worker_view_def Let_def WorkerLeaseHealth.extend_def WorkerView.fields_def)

lemma worker_throughput:
  "wl_workerId h \<noteq> [] \<Longrightarrow> wv_throughput (worker_view d h) =
     jobs_where (\<lambda>j. job_workerId j = Some (wl_workerId h) \<and> job_state j = JS_completed) (cd_jobs d)"
  unfolding worker_view_fields queueJobSummary_def by (simp add: summary_fold_worker)

lemma worker_saturation_bounds:
  assumes "0 \<le> wl_activeLeaseCount h" and "\<forall>w \<in> set (cd_workerStatuses d). 0 \<le> ws_concurrency w"
  shows "0 \<le> wv_saturation (worker_view d h)" and "wv_saturation (worker_view d h) \<le> 100"
proof -
  have "0 \<le> ws_concurrency st" if "obj_get (workerStatusesById (cd_workerStatuses d)) (wl_workerId h) = Some st" for st
    using that assms(2) unfolding worker_status by (auto simp: find_Some_iff) (metis nth_mem rev_nth set_rev length_rev)
  then show "0 \<le> wv_saturation (worker_view d h)" "wv_saturation (worker_view d h) \<le> 100"
    using assms(1) unfolding worker_view_fields by (auto split: option.split)
qed

lemma cordoned_worker:
  "obj_get (cd_workerControls d) (wl_workerId h) = Some c \<Longrightarrow> wc_cordoned c \<Longrightarrow>
   wv_effectiveStatus (worker_view d h) = ''maintenance''"
  by (simp add: worker_view_fields)

section \<open>The list of jobs\<close>

text \<open>The number that the chosen order compares.\<close>

definition order_value :: "date_api \<Rightarrow> string \<Rightarrow> Job \<Rightarrow> rat" where
  "order_value D key j =
     (if key = ''priority'' then job_priority j
      else if key = ''created'' then nullish (getTime D (job_createdAt j)) 0
      else if key = ''latency'' then job_executionMs j
      else nullish (getTime D (job_updatedAt j)) 0)"

lemma job_order_key:
  assumes "\<forall>j \<in> set jobs. date_parse D (job_createdAt j) \<noteq> None \<and> date_parse D (job_updatedAt j) \<noteq> None"
  shows "js_sort (job_order D key) jobs = sort_key (\<lambda>j. - order_value D key j) jobs"
proof -
  have t: "getTime D s = Some (nullish (getTime D s) 0)" if "date_parse D s \<noteq> None" for s
    using that by (auto simp: getTime_def nullish_def)
  show ?thesis
    using assms t unfolding job_order_def order_value_def by_desc_asc
    by (auto intro!: js_sort_asc)
qed

lemma visible_jobs_sorted:
  assumes "\<forall>j \<in> set (cd_jobs d). date_parse D (job_createdAt j) \<noteq> None \<and> date_parse D (job_updatedAt j) \<noteq> None"
  shows "sorted_wrt (\<lambda>a b. order_value D (jf_sort f) b \<le> order_value D (jf_sort f) a) (visibleJobs D f search d)"
proof -
  let ?js = "filter (job_shown f (query_text search)) (cd_jobs d)" and ?v = "order_value D (jf_sort f)"
  have "visibleJobs D f search d = sort_key (\<lambda>j. - ?v j) ?js"
    unfolding visibleJobs_def using assms by (intro job_order_key) auto
  moreover have "sorted (map (\<lambda>j. - ?v j) (sort_key (\<lambda>j. - ?v j) ?js))" by simp
  ultimately show ?thesis by (simp add: sorted_map)
qed

lemma visible_jobs_mset:
  "mset (visibleJobs D f search d) = filter_mset (job_shown f (query_text search)) (mset (cd_jobs d))"
  by (simp add: visibleJobs_def)

text \<open>With the default filters and no search every job is shown.\<close>

lemma no_filter_shows_all:
  "job_shown \<lparr> jf_state = ''all'', jf_queue = ''all'', jf_sort = key, jf_tenant = [] \<rparr> [] j"
  by (simp add: job_shown_def matches_def query_text_def safeTrim_def asString_def js_trim_def js_lower_def)

section \<open>Status texts\<close>

text \<open>
  The text for healthy live updates is shown exactly when neither a realtime transport nor polling
  is active.
\<close>

lemma healthy_without_transport:
  assumes "m = live_meta opts isVisible since s"
  shows "liveStatusDetail (lo_liveMode opts) (lo_liveUpdates opts) m = ''Live updates are healthy.'' \<longleftrightarrow>
    lo_liveMode opts \<and> lm_health m = LH_live \<and> lm_transportMode m = TM_offline"
proof -
  let ?n = "lv_consecutiveFailures s" and ?t = "lv_lastSuccessfulAt s" and ?ts = "lv_transport s"
  have m: "lm_health m = liveHealth opts ?ts ?n ?t" "lm_transportMode m = transportMode opts ?ts ?n ?t"
    by (simp_all add: assms live_meta_def Let_def)
  have demo: "lm_health m = LH_demo \<longleftrightarrow> \<not> lo_liveMode opts" by (simp add: m demo_health_iff)
  have mode: "lm_transportMode m = TM_demo \<longleftrightarrow> \<not> lo_liveMode opts" by (simp add: m demo_mode_iff)
  have deg: "lm_transportMode m = TM_degraded \<Longrightarrow> lm_health m \<noteq> LH_live"
    using live_health_sound [of opts ?ts ?n ?t] by (auto simp: m transportMode_def split: if_splits)
  show ?thesis
    using demo mode deg unfolding liveStatusDetail_def
    by (cases "lm_health m"; cases "lm_transportMode m") auto
qed

section \<open>Busy flags and selection\<close>

lemma busy_flags:
  "jb_retry (jobsBusy (os_busy (retryJob D now True jobId s))) jobId"
  "jb_cancel (jobsBusy (os_busy (cancelJob D now True jobId s))) jobId"
  "jobId \<noteq> other \<Longrightarrow> jb_retry (jobsBusy (os_busy (retryJob D now True jobId s))) other = jb_retry (jobsBusy (os_busy s)) other"
  by (simp_all add: jobsBusy_def is_busy_def retryJob_def cancelJob_def send_def setBusy_def Let_def obj_get_set)

text \<open>
  The console starts with no jobs in live mode, and then the job named by the address is dropped
  before the first answer can arrive.
\<close>

lemma deep_link_dropped:
  "os_data s = createEmptyConsoleData source \<Longrightarrow> os_selectedJobId (effect_selected_job s) = []"
  by (simp add: effect_selected_job_def createEmptyConsoleData_def)

end
