(* ===== verification/OpsHero.thy ===== *)
theory OpsHero
  imports OpsViews
begin

text \<open>
  The computed parts of \<open>src/src/components/OperationsHero.tsx\<close> (headline, previews, status items) and
  the paths of \<open>src/src/components/TrendChart.tsx\<close>.
\<close>

section \<open>Headline\<close>

definition healthyWorkers :: "WorkerView list \<Rightarrow> nat" where
  "healthyWorkers ws =
     length (filter (\<lambda>w. wv_effectiveStatus w = ''healthy'' \<and> wl_heartbeatAgeMs w \<le> 15000) ws)"

definition staleWorkers :: "WorkerView list \<Rightarrow> nat" where
  "staleWorkers ws = length (filter (\<lambda>w. wl_heartbeatAgeMs w > 15000) ws)"

definition queuedWork :: "DashboardSnapshot \<Rightarrow> rat" where
  "queuedWork sn = ov_queuedJobs (sn_overview sn) + ov_scheduledJobs (sn_overview sn)"

definition headline :: "LiveHealth \<Rightarrow> DashboardSnapshot \<Rightarrow> WorkerView list \<Rightarrow> bool \<Rightarrow> string" where
  "headline health sn ws leaderOk =
     (if health = LH_demo then ''Demo sandbox''
      else if health = LH_offline then ''Transport offline''
      else if health = LH_reconnecting then ''Recovering stream''
      else if ov_failedJobs (sn_overview sn) > 0 \<or> length (sn_deadLetters sn) > 0 then ''Failure pressure detected''
      else if \<not> leaderOk \<or> staleWorkers ws > 0 then ''Coordination needs attention''
      else if health = LH_degraded then ''Holding a degraded path''
      else ''System steady'')"

section \<open>Previews\<close>

definition queue_load :: "QueueView \<Rightarrow> rat" where
  "queue_load q = qv_backlog q + qv_activeJobs q"

definition queuePreview :: "QueueView list \<Rightarrow> QueueView list" where
  "queuePreview qs = take 3 (js_sort (\<lambda>left right. Some (queue_load right - queue_load left)) qs)"

text \<open>\<open>a || b\<close> of two differences.\<close>

definition worker_order :: "WorkerView comparator" where
  "worker_order left right =
     (let age = wl_heartbeatAgeMs right - wl_heartbeatAgeMs left
      in Some (if age \<noteq> 0 then age else wl_activeLeaseCount right - wl_activeLeaseCount left))"

definition workerPreview :: "WorkerView list \<Rightarrow> WorkerView list" where
  "workerPreview ws = take 4 (js_sort worker_order ws)"

section \<open>Status items\<close>

definition formatPollingInterval :: "rat \<Rightarrow> string" where
  "formatPollingInterval value =
     (if value \<ge> 60000 then int_to_string (math_round (value / 60000)) @ ''m''
      else int_to_string (math_round (value / 1000)) @ ''s'')"

fun health_string :: "LiveHealth \<Rightarrow> string" where
  "health_string LH_live = ''live''"
| "health_string LH_degraded = ''degraded''"
| "health_string LH_reconnecting = ''reconnecting''"
| "health_string LH_offline = ''offline''"
| "health_string LH_paused = ''paused''"
| "health_string LH_demo = ''demo''"

definition liveStatusItems ::
    "date_api \<Rightarrow> locale_api \<Rightarrow> int \<Rightarrow> LiveMeta \<Rightarrow> DashboardSnapshot \<Rightarrow> SystemEvent list \<Rightarrow> StatusItem list" where
  "liveStatusItems D L now m sn events =
     (let lastEvent = (case take 4 events of [] \<Rightarrow> None | e # _ \<Rightarrow> Some e);
          relative = (\<lambda>s. formatRelative D now (Some s))
      in [status_item ''Transport'' (lm_transportLabel m) (state_string (lm_connectionState m)),
          status_item ''Connection'' (health_string (lm_health m))
            (if lm_isVisible m then ''foreground tab'' else ''background tab''),
          status_item ''Last event''
            (relative (or_str_opt (map_option ev_timestamp lastEvent) (lm_lastMessageAt m)))
            (or_str_opt (map_option ev_kind lastEvent)
              (if lm_hasLiveData m then ''Awaiting traffic'' else ''Collecting first sample'')),
          status_item ''Last good snapshot''
            (relative (or_str (lm_lastSuccessfulAt m) (ov_lastUpdatedAt (sn_overview sn))))
            (if lm_dataStale m then ''holding last stable state'' else ''current view is fresh''),
          status_item ''Reconnects'' (number_to_string (of_nat (lm_reconnectAttempt m)))
            (if lm_nextRetryAt m \<noteq> [] then ''next '' @ relative (lm_nextRetryAt m)
             else if lm_reconnectAttempt m > 0 then ''transport settled'' else ''quiet''),
          status_item ''Polling''
            (if lm_currentPollDelayMs m > 0 then formatPollingInterval (lm_currentPollDelayMs m) else ''paused'')
            (if lm_nextRetryAt m \<noteq> [] then ''retry '' @ formatDateTime D L (Some (lm_nextRetryAt m))
             else if lm_lastAttemptAt m \<noteq> [] then ''last probe '' @ relative (lm_lastAttemptAt m)
             else ''standby'')])"

section \<open>Trend chart\<close>

record Point =
  pt_x :: rat
  pt_y :: rat

record ChartPaths =
  cp_areaPath :: string
  cp_linePath :: string
  cp_lastPoint :: "Point option"

definition series_min :: "MetricsPoint list \<Rightarrow> rat" where
  "series_min series = foldr min (map mp_value series) 0"

definition series_max :: "MetricsPoint list \<Rightarrow> rat" where
  "series_max series = foldr max (map mp_value series) 1"

definition chart_points :: "MetricsPoint list \<Rightarrow> Point list" where
  "chart_points series =
     (let low = series_min series; span = max (series_max series - low) 1
      in map (\<lambda>(index, point).
           \<lparr> pt_x = (if length series = 1 then 320 / 2 else of_nat index / (of_nat (length series) - 1) * 320),
             pt_y = 132 - (mp_value point - low) / span * 100 \<rparr>)
         (enumerate 0 series))"

definition line_path :: "Point list \<Rightarrow> string" where
  "line_path points =
     foldl (\<lambda>path (index, p). path @ (if index = 0 then ''M'' else '' L'') @ to_fixed 2 (pt_x p) @ '' '' @ to_fixed 2 (pt_y p))
       [] (enumerate (0 :: nat) points)"

definition buildPaths :: "MetricsPoint list \<Rightarrow> ChartPaths" where
  "buildPaths series =
     (let points = chart_points series; linePath = line_path points
      in \<lparr> cp_areaPath = linePath @ '' L 320 132 L 0 132 Z'', cp_linePath = linePath,
           cp_lastPoint = (if points = [] then None else Some (last points)) \<rparr>)"

section \<open>Lemmas\<close>

text \<open>\<open>System steady\<close> is never shown over trouble.\<close>

lemma steady_headline:
  "headline health sn ws leaderOk = ''System steady'' \<longleftrightarrow>
   health \<in> {LH_live, LH_paused} \<and> \<not> ov_failedJobs (sn_overview sn) > 0 \<and> sn_deadLetters sn = [] \<and>
   leaderOk \<and> (\<forall>w \<in> set ws. wl_heartbeatAgeMs w \<le> 15000)"
proof -
  have "staleWorkers ws > 0 \<longleftrightarrow> \<not> (\<forall>w \<in> set ws. wl_heartbeatAgeMs w \<le> 15000)"
    by (auto simp: staleWorkers_def filter_empty_conv not_le)
  then show ?thesis by (cases health) (auto simp: headline_def)
qed

text \<open>A worker is healthy, stale, or fresh but not healthy; never both of the first two.\<close>

lemma healthy_or_stale: "healthyWorkers ws + staleWorkers ws \<le> length ws"
  by (induction ws) (auto simp: healthyWorkers_def staleWorkers_def)

lemma queue_preview_key: "queuePreview qs = take 3 (sort_key (\<lambda>q. - queue_load q) qs)"
proof -
  have "(\<lambda>left right. Some (queue_load right - queue_load left)) = by_asc (\<lambda>q. Some (- queue_load q))"
    by (auto simp: by_asc_def fun_eq_iff)
  then show ?thesis by (simp add: queuePreview_def js_sort_asc [where g = "\<lambda>q. - queue_load q"])
qed

text \<open>The preview holds the three queues with the most work.\<close>

lemma queue_preview_top:
  assumes "a \<in> set (queuePreview qs)" and "b \<in> set qs" and "b \<notin> set (queuePreview qs)"
  shows "queue_load b \<le> queue_load a"
proof -
  let ?s = "sort_key (\<lambda>q. - queue_load q) qs"
  have "b \<in> set (drop 3 ?s)"
    using assms(2,3) unfolding queue_preview_key by (metis Un_iff append_take_drop_id set_append set_sort)
  then show ?thesis
    using sorted_take_drop [of "\<lambda>q. - queue_load q" ?s a 3 b] assms(1) unfolding queue_preview_key by simp
qed

lemma series_range:
  "p \<in> set series \<Longrightarrow> series_min series \<le> mp_value p \<and> mp_value p \<le> series_max series"
  by (induction series) (auto simp: series_min_def series_max_def min_def max_def)

text \<open>Every point of a chart lies in the drawing area.\<close>

lemma chart_in_range:
  assumes "p \<in> set (chart_points series)"
  shows "0 \<le> pt_x p \<and> pt_x p \<le> 320 \<and> 32 \<le> pt_y p \<and> pt_y p \<le> 132"
proof -
  obtain i where i: "i < length series"
    and p: "pt_x p = (if length series = 1 then 320 / 2 else of_nat i / (of_nat (length series) - 1) * 320)"
      "pt_y p = 132 - (mp_value (series ! i) - series_min series) / max (series_max series - series_min series) 1 * 100"
    using assms by (auto simp: chart_points_def Let_def in_set_enumerate_eq)
  let ?v = "mp_value (series ! i) - series_min series" and ?s = "max (series_max series - series_min series) 1"
  have v: "0 \<le> ?v" "?v \<le> ?s" using series_range [of "series ! i" series] i by auto
  then have "0 \<le> ?v / ?s" "?v / ?s \<le> 1" by (auto simp: divide_le_eq)
  moreover have "0 \<le> pt_x p \<and> pt_x p \<le> 320"
  proof (cases "length series = 1")
    case False
    then have n: "(of_nat (length series) :: rat) - 1 > 0" using i by (cases series) auto
    have "(of_nat i :: rat) \<le> of_nat (length series) - 1" using i by (metis Suc_leI le_diff_eq of_nat_Suc of_nat_le_iff add.commute)
    then have "of_nat i / (of_nat (length series) - 1) \<le> (1 :: rat)" using n by (simp add: divide_le_eq)
    moreover have "0 \<le> of_nat i / (of_nat (length series) - 1 :: rat)" using n by simp
    moreover have "pt_x p = of_nat i / (of_nat (length series) - 1) * 320" using False p(1) by simp
    ultimately obtain x where "0 \<le> x" "x \<le> 1" "pt_x p = x * 320" by metis
    then show ?thesis by simp
  qed (simp add: p(1))
  moreover obtain y where "y = ?v / ?s" by blast
  ultimately have "0 \<le> y" "y \<le> 1" "pt_y p = 132 - y * 100" "0 \<le> pt_x p \<and> pt_x p \<le> 320" using p(2) by simp_all
  then show ?thesis by simp
qed

lemma chart_count: "length (chart_points series) = length series"
  by (simp add: chart_points_def Let_def)

end
