(* ===== verification/OpsDrawer.thy ===== *)
theory OpsDrawer
  imports OpsHandlers
begin

text \<open>
  \<open>src/src/components/JobDrawer.tsx\<close>: the state of the drawer, the effect that loads the payload of
  another job, the two replay buttons with the handler they call, and the texts of the drawer.

  The main result is that "Replay Same Payload" resubmits the payload of the job: what
  \<open>stringifyJson\<close> put in the text area is what \<open>safeJsonParse\<close> reads from it.
\<close>

section \<open>State\<close>

record Drawer =
  dr_replayQueue :: string
  dr_payloadText :: string
  dr_inlineError :: string

definition initial_drawer :: Drawer where
  "initial_drawer = \<lparr> dr_replayQueue = ''default'', dr_payloadText = ''{}'', dr_inlineError = [] \<rparr>"

definition drawer_dead_letter :: "JobInspection \<Rightarrow> DeadLetter option" where
  "drawer_dead_letter i = (case insp_deadLetter i of Some (Some d) \<Rightarrow> Some d | _ \<Rightarrow> None)"

text \<open>\<open>inspection.deadLetter?.job?.payload ?? inspection.job.payload\<close>\<close>

definition drawer_payload :: "JobInspection \<Rightarrow> jsval" where
  "drawer_payload i =
     (case drawer_dead_letter i of
        None \<Rightarrow> job_payload (insp_job i)
      | Some d \<Rightarrow>
          (case dl_job d of
             None \<Rightarrow> job_payload (insp_job i)
           | Some j \<Rightarrow> if job_payload j \<in> {Undefined, Null} then job_payload (insp_job i) else job_payload j))"

definition load_inspection :: "JobInspection option \<Rightarrow> Drawer \<Rightarrow> Drawer" where
  "load_inspection inspection d =
     (case inspection of
        None \<Rightarrow> d
      | Some i \<Rightarrow> d\<lparr> dr_replayQueue := or_str (job_queue (insp_job i)) ''default'',
                       dr_payloadText := stringifyJson (drawer_payload i), dr_inlineError := [] \<rparr>)"

text \<open>The effect runs when the id of the inspected job changes; \<open>shown\<close> is the id at its last run.\<close>

definition drawer_effect :: "string option \<Rightarrow> JobInspection option \<Rightarrow> Drawer \<Rightarrow> Drawer" where
  "drawer_effect shown inspection d =
     (if map_option (\<lambda>i. job_id (insp_job i)) inspection = shown then d else load_inspection inspection d)"

definition edit_payload :: "string \<Rightarrow> Drawer \<Rightarrow> Drawer" where
  "edit_payload s d = d\<lparr> dr_payloadText := s, dr_inlineError := [] \<rparr>"

definition choose_replay_queue :: "string \<Rightarrow> Drawer \<Rightarrow> Drawer" where
  "choose_replay_queue q d = d\<lparr> dr_replayQueue := q \<rparr>"

section \<open>The replay buttons\<close>

definition replay_same ::
    "date_api \<Rightarrow> int \<Rightarrow> (string \<Rightarrow> string) \<Rightarrow> bool \<Rightarrow> string \<Rightarrow> JobInspection \<Rightarrow> Drawer \<Rightarrow> OpsState \<Rightarrow> OpsState" where
  "replay_same D now msg liveMode uid i d s =
     replayJob D now msg liveMode uid (job_id (insp_job i)) (dr_replayQueue d) (dr_payloadText d) False s"

definition replay_edited ::
    "date_api \<Rightarrow> int \<Rightarrow> (string \<Rightarrow> string) \<Rightarrow> bool \<Rightarrow> string \<Rightarrow> JobInspection \<Rightarrow> Drawer \<times> OpsState \<Rightarrow> Drawer \<times> OpsState" where
  "replay_edited D now msg liveMode uid i ds =
     (let (d, s) = ds
      in if safeTrimStr (dr_payloadText d) = [] then
           (d\<lparr> dr_inlineError := ''Replay payload cannot be empty when editing.'' \<rparr>, s)
         else (d, replayJob D now msg liveMode uid (job_id (insp_job i)) (dr_replayQueue d) (dr_payloadText d) True s))"

section \<open>Texts\<close>

definition drawer_status :: "date_api \<Rightarrow> int \<Rightarrow> bool \<Rightarrow> string \<Rightarrow> string \<Rightarrow> string \<times> string" where
  "drawer_status D now updating detailError lastUpdatedAt =
     (if updating then ''Updating details...'' else if detailError \<noteq> [] then ''Showing cached details''
      else ''Details in sync'',
      if lastUpdatedAt \<noteq> [] then ''Last detail refresh '' @ formatRelative D now (Some lastUpdatedAt)
      else ''No detail refresh yet'')"

definition detail_cards :: "date_api \<Rightarrow> locale_api \<Rightarrow> int \<Rightarrow> Job \<Rightarrow> (string \<times> string) list" where
  "detail_cards D L now j =
     (let relative = (\<lambda>value missing. if or_str_opt value [] \<noteq> [] then formatRelative D now value else missing)
      in [(''Queue'', job_queue j), (''Tenant'', job_tenantId j),
          (''Worker'', or_str_opt (job_workerId j) ''unassigned''), (''Priority'', number_to_string (job_priority j)),
          (''Lease'', relative (job_leaseExpiresAt j) ''not leased''),
          (''Heartbeat'', relative (job_lastHeartbeatAt j) ''n/a''),
          (''Created'', formatDateTime D L (Some (job_createdAt j))), (''Started'', formatDateTime D L (job_startedAt j)),
          (''Completed'', formatDateTime D L (job_finishedAt j)),
          (''Execution'', if job_executionMs j > 0 then formatLatency (job_executionMs j) else ''pending''),
          (''Attempts'', number_to_string (job_attempts j) @ ''/'' @ number_to_string (job_maxAttempts j)),
          (''Retry ETA'', relative (Some (job_runAt j)) ''n/a'')])"

definition failure_cards :: "date_api \<Rightarrow> locale_api \<Rightarrow> JobInspection \<Rightarrow> (string \<times> string \<times> string) list" where
  "failure_cards D L i =
     (let j = insp_job i; dead = drawer_dead_letter i
      in [(''Failure reason'',
           or_str_opt (map_option dl_errorMessage dead) (or_str_opt (job_lastError j) ''healthy''),
           or_str_opt (case dead of None \<Rightarrow> None | Some d \<Rightarrow> dl_errorType d)
             (or_str_opt (job_blockedReason j) ''No active failure signal.'')),
          (''Idempotency'', or_str_opt (job_idempotencyKey j) ''No key'',
           (case insp_idempotency i of
              Some (Some r) \<Rightarrow> ''Suppression active until '' @ formatDateTime D L (Some (idem_expiresAt r))
            | _ \<Rightarrow> ''Platform default duplicate window is 15 minutes unless overridden at submit time.'')),
          (''Lease ownership'', or_str_opt (job_workerId j) ''Unclaimed'',
           if or_str_opt (job_leaseToken j) [] \<noteq> [] then ''Lease token '' @ or_str_opt (job_leaseToken j) []
           else ''No worker lease is attached to this job right now.'')])"

record AttemptCard =
  ac_title :: string
  ac_worker :: string
  ac_error :: string
  ac_times :: "string \<times> string"
  ac_leaseExpired :: bool

definition attempt_card :: "date_api \<Rightarrow> locale_api \<Rightarrow> JobAttempt \<Rightarrow> AttemptCard" where
  "attempt_card D L a =
     \<lparr> ac_title = ''Attempt '' @ number_to_string (att_attempt a), ac_worker = or_str (att_workerId a) ''unknown worker'',
       ac_error = or_str_opt (att_errorMessage a) (or_str_opt (att_errorType a) ''No attempt error recorded.''),
       ac_times = (formatDateTime D L (Some (att_startedAt a)),
         if or_str_opt (att_finishedAt a) [] \<noteq> [] then formatDateTime D L (att_finishedAt a) else ''running''),
       ac_leaseExpired = att_leaseExpired a \<rparr>"

definition payload_cards :: "Job \<Rightarrow> (string \<times> string \<times> string) list" where
  "payload_cards j =
     [(''Payload'', payloadPreview (job_payload j), stringifyJson (job_payload j)),
      (''Result'', if js_truthy (job_result j) then payloadPreview (job_result j) else ''no result'',
       if js_truthy (job_result j) then stringifyJson (job_result j) else ''// no result emitted'')]"

definition graph_card_text :: "DependencyNode \<Rightarrow> string" where
  "graph_card_text n =
     or_str_opt (node_blockedReason n)
       (number_to_string (of_nat (length (nullish (node_dependsOn n) []))) @ '' upstream / '' @
        number_to_string (of_nat (length (nullish (node_dependents n) []))) @ '' downstream'')"

section \<open>What is replayed\<close>

lemma stringify_roundtrip:
  assumes "wf_json v" and "v \<noteq> Null" and "\<forall>x. v \<noteq> Num x"
  shows "safeJsonParse msg (Str (stringifyJson v)) = \<lparr> jr_value = v, jr_error = [] \<rparr>"
proof -
  have v: "v \<noteq> Undefined" using assms(1) by auto
  then have "js_trim (json_pretty 0 v) = json_pretty 0 v \<and> json_pretty 0 v \<noteq> []"
    using json_pretty_trimmed [OF assms(1,3)] by blast
  then show ?thesis
    using assms(2) v json_pretty_roundtrip [OF assms(1), of 0] by (simp add: safeJsonParse_def stringifyJson_def Let_def)
qed

text \<open>A text that parses to a truthy value is replayed: sent in live mode, applied in demo mode.\<close>

lemma replay_sends:
  assumes "safeJsonParse msg (Str payloadText) = \<lparr> jr_value = p, jr_error = [] \<rparr>" and "js_truthy p"
    and "find_job (cd_jobs (os_data s)) jobId = Some job"
  shows "os_sent (replayJob D now msg True uid jobId queue payloadText edited s) = os_sent s @
    [if findDeadLetter (os_data s) jobId \<noteq> None
     then \<lparr> lr_route = R_deadLettersReplay, lr_body = Some (dead_replay_body [jobId] queue p) \<rparr>
     else \<lparr> lr_route = R_jobs, lr_body = Some (clone_body job queue p) \<rparr>]"
  using assms by (simp add: replayJob_def send_def Let_def)

lemma replay_applies:
  assumes "safeJsonParse msg (Str payloadText) = \<lparr> jr_value = p, jr_error = [] \<rparr>" and "js_truthy p"
    and "find_job (cd_jobs (os_data s)) jobId = Some job" and "distinct (map job_id (cd_jobs (os_data s)))"
  shows "find_job (cd_jobs (os_data (replayJob D now msg False uid jobId queue payloadText edited s))) =
    (find_job (cd_jobs (os_data s)))
      ((if findDeadLetter (os_data s) jobId \<noteq> None then jobId else uid) \<mapsto>
       (if findDeadLetter (os_data s) jobId \<noteq> None then dead_replayed_job D now queue p job
        else cloned_job D now uid queue p job))"
  using assms find_job_id [OF assms(3)]
  by (auto simp: replayJob_def replay_demo_def dead_replayed_job_def cloned_job_def find_job_replaceJob Let_def)

text \<open>An edit of an empty text is refused in the drawer, and the handler is not called.\<close>

lemma empty_edit_refused:
  "safeTrimStr (dr_payloadText d) = [] \<Longrightarrow> snd (replay_edited D now msg liveMode uid i (d, s)) = s"
  by (simp add: replay_edited_def)

text \<open>The drawer does not follow a change of the payload of the job it shows.\<close>

lemma drawer_keeps_payload:
  "job_id (insp_job i) = job_id (insp_job i') \<Longrightarrow>
   drawer_effect (Some (job_id (insp_job i))) (Some i') (drawer_effect None (Some i) d) = load_inspection (Some i) d"
  by (simp add: drawer_effect_def)

end
