(* ===== verification/OpsSections.thy ===== *)
theory OpsSections
  imports OpsHero OpsDrawer
begin

text \<open>
  What the sections of the console compute while they render: the section that a tab shows, the
  edits of the filters, and the texts and numbers of the rows, tiles and bars, from
  \<open>src/src/components/*Section.tsx\<close>, \<open>SideRail.tsx\<close>, \<open>ConsolePrimitives.tsx\<close>, \<open>AnimatedNumber.tsx\<close> and
  \<open>OperationsHero.tsx\<close> and \<open>OpsConsole.tsx\<close>. The elements that show them are in \<open>SectionMarkup\<close> and \<open>PageMarkup\<close>.
\<close>

section \<open>Shared pieces\<close>

text \<open>\<open>parts.filter(Boolean).join(" / ")\<close>\<close>

definition joined :: "string option list \<Rightarrow> string" where
  "joined parts = js_join '' / '' (filter (\<lambda>s. s \<noteq> []) (map (\<lambda>p. nullish p []) parts))"

text \<open>\<open>[...new Set(xs)]\<close> keeps the first of equal items.\<close>

definition js_unique :: "'a list \<Rightarrow> 'a list" where
  "js_unique xs = rev (remdups (rev xs))"

definition stale_count :: "DashboardSnapshot \<Rightarrow> nat" where
  "stale_count sn = length (filter (\<lambda>w. wl_heartbeatAgeMs w > 15000) (sn_workers sn))"

definition num_text :: "nat \<Rightarrow> string" where
  "num_text n = number_to_string (of_nat n)"

definition plural :: "nat \<Rightarrow> string" where
  "plural n = (if n = 1 then [] else ''s'')"

text \<open>\<open>ProgressBar\<close>: the scale of the bar and its label.\<close>

definition progress_bar :: "rat \<Rightarrow> rat \<times> string" where
  "progress_bar value =
     (let clamped = min (max value 0) 100 in (clamped / 100, int_to_string (math_round clamped) @ ''%''))"

text \<open>\<open>AnimatedNumber\<close> at a finite value, at rest.\<close>

definition formatValue :: "locale_api \<Rightarrow> (rat \<Rightarrow> string) option \<Rightarrow> rat \<Rightarrow> string" where
  "formatValue L formatter value =
     (case formatter of Some f \<Rightarrow> f value | None \<Rightarrow> toLocaleString L (math_round value))"

definition shown_number :: "jsnum \<Rightarrow> rat" where
  "shown_number value = (case value of Fin x \<Rightarrow> x | _ \<Rightarrow> 0)"

section \<open>Tabs, filters and controls\<close>

datatype SectionView =
    View_loading | View_overview | View_jobs | View_queues | View_workers | View_schedules | View_dead_letter
  | View_workflows | View_metrics | View_events

definition tabContent :: "bool \<Rightarrow> string \<Rightarrow> SectionView" where
  "tabContent loading tabKey =
     (if loading then View_loading
      else if tabKey = ''overview'' then View_overview else if tabKey = ''jobs'' then View_jobs
      else if tabKey = ''queues'' then View_queues else if tabKey = ''workers'' then View_workers
      else if tabKey = ''schedules'' then View_schedules else if tabKey = ''dead-letter'' then View_dead_letter
      else if tabKey = ''workflows'' then View_workflows else if tabKey = ''metrics'' then View_metrics
      else View_events)"

text \<open>A partial update: the fields that are given replace those of the filters.\<close>

record JobFiltersPatch =
  jp_state :: "string option"
  jp_queue :: "string option"
  jp_sort :: "string option"
  jp_tenant :: "string option"

definition handleJobFiltersChange :: "JobFiltersPatch \<Rightarrow> JobFilters \<Rightarrow> JobFilters" where
  "handleJobFiltersChange p f =
     \<lparr> jf_state = nullish (jp_state p) (jf_state f), jf_queue = nullish (jp_queue p) (jf_queue f),
       jf_sort = nullish (jp_sort p) (jf_sort f), jf_tenant = nullish (jp_tenant p) (jf_tenant f) \<rparr>"

record DeadLetterFiltersPatch =
  dp_queue :: "string option"
  dp_errorType :: "string option"
  dp_search :: "string option"

definition handleDeadLetterFiltersChange :: "DeadLetterFiltersPatch \<Rightarrow> DeadLetterFilters \<Rightarrow> DeadLetterFilters" where
  "handleDeadLetterFiltersChange p f =
     \<lparr> df_queue = nullish (dp_queue p) (df_queue f), df_errorType = nullish (dp_errorType p) (df_errorType f),
       df_search = nullish (dp_search p) (df_search f) \<rparr>"

definition openJobsTab :: "OpsState \<Rightarrow> OpsState" where
  "openJobsTab s = s\<lparr> os_selectedTab := ''jobs'' \<rparr>"

text \<open>\<open>void refreshConsole({ force: true })\<close>\<close>

definition refreshSnapshot :: "OpsState \<Rightarrow> OpsState" where
  "refreshSnapshot s = s\<lparr> os_refreshes := os_refreshes s @ [\<lparr> rc_quiet = False, rc_force = True \<rparr>] \<rparr>"

text \<open>\<open>busy\<close> of the drawer: only a replay disables its buttons.\<close>

definition drawer_busy :: "bool obj \<Rightarrow> JobInspection option \<Rightarrow> bool" where
  "drawer_busy busyMap inspection =
     (case inspection of
        None \<Rightarrow> False
      | Some i \<Rightarrow> is_busy busyMap (''job-replay-'' @ job_id (insp_job i)))"

definition control_hint :: "bool \<Rightarrow> string \<Rightarrow> string" where
  "control_hint demoMode detail = (if demoMode then [] else detail)"

section \<open>Queues\<close>

definition queue_paused :: "QueueView \<Rightarrow> bool" where
  "queue_paused q = (case qv_control q of Some c \<Rightarrow> qc_paused c | None \<Rightarrow> False)"

definition queue_draining :: "QueueView \<Rightarrow> bool" where
  "queue_draining q = (case qv_control q of Some c \<Rightarrow> qc_draining c | None \<Rightarrow> False)"

definition queue_status :: "string \<Rightarrow> string \<Rightarrow> string \<Rightarrow> QueueView \<Rightarrow> string" where
  "queue_status paused draining accepting q =
     (if queue_paused q then paused else if queue_draining q then draining else accepting)"

definition overview_queue_status :: "QueueView \<Rightarrow> string \<times> string" where
  "overview_queue_status q =
     (queue_status ''paused intake'' ''draining existing work'' ''accepting new work'' q,
      queue_status ''paused'' ''draining'' ''healthy'' q)"

definition queues_section_status :: "QueueView \<Rightarrow> string \<times> string" where
  "queues_section_status q =
     (queue_status ''paused'' ''draining'' ''flowing'' q, queue_status ''paused'' ''draining'' ''healthy'' q)"

text \<open>The widths of the three parts of a queue's bar, in percent.\<close>

definition flow_total :: "QueueView \<Rightarrow> rat" where
  "flow_total q = max (qv_backlog q + qv_activeJobs q + qv_blocked q + qv_deadLetters q) 1"

definition flow_widths :: "QueueView \<Rightarrow> rat \<times> rat \<times> rat" where
  "flow_widths q =
     (qv_backlog q / flow_total q * 100, qv_activeJobs q / flow_total q * 100, qv_blocked q / flow_total q * 100)"

definition backlog_total :: "QueueView list \<Rightarrow> rat" where
  "backlog_total queues = foldl (\<lambda>total item. total + qv_backlog item) 0 queues"

definition saturated_queues :: "QueueView list \<Rightarrow> nat" where
  "saturated_queues queues = length (filter (\<lambda>q. qv_saturation q \<ge> 80) queues)"

definition backlog_series :: "QueueView list \<Rightarrow> MetricsPoint list" where
  "backlog_series queues =
     map (\<lambda>(index, q). \<lparr> mp_timestamp = num_text index, mp_value = qv_backlog q \<rparr>) (enumerate 0 queues)"

definition policy_row :: "RateLimitStatus \<Rightarrow> string \<times> string \<times> string \<times> string" where
  "policy_row s =
     (let p = rl_policy s
      in (pol_name p, pol_mode p @ '' / limit '' @ number_to_string (pol_limit p),
          if rl_throttled s then ''saturated'' else ''healthy'',
          if pol_mode p = ''concurrency'' then number_to_string (rl_activeCount s)
          else number_to_string (rl_recentCount s)))"

section \<open>Jobs and dead letters\<close>

record JobRow =
  jr_type :: string
  jr_place :: string
  jr_idempotency :: "string option"
  jr_state :: string
  jr_workflow :: string
  jr_attempts :: string
  jr_execution :: string
  jr_lease :: string
  jr_health :: string

definition job_row :: "date_api \<Rightarrow> int \<Rightarrow> Job \<Rightarrow> JobRow" where
  "job_row D now j =
     \<lparr> jr_type = job_type j, jr_place = take 8 (job_id j) @ '' / '' @ job_queue j @ '' / '' @ job_tenantId j,
       jr_idempotency = (if or_str_opt (job_idempotencyKey j) [] \<noteq> []
         then Some (''idempotency '' @ or_str_opt (job_idempotencyKey j) []) else None),
       jr_state = job_state_string (job_state j),
       jr_workflow = (if or_str_opt (job_workflowId j) [] \<noteq> []
         then ''workflow '' @ take 8 (or_str_opt (job_workflowId j) []) else ''single job''),
       jr_attempts = number_to_string (job_attempts j) @ ''/'' @ number_to_string (job_maxAttempts j),
       jr_execution = (if job_executionMs j > 0 then formatLatency (job_executionMs j) else ''not executed''),
       jr_lease = (if or_str_opt (job_leaseExpiresAt j) [] \<noteq> [] then formatRelative D now (job_leaseExpiresAt j)
         else if or_str_opt (job_throttleUntil j) [] \<noteq> [] then formatRelative D now (job_throttleUntil j)
         else ''n/a''),
       jr_health = or_str_opt (job_blockedReason j) (or_str_opt (job_lastError j) ''healthy'') \<rparr>"

text \<open>\<open>safeTrim(item.errorType)\<close>\<close>

abbreviation error_type_text :: "DeadLetter \<Rightarrow> string" where
  "error_type_text d \<equiv> safeTrim (case dl_errorType d of None \<Rightarrow> Undefined | Some s \<Rightarrow> Str s) []"

text \<open>The error types that the filter of the dead letters offers.\<close>

definition error_type_options :: "DeadLetter list \<Rightarrow> string list" where
  "error_type_options visible =
     ''all'' # js_unique (filter (\<lambda>s. s \<noteq> []) (map (\<lambda>d. error_type_text d) visible))"

definition dead_letter_row :: "date_api \<Rightarrow> locale_api \<Rightarrow> DeadLetter \<Rightarrow> string \<times> string \<times> string" where
  "dead_letter_row D L d =
     (or_str_opt (map_option job_type (dl_job d)) (take 8 (dl_jobId d)),
      or_str_opt (dl_errorType d) ''failure'' @ '' / '' @ dl_errorMessage d,
      ''failed '' @ formatDateTime D L (Some (dl_failedAt d)) @ '' / replayed '' @ number_to_string (dl_replayCount d) @ '' times'')"

definition blocked_row :: "Job \<Rightarrow> string \<times> string \<times> string \<times> string" where
  "blocked_row j =
     (job_type j, or_str_opt (job_blockedReason j) ''waiting on upstream work'', job_state_string (job_state j),
      or_str_opt (job_workflowId j) ''standalone'')"

definition workflow_node_text :: "DependencyNode \<Rightarrow> string" where
  "workflow_node_text n =
     or_str_opt (node_blockedReason n)
       (node_queue n @ '' queue / parent '' @ or_str_opt (node_parentJobId n) ''root'')"

section \<open>Workers and schedules\<close>

definition worker_pulse :: "WorkerView \<Rightarrow> bool" where
  "worker_pulse w \<longleftrightarrow> wl_heartbeatAgeMs w < 10000"

definition hero_pulse :: "WorkerView \<Rightarrow> bool" where
  "hero_pulse w \<longleftrightarrow> wl_heartbeatAgeMs w \<le> 15000"

definition worker_details :: "date_api \<Rightarrow> locale_api \<Rightarrow> int \<Rightarrow> WorkerView \<Rightarrow> (string \<times> string) list" where
  "worker_details D L now w =
     [(''heartbeat age'', formatLatency (wl_heartbeatAgeMs w)),
      (''oldest lease'', or_str_opt (wl_oldestLeaseJobId w) ''none''),
      (''lease expiry'', if or_str_opt (wl_leaseExpiresAt w) [] \<noteq> [] then formatRelative D now (wl_leaseExpiresAt w) else ''n/a''),
      (''started'', formatDateTime D L (Some (wl_startedAt w)))]"

definition schedule_row :: "date_api \<Rightarrow> locale_api \<Rightarrow> Schedule \<Rightarrow> string \<times> string \<times> string \<times> string \<times> string" where
  "schedule_row D L s =
     (sched_name s, sched_cronExpression s @ '' / '' @ sched_type s @ '' / '' @ sched_queue s,
      ''next '' @ formatDateTime D L (Some (sched_nextRunAt s)) @ '' / last '' @ formatDateTime D L (sched_lastRunAt s),
      if sched_enabled s then ''enabled'' else ''paused'', if sched_enabled s then ''Pause'' else ''Resume'')"

section \<open>Events\<close>

definition event_state :: "SystemEvent \<Rightarrow> string option" where
  "event_state e = map_option job_state_string (ev_state e)"

definition hero_event_text :: "SystemEvent \<Rightarrow> string" where
  "hero_event_text e = or_str_opt (ev_message e) (joined [ev_queue e, ev_workerId e, event_state e])"

definition overview_event_text :: "SystemEvent \<Rightarrow> string" where
  "overview_event_text e = or_str_opt (ev_message e) (joined [ev_queue e, ev_jobId e, ev_workerId e, event_state e])"

definition event_card_text :: "SystemEvent \<Rightarrow> string" where
  "event_card_text e = or_str_opt (ev_message e) (joined [ev_queue e, ev_workerId e, ev_jobId e, event_state e])"

definition recovered_events :: "SystemEvent list \<Rightarrow> nat" where
  "recovered_events events = length (filter (\<lambda>e. js_includes (ev_kind e) ''recovered'') events)"

section \<open>Overview, hero and side rail\<close>

definition leader_text :: "bool \<Rightarrow> string" where
  "leader_text healthy = (if healthy then ''leader healthy'' else ''leader stale'')"

definition coordination_rows ::
    "date_api \<Rightarrow> int \<Rightarrow> bool \<Rightarrow> DashboardSnapshot \<Rightarrow> SystemEvent list \<Rightarrow> (string \<times> string \<times> string \<times> string) list" where
  "coordination_rows D now healthy sn events =
     (let ld = sn_leader sn; age = mt_maxWorkerHeartbeatAgeMs (sn_metrics sn)
      in [(''Leader lease'', or_str_opt (ld_schedulerId ld) ''No active leader announced'',
           leader_text healthy,
           if or_str_opt (ld_leaseExpiresAt ld) [] \<noteq> [] then formatRelative D now (ld_leaseExpiresAt ld) else ''lease unknown''),
          (''Heartbeat drift'', num_text (stale_count sn) @ '' workers beyond 15s'',
           if age > 15000 then ''stale'' else ''healthy'', formatLatency age),
          (''Recovery path'', ''Replay-safe recovery events visible in the live stream.'', ''recovery'',
           num_text (recovered_events events) @ '' recent events'')])"

definition watchlist :: "DashboardSnapshot \<Rightarrow> (string \<times> string \<times> string \<times> string) list" where
  "watchlist sn =
     (let dead = length (sn_deadLetters sn); stale = stale_count sn; throttled = ov_throttledJobs (sn_overview sn)
      in [(''Dead letter'', num_text dead @ '' jobs waiting on operator recovery'',
           if dead > 0 then ''degraded'' else ''healthy'', num_text dead @ '' jobs''),
          (''Throttle pressure'', num_text (length (filter rl_throttled (sn_rateLimits sn))) @ '' saturated policies'',
           if throttled > 0 then ''degraded'' else ''healthy'', number_to_string throttled @ '' jobs''),
          (''Heartbeat drift'', num_text stale @ '' workers beyond the heartbeat threshold'',
           if stale > 0 then ''stale'' else ''healthy'', formatLatency (mt_maxWorkerHeartbeatAgeMs (sn_metrics sn)))])"

definition selected_job_details :: "Job \<Rightarrow> (string \<times> string) list" where
  "selected_job_details j =
     [(''queue'', job_queue j), (''worker'', or_str_opt (job_workerId j) ''unassigned''),
      (''idempotency'', or_str_opt (job_idempotencyKey j) ''not set''), (''payload'', payloadPreview (job_payload j))]"

definition hero_since :: "date_api \<Rightarrow> int \<Rightarrow> LiveMeta \<Rightarrow> DashboardSnapshot \<Rightarrow> string" where
  "hero_since D now m sn =
     (if lm_degradedSince m \<noteq> [] then ''degraded '' @ formatRelative D now (Some (lm_degradedSince m))
      else if lm_hasLiveData m then
        ''last good snapshot '' @ formatRelative D now (Some (or_str (lm_lastSuccessfulAt m) (ov_lastUpdatedAt (sn_overview sn))))
      else ''waiting for a live snapshot'')"

definition hero_stats :: "DashboardSnapshot \<Rightarrow> WorkerView list \<Rightarrow> (string \<times> string) list" where
  "hero_stats sn ws =
     (let ov = sn_overview sn; dead = length (sn_deadLetters sn); stale = staleWorkers ws
      in [(''Queued work'', number_to_string (ov_delayedBacklog ov) @ '' delayed, '' @ number_to_string (ov_activeJobs ov) @ '' active now''),
          (''Workers'', num_text stale @ '' stale heartbeat'' @ plural stale),
          (''Failure pressure'', num_text dead @ '' dead-letter item'' @ plural dead),
          (''Throughput'', ''exec p95 '' @ formatLatency (p95Ms (mt_executionLatency (sn_metrics sn))))])"

text \<open>The error under the live status, when there is one.\<close>

definition hero_error :: "LiveMeta \<Rightarrow> string \<Rightarrow> string option" where
  "hero_error m globalError =
     (if or_str (lm_degradedReason m) globalError \<noteq> [] then Some (or_str globalError (lm_degradedReason m)) else None)"

text \<open>A queue and a worker in the hero, and the notes beside their headings.\<close>

definition hero_flow_row :: "QueueView \<Rightarrow> string list" where
  "hero_flow_row q =
     [qv_queueName q, queue_status ''paused intake'' ''draining existing work'' ''accepting new work'' q,
      int_to_string (math_round (qv_saturation q)) @ ''% saturation'', number_to_string (qv_backlog q) @ '' backlog'',
      number_to_string (qv_activeJobs q) @ '' active'', number_to_string (qv_deadLetters q) @ '' dead'']"

definition hero_worker_row :: "WorkerView \<Rightarrow> string list" where
  "hero_worker_row w =
     [wl_workerId w, js_join '', '' (wl_queues w), formatLatency (wl_heartbeatAgeMs w),
      number_to_string (wl_activeLeaseCount w) @ '' leases'']"

definition hero_notes :: "WorkerView list \<Rightarrow> LiveMeta \<Rightarrow> SystemEvent list \<Rightarrow> string list" where
  "hero_notes ws m preview =
     [if staleWorkers ws > 0 then num_text (staleWorkers ws) @ '' workers beyond 15s'' else ''Heartbeat drift is quiet'',
      if lm_hasLiveData m then ''steady state retained during refresh'' else ''waiting for the first snapshot'',
      if length preview > 0 then num_text (length preview) @ '' latest transitions'' else ''Healthy and idle'']"

text \<open>Which pill of the transport pulses: the one of the hero looks at the label, the one of the header at the mode.\<close>

definition hero_transport_pulse :: "LiveMeta \<Rightarrow> bool" where
  "hero_transport_pulse m \<longleftrightarrow> js_lower (lm_transportLabel m) \<in> set [''websocket'', ''sse'']"

definition state_options :: "string list" where
  "state_options = [''all'', ''queued'', ''scheduled'', ''active'', ''retrying'', ''blocked'', ''throttled'', ''completed'',
     ''failed'', ''canceled'']"

section \<open>Lemmas\<close>

text \<open>The label of a transport is never its bare name, so the pill of the hero never pulses.\<close>

lemma hero_transport_never_pulses: "\<not> hero_transport_pulse (live_meta opts isVisible degradedSince s)"
proof -
  have "js_lower (formatTransportMode mode) \<notin> set [''websocket'', ''sse'']" for mode
    by (cases mode) (simp_all add: js_lower_def lower_char_def)
  then show ?thesis by (simp only: hero_transport_pulse_def live_meta_def Let_def LiveMeta.simps not_False_eq_True)
qed

text \<open>A stale leader gets the tone of an unknown status, while stale workers are shown as a danger.\<close>

lemma stale_leader_tone:
  "statusTone (Some (leader_text False)) = Tone_of Tone_info" "statusTone (Some ''stale'') = Tone_of Tone_danger"
  by code_simp+

text \<open>Each state of a job can be chosen in the filter, once.\<close>

lemma state_options_exact: "distinct state_options \<and> set (tl state_options) = range job_state_string"
proof -
  have "range job_state_string = job_state_string ` {JS_queued, JS_scheduled, JS_retrying, JS_blocked, JS_throttled,
      JS_active, JS_completed, JS_failed, JS_canceled}"
    using JobState.exhaust by (intro arg_cong [where f = "image job_state_string"]) blast
  then show ?thesis by (simp add: state_options_def insert_commute)
qed

lemma js_unique_set [simp]: "set (js_unique xs) = set xs" "distinct (js_unique xs)"
  by (simp_all add: js_unique_def)

lemma js_unique_Cons: "js_unique (x # xs) = x # filter (\<lambda>y. y \<noteq> x) (js_unique xs)"
proof -
  have r: "remdups (ys @ [x]) = filter (\<lambda>y. y \<noteq> x) (remdups ys) @ [x]" for ys
    by (induction ys) auto
  show ?thesis by (simp add: js_unique_def r rev_filter)
qed

text \<open>A bar is never drawn outside its track.\<close>

lemma progress_bar_bounds: "0 \<le> fst (progress_bar value) \<and> fst (progress_bar value) \<le> 1"
  by (simp add: progress_bar_def Let_def)

lemma flow_widths_bounds:
  assumes "0 \<le> qv_backlog q" and "0 \<le> qv_activeJobs q" and "0 \<le> qv_blocked q" and "0 \<le> qv_deadLetters q"
  shows "(case flow_widths q of (a, b, c) \<Rightarrow> 0 \<le> a \<and> 0 \<le> b \<and> 0 \<le> c \<and> a + b + c \<le> 100)"
proof -
  have t: "0 < flow_total q" "qv_backlog q + qv_activeJobs q + qv_blocked q \<le> flow_total q"
    using assms by (simp_all add: flow_total_def)
  have "qv_backlog q / flow_total q * 100 + qv_activeJobs q / flow_total q * 100 + qv_blocked q / flow_total q * 100 =
      (qv_backlog q + qv_activeJobs q + qv_blocked q) / flow_total q * 100"
    by (simp add: add_divide_distrib distrib_right)
  also have "\<dots> \<le> 1 * 100" using t by (intro mult_right_mono) simp_all
  finally show ?thesis using assms t by (simp add: flow_widths_def)
qed

lemma backlog_total_sum: "backlog_total queues = (\<Sum>q \<leftarrow> queues. qv_backlog q)"
proof -
  have "foldl (\<lambda>total item. total + qv_backlog item) x queues = x + (\<Sum>q \<leftarrow> queues. qv_backlog q)" for x
    by (induction queues arbitrary: x) simp_all
  then show ?thesis by (simp add: backlog_total_def)
qed

text \<open>Every tab has its own section, and a valid key never falls through to the events.\<close>

lemma tab_content_events:
  "tabContent False (tab_key key) = View_events \<longleftrightarrow> key = ''events''"
  by (auto simp: tab_key_def tabContent_def TABS_def)

text \<open>
  The options of the error-type filter come from the dead letters that pass the filter: once a type
  is chosen, no other type is offered.
\<close>

lemma chosen_error_type_alone:
  assumes "df_errorType f \<noteq> ''all''"
  shows "set (error_type_options (visibleDeadLetters f d)) \<subseteq> {''all'', df_errorType f}"
  using assms by (auto simp: error_type_options_def visibleDeadLetters_def)

text \<open>Without a choice, every error type of the queue and search is offered, once.\<close>

lemma all_error_types_offered:
  assumes "df_errorType f = ''all''" and "x \<in> set (visibleDeadLetters f d)" and "error_type_text x \<noteq> []"
  shows "error_type_text x \<in> set (error_type_options (visibleDeadLetters f d))"
  using assms by (auto simp: error_type_options_def)

text \<open>The pulse of a worker card and the pulse of the hero disagree between 10 and 15 seconds.\<close>

lemma pulses_disagree:
  "hero_pulse w \<noteq> worker_pulse w \<longleftrightarrow> 10000 \<le> wl_heartbeatAgeMs w \<and> wl_heartbeatAgeMs w \<le> 15000"
  by (auto simp: hero_pulse_def worker_pulse_def)

lemma worker_view_heartbeat [simp]: "wl_heartbeatAgeMs (worker_view d w) = wl_heartbeatAgeMs w"
  by (simp add: worker_view_def Let_def WorkerLeaseHealth.defs WorkerView.defs)

lemma stale_count_views: "stale_count (cd_snapshot d) = staleWorkers (workerViews d)"
  by (simp add: stale_count_def staleWorkers_def workerViews_def filter_map o_def)

end
