(* ===== verification/Markup.thy ===== *)
theory Markup
  imports OpsSections ToastQueue
begin

text \<open>
  What the components render: elements with their text and with what the operator can do to them,
  and the shared components of \<open>src/src/components/ConsolePrimitives.tsx\<close>, \<open>AnimatedNumber.tsx\<close>,
  \<open>TrendChart.tsx\<close>, \<open>LoadingSkeleton.tsx\<close> and \<open>ToastViewport.tsx\<close>. A component is a function of its props; a prop
  that is a callback yields the event that its call stands for. Attributes that neither show a text nor
  change what can be done (aria, autofill guards, keys, animations, sizes of inputs) are left out.
\<close>

section \<open>Elements and events\<close>

text \<open>
  \<open>El\<close> is an element with its tag and class; a drawn part (bar, path, point) has, in place of a class, the data that
  it is drawn from. \<open>Press\<close> is an element with \<open>onClick\<close> (tag, class, \<open>disabled\<close>), \<open>Submit\<close> the submit button of a form, \<open>FormEl\<close>
  a form with \<open>onSubmit\<close>, \<open>Entry\<close> a text field (its type and value), \<open>Choice\<close> a \<open>select\<close> with its options (value and
  label), \<open>Check\<close> a check box.
\<close>

datatype 'e html =
    Txt string
  | El string string "'e html list"
  | Press string string bool 'e "'e html list"
  | Submit bool "'e html list"
  | FormEl string 'e "'e html list"
  | Entry string string "string \<Rightarrow> 'e"
  | Choice string "(string \<times> string) list" "string \<Rightarrow> 'e"
  | Check bool "bool \<Rightarrow> 'e"

text \<open>A form can be submitted when one of its submit buttons is enabled.\<close>

primrec can_submit :: "'e html \<Rightarrow> bool" where
  "can_submit (Txt s) = False"
| "can_submit (El t c ks) = list_ex id (map can_submit ks)"
| "can_submit (Press t c d e ks) = list_ex id (map can_submit ks)"
| "can_submit (Submit d ks) = (\<not> d)"
| "can_submit (FormEl c e ks) = list_ex id (map can_submit ks)"
| "can_submit (Entry k v f) = False"
| "can_submit (Choice v os f) = False"
| "can_submit (Check b f) = False"

text \<open>
  The events that the operator can cause: a click on what is enabled, any text in a field, one of the options of a
  \<open>select\<close>, the other state of a check box.
\<close>

primrec events :: "'e html \<Rightarrow> 'e set" where
  "events (Txt s) = {}"
| "events (El t c ks) = \<Union> (set (map events ks))"
| "events (Press t c d e ks) = (if d then {} else {e}) \<union> \<Union> (set (map events ks))"
| "events (Submit d ks) = \<Union> (set (map events ks))"
| "events (FormEl c e ks) = (if list_ex id (map can_submit ks) then {e} else {}) \<union> \<Union> (set (map events ks))"
| "events (Entry k v f) = range f"
| "events (Choice v os f) = f ` fst ` set os"
| "events (Check b f) = {f (\<not> b)}"

definition all_events :: "'e html list \<Rightarrow> 'e set" where
  "all_events ks = \<Union> (set (map events ks))"

text \<open>What is written on an element.\<close>

primrec text_of :: "'e html \<Rightarrow> string" where
  "text_of (Txt s) = s"
| "text_of (El t c ks) = concat (map text_of ks)"
| "text_of (Press t c d e ks) = concat (map text_of ks)"
| "text_of (Submit d ks) = concat (map text_of ks)"
| "text_of (FormEl c e ks) = concat (map text_of ks)"
| "text_of (Entry k v f) = []"
| "text_of (Choice v os f) = []"
| "text_of (Check b f) = []"

lemma all_events_simps [simp]:
  "all_events [] = {}" "all_events (k # ks) = events k \<union> all_events ks"
  "all_events (ks @ ls) = all_events ks \<union> all_events ls" "all_events (map g xs) = (\<Union>x \<in> set xs. events (g x))"
  "all_events (if b then ks else ls) = (if b then all_events ks else all_events ls)"
  by (auto simp: all_events_def)

lemma events_elements [simp]:
  "events (El t c ks) = all_events ks" "events (Press t c d e ks) = (if d then {} else {e}) \<union> all_events ks"
  "events (Submit d ks) = all_events ks"
  "events (FormEl c e ks) = (if list_ex can_submit ks then {e} else {}) \<union> all_events ks"
  by (simp_all add: all_events_def list_ex_iff)

declare events.simps(2-5) [simp del]

lemma can_submit_elements [simp]:
  "can_submit (El t c ks) = list_ex can_submit ks" "can_submit (Press t c d e ks) = list_ex can_submit ks"
  "can_submit (FormEl c e ks) = list_ex can_submit ks"
  by (simp_all add: list_ex_iff)

declare can_submit.simps(2,3,5) [simp del]

text \<open>Abbreviations for the tags that the components use, with or without a class.\<close>

abbreviation hDiv :: "string \<Rightarrow> 'e html list \<Rightarrow> 'e html" where "hDiv \<equiv> El ''div''"
abbreviation hSection :: "string \<Rightarrow> 'e html list \<Rightarrow> 'e html" where "hSection \<equiv> El ''section''"
abbreviation hArticle :: "string \<Rightarrow> 'e html list \<Rightarrow> 'e html" where "hArticle \<equiv> El ''article''"
abbreviation hHeader :: "string \<Rightarrow> 'e html list \<Rightarrow> 'e html" where "hHeader \<equiv> El ''header''"
abbreviation hSpan :: "string \<Rightarrow> string \<Rightarrow> 'e html" where "hSpan c s \<equiv> El ''span'' c [Txt s]"
abbreviation hStrong :: "string \<Rightarrow> 'e html" where "hStrong s \<equiv> El ''strong'' [] [Txt s]"
abbreviation hSmall :: "string \<Rightarrow> 'e html" where "hSmall s \<equiv> El ''small'' [] [Txt s]"
abbreviation hPara :: "string \<Rightarrow> string \<Rightarrow> 'e html" where "hPara c s \<equiv> El ''p'' c [Txt s]"
abbreviation hLabel :: "string \<Rightarrow> 'e html list \<Rightarrow> 'e html" where "hLabel s ks \<equiv> El ''label'' [] (hSpan [] s # ks)"
abbreviation hButton :: "string \<Rightarrow> bool \<Rightarrow> 'e \<Rightarrow> string \<Rightarrow> 'e html" where
  "hButton c disabled e s \<equiv> Press ''button'' c disabled e [Txt s]"

text \<open>\<open>{text ? <p className=...>{text}</p> : null}\<close>\<close>

definition shown_text :: "string \<Rightarrow> (string \<Rightarrow> 'e html) \<Rightarrow> 'e html list" where
  "shown_text s f = (if s \<noteq> [] then [f s] else [])"

text \<open>The options of a \<open>select\<close> over a list, each with itself as its label.\<close>

definition same_options :: "string list \<Rightarrow> (string \<times> string) list" where
  "same_options xs = map (\<lambda>x. (x, x)) xs"

lemma same_options_values [simp]: "fst ` set (same_options xs) = set xs"
  by (simp add: same_options_def image_image)

text \<open>The browser's dates, locale and clock while a page is rendered.\<close>

record ui =
  ui_dates :: date_api
  ui_locale :: locale_api
  ui_now :: int

abbreviation ago :: "ui \<Rightarrow> string \<Rightarrow> string" where
  "ago E s \<equiv> formatRelative (ui_dates E) (ui_now E) (Some s)"

abbreviation date_text :: "ui \<Rightarrow> string \<Rightarrow> string" where
  "date_text E s \<equiv> formatDateTime (ui_dates E) (ui_locale E) (Some s)"

section \<open>ConsolePrimitives\<close>

fun status_tone_string :: "StatusTone \<Rightarrow> string" where
  "status_tone_string (Tone_of t) = tone_string t"
| "status_tone_string Tone_neutral = ''neutral''"

definition StatusPill :: "bool \<Rightarrow> string \<Rightarrow> 'e html" where
  "StatusPill pulse value =
     El ''span'' (''status-pill tone-'' @ status_tone_string (statusTone (Some value)) @ '' '' @ (if pulse then ''is-live'' else []))
       ((if pulse then [El ''span'' ''status-pill-signal'' []] else []) @ [hSpan ''status-pill-copy'' value])"

definition SectionHeader :: "string \<Rightarrow> string \<Rightarrow> string \<Rightarrow> 'e html list \<Rightarrow> 'e html" where
  "SectionHeader eyebrow title detail action =
     hDiv ''section-header''
       (hDiv ''section-heading''
          (shown_text eyebrow (hPara ''section-eyebrow'') @ [El ''h2'' [] [Txt title]] @ shown_text detail (hPara []))
        # (if action \<noteq> [] then [hDiv ''section-actions'' action] else []))"

definition EmptyState :: "string \<Rightarrow> string \<Rightarrow> 'e html" where
  "EmptyState title message =
     hDiv ''empty-state''
       [hDiv ''empty-orbit'' [El ''span'' [] [], El ''span'' [] [], El ''span'' [] []],
        hDiv ''empty-copy'' [hStrong title, hPara [] message]]"

definition InlineFieldError :: "string option \<Rightarrow> 'e html list" where
  "InlineFieldError message = shown_text (or_str_opt message []) (\<lambda>m. El ''small'' ''inline-error'' [Txt m])"

definition ProgressBar :: "rat \<Rightarrow> string \<Rightarrow> 'e html" where
  "ProgressBar value label =
     hDiv ''progress-row''
       [hSpan [] label, hDiv ''progress-track'' [El ''span'' (number_to_string (fst (progress_bar value))) []], hStrong (snd (progress_bar value))]"

definition HeartbeatPulse :: "bool \<Rightarrow> 'e html" where
  "HeartbeatPulse healthy = El ''span'' (''heartbeat-pulse '' @ (if healthy then ''healthy'' else ''stale'')) []"

text \<open>\<open>AnimatedNumber\<close> at rest shows the formatted value.\<close>

definition AnimatedNumber :: "ui \<Rightarrow> string \<Rightarrow> (rat \<Rightarrow> string) option \<Rightarrow> rat \<Rightarrow> 'e html" where
  "AnimatedNumber E className formatter value =
     hSpan className (formatValue (ui_locale E) formatter (shown_number (Fin value)))"

text \<open>The props of \<open>MetricTile\<close> and \<open>TrendChart\<close> as the sections use them, always with a \<open>numericValue\<close>.\<close>

record Tile =
  tl_className :: string
  tl_label :: string
  tl_numericValue :: rat
  tl_valueFormatter :: "(rat \<Rightarrow> string) option"
  tl_detail :: string
  tl_tone :: string
  tl_size :: string

definition plain_tile :: "string \<Rightarrow> rat \<Rightarrow> Tile" where
  "plain_tile label value =
     \<lparr> tl_className = [], tl_label = label, tl_numericValue = value, tl_valueFormatter = None, tl_detail = [],
       tl_tone = ''neutral'', tl_size = ''standard'' \<rparr>"

definition MetricTile :: "ui \<Rightarrow> Tile \<Rightarrow> 'e html" where
  "MetricTile E t =
     hArticle (js_join '' '' (filter (\<lambda>s. s \<noteq> [])
         [''metric-tile'', ''tone-'' @ tl_tone t, ''size-'' @ tl_size t, tl_className t]))
       ([hSpan [] (tl_label t),
         El ''strong'' [] [AnimatedNumber E ''metric-value'' (tl_valueFormatter t) (tl_numericValue t)]] @
        shown_text (tl_detail t) hSmall)"

definition DetailPair :: "string \<times> string \<Rightarrow> 'e html" where
  "DetailPair p = hDiv ''detail-pair'' [hSpan [] (fst p), hStrong (snd p)]"

section \<open>TrendChart\<close>

record Chart =
  ch_title :: string
  ch_numericValue :: rat
  ch_valueFormatter :: "(rat \<Rightarrow> string) option"
  ch_series :: "MetricsPoint list"
  ch_tone :: string
  ch_detail :: string

text \<open>The paths and the last point stand with the data they are drawn from.\<close>

definition TrendChart :: "ui \<Rightarrow> Chart \<Rightarrow> 'e html" where
  "TrendChart E c =
     hArticle (''surface trend-card trend-card-'' @ ch_tone c)
       [hHeader []
          (hDiv [] [hSpan ''chart-kicker'' (ch_title c),
                    El ''strong'' [] [AnimatedNumber E [] (ch_valueFormatter c) (ch_numericValue c)]]
           # shown_text (ch_detail c) hSmall),
        if ch_series c = [] then hDiv ''chart-empty'' [Txt ''Collecting live samples'']
        else El ''svg'' ''trend-svg''
          ([El ''path'' (cp_areaPath (buildPaths (ch_series c))) [], El ''path'' (cp_linePath (buildPaths (ch_series c))) []] @
           (case cp_lastPoint (buildPaths (ch_series c)) of
              None \<Rightarrow> []
            | Some p \<Rightarrow> [El ''circle'' (number_to_string (pt_x p) @ '' '' @ number_to_string (pt_y p)) []]))]"

section \<open>LoadingSkeleton and ToastViewport\<close>

definition LoadingSkeleton :: "'e html" where
  "LoadingSkeleton =
     hSection ''surface skeleton-panel''
       [SectionHeader [] ''Preparing console'' ''Hydrating the latest snapshot and live transport state.'' [],
        hDiv ''skeleton-grid'' (map (\<lambda>index. hDiv ''skeleton-block'' []) [0 ..< 4])]"

definition toast_article :: "(string \<Rightarrow> 'e) \<Rightarrow> Toast \<Rightarrow> 'e html" where
  "toast_article onDismiss item =
     hArticle (''toast tone-'' @ tone_string (toast_tone item))
       [hDiv [] (hStrong (toast_title item) # shown_text (or_str_opt (toast_description item) []) (hPara [])),
        hButton ''ghost icon-button'' False (onDismiss (toast_id item)) ''x'']"

definition ToastViewport :: "Toast list \<Rightarrow> (string \<Rightarrow> 'e) \<Rightarrow> 'e html" where
  "ToastViewport items onDismiss = hDiv ''toast-viewport'' (map (toast_article onDismiss) items)"

section \<open>The shared components offer nothing to do\<close>

lemma shown_text_events [simp]: "events (f s) = {} \<Longrightarrow> all_events (shown_text s f) = {}"
  by (simp add: shown_text_def)

lemma shown_text_submit [simp]: "list_ex can_submit (shown_text s f) \<longleftrightarrow> s \<noteq> [] \<and> can_submit (f s)"
  by (simp add: shown_text_def)

named_theorems inert "components without events"

lemma primitives_inert [inert]:
  "events (StatusPill pulse value) = {}" "events (EmptyState title message) = {}" "all_events (InlineFieldError m) = {}"
  "events (ProgressBar v label) = {}" "events (HeartbeatPulse b) = {}" "events (AnimatedNumber E c f v) = {}"
  "events (DetailPair p) = {}" "events (LoadingSkeleton) = {}"
  "events (SectionHeader eyebrow title detail action) = all_events action"
  by (simp_all add: StatusPill_def EmptyState_def InlineFieldError_def ProgressBar_def HeartbeatPulse_def
      AnimatedNumber_def DetailPair_def LoadingSkeleton_def SectionHeader_def)

lemma charts_inert [inert]: "events (MetricTile E t) = {}" "events (TrendChart E c) = {}"
  by (simp_all add: MetricTile_def TrendChart_def primitives_inert split: option.split)

lemma inline_error_submit [simp]: "list_ex can_submit (InlineFieldError m) = False"
  by (simp add: InlineFieldError_def)

text \<open>A toast offers exactly its own dismissal.\<close>

lemma toast_viewport_events: "events (ToastViewport items onDismiss) = (\<lambda>t. onDismiss (toast_id t)) ` set items"
  by (auto simp: ToastViewport_def toast_article_def)

end
