(* ===== verification/SectionMarkup.thy ===== *)
theory SectionMarkup
  imports Markup
begin

text \<open>
  The sections of the console as elements, \<open>src/src/components/*Section.tsx\<close> and \<open>SideRail.tsx\<close>: what each
  shows and, for each, exactly which events the operator can cause.
\<close>

section \<open>Queue controls\<close>

definition queue_buttons :: "string \<Rightarrow> bool \<Rightarrow> (string \<Rightarrow> QueueAction \<Rightarrow> 'e) \<Rightarrow> string \<Rightarrow> 'e html list" where
  "queue_buttons suffix enabled onQueueControl queueName =
     [hButton ''ghost'' (\<not> enabled) (onQueueControl queueName QA_pause) (''Pause'' @ suffix),
      hButton ''ghost'' (\<not> enabled) (onQueueControl queueName QA_resume) (''Resume'' @ suffix),
      hButton [] (\<not> enabled) (onQueueControl queueName QA_drain) (''Drain'' @ suffix)]"

definition queue_events :: "bool \<Rightarrow> (string \<Rightarrow> QueueAction \<Rightarrow> 'e) \<Rightarrow> string set \<Rightarrow> 'e set" where
  "queue_events enabled onQueueControl names = (if enabled then (\<Union>n \<in> names. range (onQueueControl n)) else {})"

lemma range_queue_action: "range (f :: QueueAction \<Rightarrow> 'e) = {f QA_pause, f QA_resume, f QA_drain}"
proof -
  have "UNIV = {QA_pause, QA_resume, QA_drain}" using QueueAction.exhaust by blast
  then show ?thesis by (metis image_empty image_insert)
qed

lemma queue_buttons_events [simp]:
  "all_events (queue_buttons suffix enabled f n) = queue_events enabled f {n}"
  by (auto simp: queue_buttons_def queue_events_def range_queue_action)

section \<open>Overview\<close>

definition overview_charts :: "DashboardSnapshot \<Rightarrow> Chart list" where
  "overview_charts sn =
     (let m = sn_metrics sn; tr = sn_trend sn
      in [\<lparr> ch_title = ''Throughput'', ch_numericValue = mt_jobsPerSecond m, ch_valueFormatter = Some (\<lambda>v. formatRate v ''/s''),
            ch_series = tr_throughput tr, ch_tone = ''cyan'', ch_detail = ''p95 exec '' @ formatLatency (p95Ms (mt_executionLatency m)) \<rparr>,
          \<lparr> ch_title = ''Queue delay'', ch_numericValue = p95Ms (mt_queueLatency m), ch_valueFormatter = Some formatLatency,
            ch_series = tr_queueLatencyP95Ms tr, ch_tone = ''amber'', ch_detail = ''p99 '' @ formatLatency (p99Ms (mt_queueLatency m)) \<rparr>,
          \<lparr> ch_title = ''DLQ drift'', ch_numericValue = mt_deadLetterRate m, ch_valueFormatter = Some (\<lambda>v. formatRate v ''/s''),
            ch_series = tr_deadLetterRate tr, ch_tone = ''rose'', ch_detail = num_text (length (sn_deadLetters sn)) @ '' jobs in DLQ'' \<rparr>])"

definition overview_tiles :: "DashboardSnapshot \<Rightarrow> Tile list" where
  "overview_tiles sn =
     (let ov = sn_overview sn; m = sn_metrics sn; queued = queuedWork sn; stale = stale_count sn;
          storm = mt_retryRate m > 15 / 10
      in [(plain_tile ''Queued work'' queued)
            \<lparr> tl_className := ''overview-signal-lead'', tl_size := ''feature'', tl_tone := (if queued > 0 then ''cyan'' else ''emerald''),
              tl_detail := number_to_string (ov_activeJobs ov) @ '' active / '' @ number_to_string (ov_delayedBacklog ov) @ '' delayed'' \<rparr>,
          (plain_tile ''Retry pressure'' (mt_retryRate m))
            \<lparr> tl_detail := (if storm then ''elevated'' else ''stable''), tl_tone := (if storm then ''amber'' else ''emerald''),
              tl_valueFormatter := Some (\<lambda>v. formatRate v ''/s'') \<rparr>,
          (plain_tile ''Exec p95'' (p95Ms (mt_executionLatency m)))
            \<lparr> tl_detail := ''queue '' @ formatLatency (p95Ms (mt_queueLatency m)), tl_tone := ''amber'',
              tl_valueFormatter := Some formatLatency \<rparr>,
          (plain_tile ''Heartbeat age'' (mt_maxWorkerHeartbeatAgeMs m))
            \<lparr> tl_detail := (if stale > 0 then num_text stale @ '' workers drifted'' else ''heartbeat drift is quiet''),
              tl_tone := (if stale > 0 then ''rose'' else ''emerald''), tl_valueFormatter := Some formatLatency \<rparr>])"

definition overview_performance :: "ui \<Rightarrow> DashboardSnapshot \<Rightarrow> 'e html" where
  "overview_performance E sn =
     hSection ''surface overview-performance-panel''
       [SectionHeader ''Overview'' ''Platform signals'' ''The operating picture that matters first.''
          [hSmall (''Last refresh '' @ ago E (ov_lastUpdatedAt (sn_overview sn)))],
        hDiv ''chart-grid overview-chart-grid'' (map (TrendChart E) (overview_charts sn)),
        hDiv ''metric-strip overview-metric-strip overview-signal-strip'' (map (MetricTile E) (overview_tiles sn))]"

definition queue_tiles :: "string \<Rightarrow> string \<Rightarrow> QueueView \<Rightarrow> Tile list" where
  "queue_tiles dead size' q =
     map (\<lambda>(label, value). (plain_tile label value)\<lparr> tl_size := size' \<rparr>)
       [(''Backlog'', qv_backlog q), (''Active'', qv_activeJobs q), (''Blocked'', qv_blocked q), (dead, qv_deadLetters q)]"

definition overview_queue_row :: "ui \<Rightarrow> bool \<Rightarrow> (string \<Rightarrow> QueueAction \<Rightarrow> 'e) \<Rightarrow> QueueView \<Rightarrow> 'e html" where
  "overview_queue_row E enabled onQueueControl q =
     hArticle ''queue-ops-row''
       [hHeader ''queue-ops-head''
          [hDiv [] [hStrong (qv_queueName q), hSmall (fst (overview_queue_status q))],
           StatusPill False (snd (overview_queue_status q))],
        hDiv ''queue-ops-metrics'' (map (MetricTile E) (queue_tiles ''Dead'' ''compact'' q)),
        ProgressBar (qv_saturation q) ''saturation'',
        hDiv ''button-row queue-ops-actions'' (queue_buttons [] enabled onQueueControl (qv_queueName q))]"

definition signal_row :: "string \<times> string \<times> string \<times> string \<Rightarrow> 'e html" where
  "signal_row r =
     (case r of (title, detail, status, note) \<Rightarrow>
        hArticle ''signal-row''
          [hDiv [] [hStrong title, hPara [] detail], hDiv ''row-end'' [StatusPill False status, hSmall note]])"

definition activity_row :: "ui \<Rightarrow> SystemEvent \<Rightarrow> 'e html" where
  "activity_row E item =
     hArticle ''activity-row''
       [El ''span'' ''activity-row-dot'' [],
        hDiv ''activity-row-copy''
          [hHeader [] [hStrong (ev_kind item), hSpan [] (date_text E (ev_timestamp item))], hPara [] (overview_event_text item)]]"

definition blocked_button :: "(string \<Rightarrow> 'e) \<Rightarrow> Job \<Rightarrow> 'e html" where
  "blocked_button onSelectJob job =
     (case blocked_row job of (title, reason, status, workflow) \<Rightarrow>
        Press ''button'' ''list-row interactive-row'' False (onSelectJob (job_id job))
          [hDiv [] [hStrong title, hPara [] reason], hDiv ''row-end'' [StatusPill False status, hSmall workflow]])"

definition OverviewSection ::
    "ui \<Rightarrow> DashboardSnapshot \<Rightarrow> QueueView list \<Rightarrow> SystemEvent list \<Rightarrow> Job list \<Rightarrow> bool \<Rightarrow> bool \<Rightarrow> string \<Rightarrow>
      (string \<Rightarrow> QueueAction \<Rightarrow> 'e) \<Rightarrow> (string \<Rightarrow> 'e) \<Rightarrow> 'e html list" where
  "OverviewSection E snapshot queues shown blocked healthy enabled hint onQueueControl onSelectJob =
     [overview_performance E snapshot,
      hSection ''overview-operations-grid''
        [hArticle ''surface overview-queue-panel''
           (SectionHeader ''Operations'' ''Queue posture'' ''The queues carrying the most operational weight.'' []
            # shown_text hint (hPara ''capability-note'')
            @ [hDiv ''queue-ops-table'' (map (overview_queue_row E enabled onQueueControl) queues)]),
         hDiv ''overview-side-stack''
           [hArticle ''surface overview-coordination-panel''
              [SectionHeader ''Coordination'' ''Control plane'' ''Leader lease, heartbeat drift, and recovery signals.'' [],
               hDiv ''signal-list''
                 (map signal_row (coordination_rows (ui_dates E) (ui_now E) healthy snapshot shown))],
            hArticle ''surface overview-activity-panel''
              [SectionHeader ''Activity'' ''Recent activity'' ''Only the newest transitions that change operator context.'' [],
               hDiv ''activity-timeline'' (map (activity_row E) (take 6 shown))]]],
      hSection ''surface overview-blocked-panel''
        [SectionHeader ''Workflows'' ''Blocked work'' ''Dependencies waiting on upstream completion.'' [],
         if blocked = [] then EmptyState ''Dependency graph clear'' ''No blocked jobs are waiting on upstream work.''
         else hDiv ''stack-list'' (map (blocked_button onSelectJob) blocked)]]"

lemma queue_row_events [simp]:
  "events (overview_queue_row E enabled f q) = queue_events enabled f {qv_queueName q}"
  by (simp add: overview_queue_row_def inert)

lemma rows_inert [inert]: "events (signal_row r) = {}" "events (activity_row E item) = {}" "events (overview_performance E sn) = {}"
  by (simp_all add: signal_row_def activity_row_def overview_performance_def primitives_inert charts_inert split: prod.split)

lemma queue_events_Union [simp]: "(\<Union>q \<in> Q. queue_events enabled f {g q}) = queue_events enabled f (g ` Q)"
  by (simp add: queue_events_def)

lemma overview_events:
  "all_events (OverviewSection E sn qs evs blocked healthy enabled hint onQueueControl onSelectJob) =
     queue_events enabled onQueueControl (qv_queueName ` set qs) \<union> (\<lambda>j. onSelectJob (job_id j)) ` set blocked"
proof -
  have "events (blocked_button onSelectJob j) = {onSelectJob (job_id j)}" for j
    by (simp add: blocked_button_def inert split: prod.split)
  then show ?thesis by (auto simp: OverviewSection_def inert)
qed

section \<open>Queues\<close>

definition policy_article :: "RateLimitStatus \<Rightarrow> 'e html" where
  "policy_article policy =
     (case policy_row policy of (name, mode, status, jobs) \<Rightarrow>
        hArticle ''list-row''
          [hDiv [] [hStrong name, hPara [] mode], hDiv ''row-end'' [StatusPill False status, hSmall jobs]])"

definition queue_card :: "ui \<Rightarrow> bool \<Rightarrow> (string \<Rightarrow> QueueAction \<Rightarrow> 'e) \<Rightarrow> QueueView \<Rightarrow> 'e html" where
  "queue_card E enabled onQueueControl q =
     hArticle ''queue-card queue-card-large''
       [hHeader []
          [hDiv [] [hStrong (qv_queueName q), hSmall (fst (queues_section_status q))],
           StatusPill False (snd (queues_section_status q))],
        hDiv ''metric-strip compact'' (map (MetricTile E) (queue_tiles ''Dead letter'' ''standard'' q)),
        ProgressBar (qv_saturation q) ''live saturation'',
        hDiv ''stack-list dense''
          (if qv_policies q = [] then [hPara ''muted-copy'' ''No queue-specific policies. Global limits still apply.'']
           else map policy_article (qv_policies q)),
        hDiv ''button-row'' (queue_buttons '' queue'' enabled onQueueControl (qv_queueName q))]"

definition QueuesSection ::
    "ui \<Rightarrow> QueueView list \<Rightarrow> bool \<Rightarrow> string \<Rightarrow> (string \<Rightarrow> QueueAction \<Rightarrow> 'e) \<Rightarrow> 'e html list" where
  "QueuesSection E queues enabled hint onQueueControl =
     [hSection ''surface''
        (SectionHeader [] ''Queues'' ''Backlog, saturation, policy pressure, and operator controls.'' []
         # shown_text hint (hPara ''capability-note'')
         @ [hDiv ''queue-grid'' (map (queue_card E enabled onQueueControl) queues)])]"

lemma policy_inert [inert]: "events (policy_article p) = {}"
  by (simp add: policy_article_def primitives_inert split: prod.split)

lemma queues_events:
  "all_events (QueuesSection E qs enabled hint f) = queue_events enabled f (qv_queueName ` set qs)"
  by (simp add: QueuesSection_def queue_card_def inert cong: if_cong)

section \<open>Jobs\<close>

text \<open>A labelled control of a form, with its inline error.\<close>

definition form_field :: "string \<Rightarrow> string \<Rightarrow> 'e html \<Rightarrow> string option \<Rightarrow> 'e html" where
  "form_field className label control message =
     El ''label'' className (hSpan [] label # control # InlineFieldError message)"

lemma form_field_events [simp]: "events (form_field k l c m) = events c" "can_submit (form_field k l c m) = can_submit c"
  by (simp_all add: form_field_def inert)

text \<open>The fields of the job form: label, type and value of the control, and the field they edit.\<close>

definition job_entry :: "JobDraft \<Rightarrow> errors \<Rightarrow> (JobField \<Rightarrow> string \<Rightarrow> 'e) \<Rightarrow> string \<times> string \<times> (JobDraft \<Rightarrow> string) \<times> JobField \<Rightarrow> 'e html" where
  "job_entry d errors onChange r =
     (case r of (label, kind, value, field) \<Rightarrow>
        form_field [] label (Entry kind (value d) (onChange field)) (obj_get errors (job_field_name field)))"

text \<open>Only type, tenant, priority, schedule and payload have an inline error.\<close>

definition no_errors :: errors where "no_errors = []"

definition job_form_fields :: "JobDraft \<Rightarrow> errors \<Rightarrow> (JobField \<Rightarrow> string \<Rightarrow> 'e) \<Rightarrow> 'e html list" where
  "job_form_fields d errors onChange =
     [form_field [] ''Type'' (Choice (jd_type d) (same_options JOB_TYPES) (onChange JF_type)) (obj_get errors ''type''),
      form_field [] ''Queue'' (Choice (jd_queue d) (same_options QUEUES) (onChange JF_queue)) None,
      job_entry d errors onChange (''Tenant'', ''text'', jd_tenantId, JF_tenantId),
      job_entry d errors onChange (''Priority'', ''number'', jd_priority, JF_priority),
      job_entry d no_errors onChange (''Max attempts'', ''number'', jd_maxAttempts, JF_maxAttempts),
      job_entry d no_errors onChange (''Timeout seconds'', ''number'', jd_timeoutSeconds, JF_timeoutSeconds),
      job_entry d no_errors onChange (''Delay seconds'', ''number'', jd_delaySeconds, JF_delaySeconds),
      job_entry d errors onChange (''Scheduled at'', ''datetime-local'', jd_scheduledAt, JF_scheduledAt),
      job_entry d no_errors onChange (''Workflow ID'', ''text'', jd_workflowId, JF_workflowId),
      job_entry d no_errors onChange (''Dependencies'', ''text'', jd_dependencies, JF_dependencies),
      job_entry d no_errors onChange (''Idempotency key'', ''text'', jd_idempotencyKey, JF_idempotencyKey),
      job_entry d no_errors onChange (''Dedupe window seconds'', ''number'', jd_dedupeWindowSeconds, JF_dedupeWindowSeconds),
      form_field ''full-span'' ''Payload'' (Entry ''textarea'' (jd_payload d) (onChange JF_payload)) (obj_get errors ''payload'')]"

definition job_form :: "JobDraft \<Rightarrow> errors \<Rightarrow> JobsBusy \<Rightarrow> 'e \<Rightarrow> (JobField \<Rightarrow> string \<Rightarrow> 'e) \<Rightarrow> 'e \<Rightarrow> 'e html" where
  "job_form d errors busy onSubmit onChange onSeedWorkflow =
     hSection ''surface''
       [SectionHeader [] ''New job'' ''Queue a one-off job with schedule, dedupe, and dependency controls.'' [],
        FormEl ''form-grid'' onSubmit
          (job_form_fields d errors onChange @
           [hDiv ''button-row full-span''
              [Submit (jb_submit busy) [Txt ''Submit Job''],
               hButton ''ghost'' (jb_seed busy) onSeedWorkflow ''Seed Demo Workflow'']])]"

definition no_job_patch :: JobFiltersPatch where
  "no_job_patch = \<lparr> jp_state = None, jp_queue = None, jp_sort = None, jp_tenant = None \<rparr>"

definition sort_options :: "(string \<times> string) list" where
  "sort_options = [(''updated'', ''last updated''), (''created'', ''created''), (''priority'', ''priority''), (''latency'', ''latency'')]"

definition job_toolbar :: "JobFilters \<Rightarrow> (JobFiltersPatch \<Rightarrow> 'e) \<Rightarrow> 'e html" where
  "job_toolbar f onChange =
     hDiv ''toolbar''
       [hLabel ''State'' [Choice (jf_state f) (same_options state_options) (\<lambda>v. onChange (no_job_patch\<lparr> jp_state := Some v \<rparr>))],
        hLabel ''Queue'' [Choice (jf_queue f) (same_options (''all'' # QUEUES)) (\<lambda>v. onChange (no_job_patch\<lparr> jp_queue := Some v \<rparr>))],
        hLabel ''Tenant'' [Entry ''text'' (jf_tenant f) (\<lambda>v. onChange (no_job_patch\<lparr> jp_tenant := Some v \<rparr>))],
        hLabel ''Sort'' [Choice (jf_sort f) sort_options (\<lambda>v. onChange (no_job_patch\<lparr> jp_sort := Some v \<rparr>))]]"

text \<open>The callbacks of a row of the table.\<close>

record 'e JobActions =
  on_select :: "string \<Rightarrow> 'e"
  on_retry :: "string \<Rightarrow> 'e"
  on_cancel :: "string \<Rightarrow> 'e"
  on_priority :: "string \<Rightarrow> rat \<Rightarrow> 'e"

definition job_table_row :: "ui \<Rightarrow> JobsBusy \<Rightarrow> bool \<Rightarrow> 'e JobActions \<Rightarrow> Job \<Rightarrow> 'e html" where
  "job_table_row E busy priorityEnabled on job =
     (let r = job_row (ui_dates E) (ui_now E) job; td = El ''td'' []
      in El ''tr'' []
        [td [Press ''button'' ''table-link'' False (on_select on (job_id job))
               ([hStrong (jr_type r), hSmall (jr_place r)] @ (case jr_idempotency r of None \<Rightarrow> [] | Some s \<Rightarrow> [hSmall s]))],
         td [StatusPill False (jr_state r), hSmall (jr_workflow r)],
         td [hStrong (jr_attempts r), hSmall (jr_execution r)],
         td [hStrong (jr_lease r), hSmall (jr_health r)],
         td [hDiv ''table-actions''
               [hButton ''ghost'' (jb_retry busy (job_id job)) (on_retry on (job_id job)) ''Retry'',
                hButton ''ghost'' (jb_cancel busy (job_id job)) (on_cancel on (job_id job)) ''Cancel'',
                hButton ''ghost'' (\<not> priorityEnabled) (on_priority on (job_id job) 1) ''Priority +'']]])"

definition job_list :: "ui \<Rightarrow> Job list \<Rightarrow> JobFilters \<Rightarrow> JobsBusy \<Rightarrow> bool \<Rightarrow> string \<Rightarrow> (JobFiltersPatch \<Rightarrow> 'e) \<Rightarrow> 'e JobActions \<Rightarrow> 'e html" where
  "job_list E shown filters busy priorityEnabled hint onFilters on =
     hSection ''surface''
       (SectionHeader [] ''Recent jobs'' ''Sortable execution history with inline recovery actions.''
          [hSmall (num_text (length shown) @ '' in view'')]
        # shown_text hint (hPara ''capability-note'')
        @ [job_toolbar filters onFilters,
           if shown = [] then EmptyState ''No jobs in view'' ''Relax the filters or queue fresh work.''
           else hDiv ''table-shell''
             [El ''table'' []
                [El ''thead'' [] [El ''tr'' [] (map (\<lambda>h. El ''th'' [] [Txt h])
                   [''Job'', ''Status'', ''Attempts'', ''Lease / throttling'', ''Actions''])],
                 El ''tbody'' [] (map (job_table_row E busy priorityEnabled on) shown)]]])"

definition JobsSection ::
    "ui \<Rightarrow> Job list \<Rightarrow> JobDraft \<Rightarrow> JobFilters \<Rightarrow> errors \<Rightarrow> JobsBusy \<Rightarrow> bool \<Rightarrow> string \<Rightarrow> 'e \<Rightarrow> (JobField \<Rightarrow> string \<Rightarrow> 'e) \<Rightarrow>
      (JobFiltersPatch \<Rightarrow> 'e) \<Rightarrow> 'e \<Rightarrow> 'e JobActions \<Rightarrow> 'e html list" where
  "JobsSection E shown draft filters errors busy priorityEnabled hint onSubmit onDraft onFilters onSeedWorkflow on =
     [job_form draft errors busy onSubmit onDraft onSeedWorkflow,
      job_list E shown filters busy priorityEnabled hint onFilters on]"

text \<open>What the form and a row of the table offer.\<close>

lemma job_fields_submit [simp]: "list_ex can_submit (job_form_fields d errors f) = False"
  by (simp add: job_form_fields_def job_entry_def)

lemma job_fields_events: "all_events (job_form_fields d errors f) \<subseteq> (\<Union>field. range (f field))"
  by (auto simp: job_form_fields_def job_entry_def)

lemma job_form_events:
  "events (job_form d errors busy onSubmit f onSeed) =
     (if jb_submit busy then {} else {onSubmit}) \<union> (if jb_seed busy then {} else {onSeed}) \<union> all_events (job_form_fields d errors f)"
  by (auto simp: job_form_def inert)

lemma job_row_events:
  "events (job_table_row E busy priorityEnabled on job) =
     {on_select on (job_id job)} \<union> (if jb_retry busy (job_id job) then {} else {on_retry on (job_id job)}) \<union>
     (if jb_cancel busy (job_id job) then {} else {on_cancel on (job_id job)}) \<union>
     (if priorityEnabled then {on_priority on (job_id job) 1} else {})"
  by (simp add: job_table_row_def Let_def inert job_row_def split: option.split)

lemma job_toolbar_events: "events (job_toolbar f onChange) \<subseteq> range onChange"
  by (auto simp: job_toolbar_def)

section \<open>Dead letters\<close>

definition no_dead_letter_patch :: DeadLetterFiltersPatch where
  "no_dead_letter_patch = \<lparr> dp_queue = None, dp_errorType = None, dp_search = None \<rparr>"

definition dead_letter_toolbar ::
    "DeadLetter list \<Rightarrow> DeadLetterFilters \<Rightarrow> string \<Rightarrow> (DeadLetterFiltersPatch \<Rightarrow> 'e) \<Rightarrow> (string \<Rightarrow> 'e) \<Rightarrow> 'e html" where
  "dead_letter_toolbar shown f bulkReplayQueue onFilters onReplayQueue =
     hDiv ''toolbar toolbar-wide''
       [hLabel ''Queue'' [Choice (df_queue f) (same_options (''all'' # QUEUES))
          (\<lambda>v. onFilters (no_dead_letter_patch\<lparr> dp_queue := Some v \<rparr>))],
        hLabel ''Error type'' [Choice (df_errorType f) (same_options (error_type_options shown))
          (\<lambda>v. onFilters (no_dead_letter_patch\<lparr> dp_errorType := Some v \<rparr>))],
        hLabel ''Search'' [Entry ''text'' (df_search f) (\<lambda>v. onFilters (no_dead_letter_patch\<lparr> dp_search := Some v \<rparr>))],
        hLabel ''Replay queue'' [Choice bulkReplayQueue (same_options QUEUES) onReplayQueue]]"

definition dead_letter_article ::
    "ui \<Rightarrow> string list \<Rightarrow> (string \<Rightarrow> 'e) \<Rightarrow> (string \<Rightarrow> 'e) \<Rightarrow> DeadLetter \<Rightarrow> 'e html" where
  "dead_letter_article E selected onToggleSelection onSelectJob item =
     (case dead_letter_row (ui_dates E) (ui_locale E) item of (title, failure, note) \<Rightarrow>
        hArticle ''list-row dead-letter-row''
          [El ''label'' ''checkbox-cell''
             [Check (dl_jobId item \<in> set selected) (\<lambda>b. onToggleSelection (dl_jobId item)), El ''span'' [] []],
           hDiv [] [Press ''button'' ''table-link'' False (onSelectJob (dl_jobId item)) [hStrong title],
                    hPara [] failure, hSmall note],
           hDiv ''row-end'' [StatusPill False ''failed'', hSmall (dl_queue item)]])"

text \<open>The callbacks of the section.\<close>

record 'e DeadLetterActions =
  on_filters :: "DeadLetterFiltersPatch \<Rightarrow> 'e"
  on_replay_queue :: "string \<Rightarrow> 'e"
  on_replay_payload :: "string \<Rightarrow> 'e"
  on_replay :: 'e
  on_delete :: 'e
  on_toggle :: "string \<Rightarrow> 'e"
  on_open :: "string \<Rightarrow> 'e"

definition DeadLetterSection ::
    "ui \<Rightarrow> DeadLetter list \<Rightarrow> string list \<Rightarrow> DeadLetterFilters \<Rightarrow> string \<Rightarrow> string \<Rightarrow> DeadLetterBusy \<Rightarrow> 'e DeadLetterActions \<Rightarrow> 'e html list" where
  "DeadLetterSection E shown selected f bulkReplayQueue bulkReplayPayload busy on =
     [hSection ''surface''
        [SectionHeader [] ''Dead letter'' ''Filter failures, replay them in bulk, or clear processed metadata.'' [],
         dead_letter_toolbar shown f bulkReplayQueue (on_filters on) (on_replay_queue on),
         hLabel ''Replay payload override'' [Entry ''textarea'' bulkReplayPayload (on_replay_payload on)],
         hDiv ''button-row''
           [hButton [] (db_replay busy) (on_replay on) ''Replay selected'',
            hButton ''ghost'' (db_delete busy) (on_delete on) ''Delete selected''],
         hDiv ''stack-list''
           (if shown = [] then [EmptyState ''DLQ is clear'' ''No failed jobs match the current filter.'']
            else map (dead_letter_article E selected (on_toggle on) (on_open on)) shown)]]"

lemma dead_letter_article_events [simp]:
  "events (dead_letter_article E selected onToggle onSelect item) = {onToggle (dl_jobId item), onSelect (dl_jobId item)}"
  by (auto simp: dead_letter_article_def inert split: prod.split)

lemma dead_letter_toolbar_events:
  "events (dead_letter_toolbar shown f q onFilters onQueue) \<subseteq> range onFilters \<union> range onQueue"
  by (auto simp: dead_letter_toolbar_def)

lemma dead_letters_events:
  "all_events (DeadLetterSection E shown selected f q p busy on) =
     events (dead_letter_toolbar shown f q (on_filters on) (on_replay_queue on)) \<union> range (on_replay_payload on) \<union>
     (if db_replay busy then {} else {on_replay on}) \<union> (if db_delete busy then {} else {on_delete on}) \<union>
     (\<Union>d \<in> set shown. {on_toggle on (dl_jobId d), on_open on (dl_jobId d)})"
  by (auto simp: DeadLetterSection_def inert cong: if_cong)

section \<open>Workers\<close>

definition worker_card ::
    "ui \<Rightarrow> bool \<Rightarrow> (string \<Rightarrow> bool \<Rightarrow> 'e) \<Rightarrow> (string \<Rightarrow> 'e) \<Rightarrow> WorkerView \<Rightarrow> 'e html" where
  "worker_card E enabled onCordon onInspectLease w =
     hArticle ''worker-card surface inset''
       [hHeader []
          [hDiv [] [hDiv ''worker-title'' [HeartbeatPulse (worker_pulse w), hStrong (wl_workerId w)], hSmall (wl_hostname w)],
           StatusPill False (wv_effectiveStatus w)],
        hDiv ''metric-strip compact'' (map (MetricTile E)
          [plain_tile ''Queues'' (of_nat (length (wl_queues w))), plain_tile ''Leases'' (wl_activeLeaseCount w),
           plain_tile ''Concurrency'' (wv_concurrency w), plain_tile ''Throughput'' (wv_throughput w)]),
        ProgressBar (wv_saturation w) ''concurrency saturation'',
        hDiv ''detail-grid detail-grid-dense''
          (map DetailPair (worker_details (ui_dates E) (ui_locale E) (ui_now E) w)),
        hDiv ''button-row''
          ([hButton ''ghost'' (\<not> enabled) (onCordon (wl_workerId w) True) ''Cordon'',
            hButton ''ghost'' (\<not> enabled) (onCordon (wl_workerId w) False) ''Resume''] @
           shown_text (or_str_opt (wl_oldestLeaseJobId w) []) (\<lambda>jobId. hButton [] False (onInspectLease jobId) ''Inspect oldest lease''))]"

definition WorkersSection ::
    "ui \<Rightarrow> WorkerView list \<Rightarrow> string \<Rightarrow> bool \<Rightarrow> string \<Rightarrow> (string \<Rightarrow> 'e) \<Rightarrow> (string \<Rightarrow> bool \<Rightarrow> 'e) \<Rightarrow> (string \<Rightarrow> 'e) \<Rightarrow> 'e html list" where
  "WorkersSection E shown workerFilter enabled hint onFilterChange onCordon onInspectLease =
     [hSection ''surface''
        (SectionHeader [] ''Workers'' ''Heartbeat, lease ownership, throughput, concurrency, and maintenance state.'' []
         # shown_text hint (hPara ''capability-note'')
         @ [hDiv ''toolbar'' [hLabel ''Search workers'' [Entry ''text'' workerFilter onFilterChange]],
            hDiv ''worker-grid'' (map (worker_card E enabled onCordon onInspectLease) shown)])]"

lemma worker_card_events:
  "events (worker_card E enabled onCordon onInspect w) =
     (if enabled then range (onCordon (wl_workerId w)) else {}) \<union>
     (case wl_oldestLeaseJobId w of None \<Rightarrow> {} | Some j \<Rightarrow> if j = [] then {} else {onInspect j})"
  by (auto simp: worker_card_def inert shown_text_def or_str_opt_def or_str_def UNIV_bool split: option.split)

lemma workers_events:
  "all_events (WorkersSection E shown f enabled hint onFilter onCordon onInspect) =
     range onFilter \<union> (\<Union>w \<in> set shown. events (worker_card E enabled onCordon onInspect w))"
  by (simp add: WorkersSection_def inert)

section \<open>Schedules\<close>

definition schedule_form_fields :: "ScheduleDraft \<Rightarrow> errors \<Rightarrow> (ScheduleEdit \<Rightarrow> 'e) \<Rightarrow> 'e html list" where
  "schedule_form_fields d errors onDraft =
     [form_field [] ''Name'' (Entry ''text'' (sd_name d) (\<lambda>v. onDraft (SE_name v))) (obj_get errors ''name''),
      form_field [] ''Cron'' (Entry ''text'' (sd_cronExpression d) (\<lambda>v. onDraft (SE_cronExpression v))) (obj_get errors ''cronExpression''),
      form_field [] ''Queue'' (Choice (sd_queue d) (same_options QUEUES) (\<lambda>v. onDraft (SE_queue v))) None,
      form_field [] ''Type'' (Choice (sd_type d) (same_options JOB_TYPES) (\<lambda>v. onDraft (SE_type v))) (obj_get errors ''type''),
      form_field [] ''Priority'' (Entry ''number'' (sd_priority d) (\<lambda>v. onDraft (SE_priority v))) None,
      form_field [] ''Timeout seconds'' (Entry ''number'' (sd_timeoutSeconds d) (\<lambda>v. onDraft (SE_timeoutSeconds v))) None,
      form_field [] ''Timezone'' (Entry ''text'' (sd_timezone d) (\<lambda>v. onDraft (SE_timezone v))) None,
      El ''label'' ''toggle-row'' [Check (sd_enabled d) (\<lambda>b. onDraft (SE_enabled b)), hSpan [] ''Enabled''],
      form_field ''full-span'' ''Payload'' (Entry ''textarea'' (sd_payload d) (\<lambda>v. onDraft (SE_payload v))) (obj_get errors ''payload'')]"

definition schedule_form :: "ScheduleDraft \<Rightarrow> errors \<Rightarrow> bool \<Rightarrow> 'e \<Rightarrow> (ScheduleEdit \<Rightarrow> 'e) \<Rightarrow> 'e html" where
  "schedule_form d errors busy onSubmit onDraft =
     hSection ''surface''
       [SectionHeader [] ''New schedule'' ''Save cron schedules, pause them, and trigger them manually.'' [],
        FormEl ''form-grid'' onSubmit
          (schedule_form_fields d errors onDraft @
           [hDiv ''button-row full-span'' [Submit busy [Txt ''Save schedule'']]])]"

definition schedule_article :: "ui \<Rightarrow> (Schedule \<Rightarrow> bool \<Rightarrow> 'e) \<Rightarrow> (Schedule \<Rightarrow> 'e) \<Rightarrow> Schedule \<Rightarrow> 'e html" where
  "schedule_article E onToggle onTrigger schedule =
     (case schedule_row (ui_dates E) (ui_locale E) schedule of (name, detail, runs, status, toggle) \<Rightarrow>
        hArticle ''list-row''
          [hDiv [] [hStrong name, hPara [] detail, hSmall runs],
           hDiv ''row-end''
             [StatusPill False status,
              hDiv ''button-row compact''
                [hButton ''ghost'' False (onToggle schedule (\<not> sched_enabled schedule)) toggle,
                 hButton [] False (onTrigger schedule) ''Trigger now'']]])"

definition SchedulesSection ::
    "ui \<Rightarrow> ScheduleDraft \<Rightarrow> errors \<Rightarrow> Schedule list \<Rightarrow> string \<Rightarrow> bool \<Rightarrow> 'e \<Rightarrow> (ScheduleEdit \<Rightarrow> 'e) \<Rightarrow> (string \<Rightarrow> 'e) \<Rightarrow>
      (Schedule \<Rightarrow> bool \<Rightarrow> 'e) \<Rightarrow> (Schedule \<Rightarrow> 'e) \<Rightarrow> 'e html list" where
  "SchedulesSection E draft errors shown scheduleFilter busy onSubmit onDraft onFilter onToggle onTrigger =
     [schedule_form draft errors busy onSubmit onDraft,
      hSection ''surface''
        [SectionHeader [] ''Schedules'' ''Next run, previous status, and manual trigger controls.'' [],
         hDiv ''toolbar'' [hLabel ''Filter'' [Entry ''text'' scheduleFilter onFilter]],
         hDiv ''stack-list''
           (if shown = [] then [EmptyState ''No schedules in view'' ''Save a schedule or clear the filter.'']
            else map (schedule_article E onToggle onTrigger) shown)]]"

lemma schedule_fields_submit [simp]: "list_ex can_submit (schedule_form_fields d errors f) = False"
  by (simp add: schedule_form_fields_def)

lemma schedule_fields_events: "all_events (schedule_form_fields d errors f) \<subseteq> range f"
  by (auto simp: schedule_form_fields_def)

lemma schedule_article_events [simp]:
  "events (schedule_article E onToggle onTrigger s) = {onToggle s (\<not> sched_enabled s), onTrigger s}"
  by (auto simp: schedule_article_def inert split: prod.split)

lemma schedules_events:
  "all_events (SchedulesSection E d errors shown f busy onSubmit onDraft onFilter onToggle onTrigger) =
     (if busy then {} else {onSubmit}) \<union> all_events (schedule_form_fields d errors onDraft) \<union> range onFilter \<union>
     (\<Union>s \<in> set shown. {onToggle s (\<not> sched_enabled s), onTrigger s})"
  by (auto simp: SchedulesSection_def schedule_form_def inert cong: if_cong)

section \<open>Events, metrics and workflows\<close>

definition event_card :: "ui \<Rightarrow> SystemEvent \<Rightarrow> 'e html" where
  "event_card E item =
     hArticle ''event-card''
       [hHeader [] [hStrong (ev_kind item), hSpan [] (date_text E (ev_timestamp item))], hPara [] (event_card_text item)]"

definition EventsSection :: "ui \<Rightarrow> SystemEvent list \<Rightarrow> string \<Rightarrow> (string \<Rightarrow> 'e) \<Rightarrow> 'e html list" where
  "EventsSection E shown eventFilter onFilterChange =
     [hSection ''surface''
        [SectionHeader [] ''Events'' ''Filterable chronology across jobs, queues, workers, and leadership.''
           [hSmall (num_text (length shown) @ '' in view'')],
         hDiv ''toolbar'' [hLabel ''Filter'' [Entry ''text'' eventFilter onFilterChange]],
         hDiv ''event-feed''
           (if shown = [] then [EmptyState ''Awaiting matching events'' ''Adjust the filter or wait for the next transition.'']
            else map (event_card E) shown)]]"

definition metrics_charts :: "DashboardSnapshot \<Rightarrow> QueueView list \<Rightarrow> Chart list" where
  "metrics_charts sn queues =
     (let m = sn_metrics sn; tr = sn_trend sn
      in [\<lparr> ch_title = ''Processing latency'', ch_numericValue = p95Ms (mt_executionLatency m), ch_valueFormatter = Some formatLatency,
            ch_series = tr_executionP95Ms tr, ch_tone = ''amber'',
            ch_detail = ''p50 '' @ formatLatency (p50Ms (mt_executionLatency m)) @ '' / p99 '' @ formatLatency (p99Ms (mt_executionLatency m)) \<rparr>,
          \<lparr> ch_title = ''Retry rate'', ch_numericValue = mt_retryRate m, ch_valueFormatter = Some (\<lambda>v. formatRate v ''/s''),
            ch_series = tr_retryRate tr, ch_tone = ''rose'', ch_detail = (if mt_retryRate m > 15 / 10 then ''storm risk'' else ''nominal'') \<rparr>,
          \<lparr> ch_title = ''Backlog trend proxy'', ch_numericValue = backlog_total queues, ch_valueFormatter = None,
            ch_series = backlog_series queues, ch_tone = ''emerald'', ch_detail = ''Derived from live queue depths'' \<rparr>])"

definition metrics_tiles :: "DashboardSnapshot \<Rightarrow> QueueView list \<Rightarrow> Tile list" where
  "metrics_tiles sn queues =
     (let m = sn_metrics sn;
          latency = (\<lambda>label value detail tone. (plain_tile label value)
            \<lparr> tl_detail := detail, tl_tone := tone, tl_valueFormatter := Some formatLatency \<rparr>)
      in [latency ''Queue p95'' (p95Ms (mt_queueLatency m)) (''p99 '' @ formatLatency (p99Ms (mt_queueLatency m))) ''amber'',
          latency ''Execution p95'' (p95Ms (mt_executionLatency m)) (''p50 '' @ formatLatency (p50Ms (mt_executionLatency m))) ''amber'',
          latency ''Heartbeat age'' (mt_maxWorkerHeartbeatAgeMs m) ''max observed worker heartbeat age'' ''cyan'',
          (plain_tile ''Queue backlog'' (backlog_total queues))
            \<lparr> tl_detail := num_text (saturated_queues queues) @ '' queues above 80% saturation'', tl_tone := ''emerald'' \<rparr>])"

definition MetricsSection :: "ui \<Rightarrow> DashboardSnapshot \<Rightarrow> QueueView list \<Rightarrow> 'e html list" where
  "MetricsSection E snapshot queues =
     [hSection ''surface''
        [SectionHeader [] ''Metrics'' ''Latency, retry pressure, throughput, and backlog trend.'' [],
         hDiv ''chart-grid'' (map (TrendChart E) (metrics_charts snapshot queues)),
         hDiv ''metric-strip'' (map (MetricTile E) (metrics_tiles snapshot queues))]]"

definition workflow_card :: "DependencyNode \<Rightarrow> 'e html" where
  "workflow_card node =
     hArticle ''graph-card''
       [hHeader [] [hStrong (node_type node), StatusPill False (job_state_string (node_state node))],
        hPara [] (workflow_node_text node), hSmall (node_jobId node)]"

definition WorkflowsSection :: "DependencyNode list \<Rightarrow> 'e html list" where
  "WorkflowsSection nodes =
     [hSection ''surface''
        [SectionHeader [] ''Workflow graph'' ''Selected job lineage and blocked dependencies.'' [],
         if nodes = [] then EmptyState ''Select a workflow job'' ''Choose a workflow-backed job to inspect its dependency graph.''
         else hDiv ''workflow-grid'' (map workflow_card nodes)]]"

lemma events_section_events: "all_events (EventsSection E shown f onFilter) = range onFilter"
proof -
  have "events (event_card E x) = ({} :: 'a set)" for x by (simp add: event_card_def)
  then show ?thesis by (simp add: EventsSection_def inert cong: if_cong)
qed

lemma metrics_inert: "all_events (MetricsSection E sn qs) = {}"
  by (simp add: MetricsSection_def primitives_inert charts_inert)

lemma workflows_inert: "all_events (WorkflowsSection nodes) = {}"
proof -
  have "events (workflow_card n) = ({} :: 'a set)" for n by (simp add: workflow_card_def primitives_inert)
  then show ?thesis by (simp add: WorkflowsSection_def inert cong: if_cong)
qed

section \<open>Side rail\<close>

definition selected_job_panel :: "Job \<Rightarrow> 'e \<Rightarrow> 'e html" where
  "selected_job_panel j onOpenJobs =
     hDiv ''stack-list dense''
       (hArticle ''list-row''
          [hDiv [] [hStrong (job_type j), hPara [] (job_id j)], StatusPill False (job_state_string (job_state j))]
        # map DetailPair (selected_job_details j) @ [hButton [] False onOpenJobs ''Open jobs view''])"

definition SideRail :: "DashboardSnapshot \<Rightarrow> Job option \<Rightarrow> 'e \<Rightarrow> 'e html list" where
  "SideRail snapshot selectedJob onOpenJobs =
     [hSection ''surface rail-panel rail-panel-watch''
        [SectionHeader ''Watchlist'' ''Watchlist'' ''Signals that deserve a second look.'' [],
         hDiv ''signal-list'' (map signal_row (watchlist snapshot))],
      hSection ''surface rail-panel rail-panel-selection''
        [SectionHeader ''Inspect'' ''Selected job'' ''The current drawer target, without opening the drawer.'' [],
         (case selectedJob of
            Some j \<Rightarrow> selected_job_panel j onOpenJobs
          | None \<Rightarrow> EmptyState ''No job selected'' ''Select a job to inspect payload, attempts, and recovery history.'')]]"

lemma side_rail_events: "all_events (SideRail sn selected onOpen) = (if selected = None then {} else {onOpen})"
  by (auto simp: SideRail_def selected_job_panel_def inert split: option.split)

end
