(* ===== verification/DrawerMarkup.thy ===== *)
theory DrawerMarkup
  imports SectionMarkup
begin

text \<open>
  The job drawer (\<open>src/src/components/JobDrawer.tsx\<close>) and the hero of the console
  (\<open>src/src/components/OperationsHero.tsx\<close>) as elements.
\<close>

section \<open>The job drawer\<close>

definition DetailCard :: "string \<times> string \<Rightarrow> 'e html" where
  "DetailCard p = hArticle ''detail-card'' [hSpan [] (fst p), hStrong (snd p)]"

text \<open>The callbacks of the drawer, and the edits of its own state.\<close>

record 'e DrawerActions =
  dw_close :: 'e
  dw_retry :: "string \<Rightarrow> 'e"
  dw_cancel :: "string \<Rightarrow> 'e"
  dw_replay :: "string \<Rightarrow> string \<Rightarrow> string \<Rightarrow> bool \<Rightarrow> 'e"
  dw_priority :: "string \<Rightarrow> rat \<Rightarrow> 'e"
  dw_queue :: "string \<Rightarrow> 'e"
  dw_payload :: "string \<Rightarrow> 'e"
  dw_refuse :: 'e

definition drawer_header :: "ui \<Rightarrow> bool \<Rightarrow> string \<Rightarrow> string \<Rightarrow> string \<Rightarrow> 'e DrawerActions \<Rightarrow> Job \<Rightarrow> 'e html list" where
  "drawer_header E updating detailError lastUpdatedAt hint on job =
     (let status = drawer_status (ui_dates E) (ui_now E) updating detailError lastUpdatedAt
      in [hHeader ''drawer-header''
            [hDiv [] [hSpan ''eyebrow'' ''Job Inspection'', El ''h2'' [] [Txt (job_type job)], hPara [] (job_id job)],
             hDiv ''drawer-header-actions''
               [StatusPill False (job_state_string (job_state job)), hButton ''ghost icon-button'' False (dw_close on) ''x'']],
          hDiv ''drawer-status-row'' [hSmall (fst status), hSmall (snd status)]] @
         shown_text detailError (hPara ''drawer-inline-error'') @ shown_text hint (hPara ''capability-note''))"

definition drawer_buttons :: "bool \<Rightarrow> bool \<Rightarrow> 'e DrawerActions \<Rightarrow> string \<Rightarrow> 'e html" where
  "drawer_buttons busy priorityEnabled on jobId =
     hDiv ''drawer-actions''
       [hButton [] busy (dw_retry on jobId) ''Retry'', hButton ''ghost'' busy (dw_cancel on jobId) ''Cancel'',
        hButton ''ghost'' (busy \<or> \<not> priorityEnabled) (dw_priority on jobId 1) ''Priority +'',
        hButton ''ghost'' (busy \<or> \<not> priorityEnabled) (dw_priority on jobId (- 1)) ''Priority -'']"

definition mini_card :: "string \<times> string \<times> string \<Rightarrow> 'e html" where
  "mini_card r = (case r of (label, value, note) \<Rightarrow> hArticle ''mini-card'' [hSpan [] label, hStrong value, hSmall note])"

definition drawer_profile :: "ui \<Rightarrow> JobInspection \<Rightarrow> 'e html list" where
  "drawer_profile E i =
     [hSection ''drawer-section''
        [SectionHeader [] ''Profile'' ''Lease, retry, and lifecycle state for the selected job.'' [],
         hDiv ''detail-grid'' (map DetailCard (detail_cards (ui_dates E) (ui_locale E) (ui_now E) (insp_job i)))],
      hSection ''drawer-section''
        [SectionHeader [] ''Failure and recovery'' ''Dead-letter metadata, orphan recovery, and idempotency controls.'' [],
         hDiv ''drawer-mini-grid'' (map mini_card (failure_cards (ui_dates E) (ui_locale E) i))]]"

text \<open>An edited payload that is empty is refused by the drawer itself.\<close>

definition drawer_replay :: "bool \<Rightarrow> Drawer \<Rightarrow> 'e DrawerActions \<Rightarrow> string \<Rightarrow> 'e html" where
  "drawer_replay busy d on jobId =
     hSection ''drawer-section''
       ([SectionHeader [] ''Replay'' ''Replay the original payload or edit it before resubmission.'' [],
         hDiv ''field-grid'' [hLabel ''Replay queue'' [Choice (dr_replayQueue d) (same_options QUEUES) (dw_queue on)]],
         hLabel ''Replay payload'' [Entry ''textarea'' (dr_payloadText d) (dw_payload on)]] @
        InlineFieldError (Some (dr_inlineError d)) @
        [hDiv ''drawer-actions''
           [hButton [] busy (dw_replay on jobId (dr_replayQueue d) (dr_payloadText d) False) ''Replay Same Payload'',
            hButton ''ghost'' busy
              (if safeTrimStr (dr_payloadText d) = [] then dw_refuse on
               else dw_replay on jobId (dr_replayQueue d) (dr_payloadText d) True) ''Replay Edited Payload'']])"

definition attempt_article :: "ui \<Rightarrow> JobAttempt \<Rightarrow> 'e html" where
  "attempt_article E a =
     (let c = attempt_card (ui_dates E) (ui_locale E) a
      in hArticle ''attempt-card''
        [hHeader [] [hDiv [] [hStrong (ac_title c), hSmall (ac_worker c)], StatusPill False (att_status a)],
         hPara [] (ac_error c),
         hDiv ''attempt-meta''
           ([hSpan [] (fst (ac_times c)), hSpan [] (snd (ac_times c))] @
            (if ac_leaseExpired c then [hSpan ''warning-copy'' ''lease expired''] else []))])"

definition payload_article :: "string \<times> string \<times> string \<Rightarrow> 'e html" where
  "payload_article r =
     (case r of (title, preview, json) \<Rightarrow>
        hArticle ''payload-card'' [hHeader [] [hStrong title, hSmall preview], El ''pre'' [] [Txt json]])"

definition graph_card :: "DependencyNode \<Rightarrow> 'e html" where
  "graph_card node =
     hArticle ''graph-card''
       [hHeader [] [hStrong (node_type node), StatusPill False (job_state_string (node_state node))],
        hPara [] (graph_card_text node), hSmall (node_jobId node)]"

definition timeline_card :: "ui \<Rightarrow> JobEvent \<Rightarrow> 'e html" where
  "timeline_card E item =
     hArticle ''timeline-card''
       [hHeader [] [hStrong (jev_type item), hSpan [] (date_text E (jev_occurredAt item))], hPara [] (jev_message item)]"

text \<open>A section of the drawer over a list, with what it shows for the empty list.\<close>

definition drawer_list :: "string \<Rightarrow> string \<Rightarrow> 'e html \<Rightarrow> string \<Rightarrow> ('x \<Rightarrow> 'e html) \<Rightarrow> 'x list \<Rightarrow> 'e html" where
  "drawer_list title detail nothing className item xs =
     hSection ''drawer-section''
       [SectionHeader [] title detail [], if xs = [] then nothing else hDiv className (map item xs)]"

definition drawer_history :: "ui \<Rightarrow> JobInspection \<Rightarrow> 'e html list" where
  "drawer_history E i =
     [drawer_list ''Attempts'' ''Attempt history with worker ownership and lease-expiry markers.''
        (EmptyState ''No attempts yet'' ''This job has not started execution.'') ''attempt-list'' (attempt_article E) (insp_attempts i),
      hSection ''drawer-section''
        [SectionHeader [] ''Payload and result'' ''Compact previews plus full JSON for deeper inspection.'' [],
         hDiv ''payload-panels'' (map payload_article (payload_cards (insp_job i)))],
      drawer_list ''Dependencies'' ''Compact DAG context for blocked fan-out and fan-in work.''
        (EmptyState ''No dependency graph'' ''This job is not part of a workflow.'') ''graph-list'' graph_card (graph_nodes (insp_graph i)),
      drawer_list ''Timeline'' ''Event chronology for lease recovery, retries, and operator actions.''
        (EmptyState ''No events yet'' ''This job has not emitted timeline entries.'') ''timeline-list'' (timeline_card E) (insp_events i)]"

definition JobDrawer ::
    "ui \<Rightarrow> JobInspection option \<Rightarrow> Drawer \<Rightarrow> bool \<Rightarrow> bool \<Rightarrow> string \<Rightarrow> string \<Rightarrow> bool \<Rightarrow> string \<Rightarrow> 'e DrawerActions \<Rightarrow> 'e html list" where
  "JobDrawer E inspection d busy updating detailError lastUpdatedAt priorityEnabled hint on =
     (case inspection of
        None \<Rightarrow> []
      | Some i \<Rightarrow>
          [Press ''div'' ''drawer-backdrop'' False (dw_close on) [],
           El ''aside'' ''job-drawer surface''
             (drawer_header E updating detailError lastUpdatedAt hint on (insp_job i) @
              [drawer_buttons busy priorityEnabled on (job_id (insp_job i))] @ drawer_profile E i @
              [drawer_replay busy d on (job_id (insp_job i))] @ drawer_history E i)])"

lemma drawer_inert [inert]:
  "events (DetailCard p) = {}" "events (mini_card r) = {}" "events (attempt_article E x) = {}"
  "events (payload_article r) = {}" "events (graph_card n) = {}" "events (timeline_card E v) = {}"
  by (simp_all add: DetailCard_def mini_card_def attempt_article_def payload_article_def graph_card_def timeline_card_def
      primitives_inert Let_def split: prod.split)

lemma drawer_lists_inert [inert]: "all_events (drawer_profile E i) = {}" "all_events (drawer_history E i) = {}"
  by (simp_all add: drawer_profile_def drawer_history_def drawer_list_def primitives_inert drawer_inert)

lemma drawer_header_events: "all_events (drawer_header E updating detailError lastUpdatedAt hint on job) = {dw_close on}"
  by (simp add: drawer_header_def Let_def inert)

lemma drawer_buttons_events:
  "events (drawer_buttons busy enabled on j) =
     (if busy then {} else {dw_retry on j, dw_cancel on j}) \<union> (if busy \<or> \<not> enabled then {} else {dw_priority on j 1, dw_priority on j (- 1)})"
  by (auto simp: drawer_buttons_def)

lemma drawer_replay_events:
  "events (drawer_replay busy d on j) = dw_queue on ` set QUEUES \<union> range (dw_payload on) \<union>
     (if busy then {} else {dw_replay on j (dr_replayQueue d) (dr_payloadText d) False,
        if safeTrimStr (dr_payloadText d) = [] then dw_refuse on else dw_replay on j (dr_replayQueue d) (dr_payloadText d) True})"
  by (auto simp: drawer_replay_def inert)

lemma drawer_events:
  "all_events (JobDrawer E inspection d busy updating detailError lastUpdatedAt enabled hint on) =
     (case inspection of
        None \<Rightarrow> {}
      | Some i \<Rightarrow> {dw_close on} \<union> events (drawer_buttons busy enabled on (job_id (insp_job i))) \<union>
          events (drawer_replay busy d on (job_id (insp_job i))))"
  by (auto simp: JobDrawer_def inert drawer_header_events split: option.split)

section \<open>The hero\<close>

definition hero_stat :: "string \<Rightarrow> string \<Rightarrow> 'e html list \<Rightarrow> string \<Rightarrow> 'e html" where
  "hero_stat className label value note =
     hDiv className [hSpan [] label, El ''strong'' [] value, hSmall note]"

definition hero_stats_row :: "ui \<Rightarrow> DashboardSnapshot \<Rightarrow> WorkerView list \<Rightarrow> 'e html" where
  "hero_stats_row E sn ws =
     (let number = (\<lambda>v. AnimatedNumber E [] None v); notes = map snd (hero_stats sn ws)
      in hDiv ''hero-stats''
        [hero_stat ''hero-stat hero-stat-lead tone-cyan'' ''Queued work'' [number (queuedWork sn)] (notes ! 0),
         hero_stat ''hero-stat tone-emerald'' ''Workers''
           [number (of_nat (healthyWorkers ws)), Txt (''/'' @ number_to_string (ov_activeWorkers (sn_overview sn)))] (notes ! 1),
         hero_stat ''hero-stat tone-rose'' ''Failure pressure''
           [number (ov_failedJobs (sn_overview sn) + of_nat (length (sn_deadLetters sn)))] (notes ! 2),
         hero_stat ''hero-stat tone-amber'' ''Throughput''
           [Txt (formatRate (mt_jobsPerSecond (sn_metrics sn)) ''/s'')] (notes ! 3)])"

definition band_header :: "string \<Rightarrow> string \<Rightarrow> string \<Rightarrow> 'e html" where
  "band_header eyebrow title note =
     hDiv ''hero-band-header'' [hDiv [] [hPara ''section-eyebrow'' eyebrow, hStrong title], hSmall note]"

text \<open>The widths of a bar stand with the parts that they size.\<close>

definition hero_flow_article :: "QueueView \<Rightarrow> 'e html" where
  "hero_flow_article q =
     (let texts = hero_flow_row q; percent = (\<lambda>w. number_to_string w @ ''%'')
      in hArticle ''hero-flow-row''
        [hDiv ''hero-flow-head'' [hDiv [] [hStrong (texts ! 0), hSmall (texts ! 1)], hSmall (texts ! 2)],
         hDiv ''hero-flow-track''
           (case flow_widths q of (queued, active, blocked) \<Rightarrow>
              [El ''span'' (percent queued) [], El ''span'' (percent active) [], El ''span'' (percent blocked) []]),
         hDiv ''hero-flow-meta'' [hSpan [] (texts ! 3), hSpan [] (texts ! 4), hSpan [] (texts ! 5)]])"

definition hero_worker_article :: "WorkerView \<Rightarrow> 'e html" where
  "hero_worker_article w =
     (let texts = hero_worker_row w
      in hArticle ''hero-worker-row''
        [hDiv ''hero-worker-main''
           [hDiv ''worker-title'' [HeartbeatPulse (hero_pulse w), hStrong (texts ! 0)], hSmall (texts ! 1)],
         hDiv ''hero-worker-meta'' [hStrong (texts ! 2), hSmall (texts ! 3)]])"

definition hero_operations :: "DashboardSnapshot \<Rightarrow> QueueView list \<Rightarrow> WorkerView list \<Rightarrow> string \<Rightarrow> 'e html" where
  "hero_operations sn queues ws note =
     hDiv ''hero-operations''
       [hSection ''hero-band hero-band-flow''
          [band_header ''Queues'' ''Queue pressure'' (number_to_string (queuedWork sn) @ '' jobs waiting or scheduled''),
           hDiv ''hero-flow-list'' (map hero_flow_article (queuePreview queues))],
        hSection ''hero-band hero-band-workers''
          [band_header ''Workers'' ''Worker health'' note,
           hDiv ''hero-worker-list'' (map hero_worker_article (workerPreview ws))]]"

text \<open>The pills of the hero: the one of the transport looks at the label.\<close>

definition hero_pills :: "LiveMeta \<Rightarrow> bool \<Rightarrow> 'e html list" where
  "hero_pills m healthy =
     [StatusPill (lm_health m = LH_live) (health_string (lm_health m)),
      StatusPill (hero_transport_pulse m) (lm_transportLabel m), StatusPill False (leader_text healthy)]"

definition status_article :: "string \<Rightarrow> StatusItem \<Rightarrow> 'e html" where
  "status_article className item =
     hArticle className [hSpan [] (si_label item), hStrong (si_value item), hSmall (si_detail item)]"

definition hero_live :: "ui \<Rightarrow> LiveMeta \<Rightarrow> DashboardSnapshot \<Rightarrow> SystemEvent list \<Rightarrow> string \<Rightarrow> string \<Rightarrow> 'e \<Rightarrow> 'e \<Rightarrow> 'e html" where
  "hero_live E m sn shown note globalError onReconnect onRefresh =
     hSection ''hero-band hero-band-live''
       ([band_header ''Live status'' ''Transport'' note,
         hDiv ''hero-live-grid''
           (map (status_article ''hero-live-item'') (liveStatusItems (ui_dates E) (ui_locale E) (ui_now E) m sn shown)),
         hDiv ''button-row compact hero-live-actions''
           [hButton ''ghost'' False onReconnect ''Reconnect'', hButton [] False onRefresh ''Refresh'']] @
        (case hero_error m globalError of None \<Rightarrow> [] | Some s \<Rightarrow> [hPara ''global-error hero-live-error'' s]))"

definition hero_timeline_row :: "ui \<Rightarrow> SystemEvent \<Rightarrow> 'e html" where
  "hero_timeline_row E e =
     hArticle ''hero-timeline-row''
       [El ''span'' ''hero-timeline-dot'' [],
        hDiv ''hero-timeline-copy''
          [hDiv ''hero-timeline-head'' [hStrong (ev_kind e), hSmall (ago E (ev_timestamp e))], hPara [] (hero_event_text e)]]"

definition hero_events :: "ui \<Rightarrow> SystemEvent list \<Rightarrow> string \<Rightarrow> 'e html" where
  "hero_events E preview note =
     hSection ''hero-band hero-band-events''
       [band_header ''Recent activity'' ''Event stream'' note,
        if preview = [] then hPara ''muted-copy'' ''Awaiting traffic.''
        else hDiv ''hero-timeline'' (map (hero_timeline_row E) preview)]"

definition OperationsHero ::
    "ui \<Rightarrow> DashboardSnapshot \<Rightarrow> QueueView list \<Rightarrow> WorkerView list \<Rightarrow> SystemEvent list \<Rightarrow> LiveMeta \<Rightarrow> bool \<Rightarrow> string \<Rightarrow> string \<Rightarrow>
      'e \<Rightarrow> 'e \<Rightarrow> 'e html" where
  "OperationsHero E snapshot queues ws shown m healthy detail globalError onReconnect onRefresh =
     (let notes = hero_notes ws m (take 4 shown)
      in hSection (''hero-console surface tone-'' @ health_string (lm_health m))
        [hDiv ''hero-console-grid''
           [hDiv ''hero-console-main''
              [hDiv ''hero-console-head''
                 [hDiv ''hero-console-copy''
                    [hPara ''section-eyebrow'' ''Live operations'', El ''h1'' [] [Txt (headline (lm_health m) snapshot ws healthy)],
                     hPara [] detail],
                  hDiv ''hero-console-controls''
                    [hDiv ''status-inline hero-status-inline'' (hero_pills m healthy),
                     hSmall (hero_since (ui_dates E) (ui_now E) m snapshot)]],
               hero_stats_row E snapshot ws, hero_operations snapshot queues ws (notes ! 0)],
            El ''aside'' ''hero-console-side''
              [hero_live E m snapshot shown (notes ! 1) globalError onReconnect onRefresh,
               hero_events E (take 4 shown) (notes ! 2)]]])"

lemma hero_inert [inert]:
  "events (hero_stats_row E sn ws) = {}" "events (band_header a b c) = {}" "events (hero_flow_article q) = {}"
  "events (hero_worker_article w) = {}" "all_events (hero_pills m h) = {}" "events (status_article k item) = {}"
  "events (hero_timeline_row E e) = {}"
  by (simp_all add: hero_stats_row_def hero_stat_def band_header_def hero_flow_article_def hero_worker_article_def hero_pills_def
      status_article_def hero_timeline_row_def Let_def primitives_inert split: prod.split)

lemma hero_parts_inert [inert]: "events (hero_operations sn qs ws note) = {}" "events (hero_events E preview note) = {}"
  by (simp_all add: hero_operations_def hero_events_def hero_inert)

lemma hero_console_events:
  "events (OperationsHero E sn qs ws shown m healthy detail globalError onReconnect onRefresh) = {onReconnect, onRefresh}"
  by (auto simp: OperationsHero_def hero_live_def Let_def inert split: option.splits)

end
