(* ===== verification/LiveSafety.thy ===== *)
theory LiveSafety
  imports LiveFetch
begin

text \<open>
  The invariants of the refresh machinery, the one-writer discipline of the AbortControllers, and
  what a refresh does to the console data when it is stale, fails or succeeds.
\<close>

section \<open>The remaining steps keep the invariant\<close>

lemma fresh_id_inv:
  assumes inv: "live_inv s"
  shows "live_inv (s\<lparr> br_next := br_next s + 1 \<rparr>)"
proof (rule extends_inv [OF inv])
  show "extends s (s\<lparr> br_next := br_next s + 1 \<rparr>)" by (simp add: extends_def)
  show "map_ok (s\<lparr> br_next := br_next s + 1 \<rparr>)" using live_invD(1) [OF inv] by (simp add: map_ok_def)
  show "ids_ok (s\<lparr> br_next := br_next s + 1 \<rparr>)"
    using live_invD(2) [OF inv] by (auto simp: ids_ok_def pending_def less_Suc_eq)
qed

lemma abort_controller_simps [simp]:
  "br_next (abort_controller c s) = br_next s" "lv_lastSuccessfulAt (abort_controller c s) = lv_lastSuccessfulAt s"
  "lv_inspectionController (abort_controller c s) = lv_inspectionController s"
  by (simp_all add: abort_controller_def)

text \<open>The state in which the requests of a refresh are sent.\<close>

definition fetch_prelude :: "bool \<Rightarrow> Live \<Rightarrow> Live" where
  "fetch_prelude quiet s =
     s\<lparr> br_aborted := br_aborted s \<union> set_option (lv_fetchController s), br_next := br_next s + 1,
        lv_fetchController := Some (br_next s),
        lv_loading := (lv_loading s \<or> lv_lastSuccessfulAt s = []),
        lv_isRefreshing := (lv_isRefreshing s \<or> lv_lastSuccessfulAt s \<noteq> [] \<and> \<not> quiet) \<rparr>"

lemma start_fetch_eq:
  assumes "share_all (br_next s) console_keys (fetch_prelude quiet s) = (need, s4)"
  shows "start_fetch quiet s = s4\<lparr> br_next := br_next s4 + 1, lv_fetchPromise := Some (br_next s4),
    br_fetches := br_fetches s4 @ [(br_next s4, \<lparr> ft_ctrl = br_next s, ft_quiet = quiet, ft_need = need \<rparr>)] \<rparr>"
proof -
  let ?s2 = "(abort_controller (lv_fetchController s) s)\<lparr> br_next := br_next s + 1, lv_fetchController := Some (br_next s) \<rparr>"
  have "(if lv_lastSuccessfulAt ?s2 = [] then ?s2\<lparr> lv_loading := True \<rparr>
         else if \<not> quiet then ?s2\<lparr> lv_isRefreshing := True \<rparr> else ?s2) = fetch_prelude quiet s"
    by (cases s) (simp add: fetch_prelude_def abort_controller_def)
  then show ?thesis
    using assms by (simp add: start_fetch_def Let_def cong: if_cong split del: if_split)
qed

lemma start_fetch_inv:
  assumes inv: "live_inv s"
  shows "live_inv (start_fetch quiet s)"
proof -
  let ?c = "br_next s"
  let ?s3 = "fetch_prelude quiet s"
  have inv3: "live_inv ?s3"
    using fresh_id_inv [OF inv] by (subst live_inv_cong [of _ "s\<lparr> br_next := ?c + 1 \<rparr>"]) (simp_all add: fetch_prelude_def)
  obtain need s4 where share: "share_all ?c console_keys ?s3 = (need, s4)" by (metis surj_pair)
  have sp: "live_inv s4" "extends ?s3 s4"
    "list_all2 (\<lambda>key r. \<exists>q. br_requests s4 r = Some q \<and> rq_key q = key) console_keys need"
    using share_all_spec [OF inv3 share] by simp_all
  let ?f = "(br_next s4, \<lparr> ft_ctrl = ?c, ft_quiet = quiet, ft_need = need \<rparr>)"
  let ?s5 = "s4\<lparr> br_next := br_next s4 + 1, lv_fetchPromise := Some (br_next s4), br_fetches := br_fetches s4 @ [?f] \<rparr>"
  have eq: "start_fetch quiet s = ?s5" by (rule start_fetch_eq [OF share])
  have c: "br_requests ?s5 = br_requests s4" "br_results ?s5 = br_results s4" by simp_all
  note cf = core_facts [OF c]
  have "map_ok ?s5" using live_invD(1) [OF sp(1)] by (simp add: map_ok_def)
  moreover have "ids_ok ?s5" using live_invD(2) [OF sp(1)] by (auto simp: ids_ok_def pending_def less_Suc_eq)
  moreover have "fetch_ok ?s5 ?f"
  proof -
    have "list_all2 (waits ?s5) console_keys need"
      using sp(3) by (rule list_all2_mono) (simp add: waits_def)
    moreover have "\<exists>r \<in> set need. pending ?s5 r"
      using sp(3) by (auto simp: console_keys_def list_all2_Cons1 pending_def)
    moreover have "?c < br_next s4" using sp(2) by (simp add: extends_def fetch_prelude_def)
    ultimately show ?thesis by (simp add: fetch_ok_def)
  qed
  moreover have "fetch_ok ?s5 x" if "x \<in> set (br_fetches s4)" for x
    using live_invD(3) [OF sp(1) that] cf(2) by (auto simp: fetch_ok_def pending_def)
  moreover have "distinct (map fst (br_fetches ?s5))"
    using live_invD(3) [OF sp(1)] live_invD(4) [OF sp(1)] by (fastforce simp: fetch_ok_def)
  moreover have "inspection_ok ?s5 y" if "y \<in> set (br_inspections s4)" for y
    using live_invD(5) [OF sp(1) that] by (simp add: inspection_ok_def)
  ultimately show ?thesis unfolding eq live_inv_def by auto
qed

lemma start_inspection_inv:
  assumes inv: "live_inv s"
  shows "live_inv (start_inspection jobId s)"
proof -
  let ?c = "br_next s"
  let ?s1 = "(abort_controller (lv_inspectionController s jobId) s)\<lparr> br_next := ?c + 1,
    lv_inspectionController := (lv_inspectionController s)(jobId \<mapsto> ?c) \<rparr>"
  let ?s3 = "set_meta jobId \<lparr> im_busy = True, im_error = [], im_lastUpdatedAt = meta_updatedAt jobId ?s1 \<rparr> ?s1"
  have inv3: "live_inv ?s3"
  proof -
    have "live_inv (s\<lparr> br_next := ?c + 1 \<rparr>)" by (rule fresh_id_inv [OF inv])
    then show ?thesis
      by (subst live_inv_cong [of _ "s\<lparr> br_next := ?c + 1 \<rparr>"]) (simp_all add: abort_controller_def set_meta_def)
  qed
  obtain r s4 where share: "share_request (inspection_key jobId) ?c ?s3 = (r, s4)" by (metis surj_pair)
  note sp = share_request_spec [OF inv3 share]
  have keep: "lv_inspectionController s4 = (lv_inspectionController s)(jobId \<mapsto> ?c)"
    using share by (auto simp: share_request_def set_meta_def split: option.splits)
  let ?p = "(br_next s4, \<lparr> if_jobId = jobId, if_ctrl = ?c, if_request = r,
    if_previous = lv_inspectionSignature ?s3 jobId \<rparr>)"
  let ?s5 = "s4\<lparr> br_next := br_next s4 + 1, lv_inspectionPromise := (lv_inspectionPromise s4)(jobId \<mapsto> br_next s4),
    br_inspections := br_inspections s4 @ [?p] \<rparr>"
  have eq: "start_inspection jobId s = ?s5"
    using share by (simp add: start_inspection_def Let_def)
  have c: "br_requests ?s5 = br_requests s4" "br_results ?s5 = br_results s4" by simp_all
  note cf = core_facts [OF c]
  have "map_ok ?s5" using live_invD(1) [OF sp(1)] by (simp add: map_ok_def)
  moreover have "ids_ok ?s5" using live_invD(2) [OF sp(1)] by (auto simp: ids_ok_def pending_def less_Suc_eq)
  moreover have "fetch_ok ?s5 x" if "x \<in> set (br_fetches s4)" for x
    using live_invD(3) [OF sp(1) that] cf(2) by (auto simp: fetch_ok_def pending_def)
  moreover have "inspection_ok ?s5 y" if "y \<in> set (br_inspections s4)" for y
    using live_invD(5) [OF sp(1) that] by (simp add: inspection_ok_def)
  moreover have "inspection_ok ?s5 ?p" using sp(3) by (simp add: inspection_ok_def)
  ultimately show ?thesis unfolding eq live_inv_def using live_invD(4,6) [OF sp(1)] by auto
qed


lemma mode_effect_inv: "live_inv s \<Longrightarrow> live_inv (mode_effect liveMode demo s)"
  by (subst live_inv_cong [of _ s]) (simp_all add: mode_effect_def Let_def)

lemma refreshConsole_inv:
  assumes "live_inv s"
  shows "live_inv (refreshConsole D now opts quiet force s)"
proof -
  let ?s = "s\<lparr> lv_lastAttemptAt := iso_text D now \<rparr>"
  have "live_inv ?s" using assms by (subst live_inv_cong [of _ s]) simp_all
  moreover have "live_inv (refuse_refresh quiet u)" if "live_inv u" for u
    using that by (subst live_inv_cong [of _ u]) (simp_all add: refuse_refresh_def)
  ultimately show ?thesis using assms by (simp add: refreshConsole_def Let_def start_fetch_inv)
qed

lemma refreshInspection_inv:
  assumes inv: "live_inv s"
  shows "live_inv (refreshInspection D now opts jobId force s)"
proof (cases "applyInspectionFallback D jobId s")
  case None
  then show ?thesis using inv by (simp add: refreshInspection_def start_inspection_inv)
next
  case (Some u)
  then have "live_inv u"
    using inv fallback_core by (subst live_inv_cong [of _ s]) (auto simp: same_core_def)
  then have "live_inv (set_meta jobId m u)" for m
    by (subst live_inv_cong [of _ u]) (simp_all add: set_meta_def)
  then show ?thesis using inv Some by (simp add: refreshInspection_def start_inspection_inv)
qed

theorem live_step_inv: "live_inv s \<Longrightarrow> live_step D s s' \<Longrightarrow> live_inv s'"
  by (erule live_step.cases)
    (simp_all add: refreshConsole_inv refreshInspection_inv settle_request_inv mode_effect_inv)

section \<open>One writer\<close>

text \<open>
  Asynchronous work as a list of (id, controller, key): ids and controllers are unique, and work
  whose controller is not aborted holds the current controller of its key.
\<close>

definition owners_ok :: "nat \<Rightarrow> nat set \<Rightarrow> ('k \<Rightarrow> nat option) \<Rightarrow> (nat \<times> nat \<times> 'k) list \<Rightarrow> bool" where
  "owners_ok n ab cur xs \<longleftrightarrow> distinct (map fst xs) \<and> distinct (map (fst \<circ> snd) xs) \<and>
     (\<forall>c \<in> ab. c < n) \<and> (\<forall>k c. cur k = Some c \<longrightarrow> c < n) \<and>
     (\<forall>(i, c, k) \<in> set xs. i < n \<and> c < n \<and> (c \<in> ab \<or> cur k = Some c))"

lemma owners_start:
  assumes ok: "owners_ok n ab cur xs" and n: "n \<le> c" "c < i" "i < m"
  shows "owners_ok m (ab \<union> set_option (cur k)) (cur(k \<mapsto> c)) (xs @ [(i, c, k)])"
proof -
  have old: "j < n \<and> d < n \<and> (d \<in> ab \<or> cur l = Some d)" if "(j, d, l) \<in> set xs" for j d l
    using ok that by (auto simp: owners_ok_def)
  have "i \<notin> fst ` set xs" "c \<notin> (fst \<circ> snd) ` set xs" using old n by fastforce+
  then have "distinct (map fst (xs @ [(i, c, k)]))" "distinct (map (fst \<circ> snd) (xs @ [(i, c, k)]))"
    using ok by (auto simp: owners_ok_def)
  moreover have "d < m" if "d \<in> ab \<union> set_option (cur k)" for d
    using ok that n by (fastforce simp: owners_ok_def)
  moreover have "d < m" if "(cur(k \<mapsto> c)) l = Some d" for d l
    using ok that n by (cases "l = k") (fastforce simp: owners_ok_def)+
  moreover have "j < m \<and> d < m \<and> (d \<in> ab \<union> set_option (cur k) \<or> (cur(k \<mapsto> c)) l = Some d)"
    if "(j, d, l) \<in> set (xs @ [(i, c, k)])" for j d l
    using old [of j d l] that n by auto
  ultimately show ?thesis unfolding owners_ok_def by fast
qed

lemma owners_finish:
  assumes ok: "owners_ok n ab cur xs" and x: "(i, c, k) \<in> set xs"
  shows "owners_ok n ab (if cur k = Some c then cur(k := None) else cur) (filter (\<lambda>x. fst x \<noteq> i) xs)"
proof -
  have inj: "inj_on (fst \<circ> snd) (set xs)" and inj1: "inj_on fst (set xs)"
    using ok by (simp_all add: owners_ok_def distinct_map)
  define cur' where "cur' = (if cur k = Some c then cur(k := None) else cur)"
  have sub: "cur' l = Some d \<Longrightarrow> cur l = Some d" for l d by (auto simp: cur'_def split: if_splits)
  have keep: "j < n \<and> d < n \<and> (d \<in> ab \<or> cur' l = Some d)" if y: "(j, d, l) \<in> set xs" "j \<noteq> i" for j d l
  proof -
    have "d \<noteq> c" using inj_onD [OF inj _ y(1) x] y(2) by auto
    moreover have "j < n \<and> d < n \<and> (d \<in> ab \<or> cur l = Some d)" using ok y(1) by (auto simp: owners_ok_def)
    ultimately show ?thesis by (auto simp: cur'_def)
  qed
  have "\<forall>c\<in>ab. c < n" "\<forall>l d. cur' l = Some d \<longrightarrow> d < n" using ok sub unfolding owners_ok_def by blast+
  moreover have "\<forall>(j, d, l) \<in> set (filter (\<lambda>x. fst x \<noteq> i) xs). j < n \<and> d < n \<and> (d \<in> ab \<or> cur' l = Some d)"
    using keep by auto
  moreover have "distinct (map fst (filter (\<lambda>x. fst x \<noteq> i) xs))" "distinct (map (fst \<circ> snd) (filter (\<lambda>x. fst x \<noteq> i) xs))"
    using ok by (simp_all add: owners_ok_def distinct_map_filter)
  ultimately show ?thesis unfolding cur'_def owners_ok_def by blast
qed

lemma owners_weaken:
  assumes "owners_ok n ab cur xs" and "n \<le> m" and "ab \<subseteq> ab'" and "\<And>c. c \<in> ab' \<Longrightarrow> c < m"
  shows "owners_ok m ab' cur xs"
  using assms unfolding owners_ok_def by (fastforce simp: subset_iff)


definition fetch_owners :: "Live \<Rightarrow> (nat \<times> nat \<times> unit) list" where
  "fetch_owners s = map (\<lambda>(i, f). (i, ft_ctrl f, ())) (br_fetches s)"

definition inspection_owners :: "Live \<Rightarrow> (nat \<times> nat \<times> string) list" where
  "inspection_owners s = map (\<lambda>(i, p). (i, if_ctrl p, if_jobId p)) (br_inspections s)"

definition writers_inv :: "Live \<Rightarrow> bool" where
  "writers_inv s \<longleftrightarrow> owners_ok (br_next s) (br_aborted s) (\<lambda>_. lv_fetchController s) (fetch_owners s) \<and>
     owners_ok (br_next s) (br_aborted s) (lv_inspectionController s) (inspection_owners s)"

lemma writers_inv_cong:
  assumes "br_fetches s' = br_fetches s" "br_inspections s' = br_inspections s" "br_next s' = br_next s"
    "br_aborted s' = br_aborted s" "lv_fetchController s' = lv_fetchController s"
    "lv_inspectionController s' = lv_inspectionController s"
  shows "writers_inv s' = writers_inv s"
  by (simp add: writers_inv_def fetch_owners_def inspection_owners_def assms)

lemma initial_writers: "writers_inv (initial_live d)"
  by (simp add: writers_inv_def fetch_owners_def inspection_owners_def owners_ok_def initial_live_def)

lemma share_request_frame:
  assumes "share_request key ctrl s = (r, s')"
  shows "\<exists>m q n. s' = s\<lparr> lv_requestMap := m, br_requests := q, br_next := n \<rparr> \<and> br_next s \<le> n"
proof (cases "lv_requestMap s key")
  case None
  then show ?thesis using assms unfolding share_request_def by (auto intro!: exI)
next
  case (Some e)
  then have "s' = s\<lparr> lv_requestMap := lv_requestMap s, br_requests := br_requests s, br_next := br_next s \<rparr>"
    using assms by (simp add: share_request_def)
  then show ?thesis by blast
qed

lemma share_all_frame:
  "share_all ctrl keys s = (rs, s') \<Longrightarrow>
   \<exists>m q n. s' = s\<lparr> lv_requestMap := m, br_requests := q, br_next := n \<rparr> \<and> br_next s \<le> n"
proof (induction ctrl keys s arbitrary: rs s' rule: share_all.induct)
  case (1 ctrl s)
  then have "s' = s\<lparr> lv_requestMap := lv_requestMap s, br_requests := br_requests s, br_next := br_next s \<rparr>" by simp
  then show ?case by blast
next
  case (2 ctrl key keys s)
  obtain r s1 where 1: "share_request key ctrl s = (r, s1)" by (metis surj_pair)
  obtain rs2 s2 where s2: "share_all ctrl keys s1 = (rs2, s2)" by (metis surj_pair)
  have eq: "s' = s2" using "2.prems" 1 s2 by simp
  obtain m q n where a: "s1 = s\<lparr> lv_requestMap := m, br_requests := q, br_next := n \<rparr>" "br_next s \<le> n"
    using share_request_frame [OF 1] by blast
  obtain m' q' n' where b: "s2 = s1\<lparr> lv_requestMap := m', br_requests := q', br_next := n' \<rparr>" "br_next s1 \<le> n'"
    using "2.IH" [OF 1 [symmetric] refl s2] by blast
  have "s' = s\<lparr> lv_requestMap := m', br_requests := q', br_next := n' \<rparr>" "br_next s \<le> n'"
    using a b eq by simp_all
  then show ?case by blast
qed

lemma start_fetch_writers:
  assumes inv: "writers_inv s"
  shows "writers_inv (start_fetch quiet s)"
proof -
  let ?c = "br_next s" and ?u = "start_fetch quiet s"
  obtain need s4 where share: "share_all ?c console_keys (fetch_prelude quiet s) = (need, s4)" by (metis surj_pair)
  obtain m q n where s4: "s4 = (fetch_prelude quiet s)\<lparr> lv_requestMap := m, br_requests := q, br_next := n \<rparr>"
    "?c < n" using share_all_frame [OF share] by (auto simp: fetch_prelude_def)
  have f: "br_next ?u = n + 1" "br_aborted ?u = br_aborted s \<union> set_option (lv_fetchController s)"
    "lv_fetchController ?u = Some ?c" "lv_inspectionController ?u = lv_inspectionController s"
    "inspection_owners ?u = inspection_owners s" "fetch_owners ?u = fetch_owners s @ [(n, ?c, ())]"
    unfolding start_fetch_eq [OF share]
    by (simp_all add: s4(1) fetch_prelude_def fetch_owners_def inspection_owners_def)
  have cur: "(\<lambda>_. Some ?c) = (\<lambda>_ :: unit. lv_fetchController s)(() \<mapsto> ?c)" by auto
  have o: "owners_ok ?c (br_aborted s) (\<lambda>_. lv_fetchController s) (fetch_owners s)"
    "owners_ok ?c (br_aborted s) (lv_inspectionController s) (inspection_owners s)"
    using inv by (simp_all add: writers_inv_def)
  have "owners_ok (n + 1) (br_aborted s \<union> set_option (lv_fetchController s)) (\<lambda>_. Some ?c)
      (fetch_owners s @ [(n, ?c, ())])"
    unfolding cur using s4(2) by (intro owners_start [OF o(1)]) simp_all
  moreover have "owners_ok (n + 1) (br_aborted s \<union> set_option (lv_fetchController s)) (lv_inspectionController s)
      (inspection_owners s)"
    using o s4(2) by (intro owners_weaken [OF o(2)]) (fastforce simp: owners_ok_def)+
  ultimately show ?thesis unfolding writers_inv_def f by simp
qed

lemma start_inspection_writers:
  assumes inv: "writers_inv s"
  shows "writers_inv (start_inspection jobId s)"
proof -
  let ?c = "br_next s" and ?u = "start_inspection jobId s"
  let ?s2 = "(abort_controller (lv_inspectionController s jobId) s)\<lparr> br_next := ?c + 1,
    lv_inspectionController := (lv_inspectionController s)(jobId \<mapsto> ?c) \<rparr>"
  let ?s3 = "set_meta jobId \<lparr> im_busy = True, im_error = [], im_lastUpdatedAt = meta_updatedAt jobId ?s2 \<rparr> ?s2"
  obtain r s4 where share: "share_request (inspection_key jobId) ?c ?s3 = (r, s4)" by (metis surj_pair)
  obtain m q n where s4: "s4 = ?s3\<lparr> lv_requestMap := m, br_requests := q, br_next := n \<rparr>" "?c < n"
    using share_request_frame [OF share] by (auto simp: set_meta_def)
  have f: "br_next ?u = n + 1" "br_aborted ?u = br_aborted s \<union> set_option (lv_inspectionController s jobId)"
    "lv_inspectionController ?u = (lv_inspectionController s)(jobId \<mapsto> ?c)" "lv_fetchController ?u = lv_fetchController s"
    "fetch_owners ?u = fetch_owners s" "inspection_owners ?u = inspection_owners s @ [(n, ?c, jobId)]"
    using share
    by (simp_all add: start_inspection_def Let_def s4(1) set_meta_def fetch_owners_def inspection_owners_def)
      (simp_all add: abort_controller_def)
  have o: "owners_ok ?c (br_aborted s) (\<lambda>_. lv_fetchController s) (fetch_owners s)"
    "owners_ok ?c (br_aborted s) (lv_inspectionController s) (inspection_owners s)"
    using inv by (simp_all add: writers_inv_def)
  have "owners_ok (n + 1) (br_aborted s \<union> set_option (lv_inspectionController s jobId))
      ((lv_inspectionController s)(jobId \<mapsto> ?c)) (inspection_owners s @ [(n, ?c, jobId)])"
    using s4(2) by (intro owners_start [OF o(2)]) simp_all
  moreover have "owners_ok (n + 1) (br_aborted s \<union> set_option (lv_inspectionController s jobId)) (\<lambda>_. lv_fetchController s)
      (fetch_owners s)"
    using o s4(2) by (intro owners_weaken [OF o(1)]) (fastforce simp: owners_ok_def)+
  ultimately show ?thesis unfolding writers_inv_def f by simp
qed


lemma writers_core: "same_core s u \<Longrightarrow> writers_inv u = writers_inv s"
  by (rule writers_inv_cong) (simp_all add: same_core_def)

lemma finish_fetch_writers:
  assumes inv: "writers_inv s" and f: "(fid, f) \<in> set (br_fetches s)"
  shows "writers_inv (finish_fetch fid f s)"
proof -
  let ?s = "finish_fetch fid f s" and ?cur = "\<lambda>_ :: unit. lv_fetchController s" and ?c = "ft_ctrl f"
  have fo: "fetch_owners ?s = filter (\<lambda>x. fst x \<noteq> fid) (fetch_owners s)"
    by (simp add: fetch_owners_def finish_fetch_def filter_map o_def case_prod_beta')
  have io: "inspection_owners ?s = inspection_owners s" by (simp add: inspection_owners_def finish_fetch_def)
  have rest: "br_next ?s = br_next s" "br_aborted ?s = br_aborted s"
    "lv_inspectionController ?s = lv_inspectionController s"
    "(\<lambda>_. lv_fetchController ?s) = (if ?cur () = Some ?c then ?cur(() := None) else ?cur)"
    by (simp_all add: finish_fetch_def fun_eq_iff)
  have mem: "(fid, ?c, ()) \<in> set (fetch_owners s)" using f by (force simp: fetch_owners_def)
  show ?thesis
    using inv owners_finish [OF _ mem] unfolding writers_inv_def fo io rest by blast
qed

lemma finish_inspection_writers:
  assumes inv: "writers_inv s" and p: "(pid, p) \<in> set (br_inspections s)"
  shows "writers_inv (finish_inspection pid p s)"
proof -
  let ?s = "finish_inspection pid p s" and ?c = "if_ctrl p" and ?k = "if_jobId p"
  have io: "inspection_owners ?s = filter (\<lambda>x. fst x \<noteq> pid) (inspection_owners s)"
    by (simp add: inspection_owners_def finish_inspection_def filter_map o_def case_prod_beta')
  have fo: "fetch_owners ?s = fetch_owners s" by (simp add: fetch_owners_def finish_inspection_def)
  have rest: "br_next ?s = br_next s" "br_aborted ?s = br_aborted s" "lv_fetchController ?s = lv_fetchController s"
    "lv_inspectionController ?s = (if lv_inspectionController s ?k = Some ?c
       then (lv_inspectionController s)(?k := None) else lv_inspectionController s)"
    by (simp_all add: finish_inspection_def)
  have mem: "(pid, ?c, ?k) \<in> set (inspection_owners s)" using p by (force simp: inspection_owners_def)
  show ?thesis
    using inv owners_finish [OF _ mem] unfolding writers_inv_def fo io rest by blast
qed

lemma fetches_writers:
  assumes "writers_inv s" and "set xs \<subseteq> set (br_fetches s)" and "distinct (map fst xs)"
  shows "writers_inv (foldl (fetch_hears D now r failure) s xs)"
  using assms
proof (induction xs arbitrary: s)
  case (Cons x xs)
  obtain fid f where x: "x = (fid, f)" by fastforce
  let ?s = "fetch_hears D now r failure s x"
  have "writers_inv ?s \<and> set xs \<subseteq> set (br_fetches ?s)"
  proof (cases "fetch_done r failure s f")
    case False
    then show ?thesis using Cons.prems by (simp add: x fetch_hears_idle)
  next
    case True
    then obtain u where u: "?s = finish_fetch fid f u" "same_core s u"
      using fetch_hears_done x by blast
    have "br_fetches u = br_fetches s" using u(2) by (simp add: same_core_def)
    moreover have "writers_inv u" using Cons.prems(1) writers_core [OF u(2)] by simp
    ultimately have "writers_inv ?s" unfolding u(1) using Cons.prems(2) x by (intro finish_fetch_writers) auto
    moreover have "set xs \<subseteq> set (br_fetches ?s)"
      unfolding u(1) using Cons.prems(2,3) x \<open>br_fetches u = br_fetches s\<close>
      by (force simp: finish_fetch_def)
    ultimately show ?thesis by simp
  qed
  then show ?case using Cons.IH Cons.prems(3) by simp
qed simp

lemma inspection_hears_cases:
  obtains (idle) "inspection_hears D now r outcome s (pid, p) = s"
  | (heard) u where "inspection_hears D now r outcome s (pid, p) = finish_inspection pid p u" "same_core s u"
proof (cases "if_request p = r")
  case False
  then show ?thesis using idle by (simp add: inspection_hears_def)
next
  case True
  consider e where "outcome = Inl e" | i where "outcome = Inr (Rs_inspection i)"
    | v where "outcome = Inr v" "\<And>i. v \<noteq> Rs_inspection i" by (metis sumE)
  then show ?thesis
  proof cases
    case (1 e)
    then have "inspection_hears D now r outcome s (pid, p) = inspection_fails D pid p e s"
      using True by (simp add: inspection_hears_def)
    then show ?thesis
      unfolding inspection_fails_def
      by (rule heard) (auto simp: same_core_def set_meta_def split: option.split dest: fallback_core)
  next
    case (2 i)
    then have "inspection_hears D now r outcome s (pid, p) = inspection_succeeds D now pid p i s"
      using True by (simp add: inspection_hears_def)
    then show ?thesis
      unfolding inspection_succeeds_def by (rule heard) (simp add: same_core_def set_meta_def Let_def)
  next
    case (3 v)
    then show ?thesis using idle True by (cases v) (auto simp: inspection_hears_def)
  qed
qed

lemma inspections_writers:
  assumes "writers_inv s" and "set ys \<subseteq> set (br_inspections s)" and "distinct (map fst ys)"
  shows "writers_inv (foldl (inspection_hears D now r outcome) s ys)"
  using assms
proof (induction ys arbitrary: s)
  case (Cons y ys)
  obtain pid p where y: "y = (pid, p)" by fastforce
  let ?s = "inspection_hears D now r outcome s y"
  have "writers_inv ?s \<and> set ys \<subseteq> set (br_inspections ?s)"
    unfolding y
  proof (cases rule: inspection_hears_cases [of D now r outcome s pid p])
    case idle
    then show "writers_inv (inspection_hears D now r outcome s (pid, p)) \<and>
        set ys \<subseteq> set (br_inspections (inspection_hears D now r outcome s (pid, p)))"
      using Cons.prems by simp
  next
    case (heard u)
    have b: "br_inspections u = br_inspections s" using heard(2) by (simp add: same_core_def)
    have "writers_inv u" using Cons.prems(1) writers_core [OF heard(2)] by simp
    then have "writers_inv (finish_inspection pid p u)"
      using Cons.prems(2) y b by (intro finish_inspection_writers) auto
    moreover have "set ys \<subseteq> set (br_inspections (finish_inspection pid p u))"
      using Cons.prems(2,3) y b by (force simp: finish_inspection_def)
    ultimately show "writers_inv (inspection_hears D now r outcome s (pid, p)) \<and>
        set ys \<subseteq> set (br_inspections (inspection_hears D now r outcome s (pid, p)))"
      unfolding heard(1) by simp
  qed
  then show ?case using Cons.IH Cons.prems(3) by simp
qed simp

lemma settle_request_writers:
  assumes inv: "writers_inv s"
  shows "writers_inv (settle_request D now r outcome s)"
proof (cases "br_requests s r")
  case (Some q)
  define s1 where "s1 = s\<lparr> lv_requestMap := (lv_requestMap s)(rq_key q := None), br_requests := (br_requests s)(r := None),
    br_results := (case outcome of Inl e \<Rightarrow> br_results s | Inr v \<Rightarrow> (br_results s)(r \<mapsto> v)) \<rparr>"
  define failure where "failure = (case outcome of Inl e \<Rightarrow> Some e | Inr v \<Rightarrow> None)"
  let ?s2 = "foldl (fetch_hears D now r failure) s1 (br_fetches s1)"
  have i1: "writers_inv s1" using inv by (subst writers_inv_cong [of _ s]) (simp_all add: s1_def)
  have "distinct (map fst (br_fetches s1))" "distinct (map fst (br_inspections s1))"
    using i1 by (simp_all add: writers_inv_def owners_ok_def fetch_owners_def inspection_owners_def o_def case_prod_beta)
  then have "writers_inv (foldl (inspection_hears D now r outcome) ?s2 (br_inspections ?s2))"
    using fetches_writers [OF i1, of "br_fetches s1"]
    by (intro inspections_writers) (simp_all add: fetches_keep_inspections)
  then show ?thesis using Some by (simp add: settle_request_def Let_def s1_def failure_def)
qed (simp add: settle_request_def inv)

lemma mode_effect_writers:
  assumes inv: "writers_inv s"
  shows "writers_inv (mode_effect liveMode demo s)"
proof -
  let ?u = "s\<lparr> br_aborted := br_aborted s \<union> set_option (lv_fetchController s) \<union> ran (lv_inspectionController s) \<rparr>"
  have "owners_ok (br_next ?u) (br_aborted ?u) (\<lambda>_. lv_fetchController s) (fetch_owners s)"
    "owners_ok (br_next ?u) (br_aborted ?u) (lv_inspectionController s) (inspection_owners s)"
    using inv unfolding writers_inv_def
    by (auto intro!: owners_weaken [where n = "br_next s" and ab = "br_aborted s"] simp: owners_ok_def ran_def)
  then have "writers_inv ?u" by (simp add: writers_inv_def fetch_owners_def inspection_owners_def)
  then show ?thesis by (subst writers_inv_cong [of _ ?u]) (simp_all add: mode_effect_def Let_def)
qed

lemma refreshConsole_writers:
  assumes inv: "writers_inv s"
  shows "writers_inv (refreshConsole D now opts quiet force s)"
proof -
  let ?s = "s\<lparr> lv_lastAttemptAt := iso_text D now \<rparr>"
  have "writers_inv ?s" using inv by (subst writers_inv_cong [of _ s]) simp_all
  moreover have "writers_inv (refuse_refresh quiet u)" if "writers_inv u" for u
    using that by (subst writers_inv_cong [of _ u]) (simp_all add: refuse_refresh_def)
  ultimately show ?thesis using inv by (simp add: refreshConsole_def Let_def start_fetch_writers)
qed

lemma refreshInspection_writers:
  assumes inv: "writers_inv s"
  shows "writers_inv (refreshInspection D now opts jobId force s)"
proof (cases "applyInspectionFallback D jobId s")
  case None
  then show ?thesis using inv by (simp add: refreshInspection_def start_inspection_writers)
next
  case (Some u)
  then have "same_core s (set_meta jobId m u)" for m using fallback_core set_meta_core by blast
  then have "writers_inv (set_meta jobId m u)" for m using writers_core inv by blast
  then show ?thesis using inv Some by (simp add: refreshInspection_def start_inspection_writers)
qed

theorem live_step_writers: "writers_inv s \<Longrightarrow> live_step D s s' \<Longrightarrow> writers_inv s'"
  by (erule live_step.cases)
    (simp_all add: refreshConsole_writers refreshInspection_writers settle_request_writers mode_effect_writers)

definition live_start :: "Live \<Rightarrow> bool" where
  "live_start s \<longleftrightarrow> (\<exists>d. s = initial_live d)"

interpretation live_data: step_system live_start "live_step D" "\<lambda>s. live_inv s \<and> writers_inv s" for D
  by unfold_locales (auto simp: live_start_def initial_live_inv initial_writers intro: live_step_inv live_step_writers)

section \<open>What the operator sees\<close>

text \<open>The console data and the state of the last refresh.\<close>

definition console_view :: "Live \<Rightarrow> ConsoleData \<times> string \<times> nat \<times> string" where
  "console_view s = (lv_data s, lv_globalError s, lv_consecutiveFailures s, lv_lastSuccessfulAt s)"

text \<open>The refreshes that act on the outcome of request \<open>r\<close>.\<close>

definition live_waiters :: "Live \<Rightarrow> nat \<Rightarrow> Fetch set" where
  "live_waiters s r = {f. r \<in> set (ft_need f) \<and> ft_ctrl f \<notin> br_aborted s}"

lemma view_finish [simp]: "console_view (finish_fetch fid f s) = console_view s"
  by (simp add: console_view_def finish_fetch_def)

lemma hears_frame:
  "br_aborted (fetch_hears D now r failure s x) = br_aborted s"
  "br_results (fetch_hears D now r failure s x) = br_results s"
proof -
  obtain fid f where x: "x = (fid, f)" by fastforce
  show "br_aborted (fetch_hears D now r failure s x) = br_aborted s"
    "br_results (fetch_hears D now r failure s x) = br_results s"
    using fetch_hears_idle [of r failure s f D now fid] fetch_hears_done [of r failure s f D now fid] x
    by (cases "fetch_done r failure s f"; force simp: same_core_def finish_fetch_def)+
qed

lemma view_stale:
  assumes "snd x \<notin> live_waiters s r"
  shows "console_view (fetch_hears D now r failure s x) = console_view s"
proof -
  obtain fid f where x: "x = (fid, f)" by fastforce
  show ?thesis
  proof (cases "r \<in> set (ft_need f)")
    case False
    then show ?thesis by (simp add: x fetch_hears_def)
  next
    case True
    then have "ft_ctrl f \<in> br_aborted s" using assms x by (simp add: live_waiters_def)
    then show ?thesis
      unfolding x fetch_hears_def fetch_fails_def fetch_succeeds_def
      by (auto split: option.split list.split Response.split)
  qed
qed

lemma view_stale_all:
  assumes "snd ` set xs \<inter> live_waiters s r = {}"
  shows "console_view (foldl (fetch_hears D now r failure) s xs) = console_view s"
  using assms
proof (induction xs arbitrary: s)
  case (Cons x xs)
  have "console_view (fetch_hears D now r failure s x) = console_view s" using Cons.prems by (intro view_stale) auto
  moreover have "live_waiters (fetch_hears D now r failure s x) r = live_waiters s r"
    by (simp add: live_waiters_def hears_frame)
  ultimately show ?case using Cons by auto
qed simp

lemma view_meta [simp]: "console_view (set_meta j m s) = console_view s"
  by (simp add: console_view_def set_meta_def)

lemma view_finish_inspection [simp]: "console_view (finish_inspection pid p s) = console_view s"
  by (simp add: console_view_def finish_inspection_def)

lemma view_fallback: "applyInspectionFallback D j s = Some s' \<Longrightarrow> console_view s' = console_view s"
  by (auto simp: applyInspectionFallback_def console_view_def Let_def split: option.splits if_splits)

lemma view_inspections [simp]: "console_view (foldl (inspection_hears D now r outcome) s ys) = console_view s"
proof (induction ys arbitrary: s)
  case (Cons y ys)
  obtain pid p where y: "y = (pid, p)" by fastforce
  have "console_view (inspection_fails D pid p e s) = console_view s" for e
    unfolding inspection_fails_def by (auto dest: view_fallback split: option.split)
  moreover have "console_view (inspection_succeeds D now pid p i s) = console_view s" for i
    unfolding inspection_succeeds_def by (auto simp: Let_def) (simp_all add: console_view_def)
  ultimately have "console_view (inspection_hears D now r outcome s y) = console_view s"
    unfolding y inspection_hears_def by (auto split: sum.split Response.split)
  then show ?case using Cons.IH by simp
qed simp

lemma settle_view:
  assumes "br_requests s r = Some q"
  obtains s1 where "console_view (settle_request D now r outcome s) =
      console_view (foldl (fetch_hears D now r (case outcome of Inl e \<Rightarrow> Some e | Inr v \<Rightarrow> None)) s1 (br_fetches s))"
    and "console_view s1 = console_view s" and "br_aborted s1 = br_aborted s"
  by (rule that [of "s\<lparr> lv_requestMap := (lv_requestMap s)(rq_key q := None), br_requests := (br_requests s)(r := None),
      br_results := (case outcome of Inl e \<Rightarrow> br_results s | Inr v \<Rightarrow> (br_results s)(r \<mapsto> v)) \<rparr>"])
    (use assms in \<open>simp_all add: settle_request_def Let_def\<close>, simp_all add: console_view_def)

lemma stale_settlement:
  assumes "snd ` set (br_fetches s) \<inter> live_waiters s r = {}"
  shows "console_view (settle_request D now r outcome s) = console_view s"
proof (cases "br_requests s r")
  case (Some q)
  then obtain s1 where s1: "console_view (settle_request D now r outcome s) =
      console_view (foldl (fetch_hears D now r (case outcome of Inl e \<Rightarrow> Some e | Inr v \<Rightarrow> None)) s1 (br_fetches s))"
    "console_view s1 = console_view s" "br_aborted s1 = br_aborted s"
    by (rule settle_view [of s r q D now outcome])
  have "snd ` set (br_fetches s) \<inter> live_waiters s1 r = {}" using assms s1(3) by (simp add: live_waiters_def)
  then show ?thesis using view_stale_all s1 by simp
qed (simp add: settle_request_def)

lemma one_writer:
  assumes inv: "writers_inv s" and x: "x \<in> set (br_fetches s)" "ft_ctrl (snd x) \<notin> br_aborted s"
    and y: "y \<in> set (br_fetches s)" "ft_ctrl (snd y) \<notin> br_aborted s"
  shows "x = y"
proof -
  have ok: "owners_ok (br_next s) (br_aborted s) (\<lambda>_. lv_fetchController s) (fetch_owners s)"
    using inv by (simp add: writers_inv_def)
  have "lv_fetchController s = Some (ft_ctrl (snd z))" if "z \<in> set (br_fetches s)" "ft_ctrl (snd z) \<notin> br_aborted s" for z
    using ok that unfolding owners_ok_def fetch_owners_def by (auto simp: case_prod_beta)
  then have "ft_ctrl (snd x) = ft_ctrl (snd y)" using x y by (metis option.inject)
  moreover have "inj_on (\<lambda>x. ft_ctrl (snd x)) (set (br_fetches s))"
    using ok by (simp add: owners_ok_def fetch_owners_def o_def case_prod_beta distinct_map)
  ultimately show ?thesis using x(1) y(1) by (blast dest: inj_onD)
qed

lemma one_inspection_writer:
  assumes inv: "writers_inv s" and x: "x \<in> set (br_inspections s)" "if_ctrl (snd x) \<notin> br_aborted s"
    and y: "y \<in> set (br_inspections s)" "if_ctrl (snd y) \<notin> br_aborted s" and "if_jobId (snd x) = if_jobId (snd y)"
  shows "x = y"
proof -
  have ok: "owners_ok (br_next s) (br_aborted s) (lv_inspectionController s) (inspection_owners s)"
    using inv by (simp add: writers_inv_def)
  have "lv_inspectionController s (if_jobId (snd z)) = Some (if_ctrl (snd z))"
    if "z \<in> set (br_inspections s)" "if_ctrl (snd z) \<notin> br_aborted s" for z
    using ok that unfolding owners_ok_def inspection_owners_def by (auto simp: case_prod_beta)
  then have "if_ctrl (snd x) = if_ctrl (snd y)" using x y assms(6) by (metis option.inject)
  moreover have "inj_on (\<lambda>x. if_ctrl (snd x)) (set (br_inspections s))"
    using ok by (simp add: owners_ok_def inspection_owners_def o_def case_prod_beta distinct_map)
  ultimately show ?thesis using x(1) y(1) by (blast dest: inj_onD)
qed

text \<open>The failure of a request reaches the one live refresh that waits for it.\<close>

lemma failed_settlement:
  assumes inv: "writers_inv s" and q: "br_requests s r = Some q"
    and x: "(fid, f) \<in> set (br_fetches s)" "f \<in> live_waiters s r"
  shows "console_view (settle_request D now r (Inl e) s) =
    (lv_data s, error_text e, lv_consecutiveFailures s + 1, lv_lastSuccessfulAt s)"
proof -
  obtain s1 where s1: "console_view (settle_request D now r (Inl e) s) =
      console_view (foldl (fetch_hears D now r (Some e)) s1 (br_fetches s))"
    "console_view s1 = console_view s" "br_aborted s1 = br_aborted s"
    using settle_view [OF q, of D now "Inl e"] by auto
  obtain xs ys where xs: "br_fetches s = xs @ (fid, f) # ys" using x(1) by (meson split_list)
  have di: "distinct (br_fetches s)"
    using inv by (auto simp: writers_inv_def owners_ok_def fetch_owners_def distinct_map)
  have stale: "snd ` set zs \<inter> live_waiters s r = {}" if "set zs \<subseteq> set (br_fetches s) - {(fid, f)}" for zs
  proof -
    have "snd z \<notin> live_waiters s r" if "z \<in> set zs" for z
      using one_writer [OF inv, of z "(fid, f)"] x that \<open>set zs \<subseteq> _\<close> by (auto simp: live_waiters_def)
    then show ?thesis by blast
  qed
  let ?h = "fetch_hears D now r (Some e)"
  have a: "br_aborted (foldl ?h u zs) = br_aborted u" for u zs
    by (induction zs arbitrary: u) (simp_all add: hears_frame)
  have 1: "console_view (foldl ?h s1 xs) = console_view s"
    using view_stale_all [of xs s1 r D now "Some e"] stale [of xs] di s1 xs by (auto simp: live_waiters_def)
  have "?h u (fid, f) = fetch_fails fid f e u" for u using x(2) by (simp add: fetch_hears_def live_waiters_def)
  then have 2: "console_view (?h (foldl ?h s1 xs) (fid, f)) =
      (lv_data s, error_text e, lv_consecutiveFailures s + 1, lv_lastSuccessfulAt s)"
    using 1 x(2) a [of s1 xs] s1(3) by (simp add: fetch_fails_def live_waiters_def) (simp add: console_view_def)
  have 3: "console_view (foldl ?h (?h (foldl ?h s1 xs) (fid, f)) ys) = console_view (?h (foldl ?h s1 xs) (fid, f))"
  proof (rule view_stale_all)
    have "br_aborted (?h (foldl ?h s1 xs) (fid, f)) = br_aborted s" using a s1(3) by (simp add: hears_frame)
    then have "live_waiters (?h (foldl ?h s1 xs) (fid, f)) r = live_waiters s r" by (simp add: live_waiters_def)
    then show "snd ` set ys \<inter> live_waiters (?h (foldl ?h s1 xs) (fid, f)) r = {}"
      using stale [of ys] di xs by auto
  qed
  show ?thesis using s1(1) 2 3 xs by simp
qed

text \<open>Nothing waits for a promise that cannot settle.\<close>

lemma no_request_no_refresh:
  assumes inv: "live_inv s" and none: "br_requests s = Map.empty"
  shows "br_fetches s = []" and "br_inspections s = []" and "lv_fetchPromise s = None"
proof -
  have "x \<notin> set (br_fetches s)" for x
    using live_invD(3) [OF inv, of x] none by (auto simp: fetch_ok_def pending_def)
  then show f: "br_fetches s = []" by (cases "br_fetches s") auto
  have "y \<notin> set (br_inspections s)" for y
    using live_invD(5) [OF inv, of y] none by (auto simp: inspection_ok_def)
  then show "br_inspections s = []" by (cases "br_inspections s") auto
  show "lv_fetchPromise s = None" using live_invD(6) [OF inv] f by (cases "lv_fetchPromise s") auto
qed

text \<open>
  A refresh that waits when its data is already being fetched. A forced one aborts the controller
  of the pending refresh, and then shares the requests that were just aborted.
\<close>

lemma idle_refresh:
  assumes "lv_fetchPromise s \<noteq> None" and "truthy (lo_resolvedBaseUrl opts)"
  shows "br_requests (refreshConsole D now opts quiet False s) = br_requests s"
    and "br_fetches (refreshConsole D now opts quiet False s) = br_fetches s"
    and "br_aborted (refreshConsole D now opts quiet False s) = br_aborted s"
    and "console_view (refreshConsole D now opts quiet False s) = console_view s"
  using assms by (auto simp: refreshConsole_def Let_def console_view_def)

lemma forced_refresh:
  assumes inv: "live_inv s" "writers_inv s" and live: "lo_liveMode opts" "truthy (lo_resolvedBaseUrl opts)"
    and f: "lv_fetchController s = Some c"
    and q: "br_requests s r = Some q" "rq_ctrl q = c" "rq_key q \<in> set console_keys"
    and s': "s' = refreshConsole D now opts True True s"
  shows "br_requests s' r = Some q" and "rq_ctrl q \<in> br_aborted s'"
    and "console_view s' = console_view s"
    and "\<exists>x \<in> set (br_fetches s'). snd x \<in> live_waiters s' r"
proof -
  obtain need s4 where share: "share_all (br_next s) console_keys (fetch_prelude True s) = (need, s4)" by (metis surj_pair)
  obtain m p n where s4: "s4 = (fetch_prelude True s)\<lparr> lv_requestMap := m, br_requests := p, br_next := n \<rparr>"
    using share_all_frame [OF share] by blast
  have inv3: "live_inv (fetch_prelude True s)"
    using fresh_id_inv [OF inv(1)]
    by (subst live_inv_cong [of _ "s\<lparr> br_next := br_next s + 1 \<rparr>"]) (simp_all add: fetch_prelude_def)
  note sp = share_all_spec [OF inv3 share]
  have s'_eq: "s' = start_fetch True s" using live by (simp add: s' refreshConsole_def Let_def)
  note eq = s'_eq [unfolded start_fetch_eq [OF share]]
  have req: "br_requests s4 r = Some q" using sp q(1) by (simp add: extends_def fetch_prelude_def)
  then show "br_requests s' r = Some q" by (simp add: eq)
  show "rq_ctrl q \<in> br_aborted s'" using f q(2) by (simp add: eq s4 fetch_prelude_def)
  show "console_view s' = console_view s" by (simp add: eq s4 fetch_prelude_def console_view_def)
  obtain i where i: "i < length console_keys" "console_keys ! i = rq_key q" using q(3) by (metis in_set_conv_nth)
  have all: "list_all2 (\<lambda>key r. \<exists>q. br_requests s4 r = Some q \<and> rq_key q = key) console_keys need" using sp by simp
  obtain q' where q': "br_requests s4 (need ! i) = Some q'" "rq_key q' = rq_key q"
    using list_all2_nthD [OF all i(1)] i(2) by auto
  have "map_ok s4" using live_invD(1) sp by blast
  then have "need ! i = r" using q' req unfolding map_ok_def by (metis option.inject)
  moreover have "i < length need" using list_all2_lengthD [OF all] i(1) by simp
  ultimately have mem: "r \<in> set need" by auto
  have "br_next s \<notin> br_aborted s'"
  proof -
    have "\<forall>k \<in> br_aborted s. k < br_next s" "c < br_next s" using inv(2) f by (auto simp: writers_inv_def owners_ok_def)
    then show ?thesis using f by (auto simp: eq s4 fetch_prelude_def)
  qed
  then show "\<exists>x \<in> set (br_fetches s'). snd x \<in> live_waiters s' r"
    using mem by (auto simp: eq live_waiters_def)
qed

text \<open>So the forced refresh fails with the error of the aborted request, and counts as a failure.\<close>

lemma forced_refresh_fails:
  assumes inv: "live_inv s" "writers_inv s" and live: "lo_liveMode opts" "truthy (lo_resolvedBaseUrl opts)"
    and f: "lv_fetchController s = Some c"
    and q: "br_requests s r = Some q" "rq_ctrl q = c" "rq_key q \<in> set console_keys"
  shows "console_view (settle_request D now' r (Inl e) (refreshConsole D now opts True True s)) =
    (lv_data s, error_text e, lv_consecutiveFailures s + 1, lv_lastSuccessfulAt s)"
proof -
  let ?s = "refreshConsole D now opts True True s"
  note fr = forced_refresh [OF inv live f q refl, of D now]
  obtain x where x: "x \<in> set (br_fetches ?s)" "snd x \<in> live_waiters ?s r" using fr(4) by blast
  have "writers_inv ?s" using inv(2) by (rule refreshConsole_writers)
  then have "console_view (settle_request D now' r (Inl e) ?s) =
      (lv_data ?s, error_text e, lv_consecutiveFailures ?s + 1, lv_lastSuccessfulAt ?s)"
    using failed_settlement [OF _ fr(1), of "fst x" "snd x"] x by simp
  then show ?thesis using fr(3) by (simp add: console_view_def)
qed

text \<open>A refresh that succeeds.\<close>

lemma fetch_succeeds_effect:
  assumes "ft_ctrl f \<notin> br_aborted s" and s': "s' = fetch_succeeds D now fid f snapshot jobs schedules workers s"
  shows "lv_globalError s' = []" and "lv_consecutiveFailures s' = 0" and "lv_lastSuccessfulAt s' = iso_text D now"
    and "\<not> lv_loading s'"
    and "cd_source (lv_data s) = Source_live \<Longrightarrow>
      createConsolePayloadSignature snapshot jobs schedules workers = lv_dataSignature s \<Longrightarrow> lv_data s' = lv_data s"
    and "cd_queueControls (lv_data s') = cd_queueControls (lv_data s)"
    and "cd_workerControls (lv_data s') = cd_workerControls (lv_data s)"
    and "cd_inspections (lv_data s') = cd_inspections (lv_data s)"
  using assms by (simp_all add: fetch_succeeds_def finish_fetch_def hydrate_def Let_def)

lemma distinct_work:
  assumes "writers_inv s"
  shows "distinct (br_fetches s)" and "distinct (br_inspections s)"
  using assms
  by (auto simp: writers_inv_def owners_ok_def fetch_owners_def inspection_owners_def o_def case_prod_beta distinct_map)

lemma at_most_one:
  assumes "distinct xs" and "\<And>x y. x \<in> set xs \<Longrightarrow> y \<in> set xs \<Longrightarrow> P x \<Longrightarrow> P y \<Longrightarrow> x = y"
  shows "length (filter P xs) \<le> 1"
proof -
  have "card (set (filter P xs)) \<le> 1"
    unfolding One_nat_def using assms(2) by (subst card_le_Suc0_iff_eq) auto
  then show ?thesis using assms(1) by (metis distinct_card distinct_filter)
qed

text \<open>In a state of the invariant a key has at most one request in flight.\<close>

lemma request_of_key:
  assumes "live_inv s" and "br_requests s r = Some q" and "br_requests s r' = Some q'" and "rq_key q = rq_key q'"
  shows "r = r'"
  using live_invD(1) [OF assms(1)] assms(2-4) unfolding map_ok_def by (metis option.inject)

section \<open>Every refresh ends\<close>

text \<open>A settlement that the browser may deliver in state \<open>s\<close>, and a sequence of settlements.\<close>

definition may_settle :: "Live \<Rightarrow> nat \<Rightarrow> RequestError + Response \<Rightarrow> bool" where
  "may_settle s r outcome \<longleftrightarrow>
     (case br_requests s r of
        None \<Rightarrow> False
      | Some q \<Rightarrow> (case outcome of
            Inl e \<Rightarrow> True
          | Inr v \<Rightarrow> rq_ctrl q \<notin> br_aborted s \<and> response_fits (rq_key q) v))"

fun settle_all :: "date_api \<Rightarrow> (int \<times> nat \<times> (RequestError + Response)) list \<Rightarrow> Live \<Rightarrow> Live" where
  "settle_all D [] s = s"
| "settle_all D ((now, r, outcome) # rest) s = settle_all D rest (settle_request D now r outcome s)"

lemma hears_requests: "br_requests (fetch_hears D now r failure s x) = br_requests s"
proof -
  obtain fid f where x: "x = (fid, f)" by fastforce
  show ?thesis
    using fetch_hears_idle [of r failure s f D now fid] fetch_hears_done [of r failure s f D now fid] x
    by (cases "fetch_done r failure s f"; force simp: same_core_def finish_fetch_def)
qed

lemma inspection_hears_frame:
  "br_requests (inspection_hears D now r outcome s y) = br_requests s \<and>
   br_aborted (inspection_hears D now r outcome s y) = br_aborted s"
proof -
  obtain pid p where y: "y = (pid, p)" by fastforce
  show ?thesis
    unfolding y by (rule inspection_hears_cases [of D now r outcome s pid p])
      (auto simp: same_core_def finish_inspection_def)
qed

lemma foldl_frame: "(\<And>s x. g (h s x) = g s) \<Longrightarrow> g (foldl h s xs) = g s"
  by (induction xs arbitrary: s) simp_all

lemma settle_frame:
  "br_requests (settle_request D now r outcome s) = (br_requests s)(r := None)"
  "br_aborted (settle_request D now r outcome s) = br_aborted s"
proof -
  have f: "br_requests (foldl (fetch_hears D now r failure) s xs) = br_requests s"
    "br_aborted (foldl (fetch_hears D now r failure) s xs) = br_aborted s" for s failure xs
    by (rule foldl_frame, simp add: hears_requests hears_frame)+
  have i: "br_requests (foldl (inspection_hears D now r outcome) s ys) = br_requests s"
    "br_aborted (foldl (inspection_hears D now r outcome) s ys) = br_aborted s" for s ys
    by (rule foldl_frame, simp add: inspection_hears_frame)+
  show "br_requests (settle_request D now r outcome s) = (br_requests s)(r := None)"
    "br_aborted (settle_request D now r outcome s) = br_aborted s"
    by (auto simp: settle_request_def f i Let_def split: option.split)
qed

lemma may_settle_step: "may_settle s r outcome \<Longrightarrow> live_step D s (settle_request D now r outcome s)"
  by (auto simp: may_settle_def split: option.splits sum.splits intro!: step_settle)

lemma may_settle_other: "r' \<noteq> r \<Longrightarrow> may_settle (settle_request D now r outcome s) r' out = may_settle s r' out"
  unfolding may_settle_def settle_frame by simp

lemma settle_all_run:
  assumes "distinct (map (fst \<circ> snd) evs)" and "\<forall>(now, r, outcome) \<in> set evs. may_settle s r outcome"
  shows "(live_step D)\<^sup>*\<^sup>* s (settle_all D evs s) \<and>
    dom (br_requests (settle_all D evs s)) = dom (br_requests s) - set (map (fst \<circ> snd) evs)"
  using assms
proof (induction evs arbitrary: s)
  case (Cons ev evs)
  obtain now r outcome where ev: "ev = (now, r, outcome)" by (cases ev) auto
  let ?s = "settle_request D now r outcome s"
  have "may_settle ?s r' out" if "(n, r', out) \<in> set evs" for n r' out
  proof -
    have "r' \<noteq> r" using Cons.prems(1) that ev by (force simp: image_iff)
    then show ?thesis using Cons.prems(2) that by (auto simp: may_settle_other)
  qed
  then have "(live_step D)\<^sup>*\<^sup>* ?s (settle_all D evs ?s) \<and>
      dom (br_requests (settle_all D evs ?s)) = dom (br_requests ?s) - set (map (fst \<circ> snd) evs)"
    using Cons.prems(1) by (intro Cons.IH) auto
  moreover have "live_step D s ?s" using Cons.prems(2) ev by (auto intro: may_settle_step)
  ultimately show ?case using ev by (auto simp: settle_frame intro: converse_rtranclp_into_rtranclp)
qed simp

lemma finite_requests: "live_inv s \<Longrightarrow> finite (dom (br_requests s))"
  by (rule finite_subset [of _ "{..< br_next s}"]) (auto simp: live_inv_def ids_ok_def pending_def)

end
