(* ===== verification/LiveEvents.thy ===== *)
theory LiveEvents
  imports LiveStatus StepSystem
begin

text \<open>
  The event queue of \<open>src/src/hooks/useDashboardLiveData.ts\<close>: realtime events are collected for 180 ms
  and appended in one batch, each batch asks for a refresh of the console 320 ms later, and an event
  of the selected job asks for a refresh of its inspection 450 ms later.

  A timer is the time at which it is due. A timer that fired leaves its id in \<open>refreshDebounceRef\<close>,
  where it is only cleared, which does nothing; so a fired timer is \<open>None\<close>.
\<close>

record EventQueue =
  eq_pending :: "SystemEvent list"
  eq_flushTimer :: "rat option"
  eq_refreshTimer :: "rat option"
  eq_inspectionTimers :: "string \<rightharpoonup> rat"

definition empty_events :: EventQueue where
  "empty_events = \<lparr> eq_pending = [], eq_flushTimer = None, eq_refreshTimer = None, eq_inspectionTimers = Map.empty \<rparr>"

definition scheduleConsoleRefresh :: "rat \<Rightarrow> EventQueue \<Rightarrow> EventQueue" where
  "scheduleConsoleRefresh now q = q\<lparr> eq_refreshTimer := Some (now + CONSOLE_REFRESH_DEBOUNCE_MS) \<rparr>"

definition flushPendingEvents :: "date_api \<Rightarrow> rat \<Rightarrow> EventQueue \<times> ConsoleData \<Rightarrow> EventQueue \<times> ConsoleData" where
  "flushPendingEvents D now s =
     (let (q, d) = s; q1 = q\<lparr> eq_flushTimer := None \<rparr>
      in if eq_pending q1 = [] then (q1, d)
         else (scheduleConsoleRefresh now (q1\<lparr> eq_pending := [] \<rparr>), appendEvents D d (eq_pending q1)))"

definition queueLiveEvent :: "rat \<Rightarrow> SystemEvent \<Rightarrow> EventQueue \<Rightarrow> EventQueue" where
  "queueLiveEvent now event q =
     (let q1 = q\<lparr> eq_pending := eq_pending q @ [event] \<rparr>
      in if eq_flushTimer q1 \<noteq> None then q1
         else q1\<lparr> eq_flushTimer := Some (now + EVENT_BATCH_WINDOW_MS) \<rparr>)"

definition scheduleInspectionRefresh :: "rat \<Rightarrow> string \<Rightarrow> EventQueue \<Rightarrow> EventQueue" where
  "scheduleInspectionRefresh now jobId q =
     (if jobId = [] then q
      else q\<lparr> eq_inspectionTimers := (eq_inspectionTimers q)(jobId \<mapsto> now + INSPECTION_REFRESH_DEBOUNCE_MS) \<rparr>)"

text \<open>\<open>onEvent\<close> of the transport manager.\<close>

definition on_event :: "rat \<Rightarrow> string \<Rightarrow> SystemEvent \<Rightarrow> EventQueue \<Rightarrow> EventQueue" where
  "on_event now selectedJobId event q =
     (let q1 = queueLiveEvent now event q
      in case ev_jobId event of
           None \<Rightarrow> q1
         | Some jobId \<Rightarrow>
             if jobId \<noteq> [] \<and> jobId = selectedJobId then scheduleInspectionRefresh now jobId q1 else q1)"

text \<open>A change of mode drops what is queued and clears the timers.\<close>

definition clear_events :: "EventQueue \<Rightarrow> EventQueue" where
  "clear_events q = q\<lparr> eq_pending := [], eq_refreshTimer := None, eq_inspectionTimers := Map.empty, eq_flushTimer := None \<rparr>"

text \<open>The timers of the two refreshes fire: what is refreshed follows.\<close>

definition fire_refresh :: "EventQueue \<Rightarrow> EventQueue" where
  "fire_refresh q = q\<lparr> eq_refreshTimer := None \<rparr>"

definition fire_inspection :: "string \<Rightarrow> EventQueue \<Rightarrow> EventQueue" where
  "fire_inspection jobId q = q\<lparr> eq_inspectionTimers := (eq_inspectionTimers q)(jobId := None) \<rparr>"

section \<open>Steps\<close>

text \<open>The time, the queue and the console data. A timer fires when it is due, or later.\<close>

inductive event_step ::
    "date_api \<Rightarrow> rat \<times> EventQueue \<times> ConsoleData \<Rightarrow> rat \<times> EventQueue \<times> ConsoleData \<Rightarrow> bool" for D where
  ev_tick: "now \<le> now' \<Longrightarrow> event_step D (now, q, d) (now', q, d)"
| ev_receive: "log_event D event \<Longrightarrow> event_step D (now, q, d) (now, on_event now selectedJobId event q, d)"
| ev_flush: "eq_flushTimer q = Some due \<Longrightarrow> due \<le> now \<Longrightarrow>
    event_step D (now, q, d) (now, flushPendingEvents D now (q, d))"
| ev_refresh: "eq_refreshTimer q = Some due \<Longrightarrow> due \<le> now \<Longrightarrow> event_step D (now, q, d) (now, fire_refresh q, d)"
| ev_inspection: "eq_inspectionTimers q jobId = Some due \<Longrightarrow> due \<le> now \<Longrightarrow>
    event_step D (now, q, d) (now, fire_inspection jobId q, d)"
| ev_clear: "log_inv D d' \<Longrightarrow> event_step D (now, q, d) (now, clear_events q, d')"

text \<open>
  A queued event always has a timer that will flush it, and the timer is at most 180 ms away; the
  log stays bounded, sorted and free of duplicates.
\<close>

definition events_inv :: "date_api \<Rightarrow> rat \<times> EventQueue \<times> ConsoleData \<Rightarrow> bool" where
  "events_inv D s \<longleftrightarrow>
     (let (now, q, d) = s
      in (eq_pending q \<noteq> [] \<longleftrightarrow> eq_flushTimer q \<noteq> None) \<and>
         (\<forall>t. eq_flushTimer q = Some t \<longrightarrow> t \<le> now + 180) \<and>
         (\<forall>t. eq_refreshTimer q = Some t \<longrightarrow> t \<le> now + 320) \<and>
         (\<forall>j t. eq_inspectionTimers q j = Some t \<longrightarrow> j \<noteq> [] \<and> t \<le> now + 450) \<and>
         (\<forall>e \<in> set (eq_pending q). log_event D e) \<and> log_inv D d)"

lemmas event_defs = on_event_def queueLiveEvent_def scheduleInspectionRefresh_def flushPendingEvents_def
  scheduleConsoleRefresh_def clear_events_def fire_refresh_def fire_inspection_def
  EVENT_BATCH_WINDOW_MS_def CONSOLE_REFRESH_DEBOUNCE_MS_def INSPECTION_REFRESH_DEBOUNCE_MS_def

lemma on_event_fields:
  "eq_pending (on_event now sel e q) = eq_pending q @ [e]"
  "eq_flushTimer (on_event now sel e q) = (case eq_flushTimer q of None \<Rightarrow> Some (now + 180) | Some t \<Rightarrow> Some t)"
  "eq_refreshTimer (on_event now sel e q) = eq_refreshTimer q"
  "eq_inspectionTimers (on_event now sel e q) =
     (if ev_jobId e = Some sel \<and> sel \<noteq> [] then (eq_inspectionTimers q)(sel \<mapsto> now + 450) else eq_inspectionTimers q)"
  by (auto simp: event_defs Let_def split: option.split)

lemma event_step_inv:
  assumes "events_inv D s" and "event_step D s s'"
  shows "events_inv D s'"
  using assms(2,1)
proof cases
  case (ev_receive event now q d selectedJobId)
  then show ?thesis
    using assms(1) by (auto simp: events_inv_def on_event_fields split: option.split)
next
  case (ev_flush q due now d)
  then show ?thesis
    using assms(1) log_inv_append by (auto simp: events_inv_def event_defs)
qed (use assms(1) in \<open>fastforce simp: events_inv_def event_defs\<close>)+

definition events_start :: "rat \<times> EventQueue \<times> ConsoleData \<Rightarrow> bool" where
  "events_start s \<longleftrightarrow> (\<exists>now d. s = (now, empty_events, d) \<and> cd_events d = [])"

interpretation live_events: step_system events_start "event_step D" "events_inv D" for D
proof unfold_locales
  show "events_inv D s" if "events_start s" for s
    using that by (auto simp: events_start_def events_inv_def empty_events_def log_inv_def)
qed (rule event_step_inv)

section \<open>Batches\<close>

text \<open>An event that is flushed is in the log, unless the log is full of events at least as recent.\<close>

lemma appended_shown:
  assumes "log_inv D d" and "\<forall>e \<in> set es. log_event D e" and e: "e \<in> set es"
  defines "d' \<equiv> appendEvents D d es"
  shows "createEventFingerprint e \<in> createEventFingerprint ` set (cd_events d') \<or>
    length (cd_events d') = 60 \<and> (\<forall>x \<in> set (cd_events d'). stamp D (ev_timestamp e) \<le> stamp D (ev_timestamp x))"
proof -
  obtain new where new: "set new \<subseteq> set es" "fingerprints new = fingerprints es - fingerprints (cd_events d)"
    "d' = (if new = [] then d else d\<lparr> cd_events := sortEvents D (cd_events d @ new) \<rparr>)"
    unfolding d'_def by (rule appendEvents_cases)
  have fe: "createEventFingerprint e \<in> fingerprints es" using e by (simp add: fingerprints_def)
  show ?thesis
  proof (cases "createEventFingerprint e \<in> fingerprints (cd_events d) \<and> new = []")
    case True
    then show ?thesis using new(3) by (simp add: fingerprints_def)
  next
    case False
    let ?es = "cd_events d @ new" and ?f = "\<lambda>e. - stamp D (ev_timestamp e)"
    let ?s = "sort_key ?f ?es"
    have ne: "new \<noteq> []"
      using False fe new(2) by (auto simp: fingerprints_def)
    have ev: "\<forall>e \<in> set ?es. log_event D e" using assms(1,2) new(1) by (auto simp: log_inv_def)
    have R: "cd_events d' = take 60 ?s" using ne new(3) ev by (simp add: sortEvents_key log_event_def)
    have "createEventFingerprint e \<in> fingerprints ?es" using fe new(2) by (auto simp: fingerprints_def)
    then obtain y where y: "y \<in> set ?s" "createEventFingerprint y = createEventFingerprint e"
      unfolding fingerprints_def by (metis imageE set_sort)
    have ts: "ev_timestamp y = ev_timestamp e"
      using fingerprint_stamp y ev e assms(2) by (auto simp: log_event_def)
    show ?thesis
    proof (cases "y \<in> set (take 60 ?s)")
      case True
      then show ?thesis using y(2) R by (metis imageI)
    next
      case False
      then have dr: "y \<in> set (drop 60 ?s)" using y(1) by (metis Un_iff append_take_drop_id set_append)
      then have "drop 60 ?s \<noteq> []" by auto
      then have "length (cd_events d') = 60" unfolding R by simp
      moreover have "stamp D (ev_timestamp e) \<le> stamp D (ev_timestamp x)" if "x \<in> set (cd_events d')" for x
        using sorted_take_drop [of ?f ?s x 60 y] dr that ts unfolding R by simp
      ultimately show ?thesis by blast
    qed
  qed
qed

section \<open>A steady stream of events postpones the refresh\<close>

text \<open>One event at the start of each batch window, which is flushed when the window closes.\<close>

fun event_rounds :: "date_api \<Rightarrow> string \<Rightarrow> rat \<Rightarrow> SystemEvent list \<Rightarrow> EventQueue \<times> ConsoleData \<Rightarrow> EventQueue \<times> ConsoleData" where
  "event_rounds D sel now [] s = s"
| "event_rounds D sel now (e # es) (q, d) =
     event_rounds D sel (now + 180) es (flushPendingEvents D (now + 180) (on_event now sel e q, d))"

text \<open>
  The refresh asked for by a batch is put off by the next batch before it is due: while events keep
  coming, the refresh never runs.
\<close>

lemma refresh_put_off:
  assumes "es \<noteq> []"
  shows "eq_refreshTimer (fst (event_rounds D sel now es (q, d))) = Some (now + 180 * of_nat (length es) + 320)"
  using assms
proof (induction es arbitrary: now q d)
  case (Cons e es)
  obtain q' d' where s: "flushPendingEvents D (now + 180) (on_event now sel e q, d) = (q', d')" by fastforce
  then have "eq_refreshTimer q' = Some (now + 180 + 320)"
    by (auto simp: flushPendingEvents_def Let_def on_event_fields scheduleConsoleRefresh_def CONSOLE_REFRESH_DEBOUNCE_MS_def)
  then show ?case using Cons.IH [of "now + 180" q' d'] s by (cases "es = []") (simp_all add: algebra_simps)
qed simp

end
