(* ===== verification/LiveHook.thy ===== *)
theory LiveHook
  imports LiveSafety LiveEvents
begin

text \<open>
  The hook \<open>src/src/hooks/useDashboardLiveData.ts\<close> as a whole: its effects with their dependencies and
  clean-ups, and the callbacks that connect the transport manager, the event queue, the refreshes,
  the polling loop and the interval of the drawer. A commit of React is one step: it compares the
  dependencies of each effect with those of its last run, runs the clean-ups and then the effects,
  in the order of the source. An effect sees what the effects before it have set.

  Every manager that was ever created is kept, with the connections and timers that the browser
  still holds for it, so that what a replaced manager may still do is part of the model.
\<close>

section \<open>The callbacks of a manager\<close>

datatype browser_event =
    B_timer nat
  | B_socket_open nat
  | B_socket_gone nat
  | B_socket_message nat payload
  | B_socket_error nat
  | B_socket_close nat string nat
  | B_source_open nat
  | B_source_message nat payload
  | B_source_error nat

text \<open>What the browser may run: \<open>None\<close> when the timer, socket or source is not there or not in that state.\<close>

fun run_callback :: "env \<Rightarrow> reads \<Rightarrow> browser_event \<Rightarrow> Manager \<Rightarrow> Manager option" where
  "run_callback E r (B_timer i) m =
     (case map_of (h_timers m) i of None \<Rightarrow> None | Some t \<Rightarrow> Some (fire_timer E r i (tm_task t) m))"
| "run_callback E r (B_socket_open i) m =
     (case map_of (h_socks m) i of
        None \<Rightarrow> None
      | Some s \<Rightarrow> if sk_state s = Sock_connecting then Some (socket_onopen i (set_sock i Sock_open m)) else None)"
| "run_callback E r (B_socket_gone i) m =
     (case map_of (h_socks m) i of
        None \<Rightarrow> None
      | Some s \<Rightarrow> if sk_state s = Sock_doomed then Some (m\<lparr> h_socks := remove_id i (h_socks m) \<rparr>) else None)"
| "run_callback E r (B_socket_message i p) m =
     (case map_of (h_socks m) i of
        None \<Rightarrow> None
      | Some s \<Rightarrow> if sk_state s = Sock_open then Some (socket_onmessage E r i p m) else None)"
| "run_callback E r (B_socket_error i) m =
     (case map_of (h_socks m) i of None \<Rightarrow> None | Some s \<Rightarrow> Some (socket_onerror i m))"
| "run_callback E r (B_socket_close i reason code) m =
     (case map_of (h_socks m) i of
        None \<Rightarrow> None
      | Some s \<Rightarrow>
          if sk_state s = Sock_doomed then None
          else Some (socket_onclose E r i (sk_state s = Sock_open) (sk_attempt s) reason code
                       (m\<lparr> h_socks := remove_id i (h_socks m) \<rparr>)))"
| "run_callback E r (B_source_open i) m =
     (case map_of (h_sources m) i of
        None \<Rightarrow> None
      | Some s \<Rightarrow> if es_open s then None else Some (source_onopen E r i (set_source_open i m)))"
| "run_callback E r (B_source_message i p) m =
     (case map_of (h_sources m) i of
        None \<Rightarrow> None
      | Some s \<Rightarrow> if es_open s then Some (source_onmessage E r i p m) else None)"
| "run_callback E r (B_source_error i) m =
     (case map_of (h_sources m) i of None \<Rightarrow> None | Some s \<Rightarrow> Some (source_onerror E r i (es_attempt s) m))"

lemma callback_step: "run_callback E r e m = Some m' \<Longrightarrow> step E m m'"
  by (cases e) (auto split: option.splits if_splits intro: step.intros)

section \<open>State\<close>

text \<open>
  What the hook is given: the URL class, whether the browser has EventSource, its dates, and the
  reading of a parsed message as a SystemEvent (a cast of TypeScript; nothing is assumed of it).
\<close>

record 'u world =
  wd_urls :: "'u url_api"
  wd_hasEventSource :: bool
  wd_dates :: date_api
  wd_event :: "jsval obj \<Rightarrow> SystemEvent"

text \<open>The loop of the polling effect: it awaits a refresh, or its timer is due at a time.\<close>

datatype PollLoop = Loop_off | Loop_waits nat | Loop_due rat

text \<open>What the effects depend on, as it was rendered.\<close>

record Deps =
  dp_opts :: LiveOptions
  dp_visible :: bool
  dp_mode :: TransportMode
  dp_jobs :: "Job list"

record Hook =
  hk_now :: int
  hk_live :: Live
  hk_events :: EventQueue
  hk_managers :: "(env \<times> Manager) list"
  hk_manager :: "nat option"
  hk_loop :: PollLoop
  hk_interval :: "(rat \<times> rat) option"
  hk_ran :: "Deps option"
  hk_mounted :: bool

definition initial_hook :: "int \<Rightarrow> ConsoleData \<Rightarrow> bool \<Rightarrow> Hook" where
  "initial_hook now demo liveMode =
     \<lparr> hk_now = now, hk_live = initial_live (if liveMode then createEmptyConsoleData Source_live else demo),
       hk_events = empty_events, hk_managers = [], hk_manager = None, hk_loop = Loop_off, hk_interval = None,
       hk_ran = None, hk_mounted = True \<rparr>"

definition update_live :: "(Live \<Rightarrow> Live) \<Rightarrow> Hook \<Rightarrow> Hook" where
  "update_live f h = h\<lparr> hk_live := f (hk_live h) \<rparr>"

section \<open>What a manager reports\<close>

definition updateTransportStatus :: "TransportStatus \<Rightarrow> Live \<Rightarrow> Live" where
  "updateTransportStatus nextStatus s =
     s\<lparr> lv_transport := (if sameTransportStatus (lv_transport s) nextStatus then lv_transport s else nextStatus) \<rparr>"

fun hear_emission :: "'u world \<Rightarrow> string \<Rightarrow> emission \<Rightarrow> Hook \<Rightarrow> Hook" where
  "hear_emission W selected (Out_status ts) h = update_live (updateTransportStatus ts) h"
| "hear_emission W selected (Out_event kvs) h =
     h\<lparr> hk_events := on_event (of_int (hk_now h)) selected (wd_event W kvs) (hk_events h) \<rparr>"
| "hear_emission W selected Out_malformed h =
     update_live (\<lambda>s. s\<lparr> lv_transport := malformed_effect (wd_dates W) (hk_now h) (lv_transport s) \<rparr>) h"

text \<open>Manager \<open>i\<close> becomes \<open>m'\<close>; what it reported on the way is heard.\<close>

definition manager_becomes :: "'u world \<Rightarrow> string \<Rightarrow> nat \<Rightarrow> Manager \<Rightarrow> Hook \<Rightarrow> Hook" where
  "manager_becomes W selected i m' h =
     (let (E, m) = hk_managers h ! i
      in fold (hear_emission W selected) (drop (length (h_out m)) (h_out m'))
           (h\<lparr> hk_managers := (hk_managers h)[i := (E, m')] \<rparr>))"

text \<open>\<open>transportManagerRef.current?.stop(state); transportManagerRef.current = null\<close>\<close>

definition stop_current :: "'u world \<Rightarrow> string \<Rightarrow> TransportConnectionState \<Rightarrow> Hook \<Rightarrow> Hook" where
  "stop_current W selected st h =
     (case hk_manager h of
        None \<Rightarrow> h
      | Some i \<Rightarrow> (manager_becomes W selected i (stop st (snd (hk_managers h ! i))) h)\<lparr> hk_manager := None \<rparr>)"

section \<open>Effects\<close>

definition dep_changed :: "(Deps \<Rightarrow> 'a) \<Rightarrow> Deps option \<Rightarrow> Deps \<Rightarrow> bool" where
  "dep_changed f before p = (case before of None \<Rightarrow> True | Some q \<Rightarrow> f q \<noteq> f p)"

definition mode_deps :: "Deps \<Rightarrow> bool" where
  "mode_deps p = lo_liveMode (dp_opts p)"

definition transport_deps :: "Deps \<Rightarrow> bool \<times> bool \<times> bool \<times> rat \<times> string option \<times> string option \<times> string" where
  "transport_deps p =
     (dp_visible p, lo_liveMode (dp_opts p), lo_liveUpdates (dp_opts p), lo_pollIntervalMs (dp_opts p),
      lo_resolvedBaseUrl (dp_opts p), lo_resolvedRealtimeBaseUrl (dp_opts p), lo_token (dp_opts p))"

definition poll_deps :: "Deps \<Rightarrow> bool \<times> bool \<times> bool \<times> rat \<times> string option \<times> TransportMode" where
  "poll_deps p =
     (dp_visible p, lo_liveMode (dp_opts p), lo_liveUpdates (dp_opts p), lo_pollIntervalMs (dp_opts p),
      lo_resolvedBaseUrl (dp_opts p), dp_mode p)"

definition select_deps :: "Deps \<Rightarrow> string" where
  "select_deps p = lo_selectedJobId (dp_opts p)"

definition interval_deps :: "Deps \<Rightarrow> bool \<times> bool \<times> rat \<times> string" where
  "interval_deps p =
     (dp_visible p, lo_liveMode (dp_opts p), lo_pollIntervalMs (dp_opts p), lo_selectedJobId (dp_opts p))"

definition merge_deps :: "Deps \<Rightarrow> Job list \<times> string" where
  "merge_deps p = (dp_jobs p, lo_selectedJobId (dp_opts p))"

text \<open>The clean-ups of the last run.\<close>

definition stopped_state :: "bool \<Rightarrow> TransportConnectionState" where
  "stopped_state isVisible = (if isVisible then TS_polling else TS_paused)"

definition transport_cleanup :: "'u world \<Rightarrow> Deps \<Rightarrow> Hook \<Rightarrow> Hook" where
  "transport_cleanup W q h = stop_current W (lo_selectedJobId (dp_opts q)) (stopped_state (dp_visible q)) h"

definition poll_cleanup :: "Hook \<Rightarrow> Hook" where
  "poll_cleanup h = h\<lparr> hk_loop := Loop_off \<rparr>"

definition interval_cleanup :: "Hook \<Rightarrow> Hook" where
  "interval_cleanup h = h\<lparr> hk_interval := None \<rparr>"

definition cleanups :: "'u world \<Rightarrow> Deps \<Rightarrow> Hook \<Rightarrow> Hook" where
  "cleanups W p h =
     (case hk_ran h of
        None \<Rightarrow> h
      | Some q \<Rightarrow>
          (let h1 = (if transport_deps q \<noteq> transport_deps p then transport_cleanup W q h else h);
               h2 = (if poll_deps q \<noteq> poll_deps p then poll_cleanup h1 else h1)
           in if interval_deps q \<noteq> interval_deps p then interval_cleanup h2 else h2))"

definition run_mode_effect :: "'u world \<Rightarrow> ConsoleData \<Rightarrow> Deps \<Rightarrow> Hook \<Rightarrow> Hook" where
  "run_mode_effect W demo p h =
     (let liveMode = lo_liveMode (dp_opts p);
          h1 = stop_current W (lo_selectedJobId (dp_opts p)) (if liveMode then TS_idle else TS_demo) h
      in (update_live (mode_effect liveMode demo) h1)\<lparr> hk_events := clear_events (hk_events h1) \<rparr>)"

definition run_transport_effect :: "'u world \<Rightarrow> Deps \<Rightarrow> Hook \<Rightarrow> Hook" where
  "run_transport_effect W p h =
     (let opts = dp_opts p;
          h1 = stop_current W (lo_selectedJobId opts) (stopped_state (dp_visible p)) h;
          (status, starts) = transport_effect opts (dp_visible p) (lv_transport (hk_live h1));
          h2 = update_live (\<lambda>s. s\<lparr> lv_transport := status \<rparr>) h1
      in if \<not> starts then h2
         else h2\<lparr> hk_manager := Some (length (hk_managers h2)),
                  hk_managers := hk_managers h2 @
                    [(manager_env (wd_urls W)
                        (or_str_opt (lo_resolvedRealtimeBaseUrl opts) (nullish (lo_resolvedBaseUrl opts) []))
                        (lo_token opts) (wd_hasEventSource W) (wd_dates W), start new_manager)] \<rparr>)"

text \<open>\<open>scheduleNext\<close>, and \<open>run\<close> after its refresh was called.\<close>

definition schedule_loop :: "LiveOptions \<Rightarrow> Hook \<Rightarrow> Hook" where
  "schedule_loop opts h =
     (let (s, delay) = schedule_next opts (hk_live h)
      in h\<lparr> hk_live := s,
            hk_loop := (case delay of None \<Rightarrow> Loop_off | Some d \<Rightarrow> Loop_due (of_int (hk_now h) + d)) \<rparr>)"

definition await_loop :: "LiveOptions \<Rightarrow> Hook \<Rightarrow> Hook" where
  "await_loop opts h =
     (case lv_fetchPromise (hk_live h) of
        None \<Rightarrow> schedule_loop opts h
      | Some f \<Rightarrow> h\<lparr> hk_loop := Loop_waits f \<rparr>)"

definition polls :: "Deps \<Rightarrow> bool" where
  "polls p \<longleftrightarrow> lo_liveMode (dp_opts p) \<and> truthy (lo_resolvedBaseUrl (dp_opts p)) \<and> dp_visible p"

definition run_poll_effect :: "'u world \<Rightarrow> Deps \<Rightarrow> Hook \<Rightarrow> Hook" where
  "run_poll_effect W p h =
     (let h1 = update_live (poll_effect (wd_dates W) (hk_now h) (dp_opts p) (dp_visible p)) h
      in if polls p then await_loop (dp_opts p) h1 else h1)"

definition run_select_effect :: "'u world \<Rightarrow> Deps \<Rightarrow> Hook \<Rightarrow> Hook" where
  "run_select_effect W p h =
     (let jobId = lo_selectedJobId (dp_opts p)
      in if jobId = [] then h
         else update_live (refreshInspection (wd_dates W) (hk_now h) (dp_opts p) jobId False) h)"

definition run_interval_effect :: "Deps \<Rightarrow> Hook \<Rightarrow> Hook" where
  "run_interval_effect p h =
     (let opts = dp_opts p; period = getDrawerRefreshInterval (lo_pollIntervalMs opts)
      in if lo_selectedJobId opts = [] \<or> \<not> lo_liveMode opts \<or> \<not> dp_visible p then h
         else if period \<le> 0 then h
         else h\<lparr> hk_interval := Some (of_int (hk_now h) + period, period) \<rparr>)"

definition run_merge_effect :: "Deps \<Rightarrow> Hook \<Rightarrow> Hook" where
  "run_merge_effect p h =
     (let jobId = lo_selectedJobId (dp_opts p)
      in if jobId = [] then h
         else update_live (\<lambda>s. s\<lparr> lv_inspectionCache :=
                merge_inspection jobId ((lv_data s)\<lparr> cd_jobs := dp_jobs p \<rparr>) (lv_inspectionCache s) \<rparr>) h)"

definition apply_if :: "bool \<Rightarrow> ('a \<Rightarrow> 'a) \<Rightarrow> 'a \<Rightarrow> 'a" where
  "apply_if b f x = (if b then f x else x)"

text \<open>
  A commit with new props: the clean-ups and the first two effects, then the other effects. \<open>demo\<close> is
  the value of \<open>createDemoConsoleData()\<close>.
\<close>

definition commit_mode :: "'u world \<Rightarrow> ConsoleData \<Rightarrow> Deps \<Rightarrow> Hook \<Rightarrow> Hook" where
  "commit_mode W demo p h = apply_if (dep_changed mode_deps (hk_ran h) p) (run_mode_effect W demo p) (cleanups W p h)"

definition commit_transport :: "'u world \<Rightarrow> ConsoleData \<Rightarrow> Deps \<Rightarrow> Hook \<Rightarrow> Hook" where
  "commit_transport W demo p h =
     apply_if (dep_changed transport_deps (hk_ran h) p) (run_transport_effect W p) (commit_mode W demo p h)"

definition commit_rest :: "'u world \<Rightarrow> Deps option \<Rightarrow> Deps \<Rightarrow> Hook \<Rightarrow> Hook" where
  "commit_rest W before p h =
     (let h1 = apply_if (dep_changed poll_deps before p) (run_poll_effect W p) h;
          h2 = apply_if (dep_changed select_deps before p) (run_select_effect W p) h1;
          h3 = apply_if (dep_changed interval_deps before p) (run_interval_effect p) h2
      in apply_if (dep_changed merge_deps before p) (run_merge_effect p) h3)"

definition rendered :: "LiveOptions \<Rightarrow> bool \<Rightarrow> Hook \<Rightarrow> Deps" where
  "rendered opts isVisible h =
     \<lparr> dp_opts = opts, dp_visible = isVisible, dp_mode = ts_mode (lv_transport (hk_live h)),
       dp_jobs = cd_jobs (lv_data (hk_live h)) \<rparr>"

definition commit :: "'u world \<Rightarrow> ConsoleData \<Rightarrow> LiveOptions \<Rightarrow> bool \<Rightarrow> Hook \<Rightarrow> Hook" where
  "commit W demo opts isVisible h =
     (let p = rendered opts isVisible h
      in (commit_rest W (hk_ran h) p (commit_transport W demo p h))\<lparr> hk_ran := Some p \<rparr>)"

text \<open>The clean-ups when the component goes away; those of the effects come first.\<close>

definition unmount :: "'u world \<Rightarrow> Hook \<Rightarrow> Hook" where
  "unmount W h =
     (let h1 = (case hk_ran h of None \<Rightarrow> h | Some q \<Rightarrow> interval_cleanup (poll_cleanup (transport_cleanup W q h)));
          s = hk_live h1; q = hk_events h1;
          h2 = h1\<lparr> hk_live := s\<lparr> br_aborted := br_aborted s \<union> set_option (lv_fetchController s) \<union> ran (lv_inspectionController s) \<rparr>,
                   hk_events := q\<lparr> eq_refreshTimer := None, eq_inspectionTimers := Map.empty, eq_flushTimer := None \<rparr>,
                   hk_mounted := False \<rparr>
      in stop_current W [] TS_paused h2)"

section \<open>Callbacks\<close>

definition manualReconnect :: "'u world \<Rightarrow> reads \<Rightarrow> LiveOptions \<Rightarrow> Hook \<Rightarrow> Hook" where
  "manualReconnect W r opts h =
     (if \<not> lo_liveMode opts then h
      else let h1 = (case hk_manager h of
                       None \<Rightarrow> h
                     | Some i \<Rightarrow> manager_becomes W (lo_selectedJobId opts) i
                         (retryNow (fst (hk_managers h ! i)) r (snd (hk_managers h ! i))) h)
           in update_live (refreshConsole (wd_dates W) (hk_now h) opts True True) h1)"

text \<open>The loop goes on when the refresh that it awaits has ended.\<close>

definition advance_loop :: "LiveOptions \<Rightarrow> Hook \<Rightarrow> Hook" where
  "advance_loop opts h =
     (case hk_loop h of
        Loop_waits f \<Rightarrow> if f \<in> fst ` set (br_fetches (hk_live h)) then h else schedule_loop opts h
      | _ \<Rightarrow> h)"

definition settle_hook :: "'u world \<Rightarrow> LiveOptions \<Rightarrow> nat \<Rightarrow> RequestError + Response \<Rightarrow> Hook \<Rightarrow> Hook" where
  "settle_hook W opts r outcome h =
     advance_loop opts (update_live (settle_request (wd_dates W) (hk_now h) r outcome) h)"

definition poll_timer :: "'u world \<Rightarrow> LiveOptions \<Rightarrow> Hook \<Rightarrow> Hook" where
  "poll_timer W opts h = await_loop opts (update_live (refreshConsole (wd_dates W) (hk_now h) opts True False) h)"

definition flush_timer :: "'u world \<Rightarrow> Hook \<Rightarrow> Hook" where
  "flush_timer W h =
     (let (q, d) = flushPendingEvents (wd_dates W) (of_int (hk_now h)) (hk_events h, lv_data (hk_live h))
      in h\<lparr> hk_events := q, hk_live := (hk_live h)\<lparr> lv_data := d \<rparr> \<rparr>)"

definition refresh_timer :: "'u world \<Rightarrow> LiveOptions \<Rightarrow> Hook \<Rightarrow> Hook" where
  "refresh_timer W opts h =
     update_live (refreshConsole (wd_dates W) (hk_now h) opts True False) (h\<lparr> hk_events := fire_refresh (hk_events h) \<rparr>)"

definition inspection_timer :: "'u world \<Rightarrow> LiveOptions \<Rightarrow> string \<Rightarrow> Hook \<Rightarrow> Hook" where
  "inspection_timer W opts jobId h =
     update_live (refreshInspection (wd_dates W) (hk_now h) opts jobId False)
       (h\<lparr> hk_events := fire_inspection jobId (hk_events h) \<rparr>)"

definition interval_timer :: "'u world \<Rightarrow> LiveOptions \<Rightarrow> Hook \<Rightarrow> Hook" where
  "interval_timer W opts h =
     (case hk_interval h of
        None \<Rightarrow> h
      | Some (due, period) \<Rightarrow>
          update_live (refreshInspection (wd_dates W) (hk_now h) opts (lo_selectedJobId opts) False)
            (h\<lparr> hk_interval := Some (due + period, period) \<rparr>))"


section \<open>Steps\<close>

text \<open>
  What happens by itself: time passes, a callback of any manager runs, a request settles, a timer
  that is due fires.
\<close>

inductive background_step :: "'u world \<Rightarrow> Hook \<Rightarrow> Hook \<Rightarrow> bool" for W where
  bs_tick: "hk_now h \<le> now' \<Longrightarrow> background_step W h (h\<lparr> hk_now := now' \<rparr>)"
| bs_manager: "hk_ran h = Some p \<Longrightarrow> i < length (hk_managers h) \<Longrightarrow>
    run_callback (fst (hk_managers h ! i)) r e (snd (hk_managers h ! i)) = Some m' \<Longrightarrow>
    background_step W h (manager_becomes W (lo_selectedJobId (dp_opts p)) i m' h)"
| bs_settle: "hk_ran h = Some p \<Longrightarrow> may_settle (hk_live h) r outcome \<Longrightarrow>
    background_step W h (settle_hook W (dp_opts p) r outcome h)"
| bs_flush: "eq_flushTimer (hk_events h) = Some due \<Longrightarrow> due \<le> of_int (hk_now h) \<Longrightarrow>
    background_step W h (flush_timer W h)"
| bs_refresh: "hk_ran h = Some p \<Longrightarrow> eq_refreshTimer (hk_events h) = Some due \<Longrightarrow> due \<le> of_int (hk_now h) \<Longrightarrow>
    background_step W h (refresh_timer W (dp_opts p) h)"
| bs_inspection: "hk_ran h = Some p \<Longrightarrow> eq_inspectionTimers (hk_events h) jobId = Some due \<Longrightarrow> due \<le> of_int (hk_now h) \<Longrightarrow>
    background_step W h (inspection_timer W (dp_opts p) jobId h)"
| bs_poll: "hk_ran h = Some p \<Longrightarrow> hk_loop h = Loop_due due \<Longrightarrow> due \<le> of_int (hk_now h) \<Longrightarrow>
    background_step W h (poll_timer W (dp_opts p) h)"
| bs_interval: "hk_ran h = Some p \<Longrightarrow> hk_interval h = Some (due, period) \<Longrightarrow> due \<le> of_int (hk_now h) \<Longrightarrow>
    background_step W h (interval_timer W (dp_opts p) h)"

text \<open>
  What the mounted console does: it commits new props, goes away, reconnects, asks for a refresh, or
  updates the data, which keeps its source.
\<close>

inductive hook_step :: "'u world \<Rightarrow> Hook \<Rightarrow> Hook \<Rightarrow> bool" for W where
  hs_background: "background_step W h h' \<Longrightarrow> hook_step W h h'"
| hs_commit: "hk_mounted h \<Longrightarrow> cd_source demo = Source_demo \<Longrightarrow> hook_step W h (commit W demo opts isVisible h)"
| hs_unmount: "hk_mounted h \<Longrightarrow> hook_step W h (unmount W h)"
| hs_reconnect: "hk_mounted h \<Longrightarrow> hk_ran h = Some p \<Longrightarrow> hook_step W h (manualReconnect W r (dp_opts p) h)"
| hs_ask_refresh: "hk_mounted h \<Longrightarrow> hk_ran h = Some p \<Longrightarrow>
    hook_step W h (update_live (refreshConsole (wd_dates W) (hk_now h) (dp_opts p) isQuiet force) h)"
| hs_ask_inspection: "hk_mounted h \<Longrightarrow> hk_ran h = Some p \<Longrightarrow>
    hook_step W h (update_live (refreshInspection (wd_dates W) (hk_now h) (dp_opts p) jobId force) h)"
| hs_operator: "hk_mounted h \<Longrightarrow> cd_source d = cd_source (lv_data (hk_live h)) \<Longrightarrow>
    hook_step W h (update_live (\<lambda>s. s\<lparr> lv_data := d \<rparr>) h)"

inductive_cases background_cases: "background_step W h h'"
inductive_cases hook_cases: "hook_step W h h'"

end
