(* ===== verification/HookSafety.thy ===== *)
theory HookSafety
  imports LiveHook
begin

text \<open>
  The invariant of the hook: its requests and managers are well-formed, every manager but the
  current one is stopped, in demo mode and after the removal of the component nothing of the
  network is left, and the polling loop is alive while the console is to be polled.
\<close>

section \<open>What a refresh and a settlement do to the requests\<close>

definition net_ok :: "Live \<Rightarrow> bool" where
  "net_ok s \<longleftrightarrow> live_inv s \<and> writers_inv s"

text \<open>Every pending refresh and inspection was aborted: its answer will be dropped.\<close>

definition aborted_all :: "Live \<Rightarrow> bool" where
  "aborted_all s \<longleftrightarrow> (\<forall>x \<in> set (br_fetches s). ft_ctrl (snd x) \<in> br_aborted s) \<and>
     (\<forall>y \<in> set (br_inspections s). if_ctrl (snd y) \<in> br_aborted s)"

definition fetch_ids :: "Live \<Rightarrow> nat set" where
  "fetch_ids s = fst ` set (br_fetches s)"

lemma net_core:
  assumes "same_core s u"
  shows "net_ok u = net_ok s" and "aborted_all u = aborted_all s" and "fetch_ids u = fetch_ids s"
    and "lv_fetchPromise u = lv_fetchPromise s"
proof -
  have "live_inv u = live_inv s" using assms by (intro live_inv_cong) (simp_all add: same_core_def)
  then show "net_ok u = net_ok s" using writers_core [OF assms] by (simp add: net_ok_def)
qed (use assms in \<open>simp_all add: same_core_def aborted_all_def fetch_ids_def\<close>)

lemma core_transport: "same_core s (s\<lparr> lv_transport := ts \<rparr>)"
  by (simp add: same_core_def)

lemma net_refresh: "net_ok s \<Longrightarrow> net_ok (refreshConsole D now opts quiet force s)"
  by (simp add: net_ok_def refreshConsole_inv refreshConsole_writers)

lemma net_inspect: "net_ok s \<Longrightarrow> net_ok (refreshInspection D now opts jobId force s)"
  by (simp add: net_ok_def refreshInspection_inv refreshInspection_writers)

lemma net_settle: "net_ok s \<Longrightarrow> may_settle s r outcome \<Longrightarrow> net_ok (settle_request D now r outcome s)"
  using may_settle_step live_step_inv live_step_writers unfolding net_ok_def by blast

lemma net_mode: "net_ok s \<Longrightarrow> net_ok (mode_effect liveMode demo s)"
  by (simp add: net_ok_def mode_effect_inv mode_effect_writers)

lemma refresh_off [simp]: "\<not> lo_liveMode opts \<Longrightarrow> refreshConsole D now opts quiet force s = s"
  by (simp add: refreshConsole_def)

lemma inspect_off:
  assumes "\<not> lo_liveMode opts"
  shows "same_core s (refreshInspection D now opts jobId force s) \<and>
    lv_data (refreshInspection D now opts jobId force s) = lv_data s"
proof (cases "applyInspectionFallback D jobId s")
  case None
  then show ?thesis using assms by (simp add: refreshInspection_def same_core_def)
next
  case (Some u)
  have "lv_data u = lv_data s" using view_fallback [OF Some] by (simp add: console_view_def)
  then show ?thesis
    using assms Some fallback_core [OF Some] by (auto simp: refreshInspection_def set_meta_core same_core_def set_meta_def)
qed

lemma start_fetch_frame:
  "fetch_ids s \<subseteq> fetch_ids (start_fetch quiet s)" "lv_fetchPromise (start_fetch quiet s) \<noteq> None"
  "br_inspections (start_fetch quiet s) = br_inspections s" "lv_data (start_fetch quiet s) = lv_data s"
proof -
  obtain need s4 where share: "share_all (br_next s) console_keys (fetch_prelude quiet s) = (need, s4)" by fastforce
  note eq = start_fetch_eq [OF share] and fr = share_all_frame [OF share]
  show "fetch_ids s \<subseteq> fetch_ids (start_fetch quiet s)" "lv_fetchPromise (start_fetch quiet s) \<noteq> None"
    "br_inspections (start_fetch quiet s) = br_inspections s" "lv_data (start_fetch quiet s) = lv_data s"
    using fr by (auto simp: eq fetch_ids_def fetch_prelude_def)
qed

lemma refresh_frame:
  "fetch_ids s \<subseteq> fetch_ids (refreshConsole D now opts quiet force s)"
  "lv_data (refreshConsole D now opts quiet force s) = lv_data s"
proof -
  have "fetch_ids (refuse_refresh quiet u) = fetch_ids u" "lv_data (refuse_refresh quiet u) = lv_data u" for u
    by (simp_all add: refuse_refresh_def fetch_ids_def)
  moreover have "fetch_ids (u\<lparr> lv_lastAttemptAt := t \<rparr>) = fetch_ids u" for u t by (simp add: fetch_ids_def)
  ultimately show "fetch_ids s \<subseteq> fetch_ids (refreshConsole D now opts quiet force s)"
    "lv_data (refreshConsole D now opts quiet force s) = lv_data s"
    using start_fetch_frame(1,4) [where s = s] start_fetch_frame(1,4) [where s = "s\<lparr> lv_lastAttemptAt := iso_text D now \<rparr>"]
    by (auto simp: refreshConsole_def Let_def)
qed

lemma refresh_awaited:
  assumes "lo_liveMode opts" and "truthy (lo_resolvedBaseUrl opts)"
  shows "lv_fetchPromise (refreshConsole D now opts quiet force s) \<noteq> None"
  using assms start_fetch_frame(2) by (auto simp: refreshConsole_def Let_def)

lemma inspect_frame:
  "br_fetches (refreshInspection D now opts jobId force s) = br_fetches s"
  "lv_data (refreshInspection D now opts jobId force s) = lv_data s"
proof -
  have "br_fetches (start_inspection jobId s) = br_fetches s \<and> lv_data (start_inspection jobId s) = lv_data s"
  proof -
    let ?c = "br_next s"
    let ?s1 = "(abort_controller (lv_inspectionController s jobId) s)\<lparr> br_next := ?c + 1,
      lv_inspectionController := (lv_inspectionController s)(jobId \<mapsto> ?c) \<rparr>"
    let ?s3 = "set_meta jobId \<lparr> im_busy = True, im_error = [], im_lastUpdatedAt = meta_updatedAt jobId ?s1 \<rparr> ?s1"
    obtain r s4 where share: "share_request (inspection_key jobId) ?c ?s3 = (r, s4)" by fastforce
    show ?thesis
      using share_request_frame [OF share] share
      by (auto simp: start_inspection_def Let_def set_meta_def abort_controller_def)
  qed
  moreover have "br_fetches (set_meta jobId m u) = br_fetches s \<and> lv_data (set_meta jobId m u) = lv_data s"
    if "applyInspectionFallback D jobId s = Some u" for m u
    using fallback_core [OF that] view_fallback [OF that] by (simp add: same_core_def set_meta_def console_view_def)
  ultimately show "br_fetches (refreshInspection D now opts jobId force s) = br_fetches s"
    "lv_data (refreshInspection D now opts jobId force s) = lv_data s"
    by (auto simp: refreshInspection_def split: option.split)
qed

lemma settle_shrinks:
  "set (br_fetches (settle_request D now r outcome s)) \<subseteq> set (br_fetches s)"
  "set (br_inspections (settle_request D now r outcome s)) \<subseteq> set (br_inspections s)"
proof -
  have f: "set (br_fetches (fetch_hears D now r failure s x)) \<subseteq> set (br_fetches s)" for s failure x
  proof -
    obtain fid f where x: "x = (fid, f)" by fastforce
    show ?thesis
      using fetch_hears_idle [of r failure s f D now fid] fetch_hears_done [of r failure s f D now fid] x
      by (cases "fetch_done r failure s f") (force simp: same_core_def finish_fetch_def)+
  qed
  have i: "set (br_inspections (inspection_hears D now r outcome s y)) \<subseteq> set (br_inspections s) \<and>
      br_fetches (inspection_hears D now r outcome s y) = br_fetches s" for s y
  proof -
    obtain pid p where y: "y = (pid, p)" by fastforce
    show ?thesis
      unfolding y by (rule inspection_hears_cases [of D now r outcome s pid p])
        (auto simp: same_core_def finish_inspection_def)
  qed
  have ff: "set (br_fetches (foldl (fetch_hears D now r failure) s xs)) \<subseteq> set (br_fetches s)" for s failure xs
    by (induction xs arbitrary: s) (simp, use f in fastforce)
  have ii: "set (br_inspections (foldl (inspection_hears D now r outcome) s ys)) \<subseteq> set (br_inspections s) \<and>
      br_fetches (foldl (inspection_hears D now r outcome) s ys) = br_fetches s" for s ys
    by (induction ys arbitrary: s) (simp, use i in fastforce)
  have "set (br_fetches (settle_request D now r outcome s)) \<subseteq> set (br_fetches s) \<and>
      set (br_inspections (settle_request D now r outcome s)) \<subseteq> set (br_inspections s)"
  proof (cases "br_requests s r")
    case None
    then show ?thesis by (simp add: settle_request_def)
  next
    case (Some q)
    let ?s1 = "s\<lparr> lv_requestMap := (lv_requestMap s)(rq_key q := None), br_requests := (br_requests s)(r := None),
      br_results := (case outcome of Inl e \<Rightarrow> br_results s | Inr v \<Rightarrow> (br_results s)(r \<mapsto> v)) \<rparr>"
    let ?s2 = "foldl (fetch_hears D now r (case outcome of Inl e \<Rightarrow> Some e | Inr v \<Rightarrow> None)) ?s1 (br_fetches s)"
    have eq: "settle_request D now r outcome s = foldl (inspection_hears D now r outcome) ?s2 (br_inspections ?s2)"
      using Some by (simp add: settle_request_def Let_def)
    have "set (br_fetches ?s2) \<subseteq> set (br_fetches s)" "br_inspections ?s2 = br_inspections s"
      using ff [where s = ?s1] fetches_keep_inspections [where s = ?s1] by simp_all
    then show ?thesis using ii [where s = ?s2] unfolding eq by auto
  qed
  then show "set (br_fetches (settle_request D now r outcome s)) \<subseteq> set (br_fetches s)"
    "set (br_inspections (settle_request D now r outcome s)) \<subseteq> set (br_inspections s)" by simp_all
qed

text \<open>What was aborted stays so, and its answers do not touch the data.\<close>

lemma settle_aborted:
  assumes "aborted_all s"
  shows "aborted_all (settle_request D now r outcome s)" and "lv_data (settle_request D now r outcome s) = lv_data s"
proof -
  show "aborted_all (settle_request D now r outcome s)"
    using assms settle_shrinks [of D now r outcome s] by (auto simp: aborted_all_def settle_frame)
  have "snd ` set (br_fetches s) \<inter> live_waiters s r = {}" using assms by (auto simp: aborted_all_def live_waiters_def)
  from stale_settlement [OF this] show "lv_data (settle_request D now r outcome s) = lv_data s"
    by (simp add: console_view_def)
qed

text \<open>Aborting the current controllers aborts everything that is pending.\<close>

lemma abort_all:
  assumes "writers_inv s"
    and "br_fetches u = br_fetches s" and "br_inspections u = br_inspections s"
    and "br_aborted u = br_aborted s \<union> set_option (lv_fetchController s) \<union> ran (lv_inspectionController s)"
  shows "aborted_all u"
  using assms unfolding writers_inv_def owners_ok_def aborted_all_def fetch_owners_def inspection_owners_def
  by (fastforce simp: ran_def case_prod_beta)

lemma mode_aborts: "writers_inv s \<Longrightarrow> aborted_all (mode_effect liveMode demo s)"
  by (rule abort_all [of s]) (simp_all add: mode_effect_def Let_def)


section \<open>What a manager does to the hook\<close>

definition heard :: "TransportStatus \<Rightarrow> EventQueue \<Rightarrow> Hook \<Rightarrow> Hook" where
  "heard ts q h = h\<lparr> hk_live := (hk_live h)\<lparr> lv_transport := ts \<rparr>, hk_events := q \<rparr>"

lemma heard_heard [simp]: "heard ts' q' (heard ts q h) = heard ts' q' h" "hk_events (heard ts q h) = q"
  "heard (lv_transport (hk_live h)) (hk_events h) h = h"
  by (simp_all add: heard_def)

lemma hear_one:
  "\<exists>ts q. hear_emission W selected e h = heard ts q h \<and> ((\<forall>kvs. e \<noteq> Out_event kvs) \<longrightarrow> q = hk_events h)"
proof (cases e)
  case (Out_status t)
  then show ?thesis
    by (intro exI [of _ "lv_transport (updateTransportStatus t (hk_live h))"] exI [of _ "hk_events h"])
      (simp add: heard_def update_live_def updateTransportStatus_def)
next
  case (Out_event kvs)
  then show ?thesis
    by (intro exI [of _ "lv_transport (hk_live h)"]
        exI [of _ "on_event (of_int (hk_now h)) selected (wd_event W kvs) (hk_events h)"]) (simp add: heard_def)
next
  case Out_malformed
  then show ?thesis
    by (intro exI [of _ "malformed_effect (wd_dates W) (hk_now h) (lv_transport (hk_live h))"] exI [of _ "hk_events h"])
      (simp add: heard_def update_live_def)
qed

lemma hear_frame:
  "\<exists>ts q. fold (hear_emission W selected) es h = heard ts q h \<and> ((\<forall>kvs. Out_event kvs \<notin> set es) \<longrightarrow> q = hk_events h)"
proof (induction es arbitrary: h)
  case Nil
  have "fold (hear_emission W selected) [] h = heard (lv_transport (hk_live h)) (hk_events h) h" by simp
  then show ?case by blast
next
  case (Cons e es)
  obtain ts q where 1: "hear_emission W selected e h = heard ts q h" "(\<forall>kvs. e \<noteq> Out_event kvs) \<longrightarrow> q = hk_events h"
    using hear_one by blast
  obtain ts' q' where 2: "fold (hear_emission W selected) es (heard ts q h) = heard ts' q' (heard ts q h)"
    "(\<forall>kvs. Out_event kvs \<notin> set es) \<longrightarrow> q' = q"
    using Cons.IH [of "heard ts q h"] by auto
  have "fold (hear_emission W selected) (e # es) h = heard ts' q' h" using 1(1) 2(1) by simp
  moreover have "(\<forall>kvs. Out_event kvs \<notin> set (e # es)) \<longrightarrow> q' = hk_events h" using 1(2) 2(2) by auto
  ultimately show ?case by blast
qed

lemma becomes_frame:
  obtains ts q where "manager_becomes W selected i m' h = h\<lparr> hk_managers := (hk_managers h)[i := (fst (hk_managers h ! i), m')],
      hk_live := (hk_live h)\<lparr> lv_transport := ts \<rparr>, hk_events := q \<rparr>"
    and "(\<forall>kvs. Out_event kvs \<notin> set (drop (length (h_out (snd (hk_managers h ! i)))) (h_out m'))) \<longrightarrow> q = hk_events h"
proof -
  let ?h = "h\<lparr> hk_managers := (hk_managers h)[i := (fst (hk_managers h ! i), m')] \<rparr>"
  have "manager_becomes W selected i m' h =
      fold (hear_emission W selected) (drop (length (h_out (snd (hk_managers h ! i)))) (h_out m')) ?h"
    by (simp add: manager_becomes_def case_prod_beta)
  then show ?thesis
    using hear_frame [of W selected "drop (length (h_out (snd (hk_managers h ! i)))) (h_out m')" ?h] that by (auto simp: heard_def)
qed

lemma becomes_silent:
  assumes "h_out m' = h_out (snd (hk_managers h ! i))"
  shows "manager_becomes W selected i m' h = h\<lparr> hk_managers := (hk_managers h)[i := (fst (hk_managers h ! i), m')] \<rparr>"
  using assms by (simp add: manager_becomes_def case_prod_beta)

lemma stop_out: "\<exists>ts. h_out (stop st m) = h_out m @ [Out_status ts]"
  by (simp add: stop_def emitStatus_def closeCurrent_def clearTimers_def clear_timeout_def Let_def split: option.split)

lemma stop_stops [simp]: "m_stopped (stop st m)"
  by (simp add: stop_def Let_def)

section \<open>The managers\<close>

text \<open>
  Every manager satisfies its own invariant, and every manager but the one of
  \<open>transportManagerRef\<close> is stopped.
\<close>

definition managers_ok :: "(env \<times> Manager) list \<Rightarrow> nat option \<Rightarrow> bool" where
  "managers_ok ms current \<longleftrightarrow>
     (\<forall>i < length ms. manager_inv (snd (ms ! i)) \<and> (current \<noteq> Some i \<longrightarrow> m_stopped (snd (ms ! i)))) \<and>
     (\<forall>i. current = Some i \<longrightarrow> i < length ms)"

lemma managers_update:
  assumes "managers_ok ms current" and "i < length ms" and "manager_inv m'" and "current \<noteq> Some i \<Longrightarrow> m_stopped m'"
  shows "managers_ok (ms[i := (E, m')]) current"
  using assms by (auto simp: managers_ok_def nth_list_update)

lemma managers_stop:
  assumes "managers_ok ms (Some i)"
  shows "managers_ok (ms[i := (E, stop st (snd (ms ! i)))]) None"
proof -
  have "manager_inv (snd (ms ! i))" using assms by (simp add: managers_ok_def)
  then have "manager_inv (stop st (snd (ms ! i)))" by (rule step_manager_inv) (rule step_stop)
  then show ?thesis using assms by (auto simp: managers_ok_def nth_list_update)
qed

lemma managers_add:
  assumes "managers_ok ms None"
  shows "managers_ok (ms @ [(E, start new_manager)]) (Some (length ms))"
proof -
  have "manager_inv (start new_manager)"
    by (rule step_manager_inv [OF new_manager_inv]) (rule step_start, simp_all add: new_manager_def idle_def)
  then show ?thesis using assms by (auto simp: managers_ok_def nth_append less_Suc_eq)
qed

text \<open>A manager that was replaced can only let go of the sockets it gave up.\<close>

lemma stopped_callback:
  assumes "manager_inv m" and "m_stopped m" and "run_callback E r e m = Some m'"
  shows "m_stopped m' \<and> h_out m' = h_out m"
proof -
  have b: "base m" using assms(1) by (simp add: manager_inv_def)
  then have i: "idle m" using baseD(4) assms(2) by blast
  have t: "timers_of m i = None" "sources_of m i = None" for i
    using baseD(2,3) [OF b] i by (auto simp: timers_ok_def connections_ok_def idle_def)
  show ?thesis
    using assms(2,3) i t
    by (cases e) (auto simp: idle_def socket_onopen_def set_sock_def socket_onmessage_def socket_onerror_def
        socket_onclose_def split: option.splits if_splits)
qed

definition without_manager :: "(env \<times> Manager) list \<Rightarrow> TransportStatus \<Rightarrow> Hook \<Rightarrow> Hook" where
  "without_manager ms ts h = h\<lparr> hk_managers := ms, hk_manager := None, hk_live := (hk_live h)\<lparr> lv_transport := ts \<rparr> \<rparr>"

lemma without_fields [simp]:
  "hk_now (without_manager ms ts h) = hk_now h" "hk_live (without_manager ms ts h) = (hk_live h)\<lparr> lv_transport := ts \<rparr>"
  "hk_events (without_manager ms ts h) = hk_events h" "hk_managers (without_manager ms ts h) = ms"
  "hk_manager (without_manager ms ts h) = None" "hk_loop (without_manager ms ts h) = hk_loop h"
  "hk_interval (without_manager ms ts h) = hk_interval h" "hk_ran (without_manager ms ts h) = hk_ran h"
  "hk_mounted (without_manager ms ts h) = hk_mounted h"
  by (simp_all add: without_manager_def)

lemma stop_current_frame:
  assumes "managers_ok (hk_managers h) (hk_manager h)"
  shows "\<exists>ms ts. stop_current W selected st h = without_manager ms ts h \<and>
    managers_ok ms None \<and> (hk_manager h = None \<longrightarrow> ts = lv_transport (hk_live h) \<and> ms = hk_managers h)"
proof (cases "hk_manager h")
  case None
  then have "stop_current W selected st h = without_manager (hk_managers h) (lv_transport (hk_live h)) h"
    by (simp add: stop_current_def without_manager_def)
  then show ?thesis using assms None by fastforce
next
  case (Some i)
  let ?m = "snd (hk_managers h ! i)"
  obtain ts where "h_out (stop st ?m) = h_out ?m @ [Out_status ts]" using stop_out by blast
  then obtain ts' where "manager_becomes W selected i (stop st ?m) h =
      h\<lparr> hk_managers := (hk_managers h)[i := (fst (hk_managers h ! i), stop st ?m)],
         hk_live := (hk_live h)\<lparr> lv_transport := ts' \<rparr>, hk_events := hk_events h \<rparr>"
    using becomes_frame [of W selected i "stop st ?m" h] by auto
  then have "stop_current W selected st h = without_manager ((hk_managers h)[i := (fst (hk_managers h ! i), stop st ?m)]) ts' h"
    using Some by (simp add: stop_current_def without_manager_def)
  moreover have "managers_ok ((hk_managers h)[i := (fst (hk_managers h ! i), stop st ?m)]) None"
    using managers_stop assms Some by simp
  ultimately show ?thesis using Some by (metis option.distinct(1))
qed

section \<open>The stages of a commit\<close>

text \<open>The requests and the managers are well-formed.\<close>

definition parts_ok :: "Hook \<Rightarrow> bool" where
  "parts_ok h \<longleftrightarrow> net_ok (hk_live h) \<and> managers_ok (hk_managers h) (hk_manager h)"

lemma parts_live: "parts_ok h \<Longrightarrow> net_ok (f (hk_live h)) \<Longrightarrow> parts_ok (update_live f h)"
  by (simp add: parts_ok_def update_live_def)

lemma parts_core: "same_core (hk_live h) s \<Longrightarrow> parts_ok (h\<lparr> hk_live := s \<rparr>) = parts_ok h"
  by (simp add: parts_ok_def net_core)

lemma net_transport [simp]:
  "net_ok (s\<lparr> lv_transport := ts \<rparr>) = net_ok s" "aborted_all (s\<lparr> lv_transport := ts \<rparr>) = aborted_all s"
  "fetch_ids (s\<lparr> lv_transport := ts \<rparr>) = fetch_ids s"
  by (rule net_core, rule core_transport)+

lemma stop_current_stage:
  assumes "parts_ok h"
  obtains ms ts where "stop_current W selected st h = without_manager ms ts h"
    and "parts_ok (stop_current W selected st h)" and "managers_ok ms None"
    and "hk_manager h = None \<longrightarrow> ts = lv_transport (hk_live h) \<and> ms = hk_managers h"
proof -
  have "managers_ok (hk_managers h) (hk_manager h)" using assms by (simp add: parts_ok_def)
  then obtain ms ts where 1: "stop_current W selected st h = without_manager ms ts h"
    "managers_ok ms None" "hk_manager h = None \<longrightarrow> ts = lv_transport (hk_live h) \<and> ms = hk_managers h"
    using stop_current_frame [of h W selected st] by metis
  moreover have "parts_ok (stop_current W selected st h)" using assms 1(1,2) by (simp add: parts_ok_def)
  ultimately show ?thesis using that by metis
qed


section \<open>The invariant\<close>

text \<open>The transport effect starts a manager exactly when realtime is wanted.\<close>

definition wants_transport :: "Deps \<Rightarrow> bool" where
  "wants_transport p \<longleftrightarrow> lo_liveMode (dp_opts p) \<and> truthy (lo_resolvedBaseUrl (dp_opts p)) \<and> dp_visible p \<and>
     lo_liveUpdates (dp_opts p)"

text \<open>The longest polling delay.\<close>

definition max_poll_delay :: "LiveOptions \<Rightarrow> rat" where
  "max_poll_delay opts = max (lo_pollIntervalMs opts) 60000"

text \<open>The polling loop is alive: it awaits a pending refresh or a timer, unless polling is off.\<close>

definition loop_ok :: "LiveOptions \<Rightarrow> Hook \<Rightarrow> bool" where
  "loop_ok opts h \<longleftrightarrow>
     (case hk_loop h of
        Loop_off \<Rightarrow> lo_pollIntervalMs opts \<le> 0
      | Loop_waits f \<Rightarrow> f \<in> fetch_ids (hk_live h)
      | Loop_due t \<Rightarrow> t \<le> of_int (hk_now h) + max_poll_delay opts)"

text \<open>Nothing of the network is left: no manager, no timer, and every pending answer will be dropped.\<close>

definition quiet :: "Hook \<Rightarrow> bool" where
  "quiet h \<longleftrightarrow> aborted_all (hk_live h) \<and> hk_manager h = None \<and> hk_loop h = Loop_off \<and> hk_interval h = None \<and>
     eq_flushTimer (hk_events h) = None \<and> eq_refreshTimer (hk_events h) = None \<and>
     eq_inspectionTimers (hk_events h) = Map.empty"

definition hook_inv :: "Hook \<Rightarrow> bool" where
  "hook_inv h \<longleftrightarrow> parts_ok h \<and>
     (case hk_ran h of
        None \<Rightarrow> quiet h
      | Some p \<Rightarrow>
          (hk_manager h \<noteq> None \<longrightarrow> hk_mounted h \<and> wants_transport p) \<and>
          (\<not> hk_mounted h \<or> \<not> lo_liveMode (dp_opts p) \<longrightarrow> quiet h) \<and>
          (hk_mounted h \<and> \<not> lo_liveMode (dp_opts p) \<longrightarrow> cd_source (lv_data (hk_live h)) = Source_demo) \<and>
          (hk_mounted h \<and> polls p \<longrightarrow> loop_ok (dp_opts p) h))"

section \<open>The stages keep what they should\<close>

lemma apply_if_simps [simp]: "apply_if True f x = f x" "apply_if False f x = x"
  by (simp_all add: apply_if_def)

lemma apply_if_keeps: "P x \<Longrightarrow> (\<And>y. P y \<Longrightarrow> P (f y)) \<Longrightarrow> P (apply_if b f x)"
  by (simp add: apply_if_def)

lemma apply_if_same: "(\<And>y. g (f y) = g y) \<Longrightarrow> g (apply_if b f x) = g x"
  by (simp add: apply_if_def)

lemma poll_effect_frame:
  "net_ok s \<Longrightarrow> net_ok (poll_effect D now opts v s)"
  "lv_data (poll_effect D now opts v s) = lv_data s"
  "\<not> lo_liveMode opts \<Longrightarrow> poll_effect D now opts v s = s"
proof -
  have n: "net_ok (s\<lparr> lv_currentPollDelayMs := x \<rparr>) = net_ok s" for x by (rule net_core) (simp add: same_core_def)
  show "net_ok s \<Longrightarrow> net_ok (poll_effect D now opts v s)" "lv_data (poll_effect D now opts v s) = lv_data s"
    "\<not> lo_liveMode opts \<Longrightarrow> poll_effect D now opts v s = s"
    by (simp_all add: poll_effect_def net_refresh n refresh_frame)
qed

lemma schedule_next_frame:
  "schedule_next opts s = (s\<lparr> lv_currentPollDelayMs := nullish (next_poll_delay opts (lv_transport s) (lv_consecutiveFailures s)) 0 \<rparr>,
     next_poll_delay opts (lv_transport s) (lv_consecutiveFailures s))"
  by (simp add: schedule_next_def Let_def)

lemma schedule_fields [simp]:
  "hk_managers (schedule_loop opts h) = hk_managers h" "hk_manager (schedule_loop opts h) = hk_manager h"
  "hk_events (schedule_loop opts h) = hk_events h" "hk_interval (schedule_loop opts h) = hk_interval h"
  "hk_ran (schedule_loop opts h) = hk_ran h" "hk_mounted (schedule_loop opts h) = hk_mounted h"
  "hk_now (schedule_loop opts h) = hk_now h" "lv_data (hk_live (schedule_loop opts h)) = lv_data (hk_live h)"
  "net_ok (hk_live (schedule_loop opts h)) = net_ok (hk_live h)"
  "fetch_ids (hk_live (schedule_loop opts h)) = fetch_ids (hk_live h)"
  "aborted_all (hk_live (schedule_loop opts h)) = aborted_all (hk_live h)"
proof -
  have c: "same_core s (s\<lparr> lv_currentPollDelayMs := x \<rparr>)" for s x by (simp add: same_core_def)
  show "net_ok (hk_live (schedule_loop opts h)) = net_ok (hk_live h)"
    "fetch_ids (hk_live (schedule_loop opts h)) = fetch_ids (hk_live h)"
    "aborted_all (hk_live (schedule_loop opts h)) = aborted_all (hk_live h)"
    by (simp_all add: schedule_loop_def schedule_next_frame net_core [OF c])
qed (simp_all add: schedule_loop_def schedule_next_frame)

lemma delay_bound: "next_poll_delay opts ts n = Some d \<Longrightarrow> d \<le> max_poll_delay opts"
  using next_poll_delay_bounds [of opts ts n d] by (auto simp: max_poll_delay_def)

lemma no_delay: "next_poll_delay opts ts n = None \<Longrightarrow> lo_pollIntervalMs opts \<le> 0"
  by (auto simp: next_poll_delay_def getNextPollDelay_def Let_def split: if_splits)

lemma schedule_loop_ok: "loop_ok opts (schedule_loop opts h)"
  using no_delay delay_bound
  by (auto simp: loop_ok_def schedule_loop_def schedule_next_frame split: option.split)

lemma schedule_due:
  assumes "0 < lo_pollIntervalMs opts"
  shows "\<exists>t. hk_loop (schedule_loop opts h) = Loop_due t \<and> t \<le> of_int (hk_now h) + max (lo_pollIntervalMs opts) 60000"
  using assms no_delay [of opts] delay_bound [of opts]
  by (auto simp: schedule_loop_def schedule_next_def max_poll_delay_def Let_def split: option.split)

lemma await_fields [simp]:
  "hk_managers (await_loop opts h) = hk_managers h" "hk_manager (await_loop opts h) = hk_manager h"
  "hk_events (await_loop opts h) = hk_events h" "hk_interval (await_loop opts h) = hk_interval h"
  "hk_ran (await_loop opts h) = hk_ran h" "hk_mounted (await_loop opts h) = hk_mounted h"
  "hk_now (await_loop opts h) = hk_now h" "lv_data (hk_live (await_loop opts h)) = lv_data (hk_live h)"
  "net_ok (hk_live (await_loop opts h)) = net_ok (hk_live h)"
  by (simp_all add: await_loop_def split: option.split)

lemma await_loop_ok:
  assumes "net_ok (hk_live h)"
  shows "loop_ok opts (await_loop opts h)"
proof (cases "lv_fetchPromise (hk_live h)")
  case None
  then show ?thesis by (simp add: await_loop_def schedule_loop_ok)
next
  case (Some f)
  then have "f \<in> fetch_ids (hk_live h)" using assms live_invD(6) by (auto simp: net_ok_def fetch_ids_def)
  then show ?thesis using Some by (simp add: await_loop_def loop_ok_def)
qed

text \<open>What each effect leaves alone.\<close>

lemma select_fields [simp]:
  "hk_managers (run_select_effect W p h) = hk_managers h" "hk_manager (run_select_effect W p h) = hk_manager h"
  "hk_events (run_select_effect W p h) = hk_events h" "hk_interval (run_select_effect W p h) = hk_interval h"
  "hk_mounted (run_select_effect W p h) = hk_mounted h" "hk_now (run_select_effect W p h) = hk_now h"
  "hk_loop (run_select_effect W p h) = hk_loop h"
  "lv_data (hk_live (run_select_effect W p h)) = lv_data (hk_live h)"
  "fetch_ids (hk_live (run_select_effect W p h)) = fetch_ids (hk_live h)"
  by (simp_all add: run_select_effect_def update_live_def Let_def inspect_frame fetch_ids_def)

lemma interval_fields [simp]:
  "hk_managers (run_interval_effect p h) = hk_managers h" "hk_manager (run_interval_effect p h) = hk_manager h"
  "hk_events (run_interval_effect p h) = hk_events h" "hk_live (run_interval_effect p h) = hk_live h"
  "hk_mounted (run_interval_effect p h) = hk_mounted h" "hk_now (run_interval_effect p h) = hk_now h"
  "hk_loop (run_interval_effect p h) = hk_loop h"
  by (simp_all add: run_interval_effect_def Let_def)

lemma merge_core: "same_core s (s\<lparr> lv_inspectionCache := c \<rparr>)"
  by (simp add: same_core_def)

lemma merge_fields [simp]:
  "hk_managers (run_merge_effect p h) = hk_managers h" "hk_manager (run_merge_effect p h) = hk_manager h"
  "hk_events (run_merge_effect p h) = hk_events h" "hk_interval (run_merge_effect p h) = hk_interval h"
  "hk_mounted (run_merge_effect p h) = hk_mounted h" "hk_now (run_merge_effect p h) = hk_now h"
  "hk_loop (run_merge_effect p h) = hk_loop h"
  "lv_data (hk_live (run_merge_effect p h)) = lv_data (hk_live h)"
  "fetch_ids (hk_live (run_merge_effect p h)) = fetch_ids (hk_live h)"
  "net_ok (hk_live (run_merge_effect p h)) = net_ok (hk_live h)"
  "aborted_all (hk_live (run_merge_effect p h)) = aborted_all (hk_live h)"
  by (simp_all add: run_merge_effect_def update_live_def Let_def net_core [OF merge_core])

lemma poll_fields [simp]:
  "hk_managers (run_poll_effect W p h) = hk_managers h" "hk_manager (run_poll_effect W p h) = hk_manager h"
  "hk_events (run_poll_effect W p h) = hk_events h" "hk_interval (run_poll_effect W p h) = hk_interval h"
  "hk_mounted (run_poll_effect W p h) = hk_mounted h" "hk_now (run_poll_effect W p h) = hk_now h"
  "lv_data (hk_live (run_poll_effect W p h)) = lv_data (hk_live h)"
  by (simp_all add: run_poll_effect_def update_live_def Let_def poll_effect_frame)

text \<open>The transport effect and the mode effect.\<close>

lemma transport_starts: "snd (transport_effect opts v ts) \<longleftrightarrow>
    lo_liveMode opts \<and> truthy (lo_resolvedBaseUrl opts) \<and> v \<and> lo_liveUpdates opts"
  by (simp add: transport_effect_def)

lemma transport_stage:
  assumes "parts_ok h"
  shows "parts_ok (run_transport_effect W p h)"
    and "hk_manager (run_transport_effect W p h) \<noteq> None \<longleftrightarrow> wants_transport p"
    and "hk_events (run_transport_effect W p h) = hk_events h"
    and "hk_loop (run_transport_effect W p h) = hk_loop h" and "hk_now (run_transport_effect W p h) = hk_now h"
    and "hk_interval (run_transport_effect W p h) = hk_interval h" and "hk_mounted (run_transport_effect W p h) = hk_mounted h"
    and "\<exists>ts. hk_live (run_transport_effect W p h) = (hk_live h)\<lparr> lv_transport := ts \<rparr>"
proof -
  obtain ms ts where st: "stop_current W (lo_selectedJobId (dp_opts p)) (stopped_state (dp_visible p)) h = without_manager ms ts h"
    and ok: "managers_ok ms None"
    using stop_current_stage [OF assms, of W "lo_selectedJobId (dp_opts p)" "stopped_state (dp_visible p)"] by metis
  have eff: "transport_effect (dp_opts p) (dp_visible p) ts = (status, starts) \<Longrightarrow> starts \<longleftrightarrow> wants_transport p" for status starts
    using transport_starts [of "dp_opts p" "dp_visible p" ts] by (simp add: wants_transport_def)
  note defs = run_transport_effect_def st Let_def update_live_def without_fields
  show "parts_ok (run_transport_effect W p h)"
    using assms ok by (auto simp: parts_ok_def defs managers_add split: prod.split)
  show "hk_manager (run_transport_effect W p h) \<noteq> None \<longleftrightarrow> wants_transport p"
    by (auto simp: defs dest: eff split: prod.split)
  show "\<exists>ts. hk_live (run_transport_effect W p h) = (hk_live h)\<lparr> lv_transport := ts \<rparr>"
    by (auto simp: defs split: prod.split)
  show "hk_events (run_transport_effect W p h) = hk_events h" "hk_loop (run_transport_effect W p h) = hk_loop h"
    "hk_now (run_transport_effect W p h) = hk_now h" "hk_interval (run_transport_effect W p h) = hk_interval h"
    "hk_mounted (run_transport_effect W p h) = hk_mounted h"
    by (simp_all add: defs split: prod.split)
qed

lemma mode_stage:
  fixes W :: "'u world" and p :: Deps
  assumes "parts_ok h" and "cd_source demo = Source_demo"
  defines "h' \<equiv> run_mode_effect W demo p h"
  shows "parts_ok h'" and "hk_manager h' = None" and "hk_events h' = clear_events (hk_events h)"
    and "hk_loop h' = hk_loop h" and "hk_now h' = hk_now h" and "hk_interval h' = hk_interval h" and "hk_mounted h' = hk_mounted h"
    and "aborted_all (hk_live h')" and "\<not> mode_deps p \<Longrightarrow> cd_source (lv_data (hk_live h')) = Source_demo"
    and "lv_data (hk_live h') = (if mode_deps p then createEmptyConsoleData Source_live
      else if cd_source (lv_data (hk_live h)) = Source_demo then lv_data (hk_live h) else demo)"
proof -
  obtain ms ts where st: "stop_current W (lo_selectedJobId (dp_opts p)) (if mode_deps p then TS_idle else TS_demo) h =
      without_manager ms ts h" and ok: "managers_ok ms None"
    using stop_current_stage [OF assms(1), of W "lo_selectedJobId (dp_opts p)" "if mode_deps p then TS_idle else TS_demo"] by metis
  have h': "h' = (without_manager ms ts h)\<lparr> hk_live := mode_effect (mode_deps p) demo ((hk_live h)\<lparr> lv_transport := ts \<rparr>),
      hk_events := clear_events (hk_events h) \<rparr>"
    using st by (simp add: h'_def run_mode_effect_def Let_def update_live_def mode_deps_def)
  have n: "net_ok ((hk_live h)\<lparr> lv_transport := ts \<rparr>)" using assms(1) by (simp add: parts_ok_def)
  show "parts_ok h'" using n ok by (simp add: h' parts_ok_def net_mode)
  show "aborted_all (hk_live h')" using n by (simp add: h' mode_aborts net_ok_def)
  show "lv_data (hk_live h') = (if mode_deps p then createEmptyConsoleData Source_live
      else if cd_source (lv_data (hk_live h)) = Source_demo then lv_data (hk_live h) else demo)"
    by (simp add: h' mode_effect_def Let_def)
  then show "cd_source (lv_data (hk_live h')) = Source_demo" if "\<not> mode_deps p"
    using that assms(2) by simp
  show "hk_manager h' = None" "hk_events h' = clear_events (hk_events h)" "hk_loop h' = hk_loop h" "hk_now h' = hk_now h"
    "hk_interval h' = hk_interval h" "hk_mounted h' = hk_mounted h" by (simp_all add: h')
qed

lemma ex_transport: "\<exists>ts. s = s\<lparr> lv_transport := ts \<rparr>" for s :: Live
  by (rule exI [of _ "lv_transport s"]) simp

lemma cleanups_stage:
  fixes W :: "'u world" and p :: Deps
  assumes "parts_ok h"
  defines "h' \<equiv> cleanups W p h"
  shows "parts_ok h'" and "hk_manager h' = None \<or> hk_manager h' = hk_manager h"
    and "hk_events h' = hk_events h" and "hk_now h' = hk_now h" and "hk_mounted h' = hk_mounted h"
    and "\<exists>ts. hk_live h' = (hk_live h)\<lparr> lv_transport := ts \<rparr>"
    and "hk_loop h' = (if hk_ran h \<noteq> None \<and> dep_changed poll_deps (hk_ran h) p then Loop_off else hk_loop h)"
    and "hk_interval h' = (if hk_ran h \<noteq> None \<and> dep_changed interval_deps (hk_ran h) p then None else hk_interval h)"
proof -
  have "parts_ok h' \<and> (hk_manager h' = None \<or> hk_manager h' = hk_manager h) \<and>
    hk_events h' = hk_events h \<and> hk_now h' = hk_now h \<and> hk_mounted h' = hk_mounted h \<and>
    (\<exists>ts. hk_live h' = (hk_live h)\<lparr> lv_transport := ts \<rparr>) \<and>
    hk_loop h' = (if hk_ran h \<noteq> None \<and> dep_changed poll_deps (hk_ran h) p then Loop_off else hk_loop h) \<and>
    hk_interval h' = (if hk_ran h \<noteq> None \<and> dep_changed interval_deps (hk_ran h) p then None else hk_interval h)"
  proof (cases "hk_ran h")
    case None
    then show ?thesis using assms ex_transport by (simp add: cleanups_def)
  next
    case (Some q)
    obtain ms ts where st: "transport_cleanup W q h = without_manager ms ts h" and ok: "managers_ok ms None"
      unfolding transport_cleanup_def
      using stop_current_stage [OF assms(1), of W "lo_selectedJobId (dp_opts q)" "stopped_state (dp_visible q)"] by metis
    let ?h1 = "if transport_deps q \<noteq> transport_deps p then without_manager ms ts h else h"
    have 1: "parts_ok ?h1" using assms(1) ok by (simp add: parts_ok_def)
    have live: "\<exists>ts. hk_live ?h1 = (hk_live h)\<lparr> lv_transport := ts \<rparr>"
      by (cases "transport_deps q = transport_deps p") (auto intro: exI [of _ "lv_transport (hk_live h)"])
    show ?thesis
      using 1 live Some
      by (auto simp: h'_def cleanups_def Let_def st poll_cleanup_def interval_cleanup_def dep_changed_def parts_ok_def)
  qed
  then show "parts_ok h'" "hk_manager h' = None \<or> hk_manager h' = hk_manager h"
    "hk_events h' = hk_events h" "hk_now h' = hk_now h" "hk_mounted h' = hk_mounted h"
    "\<exists>ts. hk_live h' = (hk_live h)\<lparr> lv_transport := ts \<rparr>"
    "hk_loop h' = (if hk_ran h \<noteq> None \<and> dep_changed poll_deps (hk_ran h) p then Loop_off else hk_loop h)"
    "hk_interval h' = (if hk_ran h \<noteq> None \<and> dep_changed interval_deps (hk_ran h) p then None else hk_interval h)"
    by blast+
qed


section \<open>Every step keeps the invariant\<close>

lemma loop_ok_cong:
  assumes "hk_loop h' = hk_loop h" "hk_now h' = hk_now h" "fetch_ids (hk_live h') = fetch_ids (hk_live h)"
    "lo_pollIntervalMs opts' = lo_pollIntervalMs opts"
  shows "loop_ok opts' h' = loop_ok opts h"
  using assms by (simp add: loop_ok_def max_poll_delay_def split: PollLoop.split)

lemma parts_late:
  assumes "parts_ok h"
  shows "parts_ok (run_poll_effect W p h)" "parts_ok (run_select_effect W p h)" "parts_ok (run_interval_effect p h)"
    "parts_ok (run_merge_effect p h)"
proof -
  show "parts_ok (run_poll_effect W p h)"
    using assms by (simp add: parts_ok_def) (simp add: run_poll_effect_def Let_def update_live_def poll_effect_frame)
  show "parts_ok (run_select_effect W p h)"
    using assms by (simp add: parts_ok_def) (simp add: run_select_effect_def Let_def update_live_def net_inspect)
qed (use assms in \<open>simp_all add: parts_ok_def\<close>)

definition still :: "Hook \<Rightarrow> bool" where
  "still h \<longleftrightarrow> quiet h \<and> parts_ok h"

lemma still_late:
  assumes s: "still h" and off: "\<not> mode_deps p"
  shows "still (run_transport_effect W p h)" "still (run_poll_effect W p h)" "still (run_select_effect W p h)"
    "still (run_interval_effect p h)" "still (run_merge_effect p h)"
proof -
  have q: "quiet h" and parts: "parts_ok h" using s by (simp_all add: still_def)
  have m: "\<not> lo_liveMode (dp_opts p)" using off by (simp add: mode_deps_def)
  note t = transport_stage [OF parts, where W = W and p = p]
  have "hk_manager (run_transport_effect W p h) = None" using t(2) m by (simp add: wants_transport_def)
  moreover have "aborted_all (hk_live (run_transport_effect W p h))" using t(8) q by (auto simp: quiet_def)
  ultimately show "still (run_transport_effect W p h)" using t q by (simp add: still_def quiet_def)
  show "still (run_poll_effect W p h)"
    using s m by (simp add: run_poll_effect_def Let_def polls_def update_live_def poll_effect_frame)
  have "aborted_all (hk_live (run_select_effect W p h))"
    using q net_core(2) [OF inspect_off [OF m, THEN conjunct1]]
    by (simp add: run_select_effect_def Let_def update_live_def quiet_def)
  then show "still (run_select_effect W p h)" using q parts by (simp add: still_def quiet_def parts_late)
  show "still (run_interval_effect p h)" using s m by (simp add: run_interval_effect_def Let_def)
  show "still (run_merge_effect p h)" using q parts by (simp add: still_def quiet_def parts_late)
qed

lemma same_deps:
  assumes "transport_deps q = transport_deps p"
  shows "mode_deps q = mode_deps p" and "wants_transport q = wants_transport p"
  using assms by (simp_all add: transport_deps_def mode_deps_def wants_transport_def)

lemma same_poll_deps:
  assumes "poll_deps q = poll_deps p"
  shows "mode_deps q = mode_deps p" and "polls q = polls p"
    and "lo_pollIntervalMs (dp_opts q) = lo_pollIntervalMs (dp_opts p)"
  using assms by (simp_all add: poll_deps_def mode_deps_def polls_def)

lemma hook_invD:
  assumes "hook_inv h" and "hk_ran h = Some q"
  shows "hk_manager h \<noteq> None \<Longrightarrow> hk_mounted h \<and> wants_transport q"
    and "\<not> hk_mounted h \<or> \<not> mode_deps q \<Longrightarrow> quiet h"
    and "hk_mounted h \<Longrightarrow> \<not> mode_deps q \<Longrightarrow> cd_source (lv_data (hk_live h)) = Source_demo"
    and "hk_mounted h \<Longrightarrow> polls q \<Longrightarrow> loop_ok (dp_opts q) h" and "parts_ok h"
  using assms by (simp_all add: hook_inv_def mode_deps_def)

text \<open>The stages of a commit, up to the mode effect, after which the console is still if demo mode is on.\<close>

lemma commit_still:
  fixes W :: "'u world"
  assumes inv: "hook_inv h" and m: "hk_mounted h" and demo: "cd_source demo = Source_demo" and off: "\<not> mode_deps p"
  shows "still (commit_mode W demo p h)" and "cd_source (lv_data (hk_live (commit_mode W demo p h))) = Source_demo"
proof -
  have parts: "parts_ok h" using inv by (simp add: hook_inv_def)
  note c = cleanups_stage [OF parts, where W = W and p = p]
  note e = mode_stage [OF c(1) demo, where W = W and p = p]
  have "still (commit_mode W demo p h) \<and> cd_source (lv_data (hk_live (commit_mode W demo p h))) = Source_demo"
  proof (cases "dep_changed mode_deps (hk_ran h) p")
    case True
    have off': "hk_loop (cleanups W p h) = Loop_off" "hk_interval (cleanups W p h) = None"
    proof -
      have "hk_ran h = None \<Longrightarrow> quiet h" using inv by (simp add: hook_inv_def)
      moreover have "dep_changed poll_deps (hk_ran h) p" "dep_changed interval_deps (hk_ran h) p"
        using True by (auto simp: dep_changed_def mode_deps_def poll_deps_def interval_deps_def split: option.splits)
      ultimately show "hk_loop (cleanups W p h) = Loop_off" "hk_interval (cleanups W p h) = None"
        using c(7,8) by (auto simp: quiet_def)
    qed
    then show ?thesis using True e off by (simp add: commit_mode_def still_def quiet_def clear_events_def)
  next
    case False
    then obtain q where q: "hk_ran h = Some q" "mode_deps q = mode_deps p"
      by (auto simp: dep_changed_def split: option.splits)
    note d = hook_invD [OF inv q(1)]
    have "quiet h" "cd_source (lv_data (hk_live h)) = Source_demo" using d(2,3) off q(2) m by simp_all
    moreover have "hk_loop (cleanups W p h) = Loop_off" "hk_interval (cleanups W p h) = None"
      using c(7,8) \<open>quiet h\<close> by (simp_all add: quiet_def)
    ultimately show ?thesis using False c by (auto simp: commit_mode_def still_def quiet_def)
  qed
  then show "still (commit_mode W demo p h)" "cd_source (lv_data (hk_live (commit_mode W demo p h))) = Source_demo"
    by simp_all
qed

lemma commit_mode_parts:
  assumes "parts_ok h" and "cd_source demo = Source_demo"
  shows "parts_ok (commit_mode W demo p h)" and "hk_mounted (commit_mode W demo p h) = hk_mounted h"
    and "hk_now (commit_mode W demo p h) = hk_now h"
proof -
  note c = cleanups_stage [OF assms(1), where W = W and p = p]
  note e = mode_stage [OF c(1) assms(2), where W = W and p = p]
  show "parts_ok (commit_mode W demo p h)" "hk_mounted (commit_mode W demo p h) = hk_mounted h"
    "hk_now (commit_mode W demo p h) = hk_now h"
    using c(1,4,5) e(1,5,7) by (simp_all add: commit_mode_def apply_if_def)
qed

text \<open>After the transport effect a manager runs only if realtime is wanted.\<close>

lemma commit_transport_stage:
  fixes W :: "'u world" and p :: Deps
  assumes inv: "hook_inv h" and demo: "cd_source demo = Source_demo"
  defines "h' \<equiv> commit_transport W demo p h"
  shows "parts_ok h'" and "hk_mounted h' = hk_mounted h" and "hk_manager h' \<noteq> None \<Longrightarrow> wants_transport p"
    and "still (commit_mode W demo p h) \<Longrightarrow> \<not> mode_deps p \<Longrightarrow> still h'"
    and "lv_data (hk_live h') = lv_data (hk_live (commit_mode W demo p h))"
proof -
  have parts: "parts_ok h" using inv by (simp add: hook_inv_def)
  note c = cleanups_stage [OF parts, where W = W and p = p] and m = commit_mode_parts [OF parts demo, where W = W and p = p]
  note t = transport_stage [OF m(1), where W = W and p = p]
  show "parts_ok h'" "hk_mounted h' = hk_mounted h" using m t(1,7) by (simp_all add: h'_def commit_transport_def apply_if_def)
  show "lv_data (hk_live h') = lv_data (hk_live (commit_mode W demo p h))"
    using t(8) by (auto simp: h'_def commit_transport_def apply_if_def)
  show "still h'" if "still (commit_mode W demo p h)" "\<not> mode_deps p"
    using that still_late(1) [where W = W] by (simp add: h'_def commit_transport_def apply_if_def)
  show "wants_transport p" if "hk_manager h' \<noteq> None"
  proof (cases "dep_changed transport_deps (hk_ran h) p")
    case True
    then show ?thesis using that t(2) by (simp add: h'_def commit_transport_def)
  next
    case False
    then obtain q where q: "hk_ran h = Some q" "transport_deps q = transport_deps p"
      by (auto simp: dep_changed_def split: option.splits)
    then have "h' = cleanups W p h"
      using False same_deps(1) [OF q(2)] by (simp add: h'_def commit_transport_def commit_mode_def dep_changed_def)
    with that c(2) have "hk_manager h \<noteq> None" by metis
    then show ?thesis using hook_invD(1) [OF inv q(1)] same_deps(2) [OF q(2)] by simp
  qed
qed

lemma commit_transport_loop:
  assumes inv: "hook_inv h" and m: "hk_mounted h" and demo: "cd_source demo = Source_demo"
    and pl: "polls p" and same: "\<not> dep_changed poll_deps (hk_ran h) p"
  shows "loop_ok (dp_opts p) (commit_transport W demo p h)"
proof -
  have parts: "parts_ok h" using inv by (simp add: hook_inv_def)
  note c = cleanups_stage [OF parts, where W = W and p = p]
  obtain q where q: "hk_ran h = Some q" "poll_deps q = poll_deps p"
    using same by (auto simp: dep_changed_def split: option.splits)
  note d = same_poll_deps [OF q(2)]
  have ok: "loop_ok (dp_opts q) h" using hook_invD(4) [OF inv q(1) m] d(2) pl by simp
  have mode: "commit_mode W demo p h = cleanups W p h" using q(1) d(1) by (simp add: commit_mode_def dep_changed_def)
  have "hk_loop (commit_transport W demo p h) = hk_loop (cleanups W p h) \<and>
      hk_now (commit_transport W demo p h) = hk_now (cleanups W p h) \<and>
      fetch_ids (hk_live (commit_transport W demo p h)) = fetch_ids (hk_live (cleanups W p h))"
    using transport_stage(4,5,8) [OF c(1), where W = W and p = p] by (auto simp: commit_transport_def apply_if_def mode)
  moreover have "fetch_ids (hk_live (cleanups W p h)) = fetch_ids (hk_live h)" using c(6) by auto
  ultimately have "loop_ok (dp_opts p) (commit_transport W demo p h) = loop_ok (dp_opts q) h"
    using c(4,7) same d(3) by (intro loop_ok_cong) simp_all
  then show ?thesis using ok by simp
qed

lemma commit_rest_stage:
  assumes "parts_ok h"
  shows "parts_ok (commit_rest W before p h)" and "hk_manager (commit_rest W before p h) = hk_manager h"
    and "lv_data (hk_live (commit_rest W before p h)) = lv_data (hk_live h)"
    and "hk_mounted (commit_rest W before p h) = hk_mounted h"
    and "still h \<Longrightarrow> \<not> mode_deps p \<Longrightarrow> still (commit_rest W before p h)"
    and "polls p \<Longrightarrow> \<not> dep_changed poll_deps before p \<longrightarrow> loop_ok (dp_opts p) h \<Longrightarrow> loop_ok (dp_opts p) (commit_rest W before p h)"
proof -
  show "parts_ok (commit_rest W before p h)"
    unfolding commit_rest_def Let_def by (intro apply_if_keeps [where P = parts_ok] parts_late assms)
  show "hk_manager (commit_rest W before p h) = hk_manager h" "hk_mounted (commit_rest W before p h) = hk_mounted h"
    "lv_data (hk_live (commit_rest W before p h)) = lv_data (hk_live h)"
    by (simp_all add: commit_rest_def Let_def apply_if_def)
  show "still (commit_rest W before p h)" if "still h" "\<not> mode_deps p"
    unfolding commit_rest_def Let_def using that by (intro apply_if_keeps [where P = still] still_late)
  show "loop_ok (dp_opts p) (commit_rest W before p h)"
    if pl: "polls p" and l: "\<not> dep_changed poll_deps before p \<longrightarrow> loop_ok (dp_opts p) h"
  proof -
    define h1 where "h1 = apply_if (dep_changed poll_deps before p) (run_poll_effect W p) h"
    have "net_ok (poll_effect (wd_dates W) (hk_now h) (dp_opts p) (dp_visible p) (hk_live h))"
      using assms by (simp add: parts_ok_def poll_effect_frame)
    then have "loop_ok (dp_opts p) h1"
      using l pl by (simp add: h1_def apply_if_def run_poll_effect_def Let_def update_live_def await_loop_ok)
    moreover have "hk_loop (commit_rest W before p h) = hk_loop h1 \<and> hk_now (commit_rest W before p h) = hk_now h1 \<and>
        fetch_ids (hk_live (commit_rest W before p h)) = fetch_ids (hk_live h1)"
      by (simp add: commit_rest_def Let_def h1_def [symmetric]) (simp add: apply_if_def)
    ultimately show ?thesis using loop_ok_cong by metis
  qed
qed

theorem commit_inv:
  assumes inv: "hook_inv h" and m: "hk_mounted h" and demo: "cd_source demo = Source_demo"
  shows "hook_inv (commit W demo opts v h)"
proof -
  let ?p = "rendered opts v h"
  let ?h2 = "commit_transport W demo ?p h"
  let ?h6 = "commit_rest W (hk_ran h) ?p ?h2"
  note t = commit_transport_stage [OF inv demo, where W = W and p = ?p]
  note r = commit_rest_stage [OF t(1), where W = W and before = "hk_ran h" and p = ?p]
  have opts: "dp_opts ?p = opts" by (simp add: rendered_def)
  have st: "still ?h6 \<and> cd_source (lv_data (hk_live ?h6)) = Source_demo" if off: "\<not> mode_deps ?p"
    using commit_still [OF inv m demo off, where W = W] t(4,5) r(3,5) off by simp
  have loop: "loop_ok (dp_opts ?p) ?h6" if "polls ?p"
    using r(6) that commit_transport_loop [OF inv m demo that] by blast
  have "loop_ok opts (?h6\<lparr> hk_ran := Some ?p \<rparr>) = loop_ok opts ?h6" by (rule loop_ok_cong) simp_all
  moreover have "quiet (?h6\<lparr> hk_ran := Some ?p \<rparr>) = quiet ?h6" "parts_ok (?h6\<lparr> hk_ran := Some ?p \<rparr>) = parts_ok ?h6"
    by (simp_all add: quiet_def parts_ok_def)
  ultimately show ?thesis
    using r(1,2,4) t(2,3) m st loop opts
    unfolding commit_def Let_def hook_inv_def by (simp add: mode_deps_def still_def)
qed

lemma commit_ran [simp]: "hk_ran (commit W demo opts v h) = Some (rendered opts v h)"
  by (simp add: commit_def Let_def)

lemma commit_mounted:
  assumes "hook_inv h" and "cd_source demo = Source_demo"
  shows "hk_mounted (commit W demo opts v h) = hk_mounted h"
  using commit_transport_stage(1,2) [OF assms, where W = W] commit_rest_stage(4) [where W = W] by (simp add: commit_def Let_def)


lemma commit_now:
  assumes "hook_inv h" and "cd_source demo = Source_demo"
  shows "hk_now (commit W demo opts v h) = hk_now h"
proof -
  let ?p = "rendered opts v h"
  have parts: "parts_ok h" using assms(1) by (simp add: hook_inv_def)
  note c = cleanups_stage [OF parts, where W = W and p = ?p]
  note m = commit_mode_parts [OF parts assms(2), where W = W and p = ?p]
  have "hk_now (commit_mode W demo ?p h) = hk_now h"
    using c(1,4) mode_stage(5) [OF c(1) assms(2), where W = W and p = ?p] by (simp add: commit_mode_def apply_if_def)
  then have "hk_now (commit_transport W demo ?p h) = hk_now h"
    using transport_stage(5) [OF m(1), where W = W and p = ?p] by (simp add: commit_transport_def apply_if_def)
  then show ?thesis by (simp add: commit_def commit_rest_def apply_if_def Let_def)
qed

text \<open>A commit sets the data only when the mode has changed, or is the first one.\<close>

lemma commit_data:
  assumes inv: "hook_inv h" and demo: "cd_source demo = Source_demo"
  shows "lv_data (hk_live (commit W demo opts v h)) =
    (if map_option (\<lambda>q. lo_liveMode (dp_opts q)) (hk_ran h) = Some (lo_liveMode opts) then lv_data (hk_live h)
     else if lo_liveMode opts then createEmptyConsoleData Source_live
     else if cd_source (lv_data (hk_live h)) = Source_demo then lv_data (hk_live h) else demo)"
proof -
  let ?p = "rendered opts v h"
  have parts: "parts_ok h" using inv by (simp add: hook_inv_def)
  have p: "mode_deps ?p = lo_liveMode opts" by (simp add: mode_deps_def rendered_def)
  note c = cleanups_stage [OF parts, where W = W and p = ?p]
  note t = commit_transport_stage [OF inv demo, where W = W and p = ?p]
  define same where "same \<longleftrightarrow> map_option (\<lambda>q. lo_liveMode (dp_opts q)) (hk_ran h) = Some (lo_liveMode opts)"
  have 1: "lv_data (hk_live (commit W demo opts v h)) = lv_data (hk_live (commit_mode W demo ?p h))"
    using t(1,5) commit_rest_stage(3) [OF t(1), where W = W] by (simp add: commit_def Let_def)
  have "dep_changed mode_deps (hk_ran h) ?p \<longleftrightarrow> \<not> same"
    by (cases "hk_ran h") (auto simp: same_def dep_changed_def mode_deps_def rendered_def)
  then have 2: "commit_mode W demo ?p h = (if same then cleanups W ?p h else run_mode_effect W demo ?p (cleanups W ?p h))"
    by (simp add: commit_mode_def apply_if_def)
  have 3: "lv_data (hk_live (cleanups W ?p h)) = lv_data (hk_live h)" using c(6) by auto
  show ?thesis
    unfolding 1 2 same_def [symmetric] using mode_stage(10) [OF c(1) demo, where W = W and p = ?p] p 3 by (cases same) simp_all
qed

text \<open>A console that is not still is mounted and live; there the invariant asks less.\<close>

lemma hook_inv_live:
  assumes "hk_ran h = Some p" and "hk_mounted h" and "mode_deps p"
  shows "hook_inv h \<longleftrightarrow> parts_ok h \<and> (hk_manager h \<noteq> None \<longrightarrow> wants_transport p) \<and> (polls p \<longrightarrow> loop_ok (dp_opts p) h)"
  using assms by (simp add: hook_inv_def mode_deps_def)

lemma not_quiet:
  assumes "hook_inv h" and "\<not> quiet h"
  obtains p where "hk_ran h = Some p" and "hk_mounted h" and "mode_deps p"
  using assms by (auto simp: hook_inv_def mode_deps_def split: option.splits)

text \<open>A step of a live console that only touches the refreshes, the events and the interval.\<close>

lemma live_keeps:
  assumes inv: "hook_inv h" and p: "hk_ran h = Some p" "hk_mounted h" "mode_deps p"
    and same: "hk_ran h' = hk_ran h" "hk_mounted h' = hk_mounted h" "hk_manager h' = hk_manager h" "hk_loop h' = hk_loop h"
      "hk_now h' = hk_now h"
    and ms: "managers_ok (hk_managers h') (hk_manager h)"
    and net: "net_ok (hk_live h')" and grow: "fetch_ids (hk_live h) \<subseteq> fetch_ids (hk_live h')"
  shows "hook_inv h'"
proof -
  have i: "(hk_manager h \<noteq> None \<longrightarrow> wants_transport p) \<and> (polls p \<longrightarrow> loop_ok (dp_opts p) h)"
    using inv hook_inv_live [OF p] by simp
  have "loop_ok (dp_opts p) h' " if "loop_ok (dp_opts p) h"
    using that grow same(4,5) by (auto simp: loop_ok_def split: PollLoop.splits)
  then show ?thesis
    using i same ms net p hook_inv_live [of h' p] by (simp add: parts_ok_def)
qed

lemma live_update:
  assumes "hook_inv h" and "hk_ran h = Some p" "hk_mounted h" "mode_deps p"
    and "net_ok (f (hk_live h))" and "fetch_ids (hk_live h) \<subseteq> fetch_ids (f (hk_live h))"
  shows "hook_inv (update_live f (h\<lparr> hk_events := q, hk_interval := iv \<rparr>))"
proof (rule live_keeps [OF assms(1-4)])
  show "managers_ok (hk_managers (update_live f (h\<lparr> hk_events := q, hk_interval := iv \<rparr>))) (hk_manager h)"
    using assms(1) by (simp add: update_live_def hook_inv_def parts_ok_def)
qed (use assms in \<open>simp_all add: update_live_def\<close>)

lemma parts_inv: "hook_inv h \<Longrightarrow> net_ok (hk_live h) \<and> managers_ok (hk_managers h) (hk_manager h)"
  by (simp add: hook_inv_def parts_ok_def)

lemma tick_inv: "hook_inv h \<Longrightarrow> hk_now h \<le> now' \<Longrightarrow> hook_inv (h\<lparr> hk_now := now' \<rparr>)"
  by (auto simp: hook_inv_def parts_ok_def quiet_def loop_ok_def split: option.splits PollLoop.splits)

text \<open>Callbacks of the managers.\<close>

lemma manager_step_inv:
  assumes inv: "hook_inv h" and i: "i < length (hk_managers h)"
    and run: "run_callback (fst (hk_managers h ! i)) r e (snd (hk_managers h ! i)) = Some m'"
  shows "hook_inv (manager_becomes W selected i m' h)"
proof -
  note ms = parts_inv [OF inv, THEN conjunct2] and net = parts_inv [OF inv, THEN conjunct1]
  have m: "manager_inv (snd (hk_managers h ! i))" using ms i by (simp add: managers_ok_def)
  have m': "manager_inv m'" using step_manager_inv [OF m callback_step [OF run]] .
  show ?thesis
  proof (cases "hk_manager h = Some i")
    case True
    then have "\<not> quiet h" by (simp add: quiet_def)
    then obtain p where p: "hk_ran h = Some p" "hk_mounted h" "mode_deps p" using not_quiet [OF inv] by metis
    obtain ts q where eq: "manager_becomes W selected i m' h = h\<lparr> hk_managers := (hk_managers h)[i := (fst (hk_managers h ! i), m')],
      hk_live := (hk_live h)\<lparr> lv_transport := ts \<rparr>, hk_events := q \<rparr>" by (rule becomes_frame)
    have ok: "managers_ok ((hk_managers h)[i := (fst (hk_managers h ! i), m')]) (hk_manager h)"
      using ms i m' True by (intro managers_update) simp_all
    show ?thesis unfolding eq by (rule live_keeps [OF inv p]) (simp_all add: ok net)
  next
    case False
    then have "m_stopped (snd (hk_managers h ! i))" using ms i by (simp add: managers_ok_def)
    from stopped_callback [OF m this run] have s: "m_stopped m'" "h_out m' = h_out (snd (hk_managers h ! i))" by simp_all
    have ok: "managers_ok ((hk_managers h)[i := (fst (hk_managers h ! i), m')]) (hk_manager h)"
      using ms i m' s(1) by (intro managers_update) simp_all
    show ?thesis
      using inv ok unfolding becomes_silent [OF s(2)] hook_inv_def parts_ok_def
      by (auto simp: quiet_def loop_ok_def split: option.splits PollLoop.splits)
  qed
qed

lemma reconnect_inv:
  assumes inv: "hook_inv h" and p: "hk_mounted h" "hk_ran h = Some p"
  shows "hook_inv (manualReconnect W r (dp_opts p) h)"
proof (cases "mode_deps p")
  case False
  then show ?thesis using inv by (simp add: manualReconnect_def mode_deps_def)
next
  case True
  note ms = parts_inv [OF inv, THEN conjunct2] and net = parts_inv [OF inv, THEN conjunct1]
  let ?f = "refreshConsole (wd_dates W) (hk_now h) (dp_opts p) True True"
  have live: "lo_liveMode (dp_opts p)" using True by (simp add: mode_deps_def)
  show ?thesis
  proof (cases "hk_manager h")
    case None
    show ?thesis
      using live_update [OF inv p(2,1) True, where f = ?f and q = "hk_events h" and iv = "hk_interval h"] None live net_refresh [OF net] refresh_frame(1)
      by (simp add: manualReconnect_def)
  next
    case (Some i)
    let ?E = "fst (hk_managers h ! i)" and ?m = "retryNow (fst (hk_managers h ! i)) r (snd (hk_managers h ! i))"
    have i: "i < length (hk_managers h)" "manager_inv (snd (hk_managers h ! i))" using ms Some by (simp_all add: managers_ok_def)
    have "manager_inv ?m" by (rule step_manager_inv [OF i(2) step_retryNow])
    then have ok: "managers_ok ((hk_managers h)[i := (?E, ?m)]) (hk_manager h)"
      using ms i Some by (intro managers_update) simp_all
    obtain ts q where eq: "manager_becomes W (lo_selectedJobId (dp_opts p)) i ?m h = h\<lparr> hk_managers := (hk_managers h)[i := (?E, ?m)],
      hk_live := (hk_live h)\<lparr> lv_transport := ts \<rparr>, hk_events := q \<rparr>" by (rule becomes_frame)
    have "hook_inv (h\<lparr> hk_managers := (hk_managers h)[i := (?E, ?m)], hk_events := q,
      hk_live := ?f ((hk_live h)\<lparr> lv_transport := ts \<rparr>) \<rparr>)"
      using ok net_refresh [of "(hk_live h)\<lparr> lv_transport := ts \<rparr>"] net
        refresh_frame(1) [of "(hk_live h)\<lparr> lv_transport := ts \<rparr>" "wd_dates W" "hk_now h" "dp_opts p" True True]
      by (intro live_keeps [OF inv p(2,1) True]) simp_all
    then show ?thesis using Some live eq by (simp add: manualReconnect_def update_live_def)
  qed
qed

text \<open>Requests settle.\<close>

lemma advance_loop_ok:
  assumes "(case hk_loop h of Loop_waits f \<Rightarrow> True | _ \<Rightarrow> loop_ok opts h)"
  shows "loop_ok opts (advance_loop opts h)"
  using assms schedule_loop_ok [of opts h]
  by (auto simp: advance_loop_def loop_ok_def fetch_ids_def split: PollLoop.splits)

lemma settle_inv:
  assumes inv: "hook_inv h" and p: "hk_ran h = Some p" and may: "may_settle (hk_live h) r outcome"
  shows "hook_inv (settle_hook W (dp_opts p) r outcome h)"
proof -
  let ?h = "update_live (settle_request (wd_dates W) (hk_now h) r outcome) h"
  note net = parts_inv [OF inv, THEN conjunct1]
  have n: "net_ok (settle_request (wd_dates W) (hk_now h) r outcome (hk_live h))" by (rule net_settle [OF net may])
  show ?thesis
  proof (cases "quiet h")
    case True
    note a = settle_aborted [of "hk_live h" "wd_dates W" "hk_now h" r outcome]
    have "quiet ?h" "lv_data (hk_live ?h) = lv_data (hk_live h)"
      using True a by (simp_all add: quiet_def update_live_def)
    moreover have "settle_hook W (dp_opts p) r outcome h = ?h"
      using True by (simp add: settle_hook_def advance_loop_def quiet_def update_live_def)
    moreover have "hook_inv ?h" if "quiet ?h" "lv_data (hk_live ?h) = lv_data (hk_live h)"
      using inv that p n True by (auto simp: hook_inv_def parts_ok_def update_live_def loop_ok_def quiet_def)
    ultimately show ?thesis by simp
  next
    case False
    then obtain p' where "hk_ran h = Some p'" and m: "hk_mounted h" "mode_deps p'" by (rule not_quiet [OF inv])
    then have md: "mode_deps p" using p by simp
    have i: "(hk_manager h \<noteq> None \<longrightarrow> wants_transport p) \<and> (polls p \<longrightarrow> loop_ok (dp_opts p) h)"
      using inv hook_inv_live [OF p m(1) md] by simp
    have l: "loop_ok (dp_opts p) (settle_hook W (dp_opts p) r outcome h)" if "polls p"
      unfolding settle_hook_def using i that
      by (intro advance_loop_ok) (auto simp: update_live_def loop_ok_def split: PollLoop.splits)
    have f: "hk_ran (settle_hook W (dp_opts p) r outcome h) = hk_ran h" "hk_mounted (settle_hook W (dp_opts p) r outcome h) = hk_mounted h"
      "hk_manager (settle_hook W (dp_opts p) r outcome h) = hk_manager h"
      "hk_managers (settle_hook W (dp_opts p) r outcome h) = hk_managers h"
      "net_ok (hk_live (settle_hook W (dp_opts p) r outcome h))"
      using n by (simp_all add: settle_hook_def advance_loop_def update_live_def split: PollLoop.split)
    then have "parts_ok (settle_hook W (dp_opts p) r outcome h)" using inv by (simp add: parts_ok_def hook_inv_def)
    then show ?thesis using hook_inv_live [of "settle_hook W (dp_opts p) r outcome h" p] f p m(1) md i l by simp
  qed
qed

lemma net_abort:
  assumes "net_ok s"
  shows "net_ok (s\<lparr> br_aborted := br_aborted s \<union> set_option (lv_fetchController s) \<union> ran (lv_inspectionController s) \<rparr>)"
proof -
  have "net_ok (mode_effect True d s)" for d by (rule net_mode [OF assms])
  moreover have "same_core (mode_effect True d s)
      (s\<lparr> br_aborted := br_aborted s \<union> set_option (lv_fetchController s) \<union> ran (lv_inspectionController s) \<rparr>)" for d
    by (simp add: same_core_def mode_effect_def Let_def)
  ultimately show ?thesis using net_core(1) by blast
qed

lemma unmount_inv:
  assumes inv: "hook_inv h"
  shows "hook_inv (unmount W h)" and "quiet (unmount W h)" and "\<not> hk_mounted (unmount W h)"
    and "lv_data (hk_live (unmount W h)) = lv_data (hk_live h)"
    and "br_requests (hk_live (unmount W h)) = br_requests (hk_live h)"
proof -
  have parts: "parts_ok h" using inv by (simp add: hook_inv_def)
  define h1 where "h1 = (case hk_ran h of None \<Rightarrow> h | Some q \<Rightarrow> interval_cleanup (poll_cleanup (transport_cleanup W q h)))"
  have h1: "parts_ok h1 \<and> hk_manager h1 = None \<and> hk_loop h1 = Loop_off \<and> hk_interval h1 = None \<and> hk_ran h1 = hk_ran h \<and>
    lv_data (hk_live h1) = lv_data (hk_live h) \<and> br_requests (hk_live h1) = br_requests (hk_live h)"
  proof (cases "hk_ran h")
    case None
    then show ?thesis using inv by (simp add: h1_def hook_inv_def quiet_def)
  next
    case (Some q)
    obtain ms ts where st: "transport_cleanup W q h = without_manager ms ts h" and ok: "managers_ok ms None"
      unfolding transport_cleanup_def
      using stop_current_stage [OF parts, of W "lo_selectedJobId (dp_opts q)" "stopped_state (dp_visible q)"] by metis
    then show ?thesis
      using Some parts by (simp add: h1_def poll_cleanup_def interval_cleanup_def parts_ok_def)
  qed
  let ?s = "(hk_live h1)\<lparr> br_aborted := br_aborted (hk_live h1) \<union> set_option (lv_fetchController (hk_live h1)) \<union>
    ran (lv_inspectionController (hk_live h1)) \<rparr>"
  let ?q = "(hk_events h1)\<lparr> eq_refreshTimer := None, eq_inspectionTimers := Map.empty, eq_flushTimer := None \<rparr>"
  have eq: "unmount W h = h1\<lparr> hk_live := ?s, hk_events := ?q, hk_mounted := False \<rparr>"
    using h1 by (simp add: unmount_def Let_def h1_def [symmetric] stop_current_def)
  have w: "writers_inv (hk_live h1)" "net_ok (hk_live h1)" using h1 by (simp_all add: parts_ok_def net_ok_def)
  have "aborted_all ?s" by (rule abort_all [OF w(1)]) simp_all
  then show q: "quiet (unmount W h)" using h1 by (simp add: eq quiet_def)
  have "net_ok ?s" using net_abort [OF w(2)] .
  then have "parts_ok (unmount W h)" using h1 by (auto simp: eq parts_ok_def)
  then show "hook_inv (unmount W h)" using q h1 by (auto simp: hook_inv_def eq split: option.split)
  show "\<not> hk_mounted (unmount W h)" by (simp add: eq)
  show "lv_data (hk_live (unmount W h)) = lv_data (hk_live h)"
    "br_requests (hk_live (unmount W h)) = br_requests (hk_live h)" using h1 by (simp_all add: eq)
qed

text \<open>Timers, and the calls of the console.\<close>

lemma timers_inv:
  assumes inv: "hook_inv h" and p: "hk_ran h = Some p"
  shows "eq_refreshTimer (hk_events h) \<noteq> None \<Longrightarrow> hook_inv (refresh_timer W (dp_opts p) h)"
    and "eq_inspectionTimers (hk_events h) \<noteq> Map.empty \<Longrightarrow> hook_inv (inspection_timer W (dp_opts p) jobId h)"
    and "hk_interval h \<noteq> None \<Longrightarrow> hook_inv (interval_timer W (dp_opts p) h)"
    and "hk_loop h \<noteq> Loop_off \<Longrightarrow> hook_inv (poll_timer W (dp_opts p) h)"
proof -
  let ?c = "refreshConsole (wd_dates W) (hk_now h) (dp_opts p) True False" and ?i = "\<lambda>j. refreshInspection (wd_dates W) (hk_now h) (dp_opts p) j False"
  note net = parts_inv [OF inv, THEN conjunct1]
  have live: "hk_mounted h \<and> mode_deps p" if "\<not> quiet h" using not_quiet [OF inv that] p by (metis option.inject)
  have u: "hook_inv (update_live f (h\<lparr> hk_events := q, hk_interval := iv \<rparr>))"
    if "\<not> quiet h" "net_ok (f (hk_live h))" "fetch_ids (hk_live h) \<subseteq> fetch_ids (f (hk_live h))" for f q iv
    using live_update [OF inv p] live [OF that(1)] that by blast
  have r: "net_ok (refreshConsole D now opts quiet force (hk_live h))"
    "net_ok (refreshInspection D now opts j force (hk_live h))"
    "fetch_ids (hk_live h) \<subseteq> fetch_ids (refreshInspection D now opts j force (hk_live h))" for D now opts quiet force j
    using net by (simp_all add: net_refresh net_inspect fetch_ids_def inspect_frame)
  show "hook_inv (refresh_timer W (dp_opts p) h)" if "eq_refreshTimer (hk_events h) \<noteq> None"
    using u [where f = ?c and q = "fire_refresh (hk_events h)" and iv = "hk_interval h"] r(1) refresh_frame(1) that
    by (simp add: refresh_timer_def quiet_def)
  show "hook_inv (inspection_timer W (dp_opts p) jobId h)" if "eq_inspectionTimers (hk_events h) \<noteq> Map.empty"
    using u [where f = "?i jobId" and q = "fire_inspection jobId (hk_events h)" and iv = "hk_interval h"] r(2,3) that
    by (simp add: inspection_timer_def quiet_def)
  show "hook_inv (interval_timer W (dp_opts p) h)" if iv: "hk_interval h \<noteq> None"
  proof -
    obtain due period where "hk_interval h = Some (due, period)" using iv by (cases "hk_interval h") auto
    then show ?thesis
      using u [where f = "?i (lo_selectedJobId (dp_opts p))" and q = "hk_events h" and iv = "Some (due + period, period)"] r(2,3) by (simp add: interval_timer_def quiet_def)
  qed
  show "hook_inv (poll_timer W (dp_opts p) h)" if "hk_loop h \<noteq> Loop_off"
  proof -
    let ?h = "update_live (refreshConsole (wd_dates W) (hk_now h) (dp_opts p) True False) h"
    have nq: "\<not> quiet h" using that by (simp add: quiet_def)
    then have "hook_inv ?h" using u [where f = ?c and q = "hk_events h" and iv = "hk_interval h"] nq r(1) refresh_frame(1) by simp
    moreover have f: "hk_ran ?h = Some p" "hk_mounted ?h" using p live [OF nq] by (simp_all add: update_live_def)
    ultimately have i: "parts_ok ?h" "hk_manager ?h \<noteq> None \<longrightarrow> wants_transport p"
      using hook_inv_live [OF f] live [OF nq] by simp_all
    have "hook_inv (await_loop (dp_opts p) ?h)"
      using hook_inv_live [of "await_loop (dp_opts p) ?h" p] f live [OF nq] i await_loop_ok
      by (simp add: parts_ok_def)
    then show ?thesis by (simp add: poll_timer_def)
  qed
qed

lemma calls_inv:
  assumes inv: "hook_inv h" and p: "hk_mounted h" "hk_ran h = Some p"
  shows "hook_inv (update_live (refreshConsole (wd_dates W) (hk_now h) (dp_opts p) quietly force) h)"
    and "hook_inv (update_live (refreshInspection (wd_dates W) (hk_now h) (dp_opts p) jobId force) h)"
proof -
  let ?c = "refreshConsole (wd_dates W) (hk_now h) (dp_opts p) quietly force"
    and ?i = "refreshInspection (wd_dates W) (hk_now h) (dp_opts p) jobId force"
  note net = parts_inv [OF inv, THEN conjunct1]
  have "hook_inv (update_live ?c h) \<and> hook_inv (update_live ?i h)"
  proof (cases "mode_deps p")
    case True
    have "fetch_ids (hk_live h) \<subseteq> fetch_ids (?i (hk_live h))" by (simp add: fetch_ids_def inspect_frame)
    then show ?thesis
      using live_update [OF inv p(2,1) True, where q = "hk_events h" and iv = "hk_interval h" and f = ?c]
        live_update [OF inv p(2,1) True, where q = "hk_events h" and iv = "hk_interval h" and f = ?i]
        net_refresh [OF net] net_inspect [OF net] refresh_frame(1) by simp
  next
    case False
    then have off: "\<not> lo_liveMode (dp_opts p)" by (simp add: mode_deps_def)
    note f = inspect_off [OF off, of "hk_live h" "wd_dates W" "hk_now h" jobId force]
    have "update_live ?c h = h" using off by (simp add: update_live_def)
    moreover have "hook_inv (update_live ?i h)"
      using inv p off f net_core [OF f [THEN conjunct1]]
      by (auto simp: hook_inv_def update_live_def parts_ok_def quiet_def polls_def)
    ultimately show ?thesis using inv by simp
  qed
  then show "hook_inv (update_live ?c h)" "hook_inv (update_live ?i h)" by simp_all
qed

lemma data_core: "same_core s (s\<lparr> lv_data := d \<rparr>)"
  by (simp add: same_core_def)

lemma operator_inv:
  assumes "hook_inv h" and "cd_source d = cd_source (lv_data (hk_live h))"
  shows "hook_inv (update_live (\<lambda>s. s\<lparr> lv_data := d \<rparr>) h)"
  using assms by (auto simp: hook_inv_def update_live_def parts_ok_def quiet_def loop_ok_def net_core [OF data_core]
      split: option.splits PollLoop.splits)

lemma flush_inv:
  assumes inv: "hook_inv h" and due: "eq_flushTimer (hk_events h) = Some due"
  shows "hook_inv (flush_timer W h)"
proof -
  have "\<not> quiet h" using due by (simp add: quiet_def)
  then obtain p where p: "hk_ran h = Some p" "hk_mounted h" "mode_deps p" using not_quiet [OF inv] by metis
  obtain q d where f: "flushPendingEvents (wd_dates W) (of_int (hk_now h)) (hk_events h, lv_data (hk_live h)) = (q, d)"
    by fastforce
  have "hook_inv (update_live (\<lambda>s. s\<lparr> lv_data := d \<rparr>) (h\<lparr> hk_events := q, hk_interval := hk_interval h \<rparr>))"
    using parts_inv [OF inv] by (intro live_update [OF inv p]) (simp_all add: net_core [OF data_core])
  then show ?thesis by (simp add: flush_timer_def f update_live_def)
qed

lemma background_inv: "hook_inv h \<Longrightarrow> background_step W h h' \<Longrightarrow> hook_inv h'"
  by (erule background_cases) (auto intro: tick_inv manager_step_inv settle_inv flush_inv timers_inv)

theorem hook_step_inv: "hook_inv h \<Longrightarrow> hook_step W h h' \<Longrightarrow> hook_inv h'"
  by (erule hook_cases) (auto intro: background_inv commit_inv unmount_inv(1) reconnect_inv calls_inv operator_inv)

text \<open>Only a commit and the removal of the component change what was rendered and whether it is mounted.\<close>

lemma becomes_keeps [simp]:
  "hk_ran (manager_becomes W selected i m' h) = hk_ran h" "hk_mounted (manager_becomes W selected i m' h) = hk_mounted h"
  by (rule becomes_frame [of W selected i m' h], simp)+

lemma background_keeps: "background_step W h h' \<Longrightarrow> hk_ran h' = hk_ran h \<and> hk_mounted h' = hk_mounted h"
  by (erule background_cases)
    (simp_all add: settle_hook_def advance_loop_def update_live_def schedule_loop_def flush_timer_def refresh_timer_def
      inspection_timer_def poll_timer_def interval_timer_def split: PollLoop.split option.split prod.split)

lemma append_source [simp]: "cd_source (appendEvents D d events) = cd_source d"
  by (rule appendEvents_cases [where D = D and d = d and events = events]) simp

lemma hydrate_source: "cd_source (hydrate D now snapshot jobs schedules workerStatuses d) = Source_live"
  by (simp add: hydrate_def stabilizeConsoleData_def createConsoleDataFromApi_def Let_def)

lemma hears_source:
  "cd_source (lv_data s) = Source_live \<Longrightarrow> cd_source (lv_data (fetch_hears D now r failure s x)) = Source_live"
  by (auto simp: fetch_hears_def fetch_fails_def fetch_succeeds_def finish_fetch_def hydrate_source Let_def
      split: prod.split option.split list.split Response.split)

lemma settle_source:
  assumes "cd_source (lv_data s) = Source_live"
  shows "cd_source (lv_data (settle_request D now r outcome s)) = Source_live"
proof (cases "br_requests s r")
  case (Some q)
  have "cd_source (lv_data (foldl (fetch_hears D now r failure) u xs)) = Source_live"
    if "cd_source (lv_data u) = Source_live" for u failure xs
    using that by (induction xs arbitrary: u) (simp_all add: hears_source)
  with Some assms show ?thesis
    by (elim settle_view [where D = D and now = now and outcome = outcome]) (simp add: console_view_def)
qed (simp add: settle_request_def assms)

text \<open>Live data stays live data, whatever happens between commits.\<close>

lemma background_source:
  assumes "background_step W h h'" and "cd_source (lv_data (hk_live h)) = Source_live"
  shows "cd_source (lv_data (hk_live h')) = Source_live"
  using assms(1)
proof cases
  case (bs_manager p i r e m')
  then show ?thesis using assms(2) by (auto intro: becomes_frame [of W "lo_selectedJobId (dp_opts p)" i m' h])
next
  case (bs_settle p r outcome)
  then show ?thesis
    using assms(2) by (simp add: settle_hook_def advance_loop_def update_live_def schedule_loop_def schedule_next_frame settle_source
        split: PollLoop.split prod.split)
next
  case (bs_flush due)
  then show ?thesis using assms(2) by (auto simp: flush_timer_def flushPendingEvents_def Let_def split: prod.split if_splits)
qed (use assms(2) in \<open>simp_all add: refresh_timer_def inspection_timer_def poll_timer_def interval_timer_def update_live_def
    refresh_frame inspect_frame split: option.split prod.split\<close>)

lemma reconnect_keeps:
  "hk_ran (manualReconnect W r opts h) = hk_ran h" "hk_mounted (manualReconnect W r opts h) = hk_mounted h"
  "\<not> lo_liveMode opts \<Longrightarrow> manualReconnect W r opts h = h"
  by (simp_all add: manualReconnect_def update_live_def Let_def split: option.split)

lemma reconnect_source: "lv_data (hk_live (manualReconnect W r opts h)) = lv_data (hk_live h)"
proof -
  have "lv_data (hk_live (manager_becomes W selected i m' h)) = lv_data (hk_live h)" for selected i m'
    by (rule becomes_frame [of W selected i m' h]) simp
  then show ?thesis by (simp add: manualReconnect_def Let_def update_live_def refresh_frame split: option.split)
qed

definition hook_start :: "Hook \<Rightarrow> bool" where
  "hook_start h \<longleftrightarrow> (\<exists>now demo liveMode. h = initial_hook now demo liveMode)"

lemma initial_hook_inv: "hook_inv (initial_hook now demo liveMode)"
proof -
  have "net_ok (initial_live d) \<and> aborted_all (initial_live d)" for d
    by (simp add: net_ok_def initial_live_inv initial_writers) (simp add: aborted_all_def initial_live_def)
  then show ?thesis
    by (simp add: hook_inv_def parts_ok_def initial_hook_def managers_ok_def quiet_def empty_events_def)
qed

interpretation live_hook: step_system hook_start "hook_step W" hook_inv for W
  by unfold_locales (auto simp: hook_start_def initial_hook_inv intro: hook_step_inv)


section \<open>What the hook guarantees\<close>

text \<open>A manager that was replaced holds no timer and no connection.\<close>

lemma replaced_idle:
  assumes "hook_inv h" and "i < length (hk_managers h)" and "hk_manager h \<noteq> Some i"
  shows "idle (snd (hk_managers h ! i))"
  using assms by (auto simp: hook_inv_def parts_ok_def managers_ok_def manager_inv_def base_def)

lemma one_manager:
  assumes "hook_inv h"
  shows "card {i. i < length (hk_managers h) \<and> \<not> idle (snd (hk_managers h ! i))} \<le> 1"
proof -
  have "{i. i < length (hk_managers h) \<and> \<not> idle (snd (hk_managers h ! i))} \<subseteq> set_option (hk_manager h)"
    using replaced_idle [OF assms] by force
  then have "card {i. i < length (hk_managers h) \<and> \<not> idle (snd (hk_managers h ! i))} \<le> card (set_option (hk_manager h))"
    by (rule card_mono [rotated]) simp
  also have "\<dots> \<le> 1" by (cases "hk_manager h") simp_all
  finally show ?thesis .
qed

text \<open>In a quiet console only a commit or the operator touches the data.\<close>

lemma quiet_manager_step:
  assumes inv: "hook_inv h" and q: "quiet h" and i: "i < length (hk_managers h)"
    and run: "run_callback (fst (hk_managers h ! i)) r e (snd (hk_managers h ! i)) = Some m'"
  shows "manager_becomes W selected i m' h = h\<lparr> hk_managers := (hk_managers h)[i := (fst (hk_managers h ! i), m')] \<rparr>"
proof (rule becomes_silent)
  have "managers_ok (hk_managers h) None" using inv q by (simp add: hook_inv_def parts_ok_def quiet_def)
  then have "manager_inv (snd (hk_managers h ! i))" "m_stopped (snd (hk_managers h ! i))" using i by (simp_all add: managers_ok_def)
  from stopped_callback [OF this run] show "h_out m' = h_out (snd (hk_managers h ! i))" by simp
qed

lemma quiet_background:
  assumes inv: "hook_inv h" and q: "quiet h" and step: "background_step W h h'"
  shows "lv_data (hk_live h') = lv_data (hk_live h)" and "hk_mounted h' = hk_mounted h"
    and "br_requests (hk_live h') \<subseteq>\<^sub>m br_requests (hk_live h)"
proof -
  have "lv_data (hk_live h') = lv_data (hk_live h) \<and> hk_mounted h' = hk_mounted h \<and>
      br_requests (hk_live h') \<subseteq>\<^sub>m br_requests (hk_live h)"
    using step
  proof cases
    case (bs_settle p r outcome)
    have "hk_loop h = Loop_off" using q by (simp add: quiet_def)
    moreover have "lv_data (settle_request (wd_dates W) (hk_now h) r outcome (hk_live h)) = lv_data (hk_live h)"
      using q by (intro settle_aborted(2)) (simp add: quiet_def)
    ultimately show ?thesis
      using bs_settle by (simp add: settle_hook_def advance_loop_def update_live_def settle_frame map_le_def)
  next
    case (bs_manager p i r e m')
    then show ?thesis using quiet_manager_step [OF inv q, where W = W] by simp
  qed (use q in \<open>simp_all add: quiet_def\<close>)
  then show "lv_data (hk_live h') = lv_data (hk_live h)" "hk_mounted h' = hk_mounted h"
    "br_requests (hk_live h') \<subseteq>\<^sub>m br_requests (hk_live h)" by simp_all
qed

text \<open>Nothing changes after the component is gone.\<close>

lemma gone_stays:
  assumes "(hook_step W)\<^sup>*\<^sup>* h h'" and "hook_inv h" and "\<not> hk_mounted h"
  shows "\<not> hk_mounted h' \<and> quiet h' \<and> lv_data (hk_live h') = lv_data (hk_live h) \<and>
    br_requests (hk_live h') \<subseteq>\<^sub>m br_requests (hk_live h)"
  using assms(1)
proof (induction rule: rtranclp_induct)
  case base
  then show ?case using assms(2,3) by (auto simp: hook_inv_def split: option.splits)
next
  case (step x y)
  have x: "hook_inv x" using live_hook.run_inv [OF step(1) assms(2)] .
  have b: "background_step W x y" using step(2) step.IH by cases simp_all
  note k = quiet_background [OF x _ b]
  have "\<not> hk_mounted y \<and> lv_data (hk_live y) = lv_data (hk_live h) \<and> br_requests (hk_live y) \<subseteq>\<^sub>m br_requests (hk_live h)"
    using k step.IH map_le_trans by (metis (no_types, lifting))
  then show ?case using background_inv [OF x b] by (auto simp: hook_inv_def split: option.splits)
qed

lemma commit_transport_live:
  assumes "parts_ok h" and "commit_mode W demo p h = cleanups W p h"
  shows "\<exists>ts. hk_live (commit_transport W demo p h) = (hk_live h)\<lparr> lv_transport := ts \<rparr>"
proof -
  note c = cleanups_stage [OF assms(1), where W = W and p = p]
  show ?thesis
    using transport_stage(8) [OF c(1), where W = W and p = p] c(6)
    by (cases "dep_changed transport_deps (hk_ran h) p") (auto simp: commit_transport_def assms(2))
qed

text \<open>
  While a refresh is in flight, no commit of a live console sends a request, whatever base URL or
  token it brings: the new configuration is shown with the answer of the old one.
\<close>

lemma commit_joins_refresh:
  assumes inv: "hook_inv h" and q: "hk_ran h = Some q" "mode_deps q" and opts: "lo_liveMode opts" "truthy (lo_resolvedBaseUrl opts)"
    "lo_selectedJobId opts = []" and pending: "lv_fetchPromise (hk_live h) \<noteq> None"
  shows "br_requests (hk_live (commit W demo opts v h)) = br_requests (hk_live h)"
proof -
  let ?p = "rendered opts v h"
  have parts: "parts_ok h" using inv by (simp add: hook_inv_def)
  have mode: "commit_mode W demo ?p h = cleanups W ?p h"
    using q opts(1) by (simp add: commit_mode_def dep_changed_def mode_deps_def rendered_def)
  let ?h2 = "commit_transport W demo ?p h"
  obtain ts where ts: "hk_live ?h2 = (hk_live h)\<lparr> lv_transport := ts \<rparr>"
    using commit_transport_live [OF parts mode] by blast
  have "br_requests (poll_effect (wd_dates W) (hk_now ?h2) opts v (hk_live ?h2)) = br_requests (hk_live h)"
    using opts pending idle_refresh(1) [of "hk_live ?h2" opts] by (simp add: poll_effect_def ts)
  then have "br_requests (hk_live (run_poll_effect W ?p ?h2)) = br_requests (hk_live h)"
    by (simp add: run_poll_effect_def Let_def update_live_def await_loop_def schedule_loop_def schedule_next_frame
        rendered_def split: option.split)
  moreover have "dp_opts ?p = opts" by (simp add: rendered_def)
  ultimately show ?thesis
    using opts(3) by (simp add: commit_def Let_def commit_rest_def apply_if_def run_select_effect_def run_merge_effect_def ts)
qed

text \<open>A new token alone reconnects the transport but refreshes nothing.\<close>

lemma token_change_refreshes_nothing:
  assumes inv: "hook_inv h" and q: "hk_ran h = Some q" and mode: "ts_mode (lv_transport (hk_live h)) = dp_mode q"
  shows "br_requests (hk_live (commit W demo ((dp_opts q)\<lparr> lo_token := t \<rparr>) (dp_visible q) h)) = br_requests (hk_live h)"
proof -
  let ?p = "rendered ((dp_opts q)\<lparr> lo_token := t \<rparr>) (dp_visible q) h"
  have parts: "parts_ok h" using inv by (simp add: hook_inv_def)
  have same: "mode_deps q = mode_deps ?p" "poll_deps q = poll_deps ?p" "select_deps q = select_deps ?p"
    using mode by (simp_all add: mode_deps_def poll_deps_def select_deps_def rendered_def)
  have "commit_mode W demo ?p h = cleanups W ?p h" using q same(1) by (simp add: commit_mode_def dep_changed_def)
  then obtain ts where ts: "hk_live (commit_transport W demo ?p h) = (hk_live h)\<lparr> lv_transport := ts \<rparr>"
    using commit_transport_live [OF parts] by blast
  show ?thesis
    using q same(2,3) by (simp add: commit_def Let_def commit_rest_def dep_changed_def)
      (simp add: apply_if_def run_merge_effect_def update_live_def Let_def ts)
qed

end
