(* ===== verification/StateHooks.thy ===== *)
theory StateHooks
  imports LiveRefresh Safe
begin

text \<open>
  The two state hooks: \<open>src/src/hooks/usePersistentState.ts\<close> (state kept in local storage) and
  \<open>src/src/hooks/useQueryParamState.ts\<close> (state kept in the query string), with the codecs that
  \<open>OpsConsole\<close> gives the former. A hook is its initialiser and its effect; the React state itself
  is the value passed between them.
\<close>

section \<open>Persistent state\<close>

text \<open>\<open>None\<close> is an exception of the deserialiser or of the serialiser.\<close>

record 'a PersistentOptions =
  po_deserialize :: "string \<Rightarrow> 'a option"
  po_serialize :: "'a \<Rightarrow> string option"

text \<open>The defaults, used at type string: the raw text, and \<open>String(value)\<close>.\<close>

definition default_options :: "string PersistentOptions" where
  "default_options = \<lparr> po_deserialize = Some, po_serialize = Some \<rparr>"

definition persistent_init ::
    "storage_access \<Rightarrow> storage \<Rightarrow> string \<Rightarrow> 'a \<Rightarrow> 'a PersistentOptions \<Rightarrow> 'a" where
  "persistent_init acc st key fallback options =
     (let stored = readStoredValue acc st key []
      in if stored = [] then fallback
         else case po_deserialize options stored of Some v \<Rightarrow> v | None \<Rightarrow> fallback)"

definition persistent_effect ::
    "storage_access \<Rightarrow> storage \<Rightarrow> string \<Rightarrow> 'a PersistentOptions \<Rightarrow> 'a \<Rightarrow> storage" where
  "persistent_effect acc st key options value =
     (case po_serialize options value of
        Some s \<Rightarrow> writeStoredValue acc st key (Str s)
      | None \<Rightarrow> st)"

text \<open>The codecs of \<open>OpsConsole\<close>: the two switches and the polling interval.\<close>

definition flag_options :: "bool PersistentOptions" where
  "flag_options = \<lparr> po_deserialize = (\<lambda>raw. Some (raw \<noteq> ''false'')),
     po_serialize = (\<lambda>value. Some (js_String (Bool value))) \<rparr>"

definition preset_of :: "jsnum \<Rightarrow> PollingPreset option" where
  "preset_of value = map_option snd (find (\<lambda>(label, preset). value = Fin (preset_ms preset)) POLLING_PRESETS)"

definition poll_options :: "PollingPreset PersistentOptions" where
  "poll_options = \<lparr> po_deserialize = (\<lambda>raw. Some (nullish (preset_of (js_Number (Str raw))) PP_15000)),
     po_serialize = (\<lambda>value. Some (js_String (Num (preset_ms value)))) \<rparr>"

section \<open>Query parameters\<close>

record 'u query_api = "'u url_api" +
  url_search_get :: "'u \<Rightarrow> string \<Rightarrow> string option"
  url_search_delete :: "'u \<Rightarrow> string \<Rightarrow> 'u"

text \<open>\<open>href\<close> is \<open>window.location.href\<close>, \<open>None\<close> when there is no window.\<close>

definition readQueryParam :: "('u, 'm) query_api_scheme \<Rightarrow> string option \<Rightarrow> string \<Rightarrow> string \<Rightarrow> string" where
  "readQueryParam U href key fallback =
     (case href of
        None \<Rightarrow> fallback
      | Some h \<Rightarrow>
          (case url_new U h of
             None \<Rightarrow> fallback
           | Some url \<Rightarrow>
               or_str (safeTrim (case url_search_get U url key of None \<Rightarrow> Null | Some s \<Rightarrow> Str s) []) fallback))"

text \<open>The effect: the new \<open>window.location.href\<close> after \<open>history.replaceState\<close>.\<close>

definition query_effect :: "('u, 'm) query_api_scheme \<Rightarrow> string option \<Rightarrow> string \<Rightarrow> string \<Rightarrow> string option" where
  "query_effect U href key value =
     (case href of
        None \<Rightarrow> None
      | Some h \<Rightarrow>
          (case url_new U h of
             None \<Rightarrow> Some h
           | Some url \<Rightarrow>
               let next = safeTrimStr value;
                   url' = (if next \<noteq> [] then url_search_set U url key next else url_search_delete U url key)
               in Some (url_href U url')))"

section \<open>Round trips\<close>

text \<open>
  The contract between a codec and local storage: every good value is written as a text that
  storage keeps (not empty, no outer white space), and read back from it.
\<close>

locale storage_codec =
  fixes options :: "'a PersistentOptions" and good :: "'a \<Rightarrow> bool"
  assumes serialized: "good v \<Longrightarrow> \<exists>s. po_serialize options v = Some s \<and> s \<noteq> [] \<and> js_trim s = s \<and>
    po_deserialize options s = Some v"
begin

lemma reload:
  assumes "good v"
  shows "persistent_init Storage_works (persistent_effect Storage_works st key options v) key fallback options = v"
proof -
  obtain s where s: "po_serialize options v = Some s" "s \<noteq> []" "js_trim s = s" "po_deserialize options s = Some v"
    using serialized [OF assms] by blast
  then show ?thesis
    by (simp add: persistent_init_def persistent_effect_def stored_roundtrip)
qed

end

lemma reload_other:
  "key' \<noteq> key \<Longrightarrow>
   persistent_init acc (persistent_effect acc st key options v) key' fallback options' =
   persistent_init acc st key' fallback options'"
  by (simp add: persistent_init_def persistent_effect_def stored_other split: option.split)

lemma flag_text: "js_String (Bool b) = (if b then ''true'' else ''false'')"
  by simp

interpretation flag_codec: storage_codec flag_options "\<lambda>_. True"
  by unfold_locales (auto simp: flag_options_def js_trim_def is_ws_def)

lemma preset_text:
  "js_String (Num (preset_ms PP_0)) = ''0''" "js_String (Num (preset_ms PP_5000)) = ''5000''"
  "js_String (Num (preset_ms PP_15000)) = ''15000''" "js_String (Num (preset_ms PP_30000)) = ''30000''"
  by code_simp+

lemma preset_parse:
  "preset_of (js_Number (Str ''0'')) = Some PP_0" "preset_of (js_Number (Str ''5000'')) = Some PP_5000"
  "preset_of (js_Number (Str ''15000'')) = Some PP_15000" "preset_of (js_Number (Str ''30000'')) = Some PP_30000"
  by code_simp+

interpretation poll_codec: storage_codec poll_options "\<lambda>_. True"
proof
  fix v :: PollingPreset
  show "\<exists>s. po_serialize poll_options v = Some s \<and> s \<noteq> [] \<and> js_trim s = s \<and> po_deserialize poll_options s = Some v"
    by (cases v) (simp_all add: poll_options_def preset_text preset_parse js_trim_def is_ws_def
        del: js_String.simps preset_ms.simps)
qed

interpretation text_options: storage_codec default_options "\<lambda>s. s \<noteq> [] \<and> js_trim s = s"
  by unfold_locales (simp add: default_options_def)

text \<open>An emptied text is not stored: the next session starts from the fallback.\<close>

lemma emptied_text:
  "persistent_init Storage_works (persistent_effect Storage_works st key default_options []) key fallback default_options
   = fallback"
  by (simp add: persistent_init_def persistent_effect_def default_options_def readStoredValue_def
      writeStoredValue_def Let_def safeTrim_def asString_def)

section \<open>The query string\<close>

text \<open>
  The documented behaviour of URLSearchParams that the hook relies on: a parameter that was set
  is read back after the URL has been printed and parsed again, a deleted one is absent, and the
  other parameters keep their values.
\<close>

definition query_ok :: "('u, 'm) query_api_scheme \<Rightarrow> bool" where
  "query_ok U \<longleftrightarrow> (\<forall>h u k v. url_new U h = Some u \<longrightarrow>
     (\<exists>w. url_new U (url_href U (url_search_set U u k v)) = Some w \<and>
          url_search_get U w = (url_search_get U u)(k \<mapsto> v)) \<and>
     (\<exists>w. url_new U (url_href U (url_search_delete U u k)) = Some w \<and>
          url_search_get U w = (url_search_get U u)(k := None)))"

lemma query_effect_result:
  assumes "query_ok U" and "url_new U h = Some u"
  obtains h' w where "query_effect U (Some h) key value = Some h'" and "url_new U h' = Some w"
    and "url_search_get U w = (url_search_get U u)
           (key := if js_trim value = [] then None else Some (js_trim value))"
proof (cases "js_trim value = []")
  case True
  obtain w where "url_new U (url_href U (url_search_delete U u key)) = Some w"
    and "url_search_get U w = (url_search_get U u)(key := None)"
    using assms unfolding query_ok_def by blast
  with True assms(2) show ?thesis
    by (intro that [of "url_href U (url_search_delete U u key)" w]) (simp_all add: query_effect_def)
next
  case False
  obtain w where "url_new U (url_href U (url_search_set U u key (js_trim value))) = Some w"
    and "url_search_get U w = (url_search_get U u)(key \<mapsto> js_trim value)"
    using assms unfolding query_ok_def by blast
  with False assms(2) show ?thesis
    by (intro that [of "url_href U (url_search_set U u key (js_trim value))" w])
      (simp_all add: query_effect_def)
qed

lemma query_reload:
  assumes "query_ok U" and "url_new U h = Some u"
  shows "readQueryParam U (query_effect U (Some h) key value) key fallback = or_str (js_trim value) fallback"
proof -
  obtain h' w where "query_effect U (Some h) key value = Some h'" "url_new U h' = Some w"
    "url_search_get U w = (url_search_get U u)(key := if js_trim value = [] then None else Some (js_trim value))"
    using query_effect_result [OF assms] .
  then show ?thesis by (simp add: readQueryParam_def safeTrim_def asString_def)
qed

lemma query_other:
  assumes "query_ok U" and "url_new U h = Some u" and "key' \<noteq> key"
  shows "readQueryParam U (query_effect U (Some h) key value) key' fallback = readQueryParam U (Some h) key' fallback"
proof -
  obtain h' w where "query_effect U (Some h) key value = Some h'" "url_new U h' = Some w"
    "url_search_get U w = (url_search_get U u)(key := if js_trim value = [] then None else Some (js_trim value))"
    using query_effect_result [OF assms(1,2)] .
  then show ?thesis using assms(2,3) by (simp add: readQueryParam_def)
qed

subsection \<open>A concrete URL class\<close>

text \<open>
  URLs that are only a list of parameters, printed with every character marked and every text
  terminated. It shows that \<open>query_ok\<close> can hold.
\<close>

definition mark_text :: "string \<Rightarrow> string" where
  "mark_text s = concat (map (\<lambda>c. [CHR ''x'', c]) s) @ '';''"

fun unmark_text :: "string \<Rightarrow> (string \<times> string) option" where
  "unmark_text (m # c # r) =
     (if m = CHR '';'' then Some ([], c # r)
      else map_option (\<lambda>(s, t). (c # s, t)) (unmark_text r))"
| "unmark_text [m] = (if m = CHR '';'' then Some ([], []) else None)"
| "unmark_text [] = None"

lemma unmark_mark: "unmark_text (mark_text s @ r) = Some (s, r)"
proof (induction s)
  case Nil
  then show ?case by (cases r) (simp_all add: mark_text_def)
next
  case (Cons c s)
  then show ?case by (simp add: mark_text_def)
qed

fun params_text :: "(string \<times> string) list \<Rightarrow> string" where
  "params_text [] = []"
| "params_text ((k, v) # ps) = mark_text k @ mark_text v @ params_text ps"

fun read_params :: "nat \<Rightarrow> string \<Rightarrow> (string \<times> string) list option" where
  "read_params 0 s = None"
| "read_params (Suc f) s =
     (if s = [] then Some []
      else case unmark_text s of
        None \<Rightarrow> None
      | Some (k, t) \<Rightarrow>
          (case unmark_text t of
             None \<Rightarrow> None
           | Some (v, r) \<Rightarrow> map_option (\<lambda>ps. (k, v) # ps) (read_params f r)))"

lemma params_text_length: "length ps \<le> length (params_text ps)"
  by (induction ps rule: params_text.induct) (auto simp: mark_text_def)

lemma mark_text_nonempty [simp]: "mark_text s \<noteq> []"
  by (simp add: mark_text_def)

lemma read_params_text: "length ps < f \<Longrightarrow> read_params f (params_text ps) = Some ps"
proof (induction ps arbitrary: f rule: params_text.induct)
  case 1
  then show ?case by (cases f) auto
next
  case (2 k v ps)
  then obtain f' where "f = Suc f'" "length ps < f'" by (cases f) auto
  with "2.IH" show ?case by (simp add: unmark_mark)
qed

definition param_urls :: "(string \<times> string) list query_api" where
  "param_urls = \<lparr> url_new = (\<lambda>s. read_params (length s + 1) s), url_protocol = (\<lambda>u. ''http:''),
     url_set_protocol = (\<lambda>u p. u), url_pathname = (\<lambda>u. ''/''), url_set_pathname = (\<lambda>u p. u),
     url_set_search = (\<lambda>u s. u), url_set_hash = (\<lambda>u s. u),
     url_search_set = (\<lambda>u k v. (k, v) # filter (\<lambda>(k', v'). k' \<noteq> k) u), url_href = params_text,
     url_search_get = map_of, url_search_delete = (\<lambda>u k. filter (\<lambda>(k', v'). k' \<noteq> k) u) \<rparr>"

lemma param_urls_new: "url_new param_urls (params_text ps) = Some ps"
  using params_text_length [of ps] by (simp add: param_urls_def read_params_text del: read_params.simps)

lemma map_of_filter_key: "map_of (filter (\<lambda>(k', v'). k' \<noteq> k) ps) = (map_of ps)(k := None)"
  by (induction ps) (auto simp: fun_eq_iff)

lemma param_urls_ok: "query_ok param_urls"
proof -
  have f: "url_href param_urls = params_text" "url_search_get param_urls = map_of"
    by (simp_all add: param_urls_def)
  have s: "map_of (url_search_set param_urls u k v) = (map_of u)(k \<mapsto> v)"
    and d: "map_of (url_search_delete param_urls u k) = (map_of u)(k := None)" for u k v
    by (simp_all add: param_urls_def map_of_filter_key)
  show ?thesis unfolding query_ok_def f param_urls_new by (simp add: s d)
qed

end
