(* ===== verification/ConsoleStorage.thy ===== *)
theory ConsoleStorage
  imports StateHooks RuntimeConfig
begin

text \<open>
  What a page of \<open>src/src/components/OpsConsole.tsx\<close> keeps outside React: the six settings in local
  storage and the two selections in the query string, read when the component is created and written
  by the effects of its state hooks. A reload restores what the last commit has rendered, up to the
  trimming of the texts.
\<close>

section \<open>What is saved\<close>

record SavedState =
  ss_environment :: string
  ss_baseUrl :: string
  ss_token :: string
  ss_liveMode :: bool
  ss_liveUpdates :: bool
  ss_pollIntervalMs :: PollingPreset
  ss_tab :: string
  ss_job :: string

text \<open>The initialisers of the hooks; \<open>baseUrl\<close> and \<open>token\<close> are the defaults of the configuration.\<close>

definition read_saved ::
    "storage_access \<Rightarrow> ('u, 'm) query_api_scheme \<Rightarrow> string \<Rightarrow> string \<Rightarrow> storage \<Rightarrow> string option \<Rightarrow> SavedState" where
  "read_saved acc U baseUrl token st href =
     \<lparr> ss_environment = persistent_init acc st (key_environment STORAGE_KEYS) ''Demo Sandbox'' default_options,
       ss_baseUrl = persistent_init acc st (key_baseUrl STORAGE_KEYS) baseUrl default_options,
       ss_token = persistent_init acc st (key_token STORAGE_KEYS) token default_options,
       ss_liveMode = persistent_init acc st (key_liveMode STORAGE_KEYS) True flag_options,
       ss_liveUpdates = persistent_init acc st (key_liveUpdates STORAGE_KEYS) True flag_options,
       ss_pollIntervalMs = persistent_init acc st (key_pollIntervalMs STORAGE_KEYS) PP_15000 poll_options,
       ss_tab = readQueryParam U href ''tab'' ''overview'',
       ss_job = readQueryParam U href ''job'' [] \<rparr>"

text \<open>
  An effect runs when a dependency differs from that of its last run. The texts use the memoised
  default serialiser; the switches and the interval pass a new \<open>serialize\<close> at every render, so that
  their effects run at every commit.
\<close>

definition effect_when :: "'d option \<Rightarrow> 'd \<Rightarrow> ('s \<Rightarrow> 's) \<Rightarrow> 's \<Rightarrow> 's" where
  "effect_when prev dep run s = (if prev = Some dep then s else run s)"

definition write_text :: "storage_access \<Rightarrow> string \<Rightarrow> string option \<Rightarrow> string \<Rightarrow> storage \<Rightarrow> storage" where
  "write_text acc key prev value = effect_when prev value (\<lambda>st. persistent_effect acc st key default_options value)"

definition write_storage :: "storage_access \<Rightarrow> SavedState option \<Rightarrow> SavedState \<Rightarrow> storage \<Rightarrow> storage" where
  "write_storage acc prev v st =
     (let st1 = write_text acc (key_environment STORAGE_KEYS) (map_option ss_environment prev) (ss_environment v) st;
          st2 = write_text acc (key_baseUrl STORAGE_KEYS) (map_option ss_baseUrl prev) (ss_baseUrl v) st1;
          st3 = write_text acc (key_token STORAGE_KEYS) (map_option ss_token prev) (ss_token v) st2;
          st4 = persistent_effect acc st3 (key_liveMode STORAGE_KEYS) flag_options (ss_liveMode v);
          st5 = persistent_effect acc st4 (key_liveUpdates STORAGE_KEYS) flag_options (ss_liveUpdates v)
      in persistent_effect acc st5 (key_pollIntervalMs STORAGE_KEYS) poll_options (ss_pollIntervalMs v))"

definition write_query ::
    "('u, 'm) query_api_scheme \<Rightarrow> SavedState option \<Rightarrow> SavedState \<Rightarrow> string option \<Rightarrow> string option" where
  "write_query U prev v href =
     effect_when (map_option ss_job prev) (ss_job v) (\<lambda>h. query_effect U h ''job'' (ss_job v))
       (effect_when (map_option ss_tab prev) (ss_tab v) (\<lambda>h. query_effect U h ''tab'' (ss_tab v)) href)"

section \<open>What a reload restores\<close>

text \<open>The specification: the switches and the interval as they were, a text trimmed, or its default if nothing is left.\<close>

definition restored :: "string \<Rightarrow> string \<Rightarrow> SavedState \<Rightarrow> SavedState" where
  "restored baseUrl token v =
     \<lparr> ss_environment = or_str (js_trim (ss_environment v)) ''Demo Sandbox'',
       ss_baseUrl = or_str (js_trim (ss_baseUrl v)) baseUrl, ss_token = or_str (js_trim (ss_token v)) token,
       ss_liveMode = ss_liveMode v, ss_liveUpdates = ss_liveUpdates v, ss_pollIntervalMs = ss_pollIntervalMs v,
       ss_tab = or_str (js_trim (ss_tab v)) ''overview'', ss_job = or_str (js_trim (ss_job v)) [] \<rparr>"

lemma text_reload:
  "persistent_init Storage_works (persistent_effect Storage_works st key default_options s) key d default_options =
     or_str (js_trim s) d"
  by (cases "s = []")
    (simp_all add: emptied_text persistent_init_def persistent_effect_def default_options_def readStoredValue_def
      writeStoredValue_def safeTrim_def asString_def or_str_def Let_def)

lemma write_text_other:
  "key' \<noteq> key \<Longrightarrow> persistent_init acc (write_text acc key prev value st) key' d options = persistent_init acc st key' d options"
  by (simp add: write_text_def effect_when_def reload_other)

lemma write_text_reload:
  assumes "\<And>u. prev = Some u \<Longrightarrow> persistent_init Storage_works st key d default_options = or_str (js_trim u) d"
  shows "persistent_init Storage_works (write_text Storage_works key prev value st) key d default_options = or_str (js_trim value) d"
  using assms by (auto simp: write_text_def effect_when_def text_reload)

text \<open>Reading one setting after all six effects have run.\<close>

lemma storage_reload:
  assumes "\<And>u. prev = Some u \<Longrightarrow> read_saved Storage_works U b t st href = restored b t u"
  shows "persistent_init Storage_works (write_storage Storage_works prev v st) (key_environment STORAGE_KEYS) ''Demo Sandbox'' default_options
      = or_str (js_trim (ss_environment v)) ''Demo Sandbox''"
    and "persistent_init Storage_works (write_storage Storage_works prev v st) (key_baseUrl STORAGE_KEYS) b default_options
      = or_str (js_trim (ss_baseUrl v)) b"
    and "persistent_init Storage_works (write_storage Storage_works prev v st) (key_token STORAGE_KEYS) t default_options
      = or_str (js_trim (ss_token v)) t"
    and "persistent_init Storage_works (write_storage Storage_works prev v st) (key_liveMode STORAGE_KEYS) True flag_options
      = ss_liveMode v"
    and "persistent_init Storage_works (write_storage Storage_works prev v st) (key_liveUpdates STORAGE_KEYS) True flag_options
      = ss_liveUpdates v"
    and "persistent_init Storage_works (write_storage Storage_works prev v st) (key_pollIntervalMs STORAGE_KEYS) PP_15000 poll_options
      = ss_pollIntervalMs v"
  using assms
  by (auto simp: write_storage_def Let_def STORAGE_KEYS_def reload_other write_text_other flag_codec.reload poll_codec.reload
      read_saved_def restored_def intro!: write_text_reload)

text \<open>The address: it stays valid, and each parameter is written without touching the other.\<close>

definition valid_address :: "('u, 'm) query_api_scheme \<Rightarrow> string option \<Rightarrow> bool" where
  "valid_address U href \<longleftrightarrow> (\<exists>h u. href = Some h \<and> url_new U h = Some u)"

lemma effect_valid: "query_ok U \<Longrightarrow> valid_address U href \<Longrightarrow> valid_address U (query_effect U href key value)"
  unfolding valid_address_def by (elim exE conjE) (metis query_effect_result)

lemma effect_reload:
  "query_ok U \<Longrightarrow> valid_address U href \<Longrightarrow> readQueryParam U (query_effect U href key value) key d = or_str (js_trim value) d"
  unfolding valid_address_def by (elim exE conjE) (simp add: query_reload)

lemma effect_other:
  "query_ok U \<Longrightarrow> valid_address U href \<Longrightarrow> key' \<noteq> key \<Longrightarrow>
    readQueryParam U (query_effect U href key value) key' d = readQueryParam U href key' d"
  unfolding valid_address_def by (elim exE conjE) (simp add: query_other)

lemma query_written:
  assumes "query_ok U" and "valid_address U href"
    and "\<And>u. prev = Some u \<Longrightarrow> read_saved acc U b t st href = restored b t u"
  shows "valid_address U (write_query U prev v href)"
    and "readQueryParam U (write_query U prev v href) ''tab'' ''overview'' = or_str (js_trim (ss_tab v)) ''overview''"
    and "readQueryParam U (write_query U prev v href) ''job'' [] = or_str (js_trim (ss_job v)) []"
  using assms
  by (auto simp: write_query_def effect_when_def effect_valid effect_reload effect_other read_saved_def restored_def)

text \<open>
  The effects of a commit keep the storage and the address in step with what is rendered, although
  they skip what has not changed since the last commit.
\<close>

lemma written_restored:
  assumes "query_ok U" and "valid_address U href"
    and "\<And>u. prev = Some u \<Longrightarrow> read_saved Storage_works U b t st href = restored b t u"
  shows "read_saved Storage_works U b t (write_storage Storage_works prev v st) (write_query U prev v href) = restored b t v"
  using storage_reload [OF assms(3)] query_written [OF assms] by (simp add: read_saved_def restored_def)

end
