(* ===== verification/ConsoleApp.thy ===== *)
theory ConsoleApp
  imports HookSafety OpsSections ToastQueue ConsoleStorage
begin

text \<open>
  The component \<open>src/src/components/OpsConsole.tsx\<close> as a whole, with the hooks that it calls: the live
  data, the toasts, the settings, the selections and the handlers. A step is a commit, an action of
  the operator, the answer to a handler that waits, an edit, or something that the hook or the
  toasts do by themselves. The handlers read the props of the last commit, as closures do.

  \<open>os_data\<close> of the handlers is the data of the hook; what a handler logs (toasts, refreshes, requests)
  is carried out when it returns.
\<close>

section \<open>Handlers that wait\<close>

datatype Action =
    A_submit
  | A_retry string
  | A_cancel string
  | A_priority string rat
  | A_replay string string string bool
  | A_bulk_replay
  | A_bulk_delete
  | A_queue string QueueAction
  | A_cordon string bool
  | A_schedule
  | A_toggle Schedule bool
  | A_trigger Schedule
  | A_seed
  | A_refresh

text \<open>What a handler has captured when it awaits its request.\<close>

datatype Task =
    T_submit
  | T_retry string
  | T_cancel string
  | T_replay string Job string bool
  | T_bulk_replay "string list"
  | T_bulk_delete
  | T_schedule ScheduleBody
  | T_toggle Schedule bool
  | T_trigger Schedule
  | T_seed

datatype Answer = Ans_enqueued EnqueueResult | Ans_job Job | Ans_other

fun task_key :: "Task \<Rightarrow> string" where
  "task_key T_submit = ''submit-job''"
| "task_key (T_retry jobId) = ''job-retry-'' @ jobId"
| "task_key (T_cancel jobId) = ''job-cancel-'' @ jobId"
| "task_key (T_replay jobId job queue edited) = ''job-replay-'' @ jobId"
| "task_key (T_bulk_replay selected) = ''bulk-replay''"
| "task_key T_bulk_delete = ''bulk-delete''"
| "task_key (T_schedule body) = ''schedule-submit''"
| "task_key (T_toggle schedule enabled) = ''schedule-'' @ sched_id schedule"
| "task_key (T_trigger schedule) = ''schedule-trigger-'' @ sched_id schedule"
| "task_key T_seed = ''seed-workflow''"

fun answered :: "date_api \<Rightarrow> int \<Rightarrow> Task \<Rightarrow> Answer \<Rightarrow> OpsState \<Rightarrow> OpsState" where
  "answered D now T_submit (Ans_enqueued result) s = submitJob_done D now result s"
| "answered D now (T_retry jobId) (Ans_job job) s = retryJob_done D now jobId job s"
| "answered D now (T_cancel jobId) (Ans_job job) s = cancelJob_done D now job s"
| "answered D now (T_replay jobId job queue edited) ans s = replayJob_done edited job queue s"
| "answered D now (T_bulk_replay selected) ans s = replaySelected_done selected s"
| "answered D now T_bulk_delete ans s = deleteSelected_done s"
| "answered D now (T_schedule body) ans s = submitSchedule_done body s"
| "answered D now (T_toggle schedule enabled) ans s = toggleSchedule_done schedule enabled s"
| "answered D now (T_trigger schedule) ans s = triggerSchedule_done schedule s"
| "answered D now T_seed ans s = seedWorkflow_done s"
| "answered D now t ans s = s"

definition resume :: "date_api \<Rightarrow> int \<Rightarrow> Task \<Rightarrow> RequestError + Answer \<Rightarrow> OpsState \<Rightarrow> OpsState" where
  "resume D now t outcome s = settle (task_key t) outcome (answered D now t) s"

text \<open>
  The answers that the parsers let through for a request; the dates of a job are those the server
  writes, which parse.
\<close>

fun may_answer :: "date_api \<Rightarrow> Task \<Rightarrow> RequestError + Answer \<Rightarrow> bool" where
  "may_answer D T_submit (Inr ans) = (\<exists>r. ans = Ans_enqueued r \<and> date_parse D (job_updatedAt (enq_job r)) \<noteq> None)"
| "may_answer D (T_retry jobId) (Inr ans) = (\<exists>job. ans = Ans_job job \<and> date_parse D (job_updatedAt job) \<noteq> None)"
| "may_answer D (T_cancel jobId) (Inr ans) = (\<exists>job. ans = Ans_job job \<and> date_parse D (job_updatedAt job) \<noteq> None)"
| "may_answer D t outcome = True"

text \<open>
  An action with the \<open>liveMode\<close> of the last commit; \<open>msg\<close> is the text of a JSON error, \<open>uid\<close> and \<open>ids\<close>
  are the new ids. \<open>None\<close>: a state updater throws.
\<close>

fun perform ::
    "date_api \<Rightarrow> int \<Rightarrow> (string \<Rightarrow> string) \<Rightarrow> bool \<Rightarrow> string \<Rightarrow> (nat \<Rightarrow> string) \<Rightarrow> Action \<Rightarrow> OpsState \<Rightarrow> OpsState option" where
  "perform D now msg live uid ids A_submit s = submitJob D now msg live uid s"
| "perform D now msg live uid ids (A_retry jobId) s = Some (retryJob D now live jobId s)"
| "perform D now msg live uid ids (A_cancel jobId) s = Some (cancelJob D now live jobId s)"
| "perform D now msg live uid ids (A_priority jobId delta) s = Some (adjustPriority D now live jobId delta s)"
| "perform D now msg live uid ids (A_replay jobId queue payloadText edited) s =
     Some (replayJob D now msg live uid jobId queue payloadText edited s)"
| "perform D now msg live uid ids A_bulk_replay s = Some (replaySelectedDeadLetters D now msg live s)"
| "perform D now msg live uid ids A_bulk_delete s = Some (deleteSelectedDeadLetters D now live s)"
| "perform D now msg live uid ids (A_queue queueName action) s = Some (setQueueControl D now live queueName action s)"
| "perform D now msg live uid ids (A_cordon workerId cordoned) s = Some (toggleWorkerCordon D now live workerId cordoned s)"
| "perform D now msg live uid ids A_schedule s = Some (submitSchedule D now msg live uid s)"
| "perform D now msg live uid ids (A_toggle schedule enabled) s = Some (toggleSchedule D now live schedule enabled s)"
| "perform D now msg live uid ids (A_trigger schedule) s = triggerSchedule D now live uid schedule s"
| "perform D now msg live uid ids A_seed s = Some (seedWorkflow D now live ids s)"
| "perform D now msg live uid ids A_refresh s = Some (refreshSnapshot s)"

text \<open>What an action that sends a request has captured.\<close>

fun captured :: "(string \<Rightarrow> string) \<Rightarrow> Action \<Rightarrow> OpsState \<Rightarrow> Task option" where
  "captured msg A_submit s = Some T_submit"
| "captured msg (A_retry jobId) s = Some (T_retry jobId)"
| "captured msg (A_cancel jobId) s = Some (T_cancel jobId)"
| "captured msg (A_replay jobId queue payloadText edited) s =
     map_option (\<lambda>job. T_replay jobId job queue edited) (find_job (cd_jobs (os_data s)) jobId)"
| "captured msg A_bulk_replay s = Some (T_bulk_replay (os_selectedDeadLetters s))"
| "captured msg A_bulk_delete s = Some T_bulk_delete"
| "captured msg A_schedule s =
     Some (T_schedule (schedule_body (os_scheduleDraft s) (sv_payload (validateScheduleForm msg (os_scheduleDraft s)))))"
| "captured msg (A_toggle schedule enabled) s = Some (T_toggle schedule enabled)"
| "captured msg (A_trigger schedule) s = Some (T_trigger schedule)"
| "captured msg A_seed s = Some T_seed"
| "captured msg a s = None"

section \<open>State\<close>

text \<open>
  What is fixed while the page lives: the browser with its storage and the query parameters of its URL
  class, the build variables, and the texts of JSON errors.
\<close>

record 'u site =
  site_world :: "'u world"
  site_env :: vite_env
  site_storage :: storage_access
  site_search_get :: "'u \<Rightarrow> string \<Rightarrow> string option"
  site_search_delete :: "'u \<Rightarrow> string \<Rightarrow> 'u"
  site_parse_error :: "string \<Rightarrow> string"

definition site_query :: "'u site \<Rightarrow> 'u query_api" where
  "site_query S = url_api.extend (wd_urls (site_world S)) (query_api.fields (site_search_get S) (site_search_delete S))"

definition defaultBaseUrl :: "'u site \<Rightarrow> string" where
  "defaultBaseUrl S = resolveDefaultApiBaseUrl (wd_urls (site_world S)) (site_env S)"

definition defaultRealtimeBaseUrl :: "'u site \<Rightarrow> string" where
  "defaultRealtimeBaseUrl S = resolveDefaultRealtimeBaseUrl (wd_urls (site_world S)) (site_env S) (Some (defaultBaseUrl S))"

definition defaultToken :: "'u site \<Rightarrow> string" where
  "defaultToken S = resolveDefaultAdminToken (site_env S)"

text \<open>
  \<open>ap_storage\<close> and \<open>ap_href\<close> are the local storage and the address of the page, \<open>ap_saved\<close> what the
  effects of the state hooks have last run with.
\<close>

record App =
  ap_hook :: Hook
  ap_ops :: OpsState
  ap_connection :: Connection
  ap_pollIntervalMs :: PollingPreset
  ap_environment :: string
  ap_settingsOpen :: bool
  ap_tokenVisible :: bool
  ap_searchQuery :: string
  ap_jobFilters :: JobFilters
  ap_deadLetterFilters :: DeadLetterFilters
  ap_workerFilter :: string
  ap_scheduleFilter :: string
  ap_eventFilter :: string
  ap_toasts :: ToastQueue
  ap_tasks :: "(nat \<times> Task) list"
  ap_nextTask :: nat
  ap_lastHealth :: LiveHealth
  ap_lastTransportMode :: TransportMode
  ap_degradedSince :: string
  ap_storage :: storage
  ap_href :: "string option"
  ap_saved :: "SavedState option"

definition initial_ops :: "string \<Rightarrow> string \<Rightarrow> ConsoleData \<Rightarrow> OpsState" where
  "initial_ops selectedTab selectedJobId d =
     \<lparr> os_data = d, os_selectedJobId = selectedJobId, os_selectedTab = selectedTab,
       os_jobDraft = defaultJobDraft, os_jobErrors = [], os_scheduleDraft = defaultScheduleDraft,
       os_scheduleErrors = [], os_selectedDeadLetters = [], os_bulkReplayQueue = ''default'',
       os_bulkReplayPayload = [], os_busy = [], os_toasts = [], os_sent = [], os_refreshes = [] \<rparr>"

text \<open>The first render: the settings and the selections are read from the storage and the address.\<close>

definition initial_app :: "'u site \<Rightarrow> int \<Rightarrow> ConsoleData \<Rightarrow> storage \<Rightarrow> string option \<Rightarrow> App" where
  "initial_app S now demo st href =
     (let v = read_saved (site_storage S) (site_query S) (defaultBaseUrl S) (defaultToken S) st href;
          h = initial_hook now demo (ss_liveMode v)
      in \<lparr> ap_hook = h, ap_ops = initial_ops (ss_tab v) (ss_job v) (lv_data (hk_live h)),
           ap_connection = \<lparr> cn_baseUrl = ss_baseUrl v, cn_token = ss_token v, cn_liveMode = ss_liveMode v,
             cn_liveUpdates = ss_liveUpdates v \<rparr>,
           ap_pollIntervalMs = ss_pollIntervalMs v, ap_environment = ss_environment v, ap_settingsOpen = False,
           ap_tokenVisible = False, ap_searchQuery = [],
           ap_jobFilters = \<lparr> jf_state = ''all'', jf_queue = ''all'', jf_sort = ''updated'', jf_tenant = [] \<rparr>,
           ap_deadLetterFilters = \<lparr> df_queue = ''all'', df_errorType = ''all'', df_search = [] \<rparr>,
           ap_workerFilter = [], ap_scheduleFilter = [], ap_eventFilter = [], ap_toasts = empty_queue,
           ap_tasks = [], ap_nextTask = 0, ap_lastHealth = LH_demo, ap_lastTransportMode = TM_demo,
           ap_degradedSince = [], ap_storage = st, ap_href = href, ap_saved = None \<rparr>)"

text \<open>The states of the hooks that are saved, as they are rendered.\<close>

definition app_saved :: "App \<Rightarrow> SavedState" where
  "app_saved a =
     \<lparr> ss_environment = ap_environment a, ss_baseUrl = cn_baseUrl (ap_connection a), ss_token = cn_token (ap_connection a),
       ss_liveMode = cn_liveMode (ap_connection a), ss_liveUpdates = cn_liveUpdates (ap_connection a),
       ss_pollIntervalMs = ap_pollIntervalMs a, ss_tab = os_selectedTab (ap_ops a), ss_job = os_selectedJobId (ap_ops a) \<rparr>"

definition app_data :: "App \<Rightarrow> ConsoleData" where
  "app_data a = lv_data (hk_live (ap_hook a))"

definition ops_now :: "App \<Rightarrow> OpsState" where
  "ops_now a = (ap_ops a)\<lparr> os_data := app_data a \<rparr>"

text \<open>The arguments of \<open>useDashboardLiveData\<close>.\<close>

definition app_options :: "'u site \<Rightarrow> App \<Rightarrow> LiveOptions" where
  "app_options S a =
     (let c = ap_connection a
      in resolve_options (wd_urls (site_world S)) (cn_baseUrl c) (Some (defaultRealtimeBaseUrl S)) (cn_token c)
           (cn_liveMode c) (cn_liveUpdates c) (ap_pollIntervalMs a) (os_selectedJobId (ap_ops a)))"

section \<open>Carrying out what a handler logged\<close>

text \<open>\<open>uids n\<close> is the id of the \<open>n\<close>-th new toast.\<close>

fun enqueue_all :: "int \<Rightarrow> (nat \<Rightarrow> string) \<Rightarrow> ToastInput list \<Rightarrow> ToastQueue \<Rightarrow> ToastQueue" where
  "enqueue_all now uids [] q = q"
| "enqueue_all now uids (t # ts) q = enqueue_all now (\<lambda>n. uids (Suc n)) ts (fst (enqueueToast now (uids 0) t q))"

definition refresh_call :: "'u world \<Rightarrow> LiveOptions \<Rightarrow> RefreshCall \<Rightarrow> Hook \<Rightarrow> Hook" where
  "refresh_call W opts r h =
     update_live (refreshConsole (wd_dates W) (hk_now h) opts (rc_quiet r) (rc_force r)) h"

definition absorb :: "'u site \<Rightarrow> LiveOptions \<Rightarrow> (nat \<Rightarrow> string) \<Rightarrow> OpsState \<Rightarrow> App \<Rightarrow> App" where
  "absorb S opts uids s a =
     (let before = ap_ops a;
          h = update_live (\<lambda>l. l\<lparr> lv_data := os_data s \<rparr>) (ap_hook a)
      in a\<lparr> ap_ops := s,
            ap_hook := fold (refresh_call (site_world S) opts) (drop (length (os_refreshes before)) (os_refreshes s)) h,
            ap_toasts := enqueue_all (hk_now h) uids (drop (length (os_toasts before)) (os_toasts s)) (ap_toasts a) \<rparr>)"

definition act ::
    "'u site \<Rightarrow> LiveOptions \<Rightarrow> (nat \<Rightarrow> string) \<Rightarrow> string \<Rightarrow> (nat \<Rightarrow> string) \<Rightarrow> Action \<Rightarrow> App \<Rightarrow> App option" where
  "act S opts uids uid ids action a =
     (let s = ops_now a; msg = site_parse_error S
      in case perform (wd_dates (site_world S)) (hk_now (ap_hook a)) msg (lo_liveMode opts) uid ids action s of
           None \<Rightarrow> None
         | Some s' \<Rightarrow>
             let a' = absorb S opts uids s' a
             in case (if length (os_sent s) < length (os_sent s') then captured msg action s else None) of
                  None \<Rightarrow> Some a'
                | Some t \<Rightarrow> Some (a'\<lparr> ap_tasks := ap_tasks a @ [(ap_nextTask a, t)], ap_nextTask := ap_nextTask a + 1 \<rparr>))"

definition finish_task ::
    "'u site \<Rightarrow> LiveOptions \<Rightarrow> (nat \<Rightarrow> string) \<Rightarrow> nat \<Rightarrow> Task \<Rightarrow> RequestError + Answer \<Rightarrow> App \<Rightarrow> App" where
  "finish_task S opts uids i t outcome a =
     (absorb S opts uids (resume (wd_dates (site_world S)) (hk_now (ap_hook a)) t outcome (ops_now a)) a)
       \<lparr> ap_tasks := filter (\<lambda>x. fst x \<noteq> i) (ap_tasks a) \<rparr>"

section \<open>A commit of the console\<close>

definition live_recovered :: "string \<times> string \<Rightarrow> ToastInput" where
  "live_recovered td =
     \<lparr> ti_key = Some ''live-recovered'', ti_title = fst td, ti_description = Some (snd td), ti_tone = Tone_success,
       ti_cooldownMs = Some 10000, ti_durationMs = None \<rparr>"

text \<open>
  The effects of the state hooks, those of the live data, then those of the component. A change of the mode forgets the degraded time,
  and in demo mode the last health. The status effects of the hook read what was
  rendered; to run them again without a change of their dependencies changes nothing.
\<close>

definition app_commit :: "'u site \<Rightarrow> (nat \<Rightarrow> string) \<Rightarrow> string \<Rightarrow> bool \<Rightarrow> App \<Rightarrow> App" where
  "app_commit S ids uid isVisible a =
     (let W = site_world S; D = wd_dates W; opts = app_options S a;
          h = ap_hook a; live = hk_live h; ts = lv_transport live; good = lv_lastSuccessfulAt live;
          mode = transportMode opts ts (lv_consecutiveFailures live) good;
          health = liveHealth opts ts (lv_consecutiveFailures live) good;
          switched = (map_option (\<lambda>q. lo_liveMode (dp_opts q)) (hk_ran h) \<noteq> Some (lo_liveMode opts));
          to_demo = (switched \<and> \<not> lo_liveMode opts)
      in a\<lparr> ap_hook := commit W (createDemoConsoleData D (hk_now h) ids) opts isVisible h,
            ap_degradedSince := update_degradedSince (iso_text D (hk_now h)) health ts (if switched then [] else ap_degradedSince a),
            ap_toasts := (case recovered_toast (if to_demo then LH_demo else ap_lastHealth a)
                                 (if to_demo then TM_demo else ap_lastTransportMode a) health mode good of
                            None \<Rightarrow> ap_toasts a
                          | Some td \<Rightarrow> fst (enqueueToast (hk_now h) uid (live_recovered td) (ap_toasts a))),
            ap_lastHealth := health, ap_lastTransportMode := mode,
            ap_ops := effect_dead_letters (effect_selected_job (effect_tab (ops_now a))),
            ap_storage := write_storage (site_storage S) (ap_saved a) (app_saved a) (ap_storage a),
            ap_href := write_query (site_query S) (ap_saved a) (app_saved a) (ap_href a),
            ap_saved := Some (app_saved a) \<rparr>)"

definition app_unmount :: "'u site \<Rightarrow> App \<Rightarrow> App" where
  "app_unmount S a =
     a\<lparr> ap_hook := unmount (site_world S) (ap_hook a), ap_toasts := unmount_toasts (ap_toasts a) \<rparr>"

section \<open>Settings, edits and selections\<close>

datatype Setting =
    Set_environment string
  | Set_polling PollingPreset
  | Set_liveMode bool
  | Set_liveUpdates bool
  | Set_search string
  | Toggle_connection
  | Set_baseUrl string
  | Set_token string
  | Toggle_token
  | Set_jobFilters JobFiltersPatch
  | Set_deadLetterFilters DeadLetterFiltersPatch
  | Set_workerFilter string
  | Set_scheduleFilter string
  | Set_eventFilter string

fun apply_setting :: "Setting \<Rightarrow> App \<Rightarrow> App" where
  "apply_setting (Set_environment v) a = a\<lparr> ap_environment := v \<rparr>"
| "apply_setting (Set_polling v) a = a\<lparr> ap_pollIntervalMs := v \<rparr>"
| "apply_setting (Set_liveMode b) a = a\<lparr> ap_connection := (ap_connection a)\<lparr> cn_liveMode := b \<rparr> \<rparr>"
| "apply_setting (Set_liveUpdates b) a = a\<lparr> ap_connection := (ap_connection a)\<lparr> cn_liveUpdates := b \<rparr> \<rparr>"
| "apply_setting (Set_search v) a = a\<lparr> ap_searchQuery := v \<rparr>"
| "apply_setting Toggle_connection a = a\<lparr> ap_settingsOpen := \<not> ap_settingsOpen a \<rparr>"
| "apply_setting (Set_baseUrl v) a = a\<lparr> ap_connection := (ap_connection a)\<lparr> cn_baseUrl := v \<rparr> \<rparr>"
| "apply_setting (Set_token v) a = a\<lparr> ap_connection := (ap_connection a)\<lparr> cn_token := v \<rparr> \<rparr>"
| "apply_setting Toggle_token a = a\<lparr> ap_tokenVisible := \<not> ap_tokenVisible a \<rparr>"
| "apply_setting (Set_jobFilters p) a = a\<lparr> ap_jobFilters := handleJobFiltersChange p (ap_jobFilters a) \<rparr>"
| "apply_setting (Set_deadLetterFilters p) a =
     a\<lparr> ap_deadLetterFilters := handleDeadLetterFiltersChange p (ap_deadLetterFilters a) \<rparr>"
| "apply_setting (Set_workerFilter v) a = a\<lparr> ap_workerFilter := v \<rparr>"
| "apply_setting (Set_scheduleFilter v) a = a\<lparr> ap_scheduleFilter := v \<rparr>"
| "apply_setting (Set_eventFilter v) a = a\<lparr> ap_eventFilter := v \<rparr>"

definition reset_connection :: "'u site \<Rightarrow> (nat \<Rightarrow> string) \<Rightarrow> App \<Rightarrow> App" where
  "reset_connection S uids a =
     (let (c, s) = resetConnectionSettings (defaultBaseUrl S) (defaultToken S) (ap_connection a, ap_ops a)
      in a\<lparr> ap_connection := c, ap_ops := s,
            ap_toasts := enqueue_all (hk_now (ap_hook a)) uids (drop (length (os_toasts (ap_ops a))) (os_toasts s)) (ap_toasts a) \<rparr>)"

datatype Edit =
    E_tab TabKey
  | E_jobs_tab
  | E_select_job string
  | E_close_drawer
  | E_job JobField string
  | E_schedule ScheduleEdit
  | E_dead_letter string
  | E_bulk_queue string
  | E_bulk_payload string

fun apply_edit :: "Edit \<Rightarrow> OpsState \<Rightarrow> OpsState" where
  "apply_edit (E_tab t) s = s\<lparr> os_selectedTab := tab_key_string t \<rparr>"
| "apply_edit E_jobs_tab s = openJobsTab s"
| "apply_edit (E_select_job jobId) s = s\<lparr> os_selectedJobId := jobId \<rparr>"
| "apply_edit E_close_drawer s = s\<lparr> os_selectedJobId := [] \<rparr>"
| "apply_edit (E_job field value) s =
     (let (d, e) = updateJobDraft field value (os_jobDraft s, os_jobErrors s)
      in s\<lparr> os_jobDraft := d, os_jobErrors := e \<rparr>)"
| "apply_edit (E_schedule edit) s =
     (let (d, e) = updateScheduleDraft edit (os_scheduleDraft s, os_scheduleErrors s)
      in s\<lparr> os_scheduleDraft := d, os_scheduleErrors := e \<rparr>)"
| "apply_edit (E_dead_letter jobId) s = toggleDeadLetterSelection jobId s"
| "apply_edit (E_bulk_queue v) s = s\<lparr> os_bulkReplayQueue := v \<rparr>"
| "apply_edit (E_bulk_payload v) s = s\<lparr> os_bulkReplayPayload := v \<rparr>"

section \<open>What the shell shows\<close>

fun mode_string :: "TransportMode \<Rightarrow> string" where
  "mode_string TM_websocket = ''websocket''"
| "mode_string TM_sse = ''sse''"
| "mode_string TM_polling = ''polling''"
| "mode_string TM_degraded = ''degraded''"
| "mode_string TM_offline = ''offline''"
| "mode_string TM_demo = ''demo''"

text \<open>The status pills of the top bar, each with its pulse.\<close>

definition topbar_pills :: "LiveMeta \<Rightarrow> bool \<Rightarrow> (string \<times> bool) list" where
  "topbar_pills m healthy =
     [(health_string (lm_health m), lm_health m = LH_live),
      (mode_string (lm_transportMode m), lm_transportMode m \<in> {TM_websocket, TM_sse}),
      (leader_text healthy, False)]"

definition environment_options :: "string list" where
  "environment_options = [''Demo Sandbox'', ''Staging Cluster'', ''Prod East'']"

definition polling_options :: "(string \<times> rat) list" where
  "polling_options = map (\<lambda>(label, preset). (label, preset_ms preset)) POLLING_PRESETS"

definition connection_button :: "App \<Rightarrow> string" where
  "connection_button a = (if ap_settingsOpen a then ''Hide connection'' else ''Connection'')"

text \<open>The settings panel, when it is open: the fields, and the class and button of the token.\<close>

definition settings_panel :: "App \<Rightarrow> (string \<times> string \<times> string \<times> string) option" where
  "settings_panel a =
     (if ap_settingsOpen a then
        Some (cn_baseUrl (ap_connection a), cn_token (ap_connection a),
              if ap_tokenVisible a then [] else ''masked-token'', if ap_tokenVisible a then ''Hide'' else ''Show'')
      else None)"

definition tab_bar :: "App \<Rightarrow> (string \<times> bool) list" where
  "tab_bar a = map (\<lambda>(key, label). (label, tab_key_string key = tab_key (os_selectedTab (ap_ops a)))) TABS"

text \<open>The search of the views is the trimmed query in lower case.\<close>

definition app_search :: "App \<Rightarrow> string" where
  "app_search a = query_text (ap_searchQuery a)"

text \<open>What \<open>window\<close> reports as an error or a rejection is suppressed when it stems from an extension.\<close>

definition suppresses_error :: "caught \<Rightarrow> string \<Rightarrow> bool" where
  "suppresses_error error message =
     looksLikeAutofillError (if error = Thrown Null \<or> error = Thrown Undefined then Thrown (Str message) else error)"

definition suppresses_rejection :: "caught \<Rightarrow> bool" where
  "suppresses_rejection reason = looksLikeAutofillError reason"

section \<open>The error boundary\<close>

text \<open>\<open>src/src/ErrorBoundary.tsx\<close>: the error that was caught, its texts, and the reset of the settings.\<close>

record Boundary =
  bd_error :: "caught option"

definition getDerivedStateFromError :: "caught \<Rightarrow> Boundary" where
  "getDerivedStateFromError error = \<lparr> bd_error = Some error \<rparr>"

definition boundary_text :: "Boundary \<Rightarrow> (string \<times> string) option" where
  "boundary_text b =
     (case bd_error b of
        None \<Rightarrow> None
      | Some error \<Rightarrow> Some
          (if looksLikeAutofillError error then ''Autofill or extension interference was isolated.''
           else ''A render failure was caught before it could take down the whole console.'',
           case error of Err name msg \<Rightarrow> msg | Thrown v \<Rightarrow> []))"

definition retry_render :: "Boundary \<Rightarrow> Boundary" where
  "retry_render b = \<lparr> bd_error = None \<rparr>"

definition reset_keys :: "string list" where
  "reset_keys = [key_baseUrl STORAGE_KEYS, key_token STORAGE_KEYS, key_liveMode STORAGE_KEYS,
     key_liveUpdates STORAGE_KEYS, key_pollIntervalMs STORAGE_KEYS, key_environment STORAGE_KEYS]"

definition resetSessionState :: "storage_access \<Rightarrow> storage \<Rightarrow> storage" where
  "resetSessionState acc st = foldl (clearStoredValue acc) st reset_keys"

section \<open>Steps\<close>

definition fresh_toasts :: "(nat \<Rightarrow> string) \<Rightarrow> ToastQueue \<Rightarrow> bool" where
  "fresh_toasts uids q \<longleftrightarrow> inj uids \<and> (\<forall>n. fresh_id (uids n) q)"

inductive app_step :: "'u site \<Rightarrow> App \<Rightarrow> App \<Rightarrow> bool" for S where
  as_background: "background_step (site_world S) (ap_hook a) h' \<Longrightarrow> app_step S a (a\<lparr> ap_hook := h' \<rparr>)"
| as_commit: "hk_mounted (ap_hook a) \<Longrightarrow> demo_clock (hk_now (ap_hook a)) \<Longrightarrow> inj ids \<Longrightarrow> fresh_id uid (ap_toasts a) \<Longrightarrow>
    app_step S a (app_commit S ids uid isVisible a)"
| as_act: "hk_mounted (ap_hook a) \<Longrightarrow> hk_ran (ap_hook a) = Some p \<Longrightarrow> good_clock (hk_now (ap_hook a)) \<Longrightarrow>
    fresh_toasts uids (ap_toasts a) \<Longrightarrow> new_ids (map ids [1, 2, 3, 4]) (app_data a) \<Longrightarrow>
    act S (dp_opts p) uids uid ids action a = Some a' \<Longrightarrow> app_step S a a'"
| as_answer: "hk_mounted (ap_hook a) \<Longrightarrow> hk_ran (ap_hook a) = Some p \<Longrightarrow> fresh_toasts uids (ap_toasts a) \<Longrightarrow>
    map_of (ap_tasks a) i = Some t \<Longrightarrow> may_answer (wd_dates (site_world S)) t outcome \<Longrightarrow>
    app_step S a (finish_task S (dp_opts p) uids i t outcome a)"
| as_setting: "app_step S a (apply_setting setting a)"
| as_reset: "fresh_toasts uids (ap_toasts a) \<Longrightarrow> app_step S a (reset_connection S uids a)"
| as_edit: "app_step S a (a\<lparr> ap_ops := apply_edit edit (ap_ops a) \<rparr>)"
| as_reconnect: "hk_mounted (ap_hook a) \<Longrightarrow> hk_ran (ap_hook a) = Some p \<Longrightarrow>
    app_step S a (a\<lparr> ap_hook := manualReconnect (site_world S) r (dp_opts p) (ap_hook a) \<rparr>)"
| as_dismiss: "app_step S a (a\<lparr> ap_toasts := dismissToast i (ap_toasts a) \<rparr>)"
| as_expire: "tq_pending (ap_toasts a) handle = Some (i, due) \<Longrightarrow>
    app_step S a (a\<lparr> ap_toasts := toast_timer handle i (ap_toasts a) \<rparr>)"
| as_unmount: "hk_mounted (ap_hook a) \<Longrightarrow> app_step S a (app_unmount S a)"

inductive_cases app_cases: "app_step S a a'"

definition app_start :: "'u site \<Rightarrow> App \<Rightarrow> bool" where
  "app_start S a \<longleftrightarrow> (\<exists>now ids st href. demo_clock now \<and> inj ids \<and>
     a = initial_app S now (createDemoConsoleData (wd_dates (site_world S)) now ids) st href)"

section \<open>Reloads\<close>

text \<open>
  The operator reloads the page, or presses "Reset saved settings" of the error boundary, which reloads
  it after the reset: a new component reads what the old one has left.
\<close>

definition reload_page :: "'u site \<Rightarrow> int \<Rightarrow> (nat \<Rightarrow> string) \<Rightarrow> App \<Rightarrow> App" where
  "reload_page S now ids a =
     initial_app S now (createDemoConsoleData (wd_dates (site_world S)) now ids) (ap_storage a) (ap_href a)"

definition reset_saved_settings :: "'u site \<Rightarrow> int \<Rightarrow> (nat \<Rightarrow> string) \<Rightarrow> App \<Rightarrow> App" where
  "reset_saved_settings S now ids a =
     reload_page S now ids (a\<lparr> ap_storage := resetSessionState (site_storage S) (ap_storage a) \<rparr>)"

inductive page_step :: "'u site \<Rightarrow> App \<Rightarrow> App \<Rightarrow> bool" for S where
  ps_app: "app_step S a a' \<Longrightarrow> page_step S a a'"
| ps_reload: "demo_clock now \<Longrightarrow> inj ids \<Longrightarrow> page_step S a (reload_page S now ids a)"
| ps_reset: "demo_clock now \<Longrightarrow> inj ids \<Longrightarrow> page_step S a (reset_saved_settings S now ids a)"

inductive_cases page_cases: "page_step S a a'"

end
