(* ===== verification/AppSafety.thy ===== *)
theory AppSafety
  imports ConsoleApp
begin

text \<open>
  The whole console: each of its steps is a run of the live-data hook, so that what was proved of the
  hook holds of it; in demo mode its data keeps the normal form of the demo transition system,
  whatever is left of an earlier live mode; no button stays busy without a handler that waits; and
  the toast queue keeps its invariant.
\<close>

section \<open>What a handler may do\<close>

text \<open>
  From \<open>s\<close> to \<open>s'\<close> the logs grow, by toasts with a key; a request is sent exactly when there is a key
  \<open>k\<close>, and only that busy flag is new.
\<close>

definition handled :: "string option \<Rightarrow> OpsState \<Rightarrow> OpsState \<Rightarrow> bool" where
  "handled k s s' \<longleftrightarrow>
     (\<exists>ts. os_toasts s' = os_toasts s @ ts \<and> (\<forall>t \<in> set ts. toast_key t \<noteq> [])) \<and>
     (\<exists>rs. os_refreshes s' = os_refreshes s @ rs) \<and>
     (\<exists>qs. os_sent s' = os_sent s @ qs \<and> (qs = [] \<longleftrightarrow> k = None)) \<and>
     (\<forall>x. obj_get (os_busy s') x \<noteq> None \<longrightarrow> obj_get (os_busy s) x \<noteq> None \<or> k = Some x)"

lemma toast_keys [simp]:
  "toast_key (toast_of tone title description) \<noteq> []" "toast_key (t\<lparr> ti_key := Some (c # cs), ti_cooldownMs := m \<rparr>) \<noteq> []"
  "toast_key (t\<lparr> ti_key := Some (c # cs) \<rparr>) \<noteq> []" "toast_key (live_recovered td) \<noteq> []"
  by (simp_all add: toast_key_def toast_of_def live_recovered_def)

lemma named_toast_keys [simp]:
  "toast_key retry_toast \<noteq> []" "toast_key cancel_toast \<noteq> []" "toast_key delete_toast \<noteq> []" "toast_key seed_toast \<noteq> []"
  "toast_key (replay_toast edited job queue) \<noteq> []" "toast_key (bulk_replay_toast selected) \<noteq> []"
  "toast_key (saved_toast body) \<noteq> []" "toast_key (toggle_toast schedule enabled) \<noteq> []"
  "toast_key (trigger_toast schedule) \<noteq> []" "toast_key (reset_toast token) \<noteq> []"
  by (simp_all add: retry_toast_def cancel_toast_def delete_toast_def seed_toast_def replay_toast_def bulk_replay_toast_def
      saved_toast_def toggle_toast_def trigger_toast_def reset_toast_def)

lemma handled_refl: "handled None s s"
  by (simp add: handled_def)

lemma handled_notify: "handled k s s' \<Longrightarrow> toast_key t \<noteq> [] \<Longrightarrow> handled k s (notify t s')"
  by (auto simp: handled_def notify_def)

lemma handled_data: "handled k s s' \<Longrightarrow> handled k s (update_data f s')"
  by (auto simp: handled_def update_data_def)

lemma handled_refresh: "handled k s s' \<Longrightarrow> handled k s (refresh_quietly s')"
  by (auto simp: handled_def refresh_quietly_def)

lemma handled_unsupported: "handled k s s' \<Longrightarrow> handled k s (notifyUnsupportedLiveControl title description s')"
  by (simp add: notifyUnsupportedLiveControl_def handled_notify)

lemma handled_send: "handled (Some key) s (send key route body s)"
  by (auto simp: handled_def send_def setBusy_def obj_get_set Let_def)

lemma handled_busy:
  assumes "handled None (setBusy key True s) s'"
  shows "handled None s (setBusy key False s')"
  using assms by (auto simp: handled_def setBusy_def obj_get_set obj_get_delete split: if_splits)

lemma handled_local [simp]:
  "handled k s (s'\<lparr> os_selectedJobId := v \<rparr>) = handled k s s'" "handled k s (s'\<lparr> os_selectedTab := v \<rparr>) = handled k s s'"
  "handled k s (s'\<lparr> os_jobErrors := e \<rparr>) = handled k s s'" "handled k s (s'\<lparr> os_scheduleErrors := e \<rparr>) = handled k s s'"
  "handled k s (s'\<lparr> os_selectedDeadLetters := l \<rparr>) = handled k s s'" "handled k s (s'\<lparr> os_bulkReplayPayload := v \<rparr>) = handled k s s'"
  "handled k s (s'\<lparr> os_scheduleDraft := d \<rparr>) = handled k s s'"
  by (simp_all add: handled_def)

lemma handled_run:
  assumes "handled None (setBusy key True s) (task (setBusy key True s))"
  shows "handled None s (runBusy key task s)"
  using handled_busy [OF assms] by (simp add: runBusy_def)

text \<open>The demo actions and the answers keep the source of the data.\<close>

lemma append_one_source [simp]: "cd_source (appendEvent D d event) = cd_source d"
  by (simp add: appendEvent_def)

lemma replace_source [simp]: "cd_source (replaceJob D now d job) = cd_source d"
  by (simp add: replaceJob_def)

lemma remove_source [simp]: "cd_source (removeDeadLetters D now d jobIds) = cd_source d"
  by (simp add: removeDeadLetters_def)

lemma bulk_replay_source [simp]: "cd_source (foldl (bulk_replay_one D now queue payload) d jobIds) = cd_source d"
  by (induction jobIds arbitrary: d) (simp_all add: bulk_replay_one_def split: option.split)

lemma demo_step_source: "demo_step D d d' \<Longrightarrow> cd_source d' = cd_source d"
  by (erule demo_step.cases)
    (simp_all add: submit_demo_def retry_demo_def cancel_demo_def priority_demo_def replay_demo_def bulk_replay_demo_def
      bulk_delete_demo_def queue_control_demo_def cordon_demo_def save_schedule_demo_def toggle_schedule_demo_def
      trigger_schedule_demo_def addLocalWorkflowJobs_def Let_def split: option.split)

lemmas handled_intros = handled_refl handled_notify handled_data handled_refresh handled_unsupported handled_send handled_run

text \<open>Every action logs what it does, and touches the data only by a demo step.\<close>

lemma submit_local_handled: "submit_local D now uid v s = Some s' \<Longrightarrow> handled None s s'"
  by (auto simp: submit_local_def Let_def intro!: handled_intros split: option.splits)

lemma submit_handled:
  assumes "submitJob D now msg live uid s = Some s'"
  shows "handled None s s' \<or> handled (Some ''submit-job'') s s'"
  using assms submit_local_handled handled_busy
  by (auto simp: submitJob_def Let_def intro!: handled_intros split: if_splits)

lemma trigger_handled:
  assumes "triggerSchedule D now live uid schedule s = Some s'"
  shows "handled None s s' \<or> handled (Some (''schedule-trigger-'' @ sched_id schedule)) s s'"
  using assms by (auto simp: triggerSchedule_def Let_def intro!: handled_intros split: if_splits option.splits)

lemma perform_handled:
  assumes "perform D now msg live uid ids action s = Some s'"
  shows "handled None s s' \<or> (\<exists>t. captured msg action s = Some t \<and> handled (Some (task_key t)) s s')"
proof (cases action)
  case A_submit
  then show ?thesis using submit_handled assms by auto
next
  case (A_trigger schedule)
  then show ?thesis using trigger_handled assms by auto
next
  case (A_replay jobId queue payloadText edited)
  then show ?thesis
    using assms by (auto simp: replayJob_def Let_def intro!: handled_intros split: option.splits)
next
  case A_refresh
  then show ?thesis using assms by (auto simp: refreshSnapshot_def handled_def)
qed (use assms in \<open>auto simp: retryJob_def cancelJob_def adjustPriority_def replaySelectedDeadLetters_def
      deleteSelectedDeadLetters_def setQueueControl_def toggleWorkerCordon_def submitSchedule_def toggleSchedule_def
      seedWorkflow_def Let_def intro!: handled_intros\<close>)

lemma perform_data:
  assumes "perform D now msg live uid ids action s = Some s'" and "good_clock now"
    and "new_ids (map ids [1, 2, 3, 4]) (os_data s)"
  shows "live \<Longrightarrow> os_data s' = os_data s" and "\<not> live \<Longrightarrow> demo_refines D s s'"
proof -
  show "os_data s' = os_data s" if "live"
    using assms(1) that live_controls_readonly
    by (cases action) (auto simp: submitJob_def retryJob_def cancelJob_def replayJob_def replaySelectedDeadLetters_def
        deleteSelectedDeadLetters_def submitSchedule_def toggleSchedule_def triggerSchedule_def seedWorkflow_def
        refreshSnapshot_def Let_def split: if_splits option.splits)
  have refresh: "demo_refines D s (refreshSnapshot s)" by (simp add: demo_refines_def refreshSnapshot_def)
  show "demo_refines D s s'" if "\<not> live"
    using assms(1) that submit_refines [OF assms(2)] trigger_refines [OF assms(2)] handlers_refine [OF assms(2)]
      replay_refines [OF assms(2)] seed_refines [OF assms(2,3)]
      refresh
    by (cases action) auto
qed

text \<open>The end of a handler that waited, whatever the answer.\<close>

lemma handled_not_busy: "handled None s s' \<Longrightarrow> handled None s (setBusy key False s')"
  by (auto simp: handled_def setBusy_def obj_get_delete split: if_splits)

lemma answered_handled: "handled None s (answered D now t ans s)"
  by (cases "(D, now, t, ans, s)" rule: answered.cases)
    (auto simp: submitJob_done_def retryJob_done_def cancelJob_done_def replayJob_done_def replaySelected_done_def
      deleteSelected_done_def submitSchedule_done_def toggleSchedule_done_def triggerSchedule_done_def seedWorkflow_done_def
      Let_def intro!: handled_intros)

lemma resume_handled:
  shows "handled None s (resume D now t outcome s)" and "obj_get (os_busy (resume D now t outcome s)) (task_key t) = None"
  using answered_handled handled_refl
  by (auto simp: resume_def settle_def settle_idle intro!: handled_not_busy split: sum.split)
    (simp_all add: setBusy_def obj_get_delete)

lemma answered_source: "cd_source (os_data (answered D now t ans s)) = cd_source (os_data s)"
  by (cases "(D, now, t, ans, s)" rule: answered.cases)
    (simp_all add: submitJob_done_def retryJob_done_def cancelJob_done_def replayJob_done_def replaySelected_done_def
      deleteSelected_done_def submitSchedule_done_def toggleSchedule_done_def triggerSchedule_done_def seedWorkflow_done_def
      Let_def)

lemma resume_source: "cd_source (os_data (resume D now t outcome s)) = cd_source (os_data s)"
  by (simp add: resume_def settle_def answered_source split: sum.split)

lemma answered_inv:
  assumes "date_ok D" and "demo_inv D (os_data s)" and "may_answer D t (Inr ans)"
  shows "demo_inv D (os_data (answered D now t ans s))"
  using assms(2,3) answers_keep_inv [OF assms(1,2)]
  by (cases "(D, now, t, ans, s)" rule: answered.cases)
    (auto simp: replayJob_done_def replaySelected_done_def deleteSelected_done_def submitSchedule_done_def
      toggleSchedule_done_def triggerSchedule_done_def seedWorkflow_done_def)

lemma resume_inv:
  assumes "date_ok D" and "demo_inv D (os_data s)" and "may_answer D t outcome"
  shows "demo_inv D (os_data (resume D now t outcome s))"
  using assms answered_inv by (auto simp: resume_def settle_def split: sum.split)

section \<open>Carrying it out\<close>

lemma enqueue_all_inv:
  assumes "toast_inv q" and "fresh_toasts uids q" and "\<forall>t \<in> set ts. toast_key t \<noteq> []"
  shows "toast_inv (enqueue_all now uids ts q)"
  using assms
proof (induction ts arbitrary: uids q)
  case Nil
  then show ?case by simp
next
  case (Cons t ts)
  let ?q = "fst (enqueueToast now (uids 0) t q)"
  have "toast_inv ?q" using Cons.prems by (intro enqueue_inv) (simp_all add: fresh_toasts_def)
  moreover have "fresh_toasts (\<lambda>n. uids (Suc n)) ?q"
  proof -
    have inj: "inj uids" and f: "\<And>n. fresh_id (uids n) q" using Cons.prems(2) by (simp_all add: fresh_toasts_def)
    have "uids (Suc n) \<noteq> uids 0" for n using inj by (simp add: inj_eq)
    then have "fresh_id (uids (Suc n)) ?q" for n
      using f [of "Suc n"] by (auto simp: fresh_id_def enqueueToast_def Let_def)
    moreover have "inj (\<lambda>n. uids (Suc n))" using inj_compose [OF inj inj_Suc] by (simp add: comp_def)
    ultimately show ?thesis by (simp add: fresh_toasts_def)
  qed
  ultimately show ?case using Cons.IH Cons.prems(3) by simp
qed

lemma refresh_call_frame [simp]:
  "hk_ran (refresh_call W opts r h) = hk_ran h" "hk_mounted (refresh_call W opts r h) = hk_mounted h"
  "hk_now (refresh_call W opts r h) = hk_now h" "lv_data (hk_live (refresh_call W opts r h)) = lv_data (hk_live h)"
  by (simp_all add: refresh_call_def update_live_def refresh_frame)

lemma refresh_calls_run:
  assumes "hk_mounted h" and "hk_ran h = Some p"
  shows "(hook_step W)\<^sup>*\<^sup>* h (fold (refresh_call W (dp_opts p)) rs h)"
  using assms
proof (induction rs arbitrary: h)
  case (Cons r rs)
  have "hook_step W h (refresh_call W (dp_opts p) r h)"
    unfolding refresh_call_def using Cons.prems by (rule hs_ask_refresh)
  moreover have "(hook_step W)\<^sup>*\<^sup>* (refresh_call W (dp_opts p) r h) (fold (refresh_call W (dp_opts p)) rs (refresh_call W (dp_opts p) r h))"
    using Cons.prems by (intro Cons.IH) simp_all
  ultimately show ?case by simp
qed simp

lemma refresh_calls_frame:
  "hk_ran (fold (refresh_call W opts) rs h) = hk_ran h" "hk_mounted (fold (refresh_call W opts) rs h) = hk_mounted h"
  "lv_data (hk_live (fold (refresh_call W opts) rs h)) = lv_data (hk_live h)"
  by (induction rs arbitrary: h) simp_all

lemma absorb_frame [simp]:
  "hk_ran (ap_hook (absorb S opts uids s a)) = hk_ran (ap_hook a)"
  "hk_mounted (ap_hook (absorb S opts uids s a)) = hk_mounted (ap_hook a)"
  "app_data (absorb S opts uids s a) = os_data s" "ap_ops (absorb S opts uids s a) = s"
  "ap_tasks (absorb S opts uids s a) = ap_tasks a" "ap_nextTask (absorb S opts uids s a) = ap_nextTask a"
  by (simp_all add: absorb_def Let_def app_data_def refresh_calls_frame) (simp_all add: update_live_def)

lemma absorb_run:
  assumes "hk_mounted (ap_hook a)" and "hk_ran (ap_hook a) = Some p" and "cd_source (os_data s) = cd_source (app_data a)"
  shows "(hook_step (site_world S))\<^sup>*\<^sup>* (ap_hook a) (ap_hook (absorb S (dp_opts p) uids s a))"
proof -
  let ?h = "update_live (\<lambda>l. l\<lparr> lv_data := os_data s \<rparr>) (ap_hook a)"
  have "hook_step (site_world S) (ap_hook a) ?h" using assms by (intro hs_operator) (simp_all add: app_data_def)
  moreover have "(hook_step (site_world S))\<^sup>*\<^sup>* ?h (ap_hook (absorb S (dp_opts p) uids s a))"
    using assms unfolding absorb_def Let_def by (simp add: update_live_def refresh_calls_run)
  ultimately show ?thesis by simp
qed

lemma absorb_toasts:
  assumes "handled k (ops_now a) s" and "toast_inv (ap_toasts a)" and "fresh_toasts uids (ap_toasts a)"
  shows "toast_inv (ap_toasts (absorb S opts uids s a))"
proof -
  obtain ts where "os_toasts s = os_toasts (ap_ops a) @ ts" "\<forall>t \<in> set ts. toast_key t \<noteq> []"
    using assms(1) by (auto simp: handled_def ops_now_def)
  then show ?thesis using enqueue_all_inv [OF assms(2,3)] by (simp add: absorb_def Let_def)
qed

section \<open>The console makes the steps of the hook\<close>

lemma demo_source: "cd_source (createDemoConsoleData D now ids) = Source_demo"
  by (simp add: createDemoConsoleData_def demo_data_def Let_def)

lemma ops_now_fields [simp]: "os_data (ops_now a) = app_data a" "os_busy (ops_now a) = os_busy (ap_ops a)"
  "os_sent (ops_now a) = os_sent (ap_ops a)" "os_refreshes (ops_now a) = os_refreshes (ap_ops a)"
  by (simp_all add: ops_now_def)

definition performs :: "'u site \<Rightarrow> LiveOptions \<Rightarrow> string \<Rightarrow> (nat \<Rightarrow> string) \<Rightarrow> Action \<Rightarrow> App \<Rightarrow> OpsState \<Rightarrow> bool" where
  "performs S opts uid ids action a s' \<longleftrightarrow>
     perform (wd_dates (site_world S)) (hk_now (ap_hook a)) (site_parse_error S) (lo_liveMode opts) uid ids action (ops_now a) = Some s'"

lemma act_cases:
  assumes "act S opts uids uid ids action a = Some a'"
  obtains (plain) s' where "performs S opts uid ids action a s'" and "handled None (ops_now a) s'" and "a' = absorb S opts uids s' a"
  | (waits) s' t where "performs S opts uid ids action a s'" and "handled (Some (task_key t)) (ops_now a) s'"
      and "a' = (absorb S opts uids s' a)\<lparr> ap_tasks := ap_tasks a @ [(ap_nextTask a, t)], ap_nextTask := ap_nextTask a + 1 \<rparr>"
proof -
  obtain s' where p: "performs S opts uid ids action a s'"
    using assms by (auto simp: act_def performs_def Let_def split: option.splits)
  from perform_handled [OF p [unfolded performs_def]] show thesis
  proof (elim disjE exE conjE)
    assume h: "handled None (ops_now a) s'"
    then have "os_sent s' = os_sent (ap_ops a)" by (auto simp: handled_def)
    then show thesis using plain [OF p h] assms p by (simp add: act_def performs_def Let_def)
  next
    fix t assume t: "captured (site_parse_error S) action (ops_now a) = Some t" and h: "handled (Some (task_key t)) (ops_now a) s'"
    from h have "length (os_sent (ap_ops a)) < length (os_sent s')" by (auto simp: handled_def)
    then show thesis using waits [OF p h] assms p t by (simp add: act_def performs_def Let_def)
  qed
qed

lemma act_absorbs:
  assumes "act S opts uids uid ids action a = Some a'"
  obtains s' k where "performs S opts uid ids action a s'" and "handled k (ops_now a) s'"
    and "ap_hook a' = ap_hook (absorb S opts uids s' a)" and "ap_toasts a' = ap_toasts (absorb S opts uids s' a)"
  using assms by (elim act_cases) simp_all

text \<open>Every step of the console is a run of the hook.\<close>

lemma app_step_refines:
  assumes "app_step S a a'"
  shows "(hook_step (site_world S))\<^sup>*\<^sup>* (ap_hook a) (ap_hook a')"
  using assms
proof cases
  case (as_background h')
  then show ?thesis by (auto intro: hs_background)
next
  case (as_commit ids uid isVisible)
  then show ?thesis by (auto simp: app_commit_def Let_def demo_source intro!: r_into_rtranclp hs_commit)
next
  case (as_act p uids ids uid action)
  obtain s' k where p: "performs S (dp_opts p) uid ids action a s'"
    and eq: "ap_hook a' = ap_hook (absorb S (dp_opts p) uids s' a)"
    using act_absorbs [OF as_act(6)] .
  note d = perform_data [OF p [unfolded performs_def] as_act(3)]
  have "cd_source (os_data s') = cd_source (app_data a)"
    using d as_act(5) demo_step_source by (cases "lo_liveMode (dp_opts p)") (auto simp: demo_refines_def)
  then show ?thesis using absorb_run [OF as_act(1,2)] eq by simp
next
  case (as_answer p uids i t outcome)
  let ?s = "resume (wd_dates (site_world S)) (hk_now (ap_hook a)) t outcome (ops_now a)"
  have "cd_source (os_data ?s) = cd_source (app_data a)" by (simp add: resume_source)
  from absorb_run [OF as_answer(2,3) this] show ?thesis by (simp add: as_answer(1) finish_task_def)
next
  case (as_setting setting)
  then show ?thesis by (cases setting) simp_all
next
  case (as_reset uids)
  then show ?thesis by (simp add: reset_connection_def resetConnectionSettings_def)
next
  case (as_reconnect p r)
  then show ?thesis by (auto intro: hs_reconnect)
next
  case as_unmount
  then show ?thesis by (auto simp: app_unmount_def intro: hs_unmount)
qed simp_all

lemma app_runs_refine:
  "(app_step S)\<^sup>*\<^sup>* a a' \<Longrightarrow> (hook_step (site_world S))\<^sup>*\<^sup>* (ap_hook a) (ap_hook a')"
  by (induction rule: rtranclp_induct) (auto dest: app_step_refines intro: rtranclp_trans)

lemma app_start_hook: "app_start S a \<Longrightarrow> hook_start (ap_hook a)"
  by (force simp: app_start_def initial_app_def hook_start_def Let_def)

section \<open>The invariant\<close>

text \<open>Every busy flag has a handler that waits and will clear it.\<close>

definition busy_ok :: "App \<Rightarrow> bool" where
  "busy_ok a \<longleftrightarrow> distinct (map fst (ap_tasks a)) \<and> (\<forall>i \<in> fst ` set (ap_tasks a). i < ap_nextTask a) \<and>
     (\<forall>k. obj_get (os_busy (ap_ops a)) k \<noteq> None \<longrightarrow> k \<in> task_key ` snd ` set (ap_tasks a))"

text \<open>Demo data is in normal form, and in live mode the data is live.\<close>

definition data_ok :: "date_api \<Rightarrow> App \<Rightarrow> bool" where
  "data_ok D a \<longleftrightarrow> (cd_source (app_data a) = Source_demo \<longrightarrow> demo_inv D (app_data a)) \<and>
     (\<forall>p. hk_ran (ap_hook a) = Some p \<and> hk_mounted (ap_hook a) \<and> lo_liveMode (dp_opts p) \<longrightarrow> cd_source (app_data a) = Source_live)"

definition app_inv :: "date_api \<Rightarrow> App \<Rightarrow> bool" where
  "app_inv D a \<longleftrightarrow> date_ok D \<and> hook_inv (ap_hook a) \<and> busy_ok a \<and> data_ok D a \<and>
     (hk_mounted (ap_hook a) \<longrightarrow> toast_inv (ap_toasts a))"

lemma busy_absorb:
  assumes "busy_ok a" and "handled None (ops_now a) s"
  shows "busy_ok (absorb S opts uids s a)"
  using assms by (auto simp: busy_ok_def handled_def)

lemma busy_start:
  assumes "busy_ok a" and "handled (Some (task_key t)) (ops_now a) s"
  shows "busy_ok ((absorb S opts uids s a)\<lparr> ap_tasks := ap_tasks a @ [(ap_nextTask a, t)], ap_nextTask := ap_nextTask a + 1 \<rparr>)"
proof -
  have b: "distinct (map fst (ap_tasks a))" "\<And>i. i \<in> fst ` set (ap_tasks a) \<Longrightarrow> i < ap_nextTask a"
    "\<And>k. obj_get (os_busy (ap_ops a)) k \<noteq> None \<Longrightarrow> k \<in> task_key ` snd ` set (ap_tasks a)"
    using assms(1) by (auto simp: busy_ok_def)
  have "\<forall>x. obj_get (os_busy s) x \<noteq> None \<longrightarrow> obj_get (os_busy (ops_now a)) x \<noteq> None \<or> Some (task_key t) = Some x"
    using assms(2) unfolding handled_def by (elim conjE)
  with b(3) have new: "x \<in> insert (task_key t) (task_key ` snd ` set (ap_tasks a))" if "obj_get (os_busy s) x \<noteq> None" for x
    using that by (metis insertCI ops_now_fields(2) option.inject)
  show ?thesis
    unfolding busy_ok_def
  proof (intro conjI ballI allI impI, goal_cases)
    case 1
    have "ap_nextTask a \<notin> fst ` set (ap_tasks a)" using b(2) by blast
    with b(1) show ?case by simp
  next
    case (2 i)
    then have "i = ap_nextTask a \<or> i \<in> fst ` set (ap_tasks a)" by auto
    then show ?case using b(2) [of i] by fastforce
  next
    case (3 k)
    then show ?case using new [of k] by auto
  qed
qed

lemma busy_finish:
  assumes "busy_ok a" and "map_of (ap_tasks a) i = Some t"
  shows "busy_ok (finish_task S opts uids i t outcome a)"
proof -
  let ?s = "resume (wd_dates (site_world S)) (hk_now (ap_hook a)) t outcome (ops_now a)"
  have "k \<in> task_key ` snd ` set (filter (\<lambda>x. fst x \<noteq> i) (ap_tasks a))" if "obj_get (os_busy ?s) k \<noteq> None" for k
  proof -
    have "k \<noteq> task_key t" using that resume_handled(2) [of _ _ t outcome "ops_now a"] by metis
    moreover have "k \<in> task_key ` snd ` set (ap_tasks a)"
      using that assms(1) resume_handled(1) [of "ops_now a" "wd_dates (site_world S)" "hk_now (ap_hook a)" t outcome]
      by (auto simp: busy_ok_def handled_def)
    moreover have "snd x = t" if "x \<in> set (ap_tasks a)" "fst x = i" for x
    proof -
      have "map_of (ap_tasks a) (fst x) = Some (snd x)" using that(1) assms(1) by (simp add: busy_ok_def map_of_is_SomeI)
      then show ?thesis using that(2) assms(2) by simp
    qed
    ultimately show ?thesis by force
  qed
  then show ?thesis using assms(1) by (auto simp: busy_ok_def finish_task_def distinct_map_filter)
qed

lemma busy_task:
  assumes "busy_ok a" and "obj_get (os_busy (ap_ops a)) k \<noteq> None"
  shows "\<exists>i t. map_of (ap_tasks a) i = Some t \<and> task_key t = k"
proof -
  have "k \<in> task_key ` snd ` set (ap_tasks a)" using assms unfolding busy_ok_def by blast
  then obtain x where x: "x \<in> set (ap_tasks a)" "k = task_key (snd x)" by blast
  have "map_of (ap_tasks a) (fst x) = Some (snd x)" using x(1) assms(1) by (simp add: busy_ok_def map_of_is_SomeI)
  then show ?thesis using x(2) by metis
qed

lemma busy_cong:
  "ap_tasks a' = ap_tasks a \<Longrightarrow> ap_nextTask a' = ap_nextTask a \<Longrightarrow> os_busy (ap_ops a') = os_busy (ap_ops a) \<Longrightarrow> busy_ok a' = busy_ok a"
  by (simp add: busy_ok_def)

lemma data_cong:
  "app_data a' = app_data a \<Longrightarrow> hk_ran (ap_hook a') = hk_ran (ap_hook a) \<Longrightarrow> hk_mounted (ap_hook a') = hk_mounted (ap_hook a) \<Longrightarrow>
    data_ok D a' = data_ok D a"
  by (simp add: data_ok_def)

text \<open>The hook by itself: in demo mode nothing happens to the data, and live data stays live.\<close>

lemma data_background:
  assumes "hook_inv (ap_hook a)" and "data_ok D a" and "background_step W (ap_hook a) h'"
  shows "data_ok D (a\<lparr> ap_hook := h' \<rparr>)"
proof -
  have k: "hk_ran h' = hk_ran (ap_hook a)" "hk_mounted h' = hk_mounted (ap_hook a)" using background_keeps [OF assms(3)] by simp_all
  show ?thesis
  proof (cases "cd_source (app_data a) = Source_live")
    case True
    then show ?thesis using background_source [OF assms(3)] by (simp add: data_ok_def app_data_def)
  next
    case False
    then have "quiet (ap_hook a)"
      using assms(1,2) by (auto simp: data_ok_def hook_inv_def split: option.splits)
    from quiet_background(1) [OF assms(1) this assms(3)] k show ?thesis using assms(2) by (simp add: data_ok_def app_data_def)
  qed
qed

lemma data_commit:
  assumes "app_inv D a" and "demo_clock (hk_now (ap_hook a))" and "inj ids" and "D = wd_dates (site_world S)"
  shows "data_ok D (app_commit S ids uid v a)"
proof -
  let ?demo = "createDemoConsoleData D (hk_now (ap_hook a)) ids" and ?opts = "app_options S a"
  have inv: "hook_inv (ap_hook a)" "data_ok D a" "date_ok D" using assms(1) by (simp_all add: app_inv_def)
  have demo: "demo_inv D ?demo" using demo_start_inv [OF inv(3) assms(2,3)] .
  have new: "app_data (app_commit S ids uid v a) = lv_data (hk_live (commit (site_world S) ?demo ?opts v (ap_hook a)))"
    "hk_ran (ap_hook (app_commit S ids uid v a)) = Some (rendered ?opts v (ap_hook a))"
    "hk_mounted (ap_hook (app_commit S ids uid v a)) = hk_mounted (ap_hook a)"
    using assms(4) commit_mounted [OF inv(1) demo_source] by (simp_all add: app_commit_def Let_def app_data_def)
  have "cd_source (createEmptyConsoleData Source_live) = Source_live" by (simp add: createEmptyConsoleData_def)
  then show ?thesis
    using inv(2) demo unfolding data_ok_def new commit_data [OF inv(1) demo_source]
    by (auto simp: rendered_def app_data_def)
qed

lemma data_act:
  assumes "app_inv D a" and "D = wd_dates (site_world S)" and "hk_mounted (ap_hook a)" and "hk_ran (ap_hook a) = Some p"
    and "good_clock (hk_now (ap_hook a))" and "new_ids (map ids [1, 2, 3, 4]) (app_data a)"
    and "perform D (hk_now (ap_hook a)) msg (lo_liveMode (dp_opts p)) uid ids action (ops_now a) = Some s"
  shows "data_ok D (absorb S (dp_opts p) uids s a)"
proof (cases "lo_liveMode (dp_opts p)")
  case True
  then have "os_data s = app_data a" using perform_data(1) [OF assms(7,5)] assms(6) by simp
  moreover have "data_ok D a" using assms(1) by (simp add: app_inv_def)
  ultimately show ?thesis by (simp add: data_ok_def)
next
  case False
  have ok: "date_ok D" "data_ok D a" "hook_inv (ap_hook a)" using assms(1) by (simp_all add: app_inv_def)
  have "cd_source (app_data a) = Source_demo"
    using hook_invD(3) [OF ok(3) assms(4,3)] False by (simp add: mode_deps_def app_data_def)
  then have "demo_inv D (app_data a)" using ok(2) by (simp add: data_ok_def)
  moreover have "demo_refines D (ops_now a) s" using perform_data(2) [OF assms(7,5)] assms(6) False by simp
  ultimately have "demo_inv D (os_data s)"
    using demo.run_inv [of D "app_data a" "os_data s"] ok(1) by (auto simp: demo_refines_def)
  then show ?thesis using False assms(4) by (simp add: data_ok_def)
qed

lemma data_answer:
  assumes "app_inv D a" and "hk_mounted (ap_hook a)" and "hk_ran (ap_hook a) = Some p"
    and "may_answer D t outcome" and "D = wd_dates (site_world S)"
  shows "data_ok D (finish_task S (dp_opts p) uids i t outcome a)"
proof -
  let ?s = "resume D (hk_now (ap_hook a)) t outcome (ops_now a)"
  have ok: "date_ok D" "data_ok D a" using assms(1) by (simp_all add: app_inv_def)
  have src: "cd_source (os_data ?s) = cd_source (app_data a)" by (simp add: resume_source)
  have "demo_inv D (os_data ?s)" if "cd_source (app_data a) = Source_demo"
    using that ok resume_inv [OF ok(1) _ assms(4), of "ops_now a"] by (simp add: data_ok_def)
  moreover have "app_data (finish_task S (dp_opts p) uids i t outcome a) = os_data ?s"
    "hk_ran (ap_hook (finish_task S (dp_opts p) uids i t outcome a)) = hk_ran (ap_hook a)"
    "hk_mounted (ap_hook (finish_task S (dp_opts p) uids i t outcome a)) = hk_mounted (ap_hook a)"
    using absorb_frame [of S "dp_opts p" uids ?s a] assms(5) by (simp_all add: finish_task_def app_data_def)
  ultimately show ?thesis using ok(2) src by (simp add: data_ok_def)
qed

lemma data_unmount:
  assumes "hook_inv (ap_hook a)" and "data_ok D a"
  shows "data_ok D (app_unmount S a)"
  using assms(2) unmount_inv(3,4) [OF assms(1), where W = "site_world S"] by (simp add: data_ok_def app_unmount_def app_data_def)

lemma setting_frame:
  "ap_hook (apply_setting x a) = ap_hook a" "ap_ops (apply_setting x a) = ap_ops a" "ap_tasks (apply_setting x a) = ap_tasks a"
  "ap_nextTask (apply_setting x a) = ap_nextTask a" "ap_toasts (apply_setting x a) = ap_toasts a"
  by (cases x; simp)+

lemma reset_frame:
  "ap_hook (reset_connection S uids a) = ap_hook a" "ap_tasks (reset_connection S uids a) = ap_tasks a"
  "ap_nextTask (reset_connection S uids a) = ap_nextTask a" "os_busy (ap_ops (reset_connection S uids a)) = os_busy (ap_ops a)"
  by (simp_all add: reset_connection_def resetConnectionSettings_def)

lemma edit_busy: "os_busy (apply_edit e s) = os_busy s"
  by (cases e) (simp_all add: openJobsTab_def toggleDeadLetterSelection_def updateJobDraft_def updateScheduleDraft_def)

lemma effects_busy: "os_busy (effect_dead_letters (effect_selected_job (effect_tab s))) = os_busy s"
  by (simp add: effect_dead_letters_def effect_selected_job_def effect_tab_def)

text \<open>The three parts of the invariant over a step; that of the hook comes from the refinement.\<close>

lemma app_step_busy:
  assumes "busy_ok a" and "app_step S a a'"
  shows "busy_ok a'"
  using assms(2)
proof cases
  case (as_act p uids ids uid action)
  from as_act(6) show ?thesis
    by (rule act_cases) (simp_all only: busy_absorb [OF assms(1)] busy_start [OF assms(1)])
next
  case (as_answer p uids i t outcome)
  then show ?thesis using busy_finish [OF assms(1)] by simp
next
  case (as_commit ids uid v)
  then show ?thesis
    using assms(1) by (simp add: app_commit_def Let_def effects_busy busy_ok_def)
qed (use assms(1) in \<open>simp_all add: busy_ok_def setting_frame reset_frame edit_busy app_unmount_def\<close>)

lemma app_step_toasts:
  assumes "hk_mounted (ap_hook a) \<longrightarrow> toast_inv (ap_toasts a)" and "app_step S a a'" and "hk_mounted (ap_hook a')"
    and "hook_inv (ap_hook a)"
  shows "toast_inv (ap_toasts a')"
  using assms(2)
proof cases
  case (as_background h')
  then show ?thesis using assms(1,3) background_keeps by fastforce
next
  case (as_commit ids uid v)
  then show ?thesis
    using assms(1) enqueue_inv by (auto simp: app_commit_def Let_def split: option.split)
next
  case (as_act p uids ids uid action)
  obtain s' k where "handled k (ops_now a) s'" and "ap_toasts a' = ap_toasts (absorb S (dp_opts p) uids s' a)"
    using act_absorbs [OF as_act(6)] .
  then show ?thesis using assms(1) as_act(1,4) absorb_toasts by metis
next
  case (as_answer p uids i t outcome)
  then show ?thesis using assms(1) absorb_toasts [OF resume_handled(1)] by (simp add: finish_task_def)
next
  case (as_reset uids)
  then have "toast_inv (ap_toasts a)" using assms(1,3) by (simp add: reset_frame)
  with as_reset show ?thesis
    by (auto simp: reset_connection_def resetConnectionSettings_def notify_def fresh_toasts_def intro!: enqueue_inv)
next
  case (as_dismiss i)
  then show ?thesis using assms(1,3) by (simp add: dismiss_inv)
next
  case (as_expire handle i due)
  then show ?thesis using assms(1,3) timer_inv by simp
next
  case as_unmount
  then show ?thesis using assms(3) unmount_inv(3) [OF assms(4), where W = "site_world S"] by (simp add: app_unmount_def)
qed (use assms(1,3) in \<open>simp_all add: setting_frame reconnect_keeps\<close>)

lemma app_step_data:
  assumes "app_inv (wd_dates (site_world S)) a" and "app_step S a a'"
  shows "data_ok (wd_dates (site_world S)) a'"
proof -
  have ok: "hook_inv (ap_hook a)" "data_ok (wd_dates (site_world S)) a" using assms(1) by (simp_all add: app_inv_def)
  have same: "data_ok (wd_dates (site_world S)) b" if "ap_hook b = ap_hook a" for b
    using ok(2) that by (simp add: data_ok_def app_data_def)
  show ?thesis
    using assms(2)
  proof cases
    case (as_background h')
    then show ?thesis using data_background [OF ok] by simp
  next
    case (as_commit ids uid v)
    then show ?thesis using data_commit [OF assms(1) as_commit(3,4) refl] by simp
  next
    case (as_act p uids ids uid action)
    obtain s' k where p: "performs S (dp_opts p) uid ids action a s'"
      and eq: "ap_hook a' = ap_hook (absorb S (dp_opts p) uids s' a)"
      using act_absorbs [OF as_act(6)] .
    have "data_ok (wd_dates (site_world S)) (absorb S (dp_opts p) uids s' a)"
      using data_act [OF assms(1) refl as_act(1,2,3,5) p [unfolded performs_def]] .
    then show ?thesis using eq by (simp add: data_ok_def app_data_def)
  next
    case (as_answer p uids i t outcome)
    show ?thesis using data_answer [OF assms(1) as_answer(2,3,6) refl] as_answer(1) by simp
  next
    case (as_reconnect p r)
    then show ?thesis using ok(2) by (simp add: data_ok_def app_data_def reconnect_source reconnect_keeps)
  next
    case as_unmount
    then show ?thesis using data_unmount [OF ok] by simp
  qed (simp_all add: same setting_frame reset_frame)
qed

theorem app_step_inv:
  assumes "app_inv (wd_dates (site_world S)) a" and "app_step S a a'"
  shows "app_inv (wd_dates (site_world S)) a'"
proof -
  have i: "date_ok (wd_dates (site_world S))" "hook_inv (ap_hook a)" "busy_ok a" "hk_mounted (ap_hook a) \<longrightarrow> toast_inv (ap_toasts a)"
    using assms(1) by (simp_all add: app_inv_def)
  have "hook_inv (ap_hook a')" using live_hook.run_inv [OF app_step_refines [OF assms(2)] i(2)] .
  then show ?thesis
    using i app_step_busy [OF i(3) assms(2)] app_step_data [OF assms] app_step_toasts [OF i(4) assms(2) _ i(2)]
    by (simp add: app_inv_def)
qed

lemma app_start_inv:
  assumes "date_ok (wd_dates (site_world S))" and "app_start S a"
  shows "app_inv (wd_dates (site_world S)) a"
proof -
  let ?D = "wd_dates (site_world S)"
  obtain now ids st href where a: "demo_clock now" "inj ids"
    "a = initial_app S now (createDemoConsoleData ?D now ids) st href"
    using assms(2) by (auto simp: app_start_def)
  have "cd_source (createEmptyConsoleData Source_live) = Source_live" by (simp add: createEmptyConsoleData_def)
  moreover have "app_data a = (if cn_liveMode (ap_connection a) then createEmptyConsoleData Source_live
      else createDemoConsoleData ?D now ids)"
    by (simp add: a(3) initial_app_def app_data_def initial_hook_def initial_live_def Let_def)
  moreover have "hk_ran (ap_hook a) = None" by (simp add: a(3) initial_app_def initial_hook_def Let_def)
  ultimately have "data_ok ?D a"
    using demo_start_inv [OF assms(1) a(1,2)] by (simp add: data_ok_def)
  moreover have "busy_ok a" by (simp add: a(3) initial_app_def initial_ops_def busy_ok_def Let_def)
  moreover have "hook_inv (ap_hook a)" by (simp add: a(3) initial_app_def Let_def initial_hook_inv)
  moreover have "toast_inv (ap_toasts a)" by (simp add: a(3) initial_app_def Let_def empty_queue_inv)
  ultimately show ?thesis using assms(1) by (simp add: app_inv_def)
qed

interpretation console: step_system "\<lambda>a. date_ok (wd_dates (site_world S)) \<and> app_start S a" "app_step S"
    "app_inv (wd_dates (site_world S))" for S :: "'u site"
  by unfold_locales (auto intro: app_start_inv app_step_inv)

section \<open>What the console guarantees\<close>

text \<open>In demo mode the data is in the normal form of the demo console.\<close>

lemma demo_mode_normal:
  assumes "app_inv D a" and "hk_mounted (ap_hook a)" and "hk_ran (ap_hook a) = Some p" and "\<not> lo_liveMode (dp_opts p)"
  shows "cd_source (app_data a) = Source_demo \<and> demo_inv D (app_data a)"
proof -
  have "cd_source (app_data a) = Source_demo"
    using assms hook_invD(3) [of "ap_hook a" p] by (simp add: app_inv_def mode_deps_def app_data_def)
  then show ?thesis using assms(1) by (simp add: app_inv_def data_ok_def)
qed

text \<open>Exactly one tab of the tab bar is active, whatever the address says.\<close>

lemma one_tab_active: "length (filter snd (tab_bar a)) = 1"
proof -
  obtain key where "tab_key (os_selectedTab (ap_ops a)) = tab_key_string key"
    using tab_key_valid [of "os_selectedTab (ap_ops a)"] by blast
  then show ?thesis by (cases key) (simp_all add: tab_bar_def TABS_def)
qed

text \<open>
  An answer that arrives after the operator has switched to demo mode puts the job of the cluster
  into the demo data.
\<close>

lemma late_answer_enters_demo:
  assumes "app_inv (wd_dates (site_world S)) a" and "hk_mounted (ap_hook a)" and "hk_ran (ap_hook a) = Some p"
    and "\<not> lo_liveMode (dp_opts p)"
  shows "find_job (cd_jobs (app_data (finish_task S (dp_opts p) uids i (T_retry jobId) (Inr (Ans_job job)) a))) =
    (find_job (cd_jobs (app_data a)))(job_id job \<mapsto> job)"
proof -
  let ?s = "retryJob_done (wd_dates (site_world S)) (hk_now (ap_hook a)) jobId job (ops_now a)"
  have d: "distinct (map job_id (cd_jobs (app_data a)))"
    using demo_mode_normal [OF assms] by (simp add: demo_inv_def)
  have "app_data (finish_task S (dp_opts p) uids i (T_retry jobId) (Inr (Ans_job job)) a) = os_data ?s"
    using absorb_frame(3) [of S "dp_opts p" uids "setBusy (''job-retry-'' @ jobId) False ?s" a]
    by (simp add: finish_task_def app_data_def resume_def settle_def)
  moreover have "os_data ?s = removeDeadLetters (wd_dates (site_world S)) (hk_now (ap_hook a))
      (replaceJob (wd_dates (site_world S)) (hk_now (ap_hook a)) (app_data a) job) [jobId]"
    by (simp add: retryJob_done_def)
  moreover have "distinct (map job_id (cd_jobs (replaceJob (wd_dates (site_world S)) (hk_now (ap_hook a)) (app_data a) job)))"
    using demo_mode_normal [OF assms] d by (simp add: replaceJob_def distinct_sort_jobs distinct_upsert_job)
  ultimately show ?thesis by (simp add: find_job_replaceJob [OF d])
qed

text \<open>The reset of the error boundary forgets the six settings and nothing else.\<close>

lemma reset_forgets:
  "resetSessionState Storage_works st key = (if key \<in> set reset_keys then None else st key)"
  by (simp add: resetSessionState_def reset_keys_def clearStoredValue_def STORAGE_KEYS_def)

lemma reset_restores_defaults:
  assumes "key \<in> set reset_keys"
  shows "readStoredValue Storage_works (resetSessionState Storage_works st) key d = d"
proof -
  have "safeTrim Null [] = []" by code_simp
  then show ?thesis using assms by (simp add: readStoredValue_def reset_forgets or_str_def Let_def)
qed


section \<open>The page\<close>

text \<open>
  Only a commit touches the storage and the address; after it they hold what was rendered. A page that is
  loaded again is a start of the console, so its invariant holds across reloads.
\<close>

definition saved_ok :: "'u site \<Rightarrow> App \<Rightarrow> bool" where
  "saved_ok S a \<longleftrightarrow> valid_address (site_query S) (ap_href a) \<and>
     (\<forall>v. ap_saved a = Some v \<longrightarrow>
        read_saved (site_storage S) (site_query S) (defaultBaseUrl S) (defaultToken S) (ap_storage a) (ap_href a) =
        restored (defaultBaseUrl S) (defaultToken S) v)"

definition browser_ok :: "'u site \<Rightarrow> bool" where
  "browser_ok S \<longleftrightarrow> date_ok (wd_dates (site_world S)) \<and> site_storage S = Storage_works \<and> query_ok (site_query S)"

lemma saved_cong:
  "ap_storage a' = ap_storage a \<Longrightarrow> ap_href a' = ap_href a \<Longrightarrow> ap_saved a' = ap_saved a \<Longrightarrow> saved_ok S a \<Longrightarrow> saved_ok S a'"
  by (simp add: saved_ok_def)

lemma saved_commit:
  assumes "browser_ok S" and "saved_ok S a"
  shows "saved_ok S (app_commit S ids uid v a)"
proof -
  have s: "site_storage S = Storage_works" "query_ok (site_query S)" using assms(1) by (simp_all add: browser_ok_def)
  have o: "valid_address (site_query S) (ap_href a)"
    "\<And>u. ap_saved a = Some u \<Longrightarrow>
      read_saved Storage_works (site_query S) (defaultBaseUrl S) (defaultToken S) (ap_storage a) (ap_href a) =
      restored (defaultBaseUrl S) (defaultToken S) u"
    using assms(2) s(1) by (simp_all add: saved_ok_def)
  show ?thesis
    using written_restored [OF s(2) o] query_written(1) [OF s(2) o] s(1) by (simp add: saved_ok_def app_commit_def Let_def)
qed

lemma absorb_saved [simp]:
  "ap_storage (absorb S opts uids s a) = ap_storage a" "ap_href (absorb S opts uids s a) = ap_href a"
  "ap_saved (absorb S opts uids s a) = ap_saved a"
  by (simp_all add: absorb_def Let_def)

lemma setting_saved:
  "ap_storage (apply_setting x a) = ap_storage a" "ap_href (apply_setting x a) = ap_href a" "ap_saved (apply_setting x a) = ap_saved a"
  by (cases x; simp)+

lemma app_step_saved:
  assumes "browser_ok S" and "saved_ok S a" and "app_step S a a'"
  shows "saved_ok S a'"
  using assms(3)
proof cases
  case (as_commit ids uid v)
  then show ?thesis using saved_commit [OF assms(1,2)] by simp
next
  case (as_act p uids ids uid action)
  from as_act(6) show ?thesis by (rule act_cases) (auto intro: saved_cong [OF _ _ _ assms(2)])
qed (auto intro!: saved_cong [OF _ _ _ assms(2)] simp: finish_task_def setting_saved reset_connection_def
      resetConnectionSettings_def app_unmount_def)

text \<open>The states of a page that is loaded again.\<close>

lemma app_saved_initial:
  "app_saved (initial_app S now d st href) = read_saved (site_storage S) (site_query S) (defaultBaseUrl S) (defaultToken S) st href"
  by (simp add: app_saved_def initial_app_def initial_ops_def Let_def)

lemma initial_saved: "saved_ok S (initial_app S now d st href) \<longleftrightarrow> valid_address (site_query S) href"
  by (simp add: saved_ok_def initial_app_def Let_def)

lemma reload_start: "demo_clock now \<Longrightarrow> inj ids \<Longrightarrow> app_start S (reload_page S now ids a)"
  unfolding app_start_def reload_page_def by blast

lemma reset_start: "demo_clock now \<Longrightarrow> inj ids \<Longrightarrow> app_start S (reset_saved_settings S now ids a)"
  unfolding reset_saved_settings_def by (rule reload_start)

definition page_inv :: "'u site \<Rightarrow> App \<Rightarrow> bool" where
  "page_inv S a \<longleftrightarrow> browser_ok S \<and> app_inv (wd_dates (site_world S)) a \<and> saved_ok S a"

definition page_start :: "'u site \<Rightarrow> App \<Rightarrow> bool" where
  "page_start S a \<longleftrightarrow> browser_ok S \<and> app_start S a \<and> valid_address (site_query S) (ap_href a)"

lemma start_saved:
  assumes "app_start S a" and "valid_address (site_query S) (ap_href a)"
  shows "saved_ok S a"
proof -
  obtain now d st href where a: "a = initial_app S now d st href" using assms(1) unfolding app_start_def by blast
  then have "ap_href a = href" by (simp add: initial_app_def Let_def)
  with a assms(2) show ?thesis by (simp add: initial_saved)
qed

lemma page_start_inv: "page_start S a \<Longrightarrow> page_inv S a"
  using start_saved [of S a] app_start_inv [of S a] by (simp add: page_start_def page_inv_def browser_ok_def)

lemma reload_href:
  "ap_href (reload_page S now ids a) = ap_href a" "ap_href (reset_saved_settings S now ids a) = ap_href a"
  by (simp_all add: reset_saved_settings_def reload_page_def initial_app_def Let_def)

lemma page_step_inv:
  assumes "page_inv S a" and "page_step S a a'"
  shows "page_inv S a'"
  using assms(2)
proof cases
  case ps_app
  then show ?thesis
    using assms(1) app_step_inv [of S a a'] app_step_saved [of S a a'] by (simp add: page_inv_def)
next
  case (ps_reload now ids)
  then show ?thesis using assms(1) reload_start [of now ids S a]
    by (intro page_start_inv) (simp add: page_start_def page_inv_def saved_ok_def reload_href)
next
  case (ps_reset now ids)
  then show ?thesis using assms(1) reset_start [of now ids S a]
    by (intro page_start_inv) (simp add: page_start_def page_inv_def saved_ok_def reload_href)
qed

interpretation page: step_system "page_start S" "page_step S" "page_inv S" for S :: "'u site"
  by unfold_locales (erule page_start_inv, erule (1) page_step_inv)

text \<open>The invariant of the console alone needs nothing of the storage.\<close>

lemma page_step_app_inv:
  assumes "app_inv (wd_dates (site_world S)) a" and "page_step S a a'"
  shows "app_inv (wd_dates (site_world S)) a'"
proof -
  have D: "date_ok (wd_dates (site_world S))" using assms(1) by (simp add: app_inv_def)
  show ?thesis
    using assms(2)
  proof cases
    case ps_app
    then show ?thesis using app_step_inv [OF assms(1)] by simp
  next
    case (ps_reload now ids)
    then show ?thesis using app_start_inv [OF D reload_start] by simp
  next
    case (ps_reset now ids)
    then show ?thesis using app_start_inv [OF D reset_start] by simp
  qed
qed

interpretation session: step_system "\<lambda>a. date_ok (wd_dates (site_world S)) \<and> app_start S a" "page_step S"
    "app_inv (wd_dates (site_world S))" for S :: "'u site"
  by unfold_locales (auto intro: app_start_inv page_step_app_inv)

text \<open>A reload after a commit restores what the commit has rendered; the reset restores the defaults of the settings.\<close>

lemma reload_restores:
  assumes "page_inv S a"
  shows "app_saved (reload_page S now ids (app_commit S ids' uid v a)) = restored (defaultBaseUrl S) (defaultToken S) (app_saved a)"
proof -
  have "saved_ok S (app_commit S ids' uid v a)" using assms saved_commit by (auto simp: page_inv_def)
  moreover have "ap_saved (app_commit S ids' uid v a) = Some (app_saved a)" by (simp add: app_commit_def Let_def)
  ultimately show ?thesis by (simp add: reload_page_def app_saved_initial saved_ok_def)
qed

lemma cleared_setting:
  assumes "key \<in> set reset_keys"
  shows "persistent_init Storage_works (resetSessionState Storage_works st) key d options = d"
  by (simp add: persistent_init_def reset_restores_defaults [OF assms])

text \<open>The reset forgets the settings, whatever they were, and keeps the selections of the address.\<close>

lemma reset_defaults:
  assumes "page_inv S a"
  shows "app_saved (reset_saved_settings S now ids (app_commit S ids' uid v a)) =
    (restored (defaultBaseUrl S) (defaultToken S) (app_saved a))
      \<lparr> ss_environment := ''Demo Sandbox'', ss_baseUrl := defaultBaseUrl S, ss_token := defaultToken S, ss_liveMode := True,
        ss_liveUpdates := True, ss_pollIntervalMs := PP_15000 \<rparr>"
proof -
  let ?a = "app_commit S ids' uid v a"
  have w: "site_storage S = Storage_works" using assms by (simp add: page_inv_def browser_ok_def)
  have "app_saved (reload_page S now ids ?a) = restored (defaultBaseUrl S) (defaultToken S) (app_saved a)"
    using reload_restores [OF assms] .
  then have "readQueryParam (site_query S) (ap_href ?a) ''tab'' ''overview'' = or_str (js_trim (ss_tab (app_saved a))) ''overview''"
    "readQueryParam (site_query S) (ap_href ?a) ''job'' [] = or_str (js_trim (ss_job (app_saved a))) []"
    by (simp_all add: reload_page_def app_saved_initial read_saved_def restored_def)
  then show ?thesis
    by (simp add: reset_saved_settings_def reload_page_def app_saved_initial read_saved_def restored_def w cleared_setting
        reset_keys_def)
qed

end
