(* ===== verification/PageMarkup.thy ===== *)
theory PageMarkup
  imports DrawerMarkup AppSafety
begin

text \<open>
  The page that \<open>src/src/components/OpsConsole.tsx\<close> renders in a state of the console, with the events of its
  controls: actions, edits, settings, and the edits of the drawer. What the operator can do on a page is
  the set \<open>events\<close> of it.
\<close>

section \<open>Events of the page\<close>

datatype DrawerEdit = DE_queue string | DE_payload string | DE_refuse

definition drawer_edit :: "DrawerEdit \<Rightarrow> Drawer \<Rightarrow> Drawer" where
  "drawer_edit e d =
     (case e of
        DE_queue q \<Rightarrow> choose_replay_queue q d
      | DE_payload s \<Rightarrow> edit_payload s d
      | DE_refuse \<Rightarrow> d\<lparr> dr_inlineError := ''Replay payload cannot be empty when editing.'' \<rparr>)"

datatype UiEvent =
    Ui_do Action
  | Ui_edit Edit
  | Ui_set Setting
  | Ui_reset_connection
  | Ui_reconnect
  | Ui_dismiss string
  | Ui_drawer DrawerEdit

definition job_actions :: "UiEvent JobActions" where
  "job_actions = \<lparr> on_select = (\<lambda>j. Ui_edit (E_select_job j)), on_retry = (\<lambda>j. Ui_do (A_retry j)),
     on_cancel = (\<lambda>j. Ui_do (A_cancel j)), on_priority = (\<lambda>j delta. Ui_do (A_priority j delta)) \<rparr>"

definition dead_letter_actions :: "UiEvent DeadLetterActions" where
  "dead_letter_actions = \<lparr> on_filters = (\<lambda>p. Ui_set (Set_deadLetterFilters p)), on_replay_queue = (\<lambda>q. Ui_edit (E_bulk_queue q)),
     on_replay_payload = (\<lambda>s. Ui_edit (E_bulk_payload s)), on_replay = Ui_do A_bulk_replay, on_delete = Ui_do A_bulk_delete,
     on_toggle = (\<lambda>j. Ui_edit (E_dead_letter j)), on_open = (\<lambda>j. Ui_edit (E_select_job j)) \<rparr>"

definition drawer_actions :: "UiEvent DrawerActions" where
  "drawer_actions = \<lparr> dw_close = Ui_edit E_close_drawer, dw_retry = (\<lambda>j. Ui_do (A_retry j)), dw_cancel = (\<lambda>j. Ui_do (A_cancel j)),
     dw_replay = (\<lambda>j queue payloadText edited. Ui_do (A_replay j queue payloadText edited)),
     dw_priority = (\<lambda>j delta. Ui_do (A_priority j delta)), dw_queue = (\<lambda>q. Ui_drawer (DE_queue q)),
     dw_payload = (\<lambda>s. Ui_drawer (DE_payload s)), dw_refuse = Ui_drawer DE_refuse \<rparr>"

section \<open>The shell\<close>

definition priorityControlDetail :: string where
  "priorityControlDetail = ''Priority changes are demo-only because the live API does not expose a priority mutation endpoint.''"

definition queueControlDetail :: string where
  "queueControlDetail = ''Queue pause, resume, and drain are demo-only until the API exposes queue administration endpoints.''"

definition workerControlDetail :: string where
  "workerControlDetail = ''Worker cordon is demo-only until the backend exposes maintenance controls.''"

text \<open>An option of the polling \<open>select\<close> carries its preset as the text of a number, as the DOM does.\<close>

definition polling_choice :: "PollingPreset \<Rightarrow> UiEvent html" where
  "polling_choice preset =
     Choice (number_to_string (preset_ms preset)) (map (\<lambda>(label, ms). (number_to_string ms, label)) polling_options)
       (\<lambda>v. Ui_set (Set_polling (nullish (preset_of (js_Number (Str v))) preset)))"

definition topbar_settings :: "App \<Rightarrow> UiEvent html" where
  "topbar_settings a =
     hDiv ''topbar-actions''
       [hLabel ''Environment'' [Choice (ap_environment a) (same_options environment_options) (\<lambda>v. Ui_set (Set_environment v))],
        hLabel ''Polling'' [polling_choice (ap_pollIntervalMs a)],
        El ''label'' ''toggle-row''
          [Check (cn_liveMode (ap_connection a)) (\<lambda>b. Ui_set (Set_liveMode b)), hSpan [] ''Live mode''],
        El ''label'' ''toggle-row''
          [Check (cn_liveUpdates (ap_connection a)) (\<lambda>b. Ui_set (Set_liveUpdates b)), hSpan [] ''Live stream'']]"

definition topbar :: "ui \<Rightarrow> LiveMeta \<Rightarrow> ConsoleData \<Rightarrow> App \<Rightarrow> UiEvent html" where
  "topbar E m d a =
     hHeader ''topbar surface''
       [hDiv ''topbar-main''
          [hDiv ''topbar-brand''
             [hDiv ''topbar-meta''
                [hSpan ''eyebrow'' ''Distributed Job Platform'',
                 hDiv ''status-inline'' (map (\<lambda>(value, pulse). StatusPill pulse value) (topbar_pills m (leaderHealthy d)))],
              hStrong ''Ops Console'',
              hSmall ''Calm operational visibility for queues, workers, retries, and recovery.''],
           topbar_settings a],
        hDiv ''command-row''
          [El ''label'' ''command-bar''
             [hSpan [] ''Search'', Entry ''text'' (ap_searchQuery a) (\<lambda>v. Ui_set (Set_search v)),
              hSmall ''Search narrows the current view and the event stream.''],
           hDiv ''command-actions''
             [hButton ''ghost'' False (Ui_set Toggle_connection) (connection_button a),
              hButton [] False (Ui_do A_refresh) ''Refresh snapshot'']],
        hDiv ''command-strip''
          (map (status_article ''command-strip-item'') (commandStatusItems (ui_dates E) (ui_now E) m d))]"

text \<open>The class of the token field stands on an element around it.\<close>

definition connection_panel :: "App \<Rightarrow> UiEvent html list" where
  "connection_panel a =
     (case settings_panel a of
        None \<Rightarrow> []
      | Some (baseUrl, token, tokenClass, tokenButton) \<Rightarrow>
          [hSection ''settings-panel surface''
             [SectionHeader [] ''Connection'' ''Base URL and token settings for local, staging, or production clusters.'' [],
              hDiv ''field-grid field-grid-wide''
                [hLabel ''API base URL'' [Entry ''url'' baseUrl (\<lambda>v. Ui_set (Set_baseUrl v))],
                 hLabel ''Admin token''
                   [hDiv ''token-field''
                      [El ''span'' tokenClass [Entry ''text'' token (\<lambda>v. Ui_set (Set_token v))],
                       hButton ''ghost'' False (Ui_set Toggle_token) tokenButton]]],
              hDiv ''button-row'' [hButton ''ghost'' False Ui_reset_connection ''Reset Local Defaults'']]])"

definition tab_button :: "App \<Rightarrow> TabKey \<times> string \<Rightarrow> UiEvent html" where
  "tab_button a t =
     (let active = (tab_key_string (fst t) = tab_key (os_selectedTab (ap_ops a)))
      in Press ''button'' (''tab-button '' @ (if active then ''active'' else [])) False (Ui_edit (E_tab (fst t)))
           ((if active then [El ''span'' ''tab-button-highlight'' []] else []) @ [hSpan ''tab-button-label'' (snd t)]))"

definition tab_shell :: "App \<Rightarrow> UiEvent html" where
  "tab_shell a =
     hSection ''tab-shell surface''
       [hDiv ''tab-shell-copy''
          [hPara ''section-eyebrow'' ''Deeper views'', hStrong ''Operational detail'',
           hSmall ''Drill into jobs, queues, workers, schedules, dead letter, workflows, metrics, and events.''],
        El ''nav'' ''tab-bar'' (map (tab_button a) TABS)]"

section \<open>The section of the tab\<close>

definition section_page :: "ui \<Rightarrow> bool \<Rightarrow> JobInspection option \<Rightarrow> bool \<Rightarrow> ConsoleData \<Rightarrow> App \<Rightarrow> UiEvent html list" where
  "section_page E demoMode inspection loading d a =
     (let s = ap_ops a; busyMap = os_busy s; search = ap_searchQuery a; sn = cd_snapshot d;
          shown = visibleEvents (ap_eventFilter a) search d;
          onQueue = (\<lambda>n action. Ui_do (A_queue n action)); onSelect = (\<lambda>j. Ui_edit (E_select_job j))
      in case tabContent loading (tab_key (os_selectedTab s)) of
           View_loading \<Rightarrow> [LoadingSkeleton]
         | View_overview \<Rightarrow>
             OverviewSection E sn (queueViews d) shown (sn_blockedJobs sn) (leaderHealthy d) demoMode
               (control_hint demoMode queueControlDetail) onQueue onSelect
         | View_jobs \<Rightarrow>
             JobsSection E (visibleJobs (ui_dates E) (ap_jobFilters a) search d) (os_jobDraft s) (ap_jobFilters a) (os_jobErrors s)
               (jobsBusy busyMap) demoMode (control_hint demoMode priorityControlDetail) (Ui_do A_submit)
               (\<lambda>field v. Ui_edit (E_job field v)) (\<lambda>p. Ui_set (Set_jobFilters p)) (Ui_do A_seed) job_actions
         | View_queues \<Rightarrow> QueuesSection E (queueViews d) demoMode (control_hint demoMode queueControlDetail) onQueue
         | View_workers \<Rightarrow>
             WorkersSection E (visibleWorkers (ap_workerFilter a) d) (ap_workerFilter a) demoMode
               (control_hint demoMode workerControlDetail) (\<lambda>v. Ui_set (Set_workerFilter v))
               (\<lambda>w cordoned. Ui_do (A_cordon w cordoned)) onSelect
         | View_schedules \<Rightarrow>
             SchedulesSection E (os_scheduleDraft s) (os_scheduleErrors s) (visibleSchedules (ap_scheduleFilter a) d)
               (ap_scheduleFilter a) (is_busy busyMap ''schedule-submit'') (Ui_do A_schedule) (\<lambda>e. Ui_edit (E_schedule e))
               (\<lambda>v. Ui_set (Set_scheduleFilter v)) (\<lambda>x enabled. Ui_do (A_toggle x enabled)) (\<lambda>x. Ui_do (A_trigger x))
         | View_dead_letter \<Rightarrow>
             DeadLetterSection E (visibleDeadLetters (ap_deadLetterFilters a) d) (os_selectedDeadLetters s) (ap_deadLetterFilters a)
               (os_bulkReplayQueue s) (os_bulkReplayPayload s) (deadLetterBusy busyMap) dead_letter_actions
         | View_workflows \<Rightarrow> WorkflowsSection (case inspection of None \<Rightarrow> [] | Some i \<Rightarrow> graph_nodes (insp_graph i))
         | View_metrics \<Rightarrow> MetricsSection E sn (queueViews d)
         | View_events \<Rightarrow> EventsSection E shown (ap_eventFilter a) (\<lambda>v. Ui_set (Set_eventFilter v)))"

section \<open>The page\<close>

text \<open>
  \<open>selectedInspectionMeta\<close> of the hook. The search of the page is that of the last commit, which
  \<open>useDeferredValue\<close> may delay. \<open>None\<close>: the render throws, and the error boundary takes its place.
\<close>

definition selected_meta :: "string \<Rightarrow> Live \<Rightarrow> InspectionMeta" where
  "selected_meta selectedJobId live =
     (let none = \<lparr> im_busy = False, im_error = [], im_lastUpdatedAt = [] \<rparr>
      in if selectedJobId = [] then none else nullish (obj_get (lv_inspectionMeta live) selectedJobId) none)"

definition console_page :: "'u site \<Rightarrow> locale_api \<Rightarrow> bool \<Rightarrow> Drawer \<Rightarrow> JobInspection option \<Rightarrow> App \<Rightarrow> UiEvent html" where
  "console_page S L isVisible dr inspection a =
     (let live = hk_live (ap_hook a); d = app_data a; opts = app_options S a; s = ap_ops a;
          E = \<lparr> ui_dates = wd_dates (site_world S), ui_locale = L, ui_now = hk_now (ap_hook a) \<rparr>;
          m = live_meta opts isVisible (ap_degradedSince a) live; demoMode = (\<not> cn_liveMode (ap_connection a));
          meta = selected_meta (os_selectedJobId s) live;
          shown = visibleEvents (ap_eventFilter a) (ap_searchQuery a) d
      in El ''main'' ''app-shell''
        ([hDiv ''ambient ambient-left'' [], hDiv ''ambient ambient-right'' [], topbar E m d a] @ connection_panel a @
         [OperationsHero E (cd_snapshot d) (queueViews d) (workerViews d) shown m (leaderHealthy d)
            (liveStatusDetail (cn_liveMode (ap_connection a)) (cn_liveUpdates (ap_connection a)) m) (lv_globalError live)
            Ui_reconnect (Ui_do A_refresh),
          tab_shell a,
          hSection ''workspace''
            [hDiv ''content-column'' [hDiv ''tab-panel'' (section_page E demoMode inspection (lv_loading live) d a)],
             El ''aside'' ''rail-column'' (SideRail (cd_snapshot d) (map_option insp_job inspection) (Ui_edit E_jobs_tab))]] @
         JobDrawer E inspection dr (drawer_busy (os_busy s) inspection) (im_busy meta) (im_error meta) (im_lastUpdatedAt meta)
           demoMode (control_hint demoMode priorityControlDetail) drawer_actions @
         [ToastViewport (tq_toasts (ap_toasts a)) (\<lambda>i. Ui_dismiss i)]))"

definition render_console :: "'u site \<Rightarrow> locale_api \<Rightarrow> bool \<Rightarrow> Drawer \<Rightarrow> App \<Rightarrow> UiEvent html option" where
  "render_console S L isVisible dr a =
     map_option (\<lambda>inspection. console_page S L isVisible dr inspection a)
       (selectedInspection (wd_dates (site_world S)) (os_selectedJobId (ap_ops a)) (app_data a)
         (lv_inspectionCache (hk_live (ap_hook a))))"

section \<open>What each part offers\<close>

lemma polling_choice_events: "events (polling_choice preset) \<subseteq> range (\<lambda>p. Ui_set (Set_polling p))"
  by (auto simp: polling_choice_def)

lemma topbar_settings_events: "events (topbar_settings a) \<subseteq> range Ui_set"
  using polling_choice_events [of "ap_pollIntervalMs a"] by (auto simp: topbar_settings_def)

lemma topbar_events: "events (topbar E m d a) \<subseteq> insert (Ui_do A_refresh) (range Ui_set)"
proof -
  have "events (status_article k item :: UiEvent html) = {}" for k item by (rule hero_inert)
  then show ?thesis
    using topbar_settings_events [of a] by (auto simp: topbar_def primitives_inert)
qed

lemma connection_panel_events: "all_events (connection_panel a) \<subseteq> insert Ui_reset_connection (range Ui_set)"
  by (auto simp: connection_panel_def primitives_inert split: option.split)

lemma tab_shell_events: "events (tab_shell a) = (\<lambda>t. Ui_edit (E_tab (fst t))) ` set TABS"
proof -
  have "events (tab_button a t) = {Ui_edit (E_tab (fst t))}" for t by (simp add: tab_button_def Let_def)
  then show ?thesis by (auto simp: tab_shell_def)
qed

section \<open>What the operator can start\<close>

text \<open>
  The specification of the controls of a page, without its elements: on which tab an action can be started,
  for which of the shown items, and that its busy flag holds it back.
\<close>

definition page_view :: "App \<Rightarrow> SectionView" where
  "page_view a = tabContent (lv_loading (hk_live (ap_hook a))) (tab_key (os_selectedTab (ap_ops a)))"

definition not_busy :: "App \<Rightarrow> string \<Rightarrow> bool" where
  "not_busy a key \<longleftrightarrow> \<not> is_busy (os_busy (ap_ops a)) key"

definition demo_page :: "App \<Rightarrow> bool" where
  "demo_page a \<longleftrightarrow> \<not> cn_liveMode (ap_connection a)"

definition inspects :: "JobInspection option \<Rightarrow> string \<Rightarrow> bool" where
  "inspects i j \<longleftrightarrow> map_option (\<lambda>x. job_id (insp_job x)) i = Some j"

definition lists_job :: "date_api \<Rightarrow> App \<Rightarrow> string \<Rightarrow> bool" where
  "lists_job D a j \<longleftrightarrow> page_view a = View_jobs \<and>
     j \<in> job_id ` set (visibleJobs D (ap_jobFilters a) (ap_searchQuery a) (app_data a))"

fun offers :: "date_api \<Rightarrow> JobInspection option \<Rightarrow> Drawer \<Rightarrow> App \<Rightarrow> Action \<Rightarrow> bool" where
  "offers D i dr a A_submit = (page_view a = View_jobs \<and> not_busy a ''submit-job'')"
| "offers D i dr a A_seed = (page_view a = View_jobs \<and> not_busy a ''seed-workflow'')"
| "offers D i dr a A_schedule = (page_view a = View_schedules \<and> not_busy a ''schedule-submit'')"
| "offers D i dr a A_bulk_replay = (page_view a = View_dead_letter \<and> not_busy a ''bulk-replay'')"
| "offers D i dr a A_bulk_delete = (page_view a = View_dead_letter \<and> not_busy a ''bulk-delete'')"
| "offers D i dr a (A_retry j) =
     (lists_job D a j \<and> not_busy a (''job-retry-'' @ j) \<or> inspects i j \<and> not_busy a (''job-replay-'' @ j))"
| "offers D i dr a (A_cancel j) =
     (lists_job D a j \<and> not_busy a (''job-cancel-'' @ j) \<or> inspects i j \<and> not_busy a (''job-replay-'' @ j))"
| "offers D i dr a (A_priority j delta) =
     (demo_page a \<and> (lists_job D a j \<and> delta = 1 \<or> inspects i j \<and> not_busy a (''job-replay-'' @ j) \<and> delta \<in> {1, - 1}))"
| "offers D i dr a (A_replay j queue payloadText edited) =
     (inspects i j \<and> not_busy a (''job-replay-'' @ j) \<and> queue = dr_replayQueue dr \<and>
      payloadText = dr_payloadText dr \<and> (edited \<longrightarrow> safeTrimStr payloadText \<noteq> []))"
| "offers D i dr a (A_queue n action) = (demo_page a \<and> page_view a \<in> {View_overview, View_queues} \<and> n \<in> set QUEUES)"
| "offers D i dr a (A_cordon w cordoned) =
     (demo_page a \<and> page_view a = View_workers \<and> w \<in> wl_workerId ` set (visibleWorkers (ap_workerFilter a) (app_data a)))"
| "offers D i dr a (A_toggle x enabled) =
     (page_view a = View_schedules \<and> x \<in> set (visibleSchedules (ap_scheduleFilter a) (app_data a)) \<and> enabled = (\<not> sched_enabled x))"
| "offers D i dr a (A_trigger x) =
     (page_view a = View_schedules \<and> x \<in> set (visibleSchedules (ap_scheduleFilter a) (app_data a)))"
| "offers D i dr a A_refresh = True"

lemma view_names: "qv_queueName ` set (queueViews d) = set QUEUES"
  by (metis list.set_map queue_names)

lemma queue_actions:
  "Ui_do action \<in> queue_events enabled (\<lambda>n act. Ui_do (A_queue n act)) names \<longleftrightarrow>
   enabled \<and> (\<exists>n \<in> names. \<exists>act. action = A_queue n act)"
  by (auto simp: queue_events_def)

lemma job_row_actions:
  "Ui_do action \<in> events (job_table_row E (jobsBusy busyMap) enabled job_actions j) \<longleftrightarrow>
    action = A_retry (job_id j) \<and> \<not> is_busy busyMap (''job-retry-'' @ job_id j) \<or>
    action = A_cancel (job_id j) \<and> \<not> is_busy busyMap (''job-cancel-'' @ job_id j) \<or>
    action = A_priority (job_id j) 1 \<and> enabled"
  by (auto simp: job_row_events job_actions_def jobsBusy_def)

lemma jobs_actions:
  "Ui_do action \<in> all_events (JobsSection E shown draft f errors (jobsBusy busyMap) demo hint (Ui_do A_submit)
      (\<lambda>field v. Ui_edit (E_job field v)) (\<lambda>p. Ui_set (Set_jobFilters p)) (Ui_do A_seed) job_actions) \<longleftrightarrow>
   action = A_submit \<and> \<not> is_busy busyMap ''submit-job'' \<or> action = A_seed \<and> \<not> is_busy busyMap ''seed-workflow'' \<or>
   (\<exists>j \<in> set shown. Ui_do action \<in> events (job_table_row E (jobsBusy busyMap) demo job_actions j))"
proof -
  have "Ui_do action \<notin> all_events (job_form_fields draft errors (\<lambda>field v. Ui_edit (E_job field v)))"
    using job_fields_events [of draft errors "\<lambda>field v. Ui_edit (E_job field v)"] by auto
  moreover have "Ui_do action \<notin> events (job_toolbar f (\<lambda>p. Ui_set (Set_jobFilters p)))"
    using job_toolbar_events [of f "\<lambda>p. Ui_set (Set_jobFilters p)"] by auto
  ultimately show ?thesis
    by (auto simp: JobsSection_def job_form_events job_list_def primitives_inert jobsBusy_def split: if_splits)
qed

lemma worker_card_actions:
  "Ui_do action \<in> events (worker_card E demo (\<lambda>w cordoned. Ui_do (A_cordon w cordoned)) (\<lambda>j. Ui_edit (E_select_job j)) w) \<longleftrightarrow>
   demo \<and> (\<exists>b. action = A_cordon (wl_workerId w) b)"
  by (cases "wl_oldestLeaseJobId w") (auto simp: worker_card_events split: if_splits)

lemma workers_actions:
  "Ui_do action \<in> all_events (WorkersSection E shown f demo hint (\<lambda>v. Ui_set (Set_workerFilter v))
      (\<lambda>w cordoned. Ui_do (A_cordon w cordoned)) (\<lambda>j. Ui_edit (E_select_job j))) \<longleftrightarrow>
   demo \<and> (\<exists>w \<in> set shown. \<exists>b. action = A_cordon (wl_workerId w) b)"
  by (auto simp: workers_events worker_card_actions)

lemma schedules_actions:
  "Ui_do action \<in> all_events (SchedulesSection E draft errors shown f busy (Ui_do A_schedule) (\<lambda>e. Ui_edit (E_schedule e))
      (\<lambda>v. Ui_set (Set_scheduleFilter v)) (\<lambda>x enabled. Ui_do (A_toggle x enabled)) (\<lambda>x. Ui_do (A_trigger x))) \<longleftrightarrow>
   action = A_schedule \<and> \<not> busy \<or> (\<exists>x \<in> set shown. action = A_toggle x (\<not> sched_enabled x) \<or> action = A_trigger x)"
  using schedule_fields_events [of draft errors "\<lambda>e. Ui_edit (E_schedule e)"]
  by (auto simp: schedules_events split: if_splits)

lemma dead_letters_actions:
  "Ui_do action \<in> all_events (DeadLetterSection E shown selected f q p (deadLetterBusy busyMap) dead_letter_actions) \<longleftrightarrow>
   action = A_bulk_replay \<and> \<not> is_busy busyMap ''bulk-replay'' \<or> action = A_bulk_delete \<and> \<not> is_busy busyMap ''bulk-delete''"
  using dead_letter_toolbar_events [of shown f q "on_filters dead_letter_actions" "on_replay_queue dead_letter_actions"]
  by (auto simp: dead_letters_events dead_letter_actions_def deadLetterBusy_def split: if_splits)

lemma section_actions:
  "Ui_do action \<in> all_events (section_page E (demo_page a) i (lv_loading (hk_live (ap_hook a))) (app_data a) a) \<longleftrightarrow>
   action \<noteq> A_refresh \<and> offers (ui_dates E) None dr a action"
proof -
  have view: "tabContent (lv_loading (hk_live (ap_hook a))) (tab_key (os_selectedTab (ap_ops a))) = page_view a"
    by (simp add: page_view_def)
  note parts = section_page_def Let_def view primitives_inert overview_events queues_events events_section_events metrics_inert
    workflows_inert queue_actions view_names jobs_actions job_row_actions workers_actions schedules_actions dead_letters_actions
    lists_job_def inspects_def not_busy_def
  show ?thesis
    by (cases "page_view a"; cases action) (auto simp: parts)
qed

text \<open>The buttons of the drawer, for the job that it inspects.\<close>

definition drawer_offers :: "JobInspection option \<Rightarrow> Drawer \<Rightarrow> App \<Rightarrow> Action \<Rightarrow> bool" where
  "drawer_offers i dr a action \<longleftrightarrow>
   (\<exists>j. inspects i j \<and> not_busy a (''job-replay-'' @ j) \<and>
     (action \<in> {A_retry j, A_cancel j} \<or> (demo_page a \<and> action \<in> {A_priority j 1, A_priority j (- 1)}) \<or>
      action = A_replay j (dr_replayQueue dr) (dr_payloadText dr) False \<or>
      (action = A_replay j (dr_replayQueue dr) (dr_payloadText dr) True \<and> safeTrimStr (dr_payloadText dr) \<noteq> [])))"

lemma drawer_part_actions:
  "Ui_do action \<in> all_events (JobDrawer E i dr (drawer_busy (os_busy (ap_ops a)) i) updating err updatedAt (demo_page a) hint
       drawer_actions) \<longleftrightarrow>
   drawer_offers i dr a action"
  by (cases i) (auto simp: drawer_events drawer_buttons_events drawer_replay_events drawer_actions_def drawer_busy_def
      inspects_def not_busy_def drawer_offers_def)

lemma offers_drawer:
  "offers D i dr a action \<longleftrightarrow> offers D None dr a action \<or>
   drawer_offers i dr a action"
  by (cases action) (auto simp: inspects_def drawer_offers_def)

lemma page_parts:
  "Ui_do action \<in> events (console_page S L vis dr i a) \<longleftrightarrow> action = A_refresh \<or>
   Ui_do action \<in> all_events (section_page \<lparr> ui_dates = wd_dates (site_world S), ui_locale = L, ui_now = hk_now (ap_hook a) \<rparr>
     (demo_page a) i (lv_loading (hk_live (ap_hook a))) (app_data a) a) \<or>
   drawer_offers i dr a action"
proof -
  have out: "Ui_do action \<notin> all_events (connection_panel a)" "Ui_do action \<notin> events (tab_shell a)"
    using connection_panel_events [of a] tab_shell_events [of a] by auto
  have bar: "Ui_do action \<in> events (topbar E m d a) \<Longrightarrow> action = A_refresh" for E m d
    using topbar_events [of E m d a] by auto
  show ?thesis
    using out
    by (auto simp: console_page_def Let_def hero_console_events side_rail_events toast_viewport_events
      drawer_part_actions demo_page_def [symmetric] dest: bar split: if_splits)
qed

lemma page_actions:
  "Ui_do action \<in> events (console_page S L vis dr i a) \<longleftrightarrow> offers (wd_dates (site_world S)) i dr a action"
  unfolding page_parts offers_drawer [of _ i] by (auto simp: section_actions [where dr = dr])

text \<open>Every tab can be opened, and every toast that is shown can be dismissed, from every page.\<close>

lemma page_opens_tabs: "t \<in> fst ` set TABS \<Longrightarrow> Ui_edit (E_tab t) \<in> events (console_page S L vis dr i a)"
  by (auto simp: console_page_def Let_def tab_shell_events)

lemma section_dismisses: "Ui_dismiss t \<notin> all_events (section_page E demo i loading d a)"
proof -
  have jobs: "Ui_dismiss t \<notin> all_events (job_form_fields draft errors (\<lambda>field v. Ui_edit (E_job field v)))"
    "Ui_dismiss t \<notin> events (job_toolbar f (\<lambda>p. Ui_set (Set_jobFilters p)))" for draft errors f
    using job_fields_events [of draft errors "\<lambda>field v. Ui_edit (E_job field v)"]
      job_toolbar_events [of f "\<lambda>p. Ui_set (Set_jobFilters p)"] by auto
  have schedules: "Ui_dismiss t \<notin> all_events (schedule_form_fields draft errors (\<lambda>e. Ui_edit (E_schedule e)))" for draft errors
    using schedule_fields_events [of draft errors "\<lambda>e. Ui_edit (E_schedule e)"] by auto
  have letters: "Ui_dismiss t \<notin> events (dead_letter_toolbar shown f q (\<lambda>p. Ui_set (Set_deadLetterFilters p)) (\<lambda>q. Ui_edit (E_bulk_queue q)))"
    for shown f q
    using dead_letter_toolbar_events [of shown f q "\<lambda>p. Ui_set (Set_deadLetterFilters p)" "\<lambda>q. Ui_edit (E_bulk_queue q)"] by auto
  have workers: "Ui_dismiss t \<notin> events (worker_card E demo (\<lambda>w cordoned. Ui_do (A_cordon w cordoned)) (\<lambda>j. Ui_edit (E_select_job j)) w)"
    for w by (cases "wl_oldestLeaseJobId w") (auto simp: worker_card_events)
  show ?thesis
    by (cases "tabContent loading (tab_key (os_selectedTab (ap_ops a)))")
      (auto simp: section_page_def Let_def primitives_inert overview_events queues_events events_section_events metrics_inert
        workflows_inert queue_events_def JobsSection_def job_form_events job_list_def job_row_events job_actions_def jobs
        workers_events workers schedules_events schedules dead_letters_events letters dead_letter_actions_def split: if_splits)
qed

lemma page_dismisses:
  "Ui_dismiss t \<in> events (console_page S L vis dr i a) \<longleftrightarrow> t \<in> toast_id ` set (tq_toasts (ap_toasts a))"
proof -
  have out: "Ui_dismiss t \<notin> all_events (connection_panel a)" "Ui_dismiss t \<notin> events (topbar E m d a)" for E m d
    using connection_panel_events [of a] topbar_events [of E m d a] by auto
  have drawer: "Ui_dismiss t \<notin> all_events (JobDrawer E i dr busy updating err at' demo hint drawer_actions)"
    for E dr busy updating err at' demo hint
    by (cases i) (auto simp: drawer_events drawer_buttons_events drawer_replay_events drawer_actions_def)
  show ?thesis
    by (auto simp: console_page_def Let_def hero_console_events side_rail_events toast_viewport_events tab_shell_events out drawer
      section_dismisses split: if_splits)
qed

end
