(* ===== verification/Operator.thy ===== *)
theory Operator
  imports PageMarkup
begin

text \<open>
  The console with its operator: a system whose steps are the events of the page that is rendered, the
  commits with the effect of the drawer, and what happens without the operator. The actions start only where
  the page offers them, and so the buttons that wait for their own request start it once.
\<close>

section \<open>The busy flag of an action\<close>

fun action_key :: "Action \<Rightarrow> string option" where
  "action_key A_submit = Some ''submit-job''"
| "action_key (A_retry j) = Some (''job-retry-'' @ j)"
| "action_key (A_cancel j) = Some (''job-cancel-'' @ j)"
| "action_key (A_replay j queue payloadText edited) = Some (''job-replay-'' @ j)"
| "action_key A_bulk_replay = Some ''bulk-replay''"
| "action_key A_bulk_delete = Some ''bulk-delete''"
| "action_key A_schedule = Some ''schedule-submit''"
| "action_key (A_toggle x enabled) = Some (''schedule-'' @ sched_id x)"
| "action_key (A_trigger x) = Some (''schedule-trigger-'' @ sched_id x)"
| "action_key A_seed = Some ''seed-workflow''"
| "action_key action = None"

lemma captured_key: "captured msg action s = Some t \<Longrightarrow> action_key action = Some (task_key t)"
  by (cases action) auto

text \<open>A handler changes no flag but its own, and sets that one when it waits.\<close>

definition flags :: "string option \<Rightarrow> OpsState \<Rightarrow> OpsState \<Rightarrow> bool" where
  "flags k s s' \<longleftrightarrow> (\<forall>x. Some x \<noteq> k \<longrightarrow> obj_get (os_busy s') x = obj_get (os_busy s) x) \<and>
     (length (os_sent s) < length (os_sent s') \<longrightarrow> (\<exists>x. k = Some x \<and> is_busy (os_busy s') x))"

lemma flags_same: "os_busy s' = os_busy s \<Longrightarrow> os_sent s' = os_sent s \<Longrightarrow> flags k s s'"
  by (simp add: flags_def)

lemma flags_send: "flags (Some key) s (send key route body s)"
  by (simp add: flags_def send_def setBusy_def Let_def obj_get_set is_busy_def)

lemma flags_run:
  assumes "\<And>s. os_busy (task s) = os_busy s" and "\<And>s. os_sent (task s) = os_sent s"
  shows "flags (Some key) s (runBusy key task s)"
  using assms by (simp add: flags_def runBusy_def setBusy_def obj_get_set obj_get_delete)

lemma quiet_fields [simp]:
  "os_busy (update_data f s) = os_busy s" "os_sent (update_data f s) = os_sent s"
  "os_busy (refresh_quietly s) = os_busy s" "os_sent (refresh_quietly s) = os_sent s"
  "os_busy (notifyUnsupportedLiveControl t d s) = os_busy s" "os_sent (notifyUnsupportedLiveControl t d s) = os_sent s"
  by (simp_all add: update_data_def refresh_quietly_def notifyUnsupportedLiveControl_def)

lemma flags_quiet [simp]:
  "flags k s s" "flags k s (notify t s) " "flags k s (notifyUnsupportedLiveControl title description s)"
  "flags k s (notify t (s\<lparr> os_jobErrors := e \<rparr>))" "flags k s (notify t (s\<lparr> os_scheduleErrors := e \<rparr>))"
  "flags k s (update_data f s)" "flags k s (notify t (update_data f s))" "flags k s (refreshSnapshot s)"
  by (simp_all add: flags_def refreshSnapshot_def)

lemma submit_local_quiet: "submit_local D now uid v s = Some s' \<Longrightarrow> os_busy s' = os_busy s \<and> os_sent s' = os_sent s"
  by (auto simp: submit_local_def Let_def split: option.splits)

lemma submit_flags:
  assumes "submitJob D now msg live uid s = Some s'"
  shows "flags (Some ''submit-job'') s s'"
proof -
  have "flags (Some ''submit-job'') s (setBusy ''submit-job'' False t)"
    if "submit_local D now uid v (setBusy ''submit-job'' True s) = Some t" for v t
    using submit_local_quiet [OF that] by (simp add: flags_def setBusy_def obj_get_set obj_get_delete)
  then show ?thesis using assms by (auto simp: submitJob_def Let_def flags_send split: if_splits)
qed

lemma trigger_flags:
  "triggerSchedule D now live uid x s = Some s' \<Longrightarrow> flags (Some (''schedule-trigger-'' @ sched_id x)) s s'"
  by (auto simp: triggerSchedule_def Let_def intro!: flags_send flags_run split: if_splits option.splits)

lemma replay_flags: "flags (Some (''job-replay-'' @ j)) s (replayJob D now msg live uid j queue payloadText edited s)"
proof -
  note rules = flags_send [of "''job-replay-'' @ j"] flags_run [where key = "''job-replay-'' @ j"]
  show ?thesis
    by (simp add: replayJob_def Let_def rules [simplified] split: option.split)
qed

lemma perform_flags:
  assumes "perform D now msg live uid ids action s = Some s'"
  shows "flags (action_key action) s s'"
proof (cases action)
  case A_submit
  then show ?thesis using assms submit_flags by simp
next
  case (A_trigger x)
  then show ?thesis using assms trigger_flags by simp
next
  case (A_replay j queue payloadText edited)
  then show ?thesis using assms replay_flags [of j] by auto
qed (use assms in \<open>auto simp: retryJob_def cancelJob_def adjustPriority_def replaySelectedDeadLetters_def
      deleteSelectedDeadLetters_def setQueueControl_def toggleWorkerCordon_def submitSchedule_def toggleSchedule_def
      seedWorkflow_def Let_def intro!: flags_send flags_run\<close>)

text \<open>An answer clears the flag of its request, and no other.\<close>

lemma answered_busy: "os_busy (answered D now t ans s) = os_busy s"
  by (cases "(D, now, t, ans, s)" rule: answered.cases)
    (simp_all add: submitJob_done_def retryJob_done_def cancelJob_done_def replayJob_done_def replaySelected_done_def
      deleteSelected_done_def submitSchedule_done_def toggleSchedule_done_def triggerSchedule_done_def seedWorkflow_done_def
      Let_def)

lemma resume_busy: "os_busy (resume D now t outcome s) = obj_delete (os_busy s) (task_key t)"
  by (cases outcome) (simp_all add: resume_def settle_def setBusy_def answered_busy)

section \<open>The screen\<close>

text \<open>The console with the drawer, and the job of the last run of the drawer's effect.\<close>

record Screen =
  sc_app :: App
  sc_drawer :: Drawer
  sc_drawerJob :: "string option"

definition inspected :: "'u site \<Rightarrow> App \<Rightarrow> JobInspection option option" where
  "inspected S a =
     selectedInspection (wd_dates (site_world S)) (os_selectedJobId (ap_ops a)) (app_data a)
       (lv_inspectionCache (hk_live (ap_hook a)))"

definition new_screen :: "App \<Rightarrow> Screen" where
  "new_screen a = \<lparr> sc_app = a, sc_drawer = initial_drawer, sc_drawerJob = None \<rparr>"

definition screen_commit :: "'u site \<Rightarrow> (nat \<Rightarrow> string) \<Rightarrow> string \<Rightarrow> bool \<Rightarrow> JobInspection option \<Rightarrow> Screen \<Rightarrow> Screen" where
  "screen_commit S ids uid isVisible i sc =
     \<lparr> sc_app = app_commit S ids uid isVisible (sc_app sc), sc_drawer = drawer_effect (sc_drawerJob sc) i (sc_drawer sc),
       sc_drawerJob = map_option (\<lambda>x. job_id (insp_job x)) i \<rparr>"

text \<open>
  What can be done on the page that is rendered. Each event of an element is the event of the current state, since
  React renders again after a click or an input before it handles the next one.
\<close>

definition on_page :: "'u site \<Rightarrow> Screen \<Rightarrow> UiEvent \<Rightarrow> bool" where
  "on_page S sc e \<longleftrightarrow>
     (\<exists>L isVisible page. render_console S L isVisible (sc_drawer sc) (sc_app sc) = Some page \<and> e \<in> events page)"

inductive operator_step :: "'u site \<Rightarrow> Screen \<Rightarrow> Screen \<Rightarrow> bool" for S where
  op_press: "on_page S sc (Ui_do action) \<Longrightarrow> hk_mounted (ap_hook (sc_app sc)) \<Longrightarrow> hk_ran (ap_hook (sc_app sc)) = Some p \<Longrightarrow>
    good_clock (hk_now (ap_hook (sc_app sc))) \<Longrightarrow> fresh_toasts uids (ap_toasts (sc_app sc)) \<Longrightarrow>
    new_ids (map ids [1, 2, 3, 4]) (app_data (sc_app sc)) \<Longrightarrow>
    act S (dp_opts p) uids uid ids action (sc_app sc) = Some a \<Longrightarrow> operator_step S sc (sc\<lparr> sc_app := a \<rparr>)"
| op_edit: "on_page S sc (Ui_edit e) \<Longrightarrow>
    operator_step S sc (sc\<lparr> sc_app := (sc_app sc)\<lparr> ap_ops := apply_edit e (ap_ops (sc_app sc)) \<rparr> \<rparr>)"
| op_set: "on_page S sc (Ui_set v) \<Longrightarrow> operator_step S sc (sc\<lparr> sc_app := apply_setting v (sc_app sc) \<rparr>)"
| op_reset_connection: "on_page S sc Ui_reset_connection \<Longrightarrow> fresh_toasts uids (ap_toasts (sc_app sc)) \<Longrightarrow>
    operator_step S sc (sc\<lparr> sc_app := reset_connection S uids (sc_app sc) \<rparr>)"
| op_reconnect: "on_page S sc Ui_reconnect \<Longrightarrow> hk_mounted (ap_hook (sc_app sc)) \<Longrightarrow>
    hk_ran (ap_hook (sc_app sc)) = Some p \<Longrightarrow> operator_step S sc
      (sc\<lparr> sc_app := (sc_app sc)\<lparr> ap_hook := manualReconnect (site_world S) r (dp_opts p) (ap_hook (sc_app sc)) \<rparr> \<rparr>)"
| op_dismiss: "on_page S sc (Ui_dismiss i) \<Longrightarrow>
    operator_step S sc (sc\<lparr> sc_app := (sc_app sc)\<lparr> ap_toasts := dismissToast i (ap_toasts (sc_app sc)) \<rparr> \<rparr>)"
| op_drawer: "on_page S sc (Ui_drawer e) \<Longrightarrow> operator_step S sc (sc\<lparr> sc_drawer := drawer_edit e (sc_drawer sc) \<rparr>)"
| op_commit: "inspected S (sc_app sc) = Some i \<Longrightarrow> hk_mounted (ap_hook (sc_app sc)) \<Longrightarrow>
    demo_clock (hk_now (ap_hook (sc_app sc))) \<Longrightarrow> inj ids \<Longrightarrow> fresh_id uid (ap_toasts (sc_app sc)) \<Longrightarrow>
    operator_step S sc (screen_commit S ids uid isVisible i sc)"
| op_background: "background_step (site_world S) (ap_hook (sc_app sc)) h \<Longrightarrow>
    operator_step S sc (sc\<lparr> sc_app := (sc_app sc)\<lparr> ap_hook := h \<rparr> \<rparr>)"
| op_answer: "hk_mounted (ap_hook (sc_app sc)) \<Longrightarrow> hk_ran (ap_hook (sc_app sc)) = Some p \<Longrightarrow>
    fresh_toasts uids (ap_toasts (sc_app sc)) \<Longrightarrow> map_of (ap_tasks (sc_app sc)) i = Some t \<Longrightarrow>
    may_answer (wd_dates (site_world S)) t outcome \<Longrightarrow>
    operator_step S sc (sc\<lparr> sc_app := finish_task S (dp_opts p) uids i t outcome (sc_app sc) \<rparr>)"
| op_expire: "tq_pending (ap_toasts (sc_app sc)) handle = Some (i, due) \<Longrightarrow>
    operator_step S sc (sc\<lparr> sc_app := (sc_app sc)\<lparr> ap_toasts := toast_timer handle i (ap_toasts (sc_app sc)) \<rparr> \<rparr>)"
| op_unmount: "hk_mounted (ap_hook (sc_app sc)) \<Longrightarrow> operator_step S sc (sc\<lparr> sc_app := app_unmount S (sc_app sc) \<rparr>)"
| op_reload: "demo_clock now \<Longrightarrow> inj ids \<Longrightarrow> operator_step S sc (new_screen (reload_page S now ids (sc_app sc)))"
| op_reset: "demo_clock now \<Longrightarrow> inj ids \<Longrightarrow> operator_step S sc (new_screen (reset_saved_settings S now ids (sc_app sc)))"

inductive_cases operator_cases: "operator_step S sc sc'"

text \<open>Every step of the operator is a step of the page, or of the drawer alone.\<close>

lemma operator_refines:
  assumes "operator_step S sc sc'"
  shows "sc_app sc' = sc_app sc \<or> page_step S (sc_app sc) (sc_app sc')"
  using assms
proof cases
  case (op_reload now ids)
  then show ?thesis by (simp add: new_screen_def ps_reload)
next
  case (op_reset now ids)
  then show ?thesis by (simp add: new_screen_def ps_reset)
next
  case (op_commit i ids uid v)
  then show ?thesis by (auto simp: screen_commit_def intro!: ps_app as_commit)
qed (auto intro!: ps_app intro: app_step.intros)

lemma on_pageI: "inspected S (sc_app sc) = Some i \<Longrightarrow> e \<in> events (console_page S L isVisible (sc_drawer sc) i (sc_app sc)) \<Longrightarrow> on_page S sc e"
  by (auto simp: on_page_def render_console_def inspected_def)

lemma page_offers:
  assumes "on_page S sc (Ui_do action)"
  shows "\<exists>i. inspected S (sc_app sc) = Some i \<and> offers (wd_dates (site_world S)) i (sc_drawer sc) (sc_app sc) action"
  using assms by (auto simp: on_page_def render_console_def inspected_def page_actions)


section \<open>One request at a time\<close>

text \<open>
  The flags of the buttons that their own request disables. The flags of the other buttons (retry and cancel
  in the drawer, toggles and triggers of schedules) hold nothing back on some page.
\<close>

definition single_keys :: "string set" where
  "single_keys = {''submit-job'', ''seed-workflow'', ''bulk-replay'', ''bulk-delete''} \<union> range (\<lambda>j. ''job-replay-'' @ j)"

definition running :: "string \<Rightarrow> App \<Rightarrow> (nat \<times> Task) list" where
  "running k a = filter (\<lambda>x. task_key (snd x) = k) (ap_tasks a)"

definition single_ok :: "App \<Rightarrow> bool" where
  "single_ok a \<longleftrightarrow> (\<forall>k \<in> single_keys. length (running k a) \<le> 1 \<and> (running k a \<noteq> [] \<longrightarrow> is_busy (os_busy (ap_ops a)) k))"

lemma single_cong:
  "ap_tasks a' = ap_tasks a \<Longrightarrow> os_busy (ap_ops a') = os_busy (ap_ops a) \<Longrightarrow> single_ok a' = single_ok a"
  by (simp add: single_ok_def running_def)

lemma offered_free:
  assumes "offers D i dr a action" and "action_key action = Some k" and "k \<in> single_keys"
  shows "not_busy a k"
  using assms by (cases action) (auto simp: single_keys_def)

lemma single_act:
  assumes "single_ok a" and "act S opts uids uid ids action a = Some a'"
    and free: "\<And>k. action_key action = Some k \<Longrightarrow> k \<in> single_keys \<Longrightarrow> not_busy a k"
  shows "single_ok a'"
proof -
  obtain s' where p: "perform (wd_dates (site_world S)) (hk_now (ap_hook a)) (site_parse_error S) (lo_liveMode opts) uid ids action
      (ops_now a) = Some s'"
    using assms(2) by (auto simp: act_def Let_def split: option.splits)
  have f: "flags (action_key action) (ops_now a) s'" using perform_flags [OF p] .
  have busy: "os_busy (ap_ops a') = os_busy s'"
    using assms(2) p by (auto simp: act_def Let_def split: option.splits if_splits)
  have tasks: "ap_tasks a' = ap_tasks a \<or> (\<exists>n t. ap_tasks a' = ap_tasks a @ [(n, t)] \<and>
      action_key action = Some (task_key t) \<and> is_busy (os_busy s') (task_key t))"
    using assms(2) p f captured_key [of "site_parse_error S" action "ops_now a"]
    by (force simp: act_def Let_def flags_def split: option.splits if_splits)
  show ?thesis
    unfolding single_ok_def
  proof
    fix k assume k: "k \<in> single_keys"
    show "length (running k a') \<le> 1 \<and> (running k a' \<noteq> [] \<longrightarrow> is_busy (os_busy (ap_ops a')) k)"
    proof (cases "action_key action = Some k")
      case True
      then have "running k a = []" using free [OF True k] assms(1) k by (auto simp: single_ok_def not_busy_def)
      then show ?thesis using tasks busy True by (auto simp: running_def)
    next
      case False
      then have "obj_get (os_busy s') k = obj_get (os_busy (ap_ops a)) k" using f by (auto simp: flags_def)
      moreover have "running k a' = running k a" using tasks False by (auto simp: running_def)
      ultimately show ?thesis using assms(1) k busy by (simp add: single_ok_def is_busy_def)
    qed
  qed
qed

lemma single_finish:
  assumes "single_ok a" and "map_of (ap_tasks a) i = Some t"
  shows "single_ok (finish_task S opts uids i t outcome a)"
proof -
  let ?a = "finish_task S opts uids i t outcome a"
  have busy: "os_busy (ap_ops ?a) = obj_delete (os_busy (ap_ops a)) (task_key t)"
    by (simp add: finish_task_def resume_busy)
  have run: "running k ?a = filter (\<lambda>x. fst x \<noteq> i) (running k a)" for k
    by (simp add: running_def finish_task_def conj_commute)
  show ?thesis
    unfolding single_ok_def
  proof
    fix k assume k: "k \<in> single_keys"
    have le: "length (running k a) \<le> 1" using assms(1) k by (simp add: single_ok_def)
    show "length (running k ?a) \<le> 1 \<and> (running k ?a \<noteq> [] \<longrightarrow> is_busy (os_busy (ap_ops ?a)) k)"
    proof (cases "task_key t = k")
      case True
      then have "(i, t) \<in> set (running k a)" using map_of_SomeD [OF assms(2)] by (simp add: running_def)
      with le have "running k a = [(i, t)]" by (cases "running k a") auto
      then show ?thesis by (simp add: run)
    next
      case False
      have "length (running k ?a) \<le> 1" using le length_filter_le [of _ "running k a"] by (metis run le_trans)
      moreover have "running k ?a \<noteq> [] \<Longrightarrow> running k a \<noteq> []" by (auto simp: run)
      ultimately show ?thesis using assms(1) k False busy by (auto simp: single_ok_def is_busy_def obj_get_delete)
    qed
  qed
qed

lemma single_initial: "app_start S a \<Longrightarrow> single_ok a"
  by (auto simp: app_start_def single_ok_def running_def initial_app_def Let_def)

lemma single_reload: "single_ok (reload_page S now ids a)"
  by (simp add: single_ok_def running_def reload_page_def initial_app_def Let_def)

lemma operator_single:
  assumes "single_ok (sc_app sc)" and "operator_step S sc sc'"
  shows "single_ok (sc_app sc')"
  using assms(2)
proof cases
  case (op_press action p uids ids uid a)
  obtain i where "offers (wd_dates (site_world S)) i (sc_drawer sc) (sc_app sc) action" using page_offers [OF op_press(2)] by blast
  then show ?thesis using single_act [OF assms(1) op_press(8)] offered_free op_press(1) by fastforce
next
  case (op_answer p uids i t outcome)
  then show ?thesis using single_finish [OF assms(1)] by simp
next
  case (op_commit i ids uid v)
  then show ?thesis
    using assms(1) by (simp add: screen_commit_def app_commit_def Let_def effects_busy single_ok_def running_def)
next
  case (op_reload now ids)
  then show ?thesis by (simp add: new_screen_def single_reload)
next
  case (op_reset now ids)
  then show ?thesis by (simp add: new_screen_def reset_saved_settings_def single_reload)
qed (use assms(1) in \<open>simp_all add: single_ok_def running_def setting_frame reset_frame edit_busy app_unmount_def\<close>)

definition screen_start :: "'u site \<Rightarrow> Screen \<Rightarrow> bool" where
  "screen_start S sc \<longleftrightarrow> (\<exists>a. page_start S a \<and> sc = new_screen a)"

definition screen_inv :: "'u site \<Rightarrow> Screen \<Rightarrow> bool" where
  "screen_inv S sc \<longleftrightarrow> page_inv S (sc_app sc) \<and> single_ok (sc_app sc)"

lemma screen_start_inv: "screen_start S sc \<Longrightarrow> screen_inv S sc"
  using page_start_inv [of S] single_initial [of S]
  by (auto simp: screen_start_def screen_inv_def new_screen_def page_start_def)

lemma screen_step_inv: "screen_inv S sc \<Longrightarrow> operator_step S sc sc' \<Longrightarrow> screen_inv S sc'"
  using operator_refines [of S sc sc'] page_step_inv [of S "sc_app sc" "sc_app sc'"] operator_single [of sc S sc']
  by (auto simp: screen_inv_def)

interpretation operator: step_system "screen_start S" "operator_step S" "screen_inv S" for S :: "'u site"
  by unfold_locales (erule screen_start_inv, erule (1) screen_step_inv)


text \<open>Every toast that is shown has a timer that will remove it.\<close>

lemma shown_has_timer:
  assumes "toast_inv q" and "t \<in> set (tq_toasts q)"
  shows "\<exists>h d. tq_timers q (toast_id t) = Some h \<and> tq_pending q h = Some (toast_id t, d)"
proof -
  have "toast_id t \<in> dom (tq_timers q)" using toast_invD(5,6) [OF assms(1)] assms(2) by blast
  then show ?thesis using timers_inverseD(1) [OF toast_invD(4) [OF assms(1)]] by blast
qed

section \<open>What the operator can reach\<close>

text \<open>
  From every page that is loaded the operator comes to the list of all jobs: clear the search, open the tab of
  the jobs, and clear the filters one by one.
\<close>

definition all_jobs_patches :: "JobFiltersPatch list" where
  "all_jobs_patches = [no_job_patch\<lparr> jp_state := Some ''all'' \<rparr>, no_job_patch\<lparr> jp_queue := Some ''all'' \<rparr>, no_job_patch\<lparr> jp_tenant := Some [] \<rparr>]"

definition open_jobs :: "App \<Rightarrow> App" where
  "open_jobs a = (let b = apply_setting (Set_search []) a in b\<lparr> ap_ops := apply_edit (E_tab Tab_jobs) (ap_ops b) \<rparr>)"

definition on_app :: "App \<Rightarrow> Screen \<Rightarrow> Screen" where
  "on_app a sc = sc\<lparr> sc_app := a \<rparr>"

lemma on_app_fields [simp]: "sc_app (on_app a sc) = a" "sc_drawer (on_app a sc) = sc_drawer sc" "on_app b (on_app a sc) = on_app b sc"
  by (simp_all add: on_app_def)

lemma inspected_frame:
  "inspected S (apply_setting v a) = inspected S a" "inspected S (a\<lparr> ap_ops := apply_edit (E_tab t) (ap_ops a) \<rparr>) = inspected S a"
  by (cases v; simp add: inspected_def app_data_def) (simp add: inspected_def app_data_def)

lemma search_offered: "Ui_set (Set_search v) \<in> events (console_page S L vis dr i a)"
  by (simp add: console_page_def topbar_def Let_def)

lemma filter_offered:
  assumes "page_view a = View_jobs" and "p \<in> set all_jobs_patches"
  shows "Ui_set (Set_jobFilters p) \<in> events (console_page S L vis dr i a)"
proof -
  have bar: "Ui_set (Set_jobFilters p) \<in> events (job_toolbar f (\<lambda>p. Ui_set (Set_jobFilters p)))" for f
    using assms(2) by (auto simp: job_toolbar_def all_jobs_patches_def same_options_def state_options_def)
  have view: "tabContent (lv_loading (hk_live (ap_hook a))) (tab_key (os_selectedTab (ap_ops a))) = View_jobs"
    using assms(1) by (simp add: page_view_def)
  have "Ui_set (Set_jobFilters p) \<in> all_events (section_page E demo i' (lv_loading (hk_live (ap_hook a))) d a)" for E demo i' d
    by (simp add: section_page_def JobsSection_def job_list_def Let_def view bar)
  then show ?thesis by (simp add: console_page_def Let_def)
qed

lemma opens_jobs:
  assumes "inspected S (sc_app sc) = Some i" and "\<not> lv_loading (hk_live (ap_hook (sc_app sc)))"
  shows "(operator_step S)\<^sup>*\<^sup>* sc (on_app (open_jobs (sc_app sc)) sc)" and "page_view (open_jobs (sc_app sc)) = View_jobs"
    and "inspected S (open_jobs (sc_app sc)) = Some i"
proof -
  let ?b = "apply_setting (Set_search []) (sc_app sc)"
  have "on_page S sc (Ui_set (Set_search []))" by (rule on_pageI [OF assms(1) search_offered])
  from op_set [OF this] have 1: "operator_step S sc (on_app ?b sc)" by (simp add: on_app_def)
  have "on_page S (on_app ?b sc) (Ui_edit (E_tab Tab_jobs))"
    by (rule on_pageI [OF _ page_opens_tabs]) (simp_all add: inspected_frame assms(1) TABS_def del: apply_setting.simps)
  from op_edit [OF this] have 2: "operator_step S (on_app ?b sc) (on_app (open_jobs (sc_app sc)) sc)"
    by (simp add: on_app_def open_jobs_def Let_def)
  from 1 2 show "(operator_step S)\<^sup>*\<^sup>* sc (on_app (open_jobs (sc_app sc)) sc)" by simp
  have "tab_key ''jobs'' = ''jobs''" by code_simp
  then show "page_view (open_jobs (sc_app sc)) = View_jobs"
    using assms(2) by (simp add: page_view_def open_jobs_def tabContent_def)
  show "inspected S (open_jobs (sc_app sc)) = Some i"
    using assms(1) by (simp add: open_jobs_def inspected_frame Let_def del: apply_setting.simps apply_edit.simps)
qed

lemma filters_apply:
  assumes "inspected S (sc_app sc) = Some i" and "page_view (sc_app sc) = View_jobs" and "set ps \<subseteq> set all_jobs_patches"
  shows "(operator_step S)\<^sup>*\<^sup>* sc (on_app (foldl (\<lambda>a p. apply_setting (Set_jobFilters p) a) (sc_app sc) ps) sc)"
  using assms
proof (induction ps arbitrary: sc)
  case Nil
  then show ?case by (simp add: on_app_def)
next
  case (Cons p ps)
  let ?a = "apply_setting (Set_jobFilters p) (sc_app sc)"
  have "on_page S sc (Ui_set (Set_jobFilters p))"
    using Cons.prems by (intro on_pageI [OF _ filter_offered]) auto
  from op_set [OF this] have "operator_step S sc (on_app ?a sc)" by (simp add: on_app_def)
  moreover have "page_view ?a = View_jobs" using Cons.prems(2) by (simp add: page_view_def)
  moreover have "inspected S ?a = Some i" using Cons.prems(1) by (simp add: inspected_frame del: apply_setting.simps)
  ultimately show ?case
    using Cons.IH [of "on_app ?a sc"] Cons.prems(3) by (auto intro: converse_rtranclp_into_rtranclp simp del: apply_setting.simps)
qed

definition all_jobs_page :: "App \<Rightarrow> App" where
  "all_jobs_page a = foldl (\<lambda>a p. apply_setting (Set_jobFilters p) a) (open_jobs a) all_jobs_patches"

lemma reaches_jobs:
  assumes "inspected S (sc_app sc) = Some i" and "\<not> lv_loading (hk_live (ap_hook (sc_app sc)))"
  shows "(operator_step S)\<^sup>*\<^sup>* sc (on_app (all_jobs_page (sc_app sc)) sc)" and "inspected S (all_jobs_page (sc_app sc)) = Some i"
    and "lists_job D (all_jobs_page (sc_app sc)) j \<longleftrightarrow> j \<in> job_id ` set (cd_jobs (app_data (sc_app sc)))"
    and "not_busy (all_jobs_page (sc_app sc)) k = not_busy (sc_app sc) k"
proof -
  define a where "a = all_jobs_page (sc_app sc)"
  note a_def = a_def [unfolded all_jobs_page_def]
  note o = opens_jobs [OF assms(1,2)]
  have 1: "(operator_step S)\<^sup>*\<^sup>* sc (on_app a sc)"
    using o(1) filters_apply [of S "on_app (open_jobs (sc_app sc)) sc" i all_jobs_patches] o(2,3)
    by (auto simp: a_def intro: rtranclp_trans)
  have 2: "inspected S a = Some i"
    using o(3) by (simp add: a_def all_jobs_patches_def inspected_frame del: apply_setting.simps)
  have "query_text [] = []" by code_simp
  moreover have "page_view a = View_jobs" using o(2) by (simp add: a_def all_jobs_patches_def page_view_def)
  ultimately have 3: "lists_job D a j \<longleftrightarrow> j \<in> job_id ` set (cd_jobs (app_data (sc_app sc)))"
    by (simp add: lists_job_def visibleJobs_def job_shown_def matches_def a_def all_jobs_patches_def handleJobFiltersChange_def
        no_job_patch_def open_jobs_def app_data_def Let_def)
  have 4: "os_busy (ap_ops a) = os_busy (ap_ops (sc_app sc))"
    by (simp add: a_def all_jobs_patches_def open_jobs_def Let_def)
  note r = 1 2 3 4 [THEN arg_cong, of "\<lambda>busyMap. \<not> is_busy busyMap k"]
  show "(operator_step S)\<^sup>*\<^sup>* sc (on_app (all_jobs_page (sc_app sc)) sc)" "inspected S (all_jobs_page (sc_app sc)) = Some i"
    "lists_job D (all_jobs_page (sc_app sc)) j \<longleftrightarrow> j \<in> job_id ` set (cd_jobs (app_data (sc_app sc)))"
    "not_busy (all_jobs_page (sc_app sc)) k = not_busy (sc_app sc) k"
    using r by (simp_all add: a_def all_jobs_page_def not_busy_def del: apply_setting.simps)
qed

text \<open>
  The buttons of a schedule wait for nothing: a toggle and a trigger are offered while their own request runs.
\<close>

lemma schedule_buttons_not_held:
  assumes "page_view a = View_schedules" and "x \<in> set (visibleSchedules (ap_scheduleFilter a) (app_data a))"
  shows "{Ui_do (A_trigger x), Ui_do (A_toggle x (\<not> sched_enabled x))} \<subseteq> events (console_page S L vis dr i a)"
  using assms by (simp add: page_actions)

text \<open>No control of the schedule form edits the number of attempts, which the draft has and the request sends.\<close>

lemma schedule_attempts_fixed: "SE_maxAttempts v \<notin> all_events (schedule_form_fields d errors (\<lambda>e. e))"
  by (auto simp: schedule_form_fields_def)

end
