(* ===== verification/Samples.thy ===== *)
theory Samples
  imports DemoData Transport RequestClient Operator StateHooks
begin

text \<open>
  Concrete inputs at which the properties of the root theory are applied: a transport manager after
  its first connection attempt, a live console with its first refresh in flight, the demo data, the
  state of the handlers, events, jobs and a simple URL class.
\<close>

definition sample_env :: env where
  "sample_env = \<lparr> env_socketUrl = Some ''ws://h/ws/events'', env_streamUrl = Some ''http://h/sse/events'',
     env_hasEventSource = True, env_dates = decimal_dates \<rparr>"

definition sample_reads :: reads where
  "sample_reads = \<lparr> rd_now = 0, rd_random = 0, rd_socketThrows = False \<rparr>"

definition sample_manager :: Manager where
  "sample_manager = fire_timer sample_env sample_reads 0 (Retry_task RM_websocket 0 []) (start new_manager)"

definition sample_options :: LiveOptions where
  "sample_options = \<lparr> lo_resolvedBaseUrl = Some ''http://h'', lo_resolvedRealtimeBaseUrl = Some ''http://h'', lo_token = [],
     lo_liveMode = True, lo_liveUpdates = True, lo_pollIntervalMs = 15000, lo_selectedJobId = [] \<rparr>"

definition sample_live :: Live where
  "sample_live = refreshConsole decimal_dates 0 sample_options True False (initial_live (createEmptyConsoleData Source_live))"

definition sample_ids :: "nat \<Rightarrow> string" where
  "sample_ids n = replicate n (CHR ''a'')"

definition sample_demo :: ConsoleData where
  "sample_demo = createDemoConsoleData decimal_dates 0 sample_ids"

definition sample_ops :: OpsState where
  "sample_ops = \<lparr> os_data = createEmptyConsoleData Source_demo, os_selectedJobId = [], os_selectedTab = ''jobs'',
     os_jobDraft = defaultJobDraft, os_jobErrors = [], os_scheduleDraft = defaultScheduleDraft, os_scheduleErrors = [],
     os_selectedDeadLetters = [], os_bulkReplayQueue = ''default'', os_bulkReplayPayload = [], os_busy = [],
     os_toasts = [], os_sent = [], os_refreshes = [] \<rparr>"

definition sample_network_error :: RequestError where
  "sample_network_error = mk_error ''Network request failed before a response was received.'' K_network None None"

definition sample_event :: "nat \<Rightarrow> SystemEvent" where
  "sample_event n = \<lparr> ev_kind = ''job.completed'', ev_jobId = Some (sample_ids n), ev_queue = None, ev_workerId = None,
     ev_state = None, ev_message = None, ev_timestamp = ''5'' \<rparr>"

definition sample_jobs :: ConsoleData where
  "sample_jobs = (createEmptyConsoleData Source_demo)
     \<lparr> cd_jobs := [seeded_job decimal_dates 0 ''x'' ''w'', seeded_job decimal_dates 7 ''y'' ''w''] \<rparr>"

definition sample_inspection :: JobInspection where
  "sample_inspection = \<lparr> insp_job = seeded_job decimal_dates 0 ''x'' ''w'', insp_attempts = [], insp_events = [],
     insp_graph = \<lparr> graph_rootJobId = ''x'', graph_nodes = [] \<rparr>, insp_idempotency = None, insp_deadLetter = None \<rparr>"

text \<open>A URL class whose URLs are their texts; it is enough to send a request.\<close>

definition sample_urls :: "string url_api" where
  "sample_urls = \<lparr> url_new = (\<lambda>s. if s = [] then None else Some s), url_protocol = (\<lambda>u. ''http:''),
     url_set_protocol = (\<lambda>u p. u), url_pathname = (\<lambda>u. ''/''), url_set_pathname = (\<lambda>u p. u @ p),
     url_set_search = (\<lambda>u s. u), url_set_hash = (\<lambda>u s. u), url_search_set = (\<lambda>u k v. u), url_href = (\<lambda>u. u) \<rparr>"

definition sample_world :: "string world" where
  "sample_world = \<lparr> wd_urls = sample_urls, wd_hasEventSource = True, wd_dates = decimal_dates,
     wd_event = (\<lambda>_. sample_event 0) \<rparr>"

text \<open>The hook after its first commit.\<close>

definition sample_hook :: "bool \<Rightarrow> Hook" where
  "sample_hook liveMode = commit sample_world (createEmptyConsoleData Source_demo) (sample_options\<lparr> lo_liveMode := liveMode \<rparr>) True
     (initial_hook 0 (createEmptyConsoleData Source_demo) liveMode)"

text \<open>
  The console after its first commit, and after a click on Retry; its mode is what the storage holds.
\<close>

definition sample_vite :: vite_env where
  "sample_vite = \<lparr> ve_get = (\<lambda>key. if key = ''VITE_API_URL'' then Str ''http://h'' else Undefined),
     ve_prod = False, ve_dev = True \<rparr>"

definition sample_site :: "string site" where
  "sample_site = \<lparr> site_world = sample_world, site_env = sample_vite, site_storage = Storage_works,
     site_search_get = (\<lambda>u k. None), site_search_delete = (\<lambda>u k. u), site_parse_error = (\<lambda>_. ''bad'') \<rparr>"

definition sample_storage :: "bool \<Rightarrow> storage" where
  "sample_storage liveMode = persistent_effect Storage_works Map.empty (key_liveMode STORAGE_KEYS) flag_options liveMode"

definition sample_first :: "bool \<Rightarrow> App" where
  "sample_first liveMode = initial_app sample_site 0 sample_demo (sample_storage liveMode) (Some ''http://h/'')"

definition sample_app :: "bool \<Rightarrow> App" where
  "sample_app liveMode = app_commit sample_site sample_ids ''t'' True (sample_first liveMode)"

definition sample_retrying :: App where
  "sample_retrying = (let s = retryJob decimal_dates 0 True ''x'' (ops_now (sample_app True))
     in (absorb sample_site (app_options sample_site (sample_first True)) (\<lambda>n. sample_ids (Suc n)) s (sample_app True))
          \<lparr> ap_tasks := [(0, T_retry ''x'')], ap_nextTask := 1 \<rparr>)"

lemma sample_ids_inj: "inj sample_ids"
  by (rule injI) (metis sample_ids_def length_replicate)

lemma sample_event_ok: "log_event decimal_dates (sample_event n)"
proof -
  have "date_parse decimal_dates ''5'' \<noteq> None" by code_simp
  then show ?thesis by (simp add: log_event_def clean_event_def sample_event_def)
qed

lemma sample_manager_reachable: "reachable sample_env sample_manager"
proof -
  have 1: "step sample_env new_manager (start new_manager)"
    by (rule step_start) (simp_all add: idle_def new_manager_def)
  have "map_of (h_timers (start new_manager)) 0 = Some \<lparr> tm_delay = 0, tm_task = Retry_task RM_websocket 0 [] \<rparr>"
    by (simp add: start_def new_manager_def clearTimers_def clear_timeout_def set_timeout_def Let_def)
  from step_timer [OF this, of sample_env sample_reads]
  have "step sample_env (start new_manager) sample_manager" by (simp add: sample_manager_def)
  with 1 show ?thesis unfolding reachable_def by (meson r_into_rtranclp rtranclp.rtrancl_into_rtrancl)
qed

lemmas sample_manager_run = sample_manager_def fire_timer_def start_def new_manager_def clearTimers_def clear_timeout_def
  set_timeout_def remove_id_def connect_def begin_connect_def closeCurrent_def emitStatus_def openWebSocket_def
  sample_env_def sample_reads_def Let_def truthy_def

lemma sample_manager_state: "m_state sample_manager = TS_connecting" "\<not> m_stopped sample_manager"
  by (simp_all add: sample_manager_run)

lemma sample_live_run: "(live_step decimal_dates)\<^sup>*\<^sup>* (initial_live (createEmptyConsoleData Source_live)) sample_live"
  unfolding sample_live_def by (intro r_into_rtranclp step_refresh)

lemma sample_start: "live_start (initial_live d)"
  by (auto simp: live_start_def)

lemma sample_live_eq:
  "sample_live = (initial_live (createEmptyConsoleData Source_live))
     \<lparr> br_next := 6, lv_fetchController := Some 0, lv_fetchPromise := Some 5,
       lv_requestMap := [''dashboard-snapshot'' \<mapsto> 1, ''dashboard-jobs'' \<mapsto> 2, ''dashboard-schedules'' \<mapsto> 3, ''dashboard-workers'' \<mapsto> 4],
       br_requests := [1 \<mapsto> \<lparr> rq_key = ''dashboard-snapshot'', rq_ctrl = 0 \<rparr>, 2 \<mapsto> \<lparr> rq_key = ''dashboard-jobs'', rq_ctrl = 0 \<rparr>,
         3 \<mapsto> \<lparr> rq_key = ''dashboard-schedules'', rq_ctrl = 0 \<rparr>, 4 \<mapsto> \<lparr> rq_key = ''dashboard-workers'', rq_ctrl = 0 \<rparr>],
       br_fetches := [(5, \<lparr> ft_ctrl = 0, ft_quiet = True, ft_need = [1, 2, 3, 4] \<rparr>)] \<rparr>"
  by (simp add: sample_live_def refreshConsole_def sample_options_def start_fetch_def abort_controller_def initial_live_def
      console_keys_def share_request_def Let_def truthy_def eval_nat_numeral)

lemma sample_demo_start: "demo_start decimal_dates sample_demo"
proof -
  note sample_ids_inj
  then show ?thesis unfolding demo_start_def sample_demo_def demo_clock_def max_time_def by force
qed

lemma sample_clock: "good_clock 0"
  by (simp add: good_clock_def valid_time_def max_time_def)

lemma sample_demo_inv: "demo_inv decimal_dates sample_demo"
  using demo.init_inv [of decimal_dates sample_demo] sample_demo_start decimal_dates_ok by simp

lemma sample_jobs_dates:
  "\<forall>j \<in> set (cd_jobs sample_jobs). date_parse decimal_dates (job_createdAt j) \<noteq> None \<and> date_parse decimal_dates (job_updatedAt j) \<noteq> None"
  by (simp add: sample_jobs_def seeded_job_def date_ok_roundtrip [OF decimal_dates_ok] valid_time_def max_time_def)

lemma sample_payload: "wf_json (drawer_payload sample_inspection)" "js_truthy (drawer_payload sample_inspection)"
  "drawer_payload sample_inspection \<noteq> Num x"
proof -
  have p: "drawer_payload sample_inspection = job_payload (seeded_job decimal_dates 0 ''x'' ''w'')"
    by (simp add: sample_inspection_def drawer_payload_def drawer_dead_letter_def)
  have "wf_json (job_payload (seeded_job decimal_dates 0 ''x'' ''w''))" by code_simp
  with p show "wf_json (drawer_payload sample_inspection)" by simp
  show "js_truthy (drawer_payload sample_inspection)" "drawer_payload sample_inspection \<noteq> Num x"
    using p by (simp_all add: seeded_job_def)
qed

lemma sample_draft_ok:
  "jv_errors (validateJobForm decimal_dates 0 (\<lambda>_. ''bad'') (os_jobDraft sample_ops)) = []"
  "js_truthy (jv_payload (validateJobForm decimal_dates 0 (\<lambda>_. ''bad'') (os_jobDraft sample_ops)))"
  by code_simp+

lemma sample_hook_start: "hook_start (initial_hook 0 d liveMode)"
  by (auto simp: hook_start_def)

lemma sample_hook_run:
  "(hook_step sample_world)\<^sup>*\<^sup>* (initial_hook 0 (createEmptyConsoleData Source_demo) liveMode) (sample_hook liveMode)"
  unfolding sample_hook_def
  by (intro r_into_rtranclp hs_commit) (simp_all add: initial_hook_def createEmptyConsoleData_def)

lemma sample_hook_ran:
  "hk_ran (sample_hook liveMode) = Some (rendered (sample_options\<lparr> lo_liveMode := liveMode \<rparr>) True
     (initial_hook 0 (createEmptyConsoleData Source_demo) liveMode))"
  by (simp add: sample_hook_def commit_def Let_def)

lemma sample_hook_mounted: "hk_mounted (sample_hook liveMode)"
  unfolding sample_hook_def using initial_hook_inv by (subst commit_mounted) (simp_all add: initial_hook_def createEmptyConsoleData_def)

lemma sample_app_start: "app_start sample_site (sample_first liveMode)"
proof -
  note sample_ids_inj
  moreover have "demo_clock 0" by (simp add: demo_clock_def max_time_def)
  ultimately show ?thesis unfolding app_start_def sample_first_def sample_demo_def
    by (force simp: sample_site_def sample_world_def)
qed

lemma sample_first_mode:
  "ss_liveMode (read_saved (site_storage sample_site) U b t (sample_storage liveMode) href) = liveMode"
  by (simp add: read_saved_def sample_storage_def sample_site_def flag_codec.reload)

lemma sample_first_fields: "hk_mounted (ap_hook (sample_first liveMode))" "hk_now (ap_hook (sample_first liveMode)) = 0"
  "hk_ran (ap_hook (sample_first liveMode)) = None" "hook_inv (ap_hook (sample_first liveMode))"
  "ap_toasts (sample_first liveMode) = empty_queue" "ap_lastHealth (sample_first liveMode) = LH_demo"
  "ap_tasks (sample_first liveMode) = []" "ap_nextTask (sample_first liveMode) = 0"
  "lo_liveMode (app_options sample_site (sample_first liveMode)) = liveMode"
  by (simp_all add: sample_first_def initial_app_def initial_hook_def Let_def initial_hook_inv [unfolded initial_hook_def]
      app_options_def resolve_options_def sample_first_mode)

lemma sample_app_run: "(app_step sample_site)\<^sup>*\<^sup>* (sample_first liveMode) (sample_app liveMode)"
proof -
  note sample_ids_inj
  then show ?thesis
    unfolding sample_app_def
    by (intro r_into_rtranclp as_commit)
      (simp_all add: sample_first_fields demo_clock_def max_time_def fresh_id_def empty_queue_def)
qed

lemma sample_app_fields: "hk_mounted (ap_hook (sample_app liveMode))"
  "hk_ran (ap_hook (sample_app liveMode)) =
     Some (rendered (app_options sample_site (sample_first liveMode)) True (ap_hook (sample_first liveMode)))"
  "ap_toasts (sample_app liveMode) = empty_queue" "ap_tasks (sample_app liveMode) = []" "ap_nextTask (sample_app liveMode) = 0"
  using commit_mounted [OF sample_first_fields(4) demo_source, where W = "site_world sample_site"]
  by (simp_all add: sample_app_def app_commit_def Let_def sample_first_fields recovered_toast_def troubled_def)

lemma sample_retrying_run: "(app_step sample_site)\<^sup>*\<^sup>* (sample_first True) sample_retrying"
proof -
  let ?p = "rendered (app_options sample_site (sample_first True)) True (ap_hook (sample_first True))"
  have "app_step sample_site (sample_app True) sample_retrying"
  proof (rule as_act)
    show "act sample_site (dp_opts ?p) (\<lambda>n. sample_ids (Suc n)) ''u'' sample_ids (A_retry ''x'') (sample_app True) = Some sample_retrying"
      by (simp add: act_def sample_retrying_def retryJob_def send_def rendered_def sample_app_fields sample_first_fields Let_def)
    have "hk_now (ap_hook (sample_app True)) = 0"
      using commit_now [OF sample_first_fields(4) demo_source, where W = "site_world sample_site"] by (simp add: sample_app_def app_commit_def Let_def sample_first_fields)
    then show "good_clock (hk_now (ap_hook (sample_app True)))" using sample_clock by simp
    note inj = sample_ids_inj
    then show "fresh_toasts (\<lambda>n. sample_ids (Suc n)) (ap_toasts (sample_app True))"
      using inj_compose [OF inj inj_Suc]
      by (simp add: fresh_toasts_def sample_app_fields fresh_id_def empty_queue_def comp_def) (simp add: sample_ids_def)
    have "app_data (sample_app True) = createEmptyConsoleData Source_live"
      using commit_data [OF sample_first_fields(4) demo_source, where W = "site_world sample_site"]
      by (simp add: sample_app_def app_commit_def app_data_def Let_def sample_first_fields)
    then show "new_ids (map sample_ids [1, 2, 3, 4]) (app_data (sample_app True))"
      by (simp add: new_ids_def createEmptyConsoleData_def sample_ids_def eval_nat_numeral)
  qed (rule sample_app_fields)+
  with sample_app_run show ?thesis by (meson rtranclp.rtrancl_into_rtrancl)
qed

text \<open>
  A page on the URL class of parameters: the operator has entered a token and selected the jobs tab.
\<close>

definition sample_page_site :: "(string \<times> string) list site" where
  "sample_page_site = \<lparr> site_world = \<lparr> wd_urls = url_api.truncate param_urls, wd_hasEventSource = True, wd_dates = decimal_dates,
       wd_event = (\<lambda>_. sample_event 0) \<rparr>, site_env = sample_vite, site_storage = Storage_works,
     site_search_get = url_search_get param_urls, site_search_delete = url_search_delete param_urls,
     site_parse_error = (\<lambda>_. ''bad'') \<rparr>"

definition sample_page :: App where
  "sample_page = initial_app sample_page_site 0 sample_demo Map.empty (Some [])"

definition sample_edited :: App where
  "sample_edited = (apply_setting (Set_token '' secret '') sample_page)
     \<lparr> ap_ops := apply_edit (E_tab Tab_jobs) (ap_ops (apply_setting (Set_token '' secret '') sample_page)) \<rparr>"

lemma sample_page_query: "site_query sample_page_site = param_urls"
  by (simp add: site_query_def sample_page_site_def param_urls_def url_api.defs query_api.defs)

lemma sample_page_start: "page_start sample_page_site sample_page"
proof -
  note sample_ids_inj
  moreover have "demo_clock 0" by (simp add: demo_clock_def max_time_def)
  ultimately have "app_start sample_page_site sample_page"
    unfolding app_start_def sample_page_def sample_demo_def by (force simp: sample_page_site_def)
  moreover have "valid_address (site_query sample_page_site) (ap_href sample_page)"
    using param_urls_new [of "[]"] by (simp add: valid_address_def sample_page_query sample_page_def initial_app_def Let_def)
  moreover have "browser_ok sample_page_site"
    unfolding browser_ok_def sample_page_query by (simp add: param_urls_ok) (simp add: sample_page_site_def decimal_dates_ok)
  ultimately show ?thesis by (simp add: page_start_def)
qed

lemma sample_edited_run: "(page_step sample_page_site)\<^sup>*\<^sup>* sample_page sample_edited"
proof -
  have "page_step sample_page_site sample_page (apply_setting (Set_token '' secret '') sample_page)"
    by (intro ps_app as_setting)
  moreover have "page_step sample_page_site (apply_setting (Set_token '' secret '') sample_page) sample_edited"
    unfolding sample_edited_def by (intro ps_app as_edit)
  ultimately show ?thesis by simp
qed

lemma page_runs: "(app_step S)\<^sup>*\<^sup>* a a' \<Longrightarrow> (page_step S)\<^sup>*\<^sup>* a a'"
  by (erule rtranclp_mono [THEN predicate2D, rotated]) (auto intro: ps_app)

text \<open>
  An operator in demo mode: the jobs tab is opened, the page is committed, and "Seed DAG" is pressed.
\<close>

definition sample_demo_page :: App where
  "sample_demo_page = initial_app sample_page_site 0 sample_demo (sample_storage False) (Some [])"

definition sample_jobs_tab :: App where
  "sample_jobs_tab = sample_demo_page\<lparr> ap_ops := apply_edit (E_tab Tab_jobs) (ap_ops sample_demo_page) \<rparr>"

definition sample_committed :: Screen where
  "sample_committed = screen_commit sample_page_site sample_ids ''t'' True None (new_screen sample_jobs_tab)"

lemma param_search: "readQueryParam param_urls (Some []) key fallback = fallback"
proof -
  have "safeTrim Null [] = []" by code_simp
  then show ?thesis by (simp add: readQueryParam_def param_urls_def url_api.defs query_api.defs or_str_def)
qed

lemma sample_demo_settings:
  "ss_liveMode (read_saved (site_storage sample_page_site) U b t (sample_storage False) href) = False"
  by (simp add: read_saved_def sample_storage_def sample_page_site_def flag_codec.reload)

lemma sample_jobs_tab_fields:
  "os_selectedJobId (ap_ops sample_jobs_tab) = []" "os_selectedTab (ap_ops sample_jobs_tab) = ''jobs''"
  "os_busy (ap_ops sample_jobs_tab) = []" "ap_tasks sample_jobs_tab = []" "ap_toasts sample_jobs_tab = empty_queue"
  "ap_hook sample_jobs_tab = initial_hook 0 sample_demo False" "cn_liveMode (ap_connection sample_jobs_tab) = False"
  "ap_lastHealth sample_jobs_tab = LH_demo" "ap_lastTransportMode sample_jobs_tab = TM_demo"
  by (simp_all add: sample_jobs_tab_def sample_demo_page_def initial_app_def initial_ops_def Let_def sample_demo_settings
     sample_page_query) (simp_all add: read_saved_def param_search)

definition sample_new_ids :: "nat \<Rightarrow> string" where
  "sample_new_ids n = CHR ''z'' # sample_ids n"

lemma sample_ids_new: "sample_new_ids n \<noteq> sample_ids m"
  by (cases m) (simp_all add: sample_new_ids_def sample_ids_def)

lemma sample_demo_job_ids: "job_id ` set (cd_jobs sample_demo) = set (map job_id (demo_jobs decimal_dates 0 (demo_ids sample_ids)))"
  by (simp add: sample_demo_def createDemoConsoleData_def reconcileConsoleData_def demo_data_def Let_def)

lemma sample_demo_new: "new_ids (map sample_new_ids [1, 2, 3, 4]) sample_demo"
proof -
  have "distinct (map sample_new_ids [1, 2, 3, 4])" using sample_ids_inj by (simp add: sample_new_ids_def inj_eq)
  moreover have "set (map sample_new_ids [1, 2, 3, 4]) \<inter> range sample_ids = {}" using sample_ids_new by auto
  moreover have "set (map job_id (demo_jobs decimal_dates 0 (demo_ids sample_ids))) \<subseteq> range sample_ids"
    unfolding demo_job_ids by (simp only: set_map) auto
  ultimately show ?thesis unfolding new_ids_def sample_demo_job_ids by blast
qed

lemma sample_demo_hook: "hook_inv (initial_hook 0 sample_demo False)"
  by (simp add: initial_hook_inv sample_demo_def demo_source)

lemmas sample_demo_commit = commit_mounted [OF sample_demo_hook demo_source, where W = "site_world sample_page_site"]
  commit_now [OF sample_demo_hook demo_source, where W = "site_world sample_page_site"]
  commit_data [OF sample_demo_hook demo_source, where W = "site_world sample_page_site"]

lemmas sample_committed_defs = sample_committed_def screen_commit_def new_screen_def app_commit_def Let_def sample_jobs_tab_fields
  app_data_def sample_demo_commit

lemma sample_options_demo: "lo_liveMode (app_options sample_page_site sample_jobs_tab) = False"
  by (simp add: app_options_def resolve_options_def sample_jobs_tab_fields Let_def)

lemma sample_committed_loaded: "lv_loading (hk_live (ap_hook (sc_app sample_committed))) = False"
  by (simp add: sample_committed_defs commit_def commit_transport_def commit_mode_def commit_rest_def apply_if_def
    sample_options_demo rendered_def dep_changed_def cleanups_def run_mode_effect_def run_transport_effect_def
    run_poll_effect_def polls_def run_select_effect_def run_interval_effect_def run_merge_effect_def initial_hook_def
    app_options_def resolve_options_def transport_effect_def poll_effect_def stop_current_def mode_effect_def update_live_def)

lemma sample_committed_fields:
  "hk_mounted (ap_hook (sc_app sample_committed))" "hk_now (ap_hook (sc_app sample_committed)) = 0"
  "os_busy (ap_ops (sc_app sample_committed)) = []" "ap_tasks (sc_app sample_committed) = []"
  "cn_liveMode (ap_connection (sc_app sample_committed)) = False" "sc_drawer sample_committed = initial_drawer"
  "app_data (sc_app sample_committed) = sample_demo" "ap_toasts (sc_app sample_committed) = empty_queue"
  "os_selectedTab (ap_ops (sc_app sample_committed)) = ''jobs''" "os_selectedJobId (ap_ops (sc_app sample_committed)) = []"
  "hk_ran (ap_hook (sc_app sample_committed)) =
     Some (rendered (app_options sample_page_site sample_jobs_tab) True (initial_hook 0 sample_demo False))"
proof -
  have s: "lv_data (hk_live (initial_hook 0 sample_demo False)) = sample_demo" "cd_source sample_demo = Source_demo"
    by (simp_all add: initial_hook_def initial_live_def sample_demo_def demo_source)
  show "app_data (sc_app sample_committed) = sample_demo"
    by (simp add: sample_committed_defs sample_options_demo s)
  show "hk_mounted (ap_hook (sc_app sample_committed))" "hk_now (ap_hook (sc_app sample_committed)) = 0"
    by (simp_all add: sample_committed_defs) (simp_all add: initial_hook_def)
  have "tab_key ''jobs'' = ''jobs''" by code_simp
  then show "os_selectedTab (ap_ops (sc_app sample_committed)) = ''jobs''"
    by (simp add: sample_committed_defs effect_dead_letters_def effect_selected_job_def effect_tab_def ops_now_def)
qed (simp_all add: sample_committed_defs effects_busy drawer_effect_def effect_dead_letters_def effect_selected_job_def
    effect_tab_def ops_now_def recovered_toast_def troubled_def commit_def initial_hook_def)

definition sample_seeded :: Screen where
  "sample_seeded = sample_committed\<lparr> sc_app :=
     absorb sample_page_site (app_options sample_page_site sample_jobs_tab) (\<lambda>n. sample_ids (Suc n))
       (seedWorkflow decimal_dates 0 False sample_new_ids (ops_now (sc_app sample_committed))) (sc_app sample_committed) \<rparr>"

lemma sample_committed_run: "(operator_step sample_page_site)\<^sup>*\<^sup>* (new_screen sample_demo_page) sample_committed"
proof -
  let ?S = sample_page_site
  have "inspected ?S sample_demo_page = Some None"
    by (simp add: inspected_def selectedInspection_def sample_demo_page_def initial_app_def initial_ops_def Let_def sample_page_query
        read_saved_def param_search)
  then have "on_page ?S (new_screen sample_demo_page) (Ui_edit (E_tab Tab_jobs))"
    by (intro on_pageI [OF _ page_opens_tabs]) (simp_all add: new_screen_def TABS_def)
  from op_edit [OF this] have 1: "operator_step ?S (new_screen sample_demo_page) (new_screen sample_jobs_tab)"
    by (simp add: new_screen_def sample_jobs_tab_def)
  have 2: "operator_step ?S (new_screen sample_jobs_tab) sample_committed"
    unfolding sample_committed_def
    by (rule op_commit)
      (simp_all add: new_screen_def inspected_def selectedInspection_def sample_jobs_tab_fields initial_hook_def demo_clock_def
        max_time_def sample_ids_inj fresh_id_def empty_queue_def)
  from 1 2 show ?thesis by simp
qed

lemma sample_seeded_run: "(operator_step sample_page_site)\<^sup>*\<^sup>* (new_screen sample_demo_page) sample_seeded"
proof -
  let ?S = sample_page_site and ?a = "sc_app sample_committed"
  have page: "on_page ?S sample_committed (Ui_do A_seed)"
  proof (rule on_pageI [where i = None])
    show "inspected ?S ?a = Some None" by (simp add: inspected_def selectedInspection_def sample_committed_fields)
    have "tab_key ''jobs'' = ''jobs''" by code_simp
    then show "Ui_do A_seed \<in> events (console_page ?S L True (sc_drawer sample_committed) None ?a)"
      by (simp add: page_actions page_view_def not_busy_def is_busy_def sample_committed_fields sample_committed_loaded tabContent_def)
  qed
  have "operator_step ?S sample_committed sample_seeded"
    unfolding sample_seeded_def
  proof (rule op_press [OF page])
    show "act ?S (dp_opts (rendered (app_options ?S sample_jobs_tab) True (initial_hook 0 sample_demo False)))
        (\<lambda>n. sample_ids (Suc n)) [] sample_new_ids A_seed ?a = Some (absorb ?S (app_options ?S sample_jobs_tab) (\<lambda>n. sample_ids (Suc n))
        (seedWorkflow decimal_dates 0 False sample_new_ids (ops_now ?a)) ?a)"
      by (simp add: act_def sample_committed_fields rendered_def sample_options_demo seedWorkflow_def runBusy_def Let_def) (simp add: sample_page_site_def)
    show "fresh_toasts (\<lambda>n. sample_ids (Suc n)) (ap_toasts ?a)"
      using inj_compose [OF sample_ids_inj inj_Suc]
      by (simp add: fresh_toasts_def sample_committed_fields fresh_id_def empty_queue_def comp_def) (simp add: sample_ids_def)
    show "new_ids (map sample_new_ids [1, 2, 3, 4]) (app_data ?a)" by (simp only: sample_committed_fields sample_demo_new)
  qed (simp_all add: sample_committed_fields sample_clock)
  with sample_committed_run show ?thesis by (meson rtranclp.rtrancl_into_rtrancl)
qed

lemma sample_screen_start: "screen_start sample_page_site (new_screen sample_demo_page)"
proof -
  have "app_start sample_page_site sample_demo_page"
    unfolding app_start_def sample_demo_page_def sample_demo_def using sample_ids_inj
    by (force simp: sample_page_site_def demo_clock_def max_time_def)
  moreover have "valid_address (site_query sample_page_site) (ap_href sample_demo_page)"
    using param_urls_new [of "[]"] by (simp add: valid_address_def sample_page_query sample_demo_page_def initial_app_def Let_def)
  ultimately show ?thesis using sample_page_start by (auto simp: screen_start_def page_start_def)
qed

lemma sample_request:
  "requestJson sample_urls \<lparr> ro_baseUrl = Some ''http://h'', ro_path = ''/jobs'', ro_token = None, ro_init = None,
     ro_parser = Some (as_parser parseJobs), ro_allowEmpty = False \<rparr> (bindAbortSignals None []) (Response 200 ''[]'') = Inr (Arr [])"
  by code_simp

end
