(* ===== verification/Spec2Isabelle.thy ===== *)
theory Spec2Isabelle
  imports Samples ToastQueue RuntimeConfig
begin

text \<open>
  A verification library of the operations console of the distributed job platform, the TypeScript
  program under \<open>src/src\<close> (React hooks and libraries; \<open>src/dashboard/src\<close> is a copy of it).

  The program. The console shows jobs, queues, workers, schedules, dead letters and events. In live
  mode \<open>hooks/useDashboardLiveData.ts\<close> fetches a snapshot by four requests (\<open>lib/request-client.ts\<close>,
  validated by \<open>lib/api-parsers.ts\<close>), listens to events over a transport that falls back from
  WebSocket to SSE to polling (\<open>lib/live-transport.ts\<close>), and merges what arrives into one value,
  \<open>ConsoleData\<close> (\<open>lib/console-data.ts\<close>). In demo mode the same value is the database: the handlers of
  \<open>components/OpsConsole.tsx\<close> change it in place. Notifications go through \<open>hooks/useToastQueue.ts\<close>,
  settings and selections through two state hooks.

  Theories, from the bottom.
  \<^item> \<open>Prelude\<close>, \<open>JsNumber\<close>, \<open>JsJson\<close>, \<open>JsonCodec\<close>: what the sources use of JavaScript (strings, stable
    sort, objects as dictionaries with the enumeration order of their keys, numbers and their text,
    JSON), with the round trip of JSON.
  \<^item> \<open>Host\<close>: the browser's services as records of functions, arguments of the definitions: dates
    (\<open>date_api\<close>, relied on only through \<open>date_ok\<close>, which \<open>decimal_dates\<close> satisfies), the URL class,
    locale texts, local storage.
  \<^item> \<open>Models\<close>, \<open>Encoding\<close>: \<open>lib/models.ts\<close>, and its types as the objects that are serialised.
  \<^item> \<open>Safe\<close>: \<open>lib/safe.ts\<close> and \<open>lib/api-routes.ts\<close>. \<open>LiveRefresh\<close>: \<open>lib/live-refresh.ts\<close>.
    \<open>ApiParsers\<close>, \<open>RequestClient\<close>: one request, from its construction to its validated value or its
    classified error.
  \<^item> \<open>Console\<close>: \<open>lib/console-data.ts\<close>, the operations on \<open>ConsoleData\<close>. \<open>DemoData\<close>: the demo data set.
  \<^item> \<open>StepSystem\<close>: the interface of a component that runs as a transition system (initial states,
    steps, inductive invariant). It is interpreted by \<open>Transport\<close>, \<open>ToastQueue\<close>, \<open>LiveSafety\<close>,
    \<open>LiveEvents\<close>, \<open>HookSafety\<close>, \<open>AppSafety\<close>, \<open>Operator\<close> and \<open>DemoActions\<close>, and the invariants below come from the interpretations.
  \<^item> \<open>Transport\<close>: the class LiveTransportManager with the timers, sockets and event sources it holds; a
    step is a call of a method or a callback that the browser may run in the state at hand.
  \<^item> \<open>LiveFetch\<close>, \<open>LiveSafety\<close>: refreshes of the console and of inspections, the map of shared requests,
    abort controllers, and the settlement of requests in any order. \<open>LiveEvents\<close>: the event queue and
    its three timers. \<open>LiveStatus\<close>: transport mode, health, polling delay, selected inspection.
  \<^item> \<open>LiveHook\<close>, \<open>HookSafety\<close>: the hook as a whole, where those parts meet. A commit compares the
    dependencies of each effect with its last run, runs the clean-ups and then the effects in the order
    of the source; between commits the callbacks of every manager ever created, the settlements and
    the timers run in any order. Its invariant says which manager may still hold a connection, what
    is left of the network in demo mode and after the removal of the component, and that the polling
    loop is alive.
  \<^item> \<open>ToastQueue\<close>, \<open>StateHooks\<close>, \<open>RuntimeConfig\<close>: the small hooks and the configuration. \<open>ConsoleStorage\<close>: what the
    console keeps in local storage and in the address, and what a reload restores.
  \<^item> \<open>OpsForms\<close>, \<open>DemoActions\<close>, \<open>OpsHandlers\<close>, \<open>OpsViews\<close>, \<open>OpsHero\<close>: the component \<open>OpsConsole\<close>: forms and
    validation, the demo actions as a transition system, the handlers, the derived views, the
    headline and the charts.
  \<^item> \<open>OpsDrawer\<close>, \<open>OpsSections\<close>: the drawer with its replay buttons, and what the sections compute while
    they render: texts, options, bars and the choice of the section.
  \<^item> \<open>ConsoleApp\<close>, \<open>AppSafety\<close>: the component \<open>OpsConsole\<close> with everything that it calls: its commits, the
    actions with the handlers that wait for the API, settings and edits, the toasts, the hook; also what
    the shell shows, the error boundary, and a page with its storage and address that can be reloaded. Each step of the console is a run of the hook
    (\<open>app_step_refines\<close>); its invariant joins those of the hook, the demo data, the toasts and the busy
    flags.
  \<^item> \<open>Markup\<close>, \<open>SectionMarkup\<close>, \<open>DrawerMarkup\<close>: the components under \<open>components/\<close> as functions from their props to
    trees of elements with texts and controls. \<open>events\<close> is the set of what can be done on a tree, where a disabled control
    counts for nothing; a lemma for each component says what its controls do.
  \<^item> \<open>PageMarkup\<close>: the page that the console renders in a state. Its specification \<open>offers\<close> says, without
    elements, when an action can be started; \<open>page_actions\<close> shows that the page offers exactly that.
  \<^item> \<open>Operator\<close>: the closed system of the console with its drawer and an operator who does what the rendered
    page offers, a refinement of the page of \<open>AppSafety\<close> (\<open>operator_refines\<close>); the buttons that wait for
    their own request start it once, and what the operator can reach.
  \<^item> \<open>Samples\<close>: the concrete inputs of the witnesses.

  How the code is translated. A React state and the refs that mirror it are one field of a record;
  an asynchronous function is split where it awaits, and the order of settlements is that of the
  steps. An exception is \<open>None\<close> or \<open>Inl\<close>. The clock, random numbers and new ids are arguments. A
  commit of React is one step, in which an effect sees what the effects before it have set; the
  listener of visibility changes is an argument of the commit. A number is the rational value of its
  decimal text (binary rounding is not modelled), a string a list of characters below 256. Interfaces between components are locales (dictionary and list
  encodings, codecs, step systems), each interpreted on the definitions of the program.

  Bounds. The JSON parser runs on fuel, twice the length of the text and two more, which
  \<open>parse_value_fuel\<close> shows to be enough. Twelve failures are enough to reach polling: the rank of a
  manager, its attempts still allowed, is at most eleven (\<open>rank_bound\<close>).

  Not modelled: animations and the attributes of elements that neither show a text nor change what can be done,
  the scheduling of React between a state change and its commit
  (batching, transitions, strict mode), a handler that goes on after the console was removed, the Go
  services behind the API (only their answers reach the console), binary rounding of numbers,
  characters above 255, and members that objects inherit from their prototype.
\<close>

section \<open>The realtime transport\<close>

text \<open>
  C1. However the network fails, the ladder WebSocket, SSE, polling comes to its end:
  from every reachable state that is connecting or live, after at most twelve failures (the close of
  the current socket, the error of the current source, the firing of a retry timer) the manager
  polls, by steps of its own transition system.
\<close>

theorem transport_failures_reach_polling:
  assumes "reachable E m" and "\<not> m_stopped m" and "m_state m \<in> {TS_connecting, TS_live}" and "11 < length fs"
  shows "m_state (fail_run E fs m) = TS_polling \<and> (step E)\<^sup>*\<^sup>* m (fail_run E fs m)"
proof -
  have inv: "manager_inv m" using assms(1) by (rule reachable_manager_inv)
  then show ?thesis using assms rank_bound [OF inv] by (intro fail_run_polls) auto
qed

theorem transport_failures_reach_polling_witness:
  "m_state (fail_run sample_env (replicate 12 (sample_reads, ''gone'', 1006)) sample_manager) = TS_polling \<and>
   (step sample_env)\<^sup>*\<^sup>* sample_manager (fail_run sample_env (replicate 12 (sample_reads, ''gone'', 1006)) sample_manager)"
  by (rule transport_failures_reach_polling [OF sample_manager_reachable]) (simp_all add: sample_manager_state)

section \<open>The live data\<close>

text \<open>
  C2. At most one pending refresh of the console is not aborted, and at most one pending inspection of
  each job: two answers never race to write the same data, whatever the order of refreshes, forced
  refreshes, answers and changes of mode.
\<close>

theorem live_one_writer:
  assumes "live_start s0" and "(live_step D)\<^sup>*\<^sup>* s0 s"
  shows "length (filter (\<lambda>x. ft_ctrl (snd x) \<notin> br_aborted s) (br_fetches s)) \<le> 1 \<and>
    (\<forall>j. length (filter (\<lambda>y. if_jobId (snd y) = j \<and> if_ctrl (snd y) \<notin> br_aborted s) (br_inspections s)) \<le> 1)"
proof -
  have inv: "writers_inv s" using live_data.reachable_inv [OF assms] by simp
  have d: "distinct (br_fetches s)" "distinct (br_inspections s)" by (rule distinct_work [OF inv])+
  have "length (filter (\<lambda>x. ft_ctrl (snd x) \<notin> br_aborted s) (br_fetches s)) \<le> 1"
    using d(1) one_writer [OF inv] by (intro at_most_one) auto
  moreover have "length (filter (\<lambda>y. if_jobId (snd y) = j \<and> if_ctrl (snd y) \<notin> br_aborted s) (br_inspections s)) \<le> 1" for j
    using d(2) one_inspection_writer [OF inv] by (intro at_most_one) auto
  ultimately show ?thesis by blast
qed

theorem live_one_writer_witness:
  "length (filter (\<lambda>x. ft_ctrl (snd x) \<notin> br_aborted sample_live) (br_fetches sample_live)) \<le> 1 \<and>
   (\<forall>j. length (filter (\<lambda>y. if_jobId (snd y) = j \<and> if_ctrl (snd y) \<notin> br_aborted sample_live) (br_inspections sample_live)) \<le> 1)"
  by (rule live_one_writer [OF sample_start sample_live_run])

section \<open>The demo console\<close>



section \<open>Serialisation\<close>

text \<open>
  C14. The console decides "unchanged" by comparing \<open>stableSerialize\<close> texts. Two
  values have the same text exactly when they are deeply equal: same arrays element by element,
  and objects equal as finite maps, whatever the order in which their properties were written and
  ignoring properties that are \<open>undefined\<close>.
\<close>

theorem stable_serialize_deep_equality:
  assumes "js_ok v" and "js_ok w" and "v \<noteq> Undefined" and "w \<noteq> Undefined"
  shows "stableSerialize v = stableSerialize w \<longleftrightarrow> denote v = denote w"
  using assms by (rule stableSerialize_eq)

theorem stable_serialize_deep_equality_witness:
  "stableSerialize (Obj [(''a'', Num 1), (''b'', Null)]) = stableSerialize (Obj [(''b'', Null), (''a'', Num 1)])
   \<longleftrightarrow> denote (Obj [(''a'', Num 1), (''b'', Null)]) = denote (Obj [(''b'', Null), (''a'', Num 1)])"
  by (rule stable_serialize_deep_equality) (simp_all add: obj_ok_def key_le_def is_index_def is_digit_def)

section \<open>The realtime transport, continued\<close>

text \<open>
  C15. A manager never holds two connections: at most one socket that is not already being
  closed or one event source, and at most two timers. A live status is shown only while a connection
  of the mode shown is open, and a manager that says it is connecting or polling has something to
  wait for.
\<close>

theorem transport_one_connection:
  assumes "reachable E m"
  shows "card {i. \<exists>s. socks_of m i = Some s \<and> sk_state s \<noteq> Sock_doomed} + card (dom (sources_of m)) \<le> 1 \<and>
    card (dom (timers_of m)) \<le> 2 \<and> (m_stopped m \<or> truthful m)"
  using inv_one_connection reachable_manager_inv [OF assms] by (simp add: manager_inv_def)

theorem transport_one_connection_witness:
  "card {i. \<exists>s. socks_of sample_manager i = Some s \<and> sk_state s \<noteq> Sock_doomed} + card (dom (sources_of sample_manager)) \<le> 1 \<and>
    card (dom (timers_of sample_manager)) \<le> 2 \<and> (m_stopped sample_manager \<or> truthful sample_manager)"
  by (rule transport_one_connection [OF sample_manager_reachable])

text \<open>
  C16. After \<open>stop\<close> a manager reports nothing more, whatever timers and connections it had:
  only a further \<open>stop\<close> or a \<open>start\<close> changes that.
\<close>

theorem transport_stopped_silent:
  assumes "reachable E m" and "m_stopped m" and "step E m m'"
  shows "m_stopped m' \<and> h_out m' = h_out m \<or> (\<exists>st. m' = stop st m) \<or> m' = start m"
  using assms(2,3) by (intro inv_stopped_silent [OF reachable_manager_inv [OF assms(1)]])

theorem transport_stopped_silent_witness:
  "m_stopped (retryNow sample_env sample_reads (stop TS_paused sample_manager)) \<and>
     h_out (retryNow sample_env sample_reads (stop TS_paused sample_manager)) = h_out (stop TS_paused sample_manager) \<or>
   (\<exists>st. retryNow sample_env sample_reads (stop TS_paused sample_manager) = stop st (stop TS_paused sample_manager)) \<or>
   retryNow sample_env sample_reads (stop TS_paused sample_manager) = start (stop TS_paused sample_manager)"
proof (rule transport_stopped_silent)
  show "reachable sample_env (stop TS_paused sample_manager)"
    using sample_manager_reachable step_stop unfolding reachable_def by (rule rtranclp.rtrancl_into_rtrancl)
  show "m_stopped (stop TS_paused sample_manager)" by (simp add: stop_def Let_def emitStatus_def)
  show "step sample_env (stop TS_paused sample_manager) (retryNow sample_env sample_reads (stop TS_paused sample_manager))"
    by (rule step_retryNow)
qed

section \<open>Refreshes\<close>

text \<open>
  C17. No refresh waits for nothing: in a reachable state without requests in flight no refresh and
  no inspection is pending and \<open>fetchPromiseRef\<close> is free, so the next refresh is not refused.
\<close>

theorem live_no_orphan_refresh:
  assumes "live_start s0" and "(live_step D)\<^sup>*\<^sup>* s0 s" and "br_requests s = Map.empty"
  shows "br_fetches s = [] \<and> br_inspections s = [] \<and> lv_fetchPromise s = None"
  using no_request_no_refresh [OF _ assms(3)] live_data.reachable_inv [OF assms(1,2)] by simp

theorem live_no_orphan_refresh_witness:
  "br_fetches (mode_effect False sample_demo (initial_live sample_demo)) = [] \<and>
   br_inspections (mode_effect False sample_demo (initial_live sample_demo)) = [] \<and>
   lv_fetchPromise (mode_effect False sample_demo (initial_live sample_demo)) = None"
proof (rule live_no_orphan_refresh [OF sample_start])
  show "(live_step decimal_dates)\<^sup>*\<^sup>* (initial_live sample_demo) (mode_effect False sample_demo (initial_live sample_demo))"
    by (intro r_into_rtranclp step_mode)
  show "br_requests (mode_effect False sample_demo (initial_live sample_demo)) = Map.empty"
    by (simp add: mode_effect_def initial_live_def Let_def)
qed

text \<open>
  C19. The map of shared requests works: at most one request per key is in flight.
\<close>

theorem one_request_per_key:
  assumes "live_start s0" and "(live_step D)\<^sup>*\<^sup>* s0 s"
  shows "inj_on (\<lambda>r. rq_key (the (br_requests s r))) (dom (br_requests s))"
proof (rule inj_onI)
  fix r r'
  assume "r \<in> dom (br_requests s)" "r' \<in> dom (br_requests s)"
    "rq_key (the (br_requests s r)) = rq_key (the (br_requests s r'))"
  then show "r = r'"
    using request_of_key [of s r "the (br_requests s r)" r' "the (br_requests s r')"]
      live_data.reachable_inv [OF assms] by auto
qed

theorem one_request_per_key_witness:
  "inj_on (\<lambda>r. rq_key (the (br_requests sample_live r))) (dom (br_requests sample_live))"
  by (rule one_request_per_key [OF sample_start sample_live_run])

text \<open>
  C20. When every refresh that waits for a request has been aborted, the outcome of the request,
  good or bad, changes neither the console data nor the error, the failure count and the time of
  the last success.
\<close>

theorem stale_settlement_ignored:
  assumes "\<forall>x \<in> set (br_fetches s). r \<in> set (ft_need (snd x)) \<longrightarrow> ft_ctrl (snd x) \<in> br_aborted s"
  shows "lv_data (settle_request D now r outcome s) = lv_data s \<and>
    lv_globalError (settle_request D now r outcome s) = lv_globalError s \<and>
    lv_consecutiveFailures (settle_request D now r outcome s) = lv_consecutiveFailures s \<and>
    lv_lastSuccessfulAt (settle_request D now r outcome s) = lv_lastSuccessfulAt s"
proof -
  have "snd ` set (br_fetches s) \<inter> live_waiters s r = {}" using assms by (auto simp: live_waiters_def)
  from stale_settlement [OF this] show ?thesis by (simp add: console_view_def)
qed

theorem stale_settlement_ignored_witness:
  "lv_consecutiveFailures (settle_request decimal_dates 5 1 (Inl sample_network_error) (mode_effect True sample_demo sample_live)) =
   lv_consecutiveFailures (mode_effect True sample_demo sample_live)"
  using stale_settlement_ignored [of "mode_effect True sample_demo sample_live" 1 decimal_dates 5 "Inl sample_network_error"]
  by (simp add: mode_effect_def sample_live_eq initial_live_def Let_def)

text \<open>
  C21. A failed request that a live refresh waits for is reported once: the error text, one more
  failure, and the console data is kept.
\<close>

theorem failed_refresh_reported:
  assumes "live_start s0" and "(live_step D)\<^sup>*\<^sup>* s0 s" and "br_requests s r = Some q"
    and "(fid, f) \<in> set (br_fetches s)" and "r \<in> set (ft_need f)" and "ft_ctrl f \<notin> br_aborted s"
  shows "lv_globalError (settle_request D now r (Inl e) s) = error_text e \<and>
    lv_consecutiveFailures (settle_request D now r (Inl e) s) = lv_consecutiveFailures s + 1 \<and>
    lv_data (settle_request D now r (Inl e) s) = lv_data s"
proof -
  have "f \<in> live_waiters s r" using assms(5,6) by (simp add: live_waiters_def)
  from failed_settlement [OF _ assms(3,4) this] show ?thesis
    using live_data.reachable_inv [OF assms(1,2)] by (simp add: console_view_def)
qed

theorem failed_refresh_reported_witness:
  "lv_consecutiveFailures (settle_request decimal_dates 5 2 (Inl sample_network_error) sample_live) = 1"
  using failed_refresh_reported [OF sample_start sample_live_run, of 2 _ 5 _ 5 sample_network_error]
  by (simp add: sample_live_eq initial_live_def)

text \<open>
  C22. A forced refresh ("Reconnect", "Refresh snapshot", or after any action of the operator) while
  a refresh is in flight aborts the requests in flight and then shares those same requests. Their
  rejection is the only outcome left, so the forced refresh fails with it: an error is shown and the
  failure count grows although the API is well.
\<close>

theorem forced_refresh_reuses_aborted:
  assumes "live_start s0" and "(live_step D)\<^sup>*\<^sup>* s0 s" and "lo_liveMode opts" and "truthy (lo_resolvedBaseUrl opts)"
    and "lv_fetchController s = Some c" and "br_requests s r = Some q" and "rq_ctrl q = c" and "rq_key q \<in> set console_keys"
  shows "rq_ctrl q \<in> br_aborted (refreshConsole D now opts True True s) \<and>
    lv_globalError (settle_request D now' r (Inl e) (refreshConsole D now opts True True s)) = error_text e \<and>
    lv_consecutiveFailures (settle_request D now' r (Inl e) (refreshConsole D now opts True True s)) =
      lv_consecutiveFailures s + 1"
  using forced_refresh(2) [OF _ _ assms(3-8) refl, of D now] forced_refresh_fails [OF _ _ assms(3-8), of D now' e now]
    live_data.reachable_inv [OF assms(1,2)]
  by (simp add: console_view_def)

theorem forced_refresh_reuses_aborted_witness:
  "lv_consecutiveFailures (settle_request decimal_dates 9 1 (Inl sample_network_error)
     (refreshConsole decimal_dates 5 sample_options True True sample_live)) = 1"
  using forced_refresh_reuses_aborted [OF sample_start sample_live_run, of sample_options 0 1
    "\<lparr> rq_key = ''dashboard-snapshot'', rq_ctrl = 0 \<rparr>" 5 9 sample_network_error]
  by (simp add: sample_live_eq initial_live_def sample_options_def truthy_def console_keys_def)

section \<open>The console data\<close>

text \<open>
  C23. \<open>reconcileConsoleData\<close> computes a normal form: reconciling again, at any time, changes
  nothing. (On data whose dates parse; the comparators of the sorts return NaN otherwise.)
\<close>

theorem reconcile_normal_form:
  assumes "date_ok D" and "valid_data D d"
  shows "reconcileConsoleData D now' (reconcileConsoleData D now d) = reconcileConsoleData D now d"
  using assms by (rule reconcile_idem)

theorem reconcile_normal_form_witness:
  "reconcileConsoleData decimal_dates 9 (reconcileConsoleData decimal_dates 5 (demo_data decimal_dates 0 sample_ids)) =
   reconcileConsoleData decimal_dates 5 (demo_data decimal_dates 0 sample_ids)"
  by (rule reconcile_normal_form [OF decimal_dates_ok demo_data_valid [OF decimal_dates_ok]])
    (simp add: demo_clock_def max_time_def)

text \<open>
  C24. The one-pass summary of the jobs agrees with counting each state by itself: every counter is the
  number of jobs in its state, the counters add up to the total, and the length of a queue is the
  number of its jobs that wait (queued, retrying or scheduled).
\<close>

theorem summary_counts_jobs:
  "(\<forall>st. su_count st (summarizeJobs jobs workers rateLimits) = jobs_where (\<lambda>j. job_state j = st) jobs) \<and>
   su_totalJobs (summarizeJobs jobs workers rateLimits) =
     (\<Sum>st \<leftarrow> [JS_queued, JS_scheduled, JS_retrying, JS_blocked, JS_throttled, JS_active, JS_completed, JS_failed, JS_canceled].
        su_count st (summarizeJobs jobs workers rateLimits)) \<and>
   su_delayedBacklog (summarizeJobs jobs workers rateLimits) =
     jobs_where (\<lambda>j. job_state j \<in> {JS_scheduled, JS_retrying}) jobs \<and>
   (\<forall>q. obj_get (su_queueLengths (summarizeJobs jobs workers rateLimits)) q =
     (if q \<in> set QUEUES \<or> q \<in> job_queue ` set jobs
      then Some (jobs_where (\<lambda>j. job_queue j = q \<and> waiting (job_state j)) jobs) else None))"
  using jobs_where_partition [of jobs] by (simp add: summarize_count summarize_other summarize_queues del: su_count.simps)

text \<open>
  In live mode the overview that the server computed is overwritten with counts over the jobs
  that were listed, and the console lists at most 120 (\<open>jobsWithLimit(120)\<close>): the total shown is the
  length of the list, whatever the snapshot says.
\<close>

theorem overview_counts_listed_jobs:
  "ov_totalJobs (sn_overview (cd_snapshot (createConsoleDataFromApi D now input))) = of_nat (length (hy_jobs input)) \<and>
   ov_completedJobs (sn_overview (cd_snapshot (createConsoleDataFromApi D now input))) =
     jobs_where (\<lambda>j. job_state j = JS_completed) (hy_jobs input) \<and>
   ov_queuedJobs (sn_overview (cd_snapshot (createConsoleDataFromApi D now input))) =
     jobs_where (\<lambda>j. job_state j = JS_queued) (hy_jobs input)"
proof -
  have m: "jobs_where P (sort_jobs D js) = jobs_where P js" for P js by (rule jobs_where_mset) simp
  show ?thesis
    by (simp add: createConsoleDataFromApi_def apply_summary_def summarize_other summarize_counters m)
qed

text \<open>
  C25. The event log over any sequence of batches: at most 60 entries, no two with the same
  fingerprint, newest first; and a batch that arrives twice is added once.
\<close>

theorem event_log_invariant:
  assumes "log_inv D d" and "\<forall>es \<in> set batches. \<forall>e \<in> set es. log_event D e" and "\<forall>e \<in> set es. log_event D e"
  shows "(let d' = foldl (appendEvents D) d batches
    in length (cd_events d') \<le> 60 \<and> distinct (map createEventFingerprint (cd_events d')) \<and>
       sorted_wrt (\<ge>) (map (\<lambda>e. the (date_parse D (ev_timestamp e))) (cd_events d')) \<and>
       appendEvents D (appendEvents D d' es) es = appendEvents D d' es)"
proof -
  have inv: "log_inv D (foldl (appendEvents D) d batches)" using assms(1,2) by (rule event_log.batches_inv)
  then show ?thesis
    using appendEvents_idem [of "foldl (appendEvents D) d batches" D es] assms(3)
    by (auto simp: log_inv_def Let_def sorted_wrt_map)
qed

theorem event_log_invariant_witness:
  "length (cd_events (foldl (appendEvents decimal_dates) (createEmptyConsoleData Source_live) [[sample_event 1, sample_event 2], [sample_event 1]])) \<le> 60"
  using event_log_invariant [of decimal_dates "createEmptyConsoleData Source_live" "[[sample_event 1, sample_event 2], [sample_event 1]]" "[]"]
  by (simp add: log_inv_def createEmptyConsoleData_def sample_event_ok Let_def)

section \<open>Event batches\<close>

text \<open>
  C26. Between any steps of the event queue, a queued realtime event has a timer that will flush it at
  most 180 ms from now, no timer is set without a queued event, and what is queued are well-formed
  events.
\<close>

theorem queued_events_flushed:
  assumes "events_start s0" and "(event_step D)\<^sup>*\<^sup>* s0 (now, q, d)"
  shows "(eq_pending q \<noteq> [] \<longleftrightarrow> eq_flushTimer q \<noteq> None) \<and>
    (case eq_flushTimer q of None \<Rightarrow> True | Some due \<Rightarrow> due \<le> now + 180) \<and>
    (case eq_refreshTimer q of None \<Rightarrow> True | Some due \<Rightarrow> due \<le> now + 320) \<and> log_inv D d"
  using live_events.reachable_inv [OF assms] by (auto simp: events_inv_def split: option.split)

theorem queued_events_flushed_witness:
  "(case eq_flushTimer (on_event 7 [] (sample_event 1) empty_events) of None \<Rightarrow> True | Some due \<Rightarrow> due \<le> 7 + 180)"
proof -
  have start: "events_start (7, empty_events, createEmptyConsoleData Source_live)"
    by (simp add: events_start_def createEmptyConsoleData_def)
  have "(event_step decimal_dates)\<^sup>*\<^sup>* (7, empty_events, createEmptyConsoleData Source_live)
      (7, on_event 7 [] (sample_event 1) empty_events, createEmptyConsoleData Source_live)"
    by (intro r_into_rtranclp ev_receive sample_event_ok)
  from queued_events_flushed [OF start this] show ?thesis by blast
qed

text \<open>
  C27. Flushing loses no event: each event of the batch is in the log afterwards (or one with its
  fingerprint is), unless the log holds 60 events that are at least as recent.
\<close>

theorem flushed_event_shown:
  assumes "log_inv D d" and "\<forall>x \<in> set (eq_pending q). log_event D x" and "e \<in> set (eq_pending q)"
  shows "(let d' = snd (flushPendingEvents D now (q, d))
    in createEventFingerprint e \<in> createEventFingerprint ` set (cd_events d') \<or>
       length (cd_events d') = 60 \<and>
       (\<forall>x \<in> set (cd_events d'). the (date_parse D (ev_timestamp e)) \<le> the (date_parse D (ev_timestamp x))))"
proof -
  have "snd (flushPendingEvents D now (q, d)) = appendEvents D d (eq_pending q)"
    using assms(3) by (auto simp: flushPendingEvents_def Let_def)
  then show ?thesis using appended_shown [OF assms] by simp
qed

theorem flushed_event_shown_witness:
  "createEventFingerprint (sample_event 1) \<in> createEventFingerprint `
     set (cd_events (snd (flushPendingEvents decimal_dates 9 (on_event 7 [] (sample_event 1) empty_events, createEmptyConsoleData Source_live)))) \<or>
   length (cd_events (snd (flushPendingEvents decimal_dates 9 (on_event 7 [] (sample_event 1) empty_events, createEmptyConsoleData Source_live)))) = 60"
  using flushed_event_shown [of decimal_dates "createEmptyConsoleData Source_live" "on_event 7 [] (sample_event 1) empty_events" "sample_event 1" 9]
  by (auto simp: log_inv_def createEmptyConsoleData_def on_event_fields empty_events_def sample_event_ok Let_def)

text \<open>
  C28. Each batch puts the refresh of the console off by 320 ms, and batches are 180 ms apart: while
  events keep arriving, the refresh they ask for is never due, so the counters and the jobs stay as
  they were until the next poll.
\<close>

theorem steady_events_postpone_refresh:
  assumes "es \<noteq> []"
  shows "(let q' = fst (event_rounds D selectedJobId now es (q, d)); later = now + 180 * of_nat (length es)
    in \<exists>due. eq_refreshTimer q' = Some due \<and> later < due \<and> later + 180 < due)"
  using refresh_put_off [OF assms, of D selectedJobId now q d] by (simp add: Let_def)

theorem steady_events_postpone_refresh_witness:
  "eq_refreshTimer (fst (event_rounds decimal_dates [] 0 [sample_event 1, sample_event 2] (empty_events, createEmptyConsoleData Source_live))) \<noteq> None"
  using steady_events_postpone_refresh [of "[sample_event 1, sample_event 2]" decimal_dates "[]" 0 empty_events "createEmptyConsoleData Source_live"]
  by (auto simp: Let_def)

section \<open>Texts, storage and URLs\<close>

text \<open>
  C29. What one side prints with \<open>JSON.stringify\<close> the console reads back: for every array, object, string
  or boolean (with decimal numbers inside, any string content, and properties in enumeration order),
  both \<open>parseBody\<close> of the request client and \<open>safeJsonParse\<close> of the forms return the value.
\<close>

theorem body_round_trip:
  assumes "wf_json v" and "\<forall>x. v \<noteq> Num x"
  shows "parseBody (json_text v) = v \<and> safeJsonParse msg (Str (json_text v)) = \<lparr> jr_value = v, jr_error = [] \<rparr>"
  using json_text_trimmed [OF assms] json_roundtrip [OF assms(1)]
  by (simp add: parseBody_def safeJsonParse_def Let_def)

theorem body_round_trip_witness:
  "parseBody (json_text (Obj [(''a'', Arr [Num 1, Str ''x'', Null]), (''b'', Bool True)])) =
     Obj [(''a'', Arr [Num 1, Str ''x'', Null]), (''b'', Bool True)]"
  by (rule body_round_trip [THEN conjunct1]) (simp_all add: obj_ok_def key_le_def is_index_def is_digit_def)

text \<open>
  C31. The settings and selections survive a reload: in every reachable state of a page, through any
  actions, commits and earlier reloads, what a commit renders is what the next page starts with, although
  the effects skip what has not changed. The switches and the polling interval come back as they were, the texts
  trimmed, and an emptied text as its default. After "Reset saved settings" the next page starts with
  the defaults, but keeps the tab and the job of the address.
\<close>

theorem settings_survive_reload:
  assumes "page_start S a0" and "(page_step S)\<^sup>*\<^sup>* a0 a"
  shows "app_saved (reload_page S now ids (app_commit S ids' uid v a)) = restored (defaultBaseUrl S) (defaultToken S) (app_saved a) \<and>
    app_saved (reset_saved_settings S now ids (app_commit S ids' uid v a)) =
      (restored (defaultBaseUrl S) (defaultToken S) (app_saved a))
        \<lparr> ss_environment := ''Demo Sandbox'', ss_baseUrl := defaultBaseUrl S, ss_token := defaultToken S, ss_liveMode := True,
          ss_liveUpdates := True, ss_pollIntervalMs := PP_15000 \<rparr>"
proof -
  have "page_inv S a" using page.reachable_inv [where S = S] assms by blast
  then show ?thesis using reload_restores reset_defaults by blast
qed

theorem settings_survive_reload_witness:
  "ss_token (app_saved (reload_page sample_page_site 0 sample_ids (app_commit sample_page_site sample_ids ''t'' True sample_edited))) = ''secret'' \<and>
   ss_tab (app_saved (reset_saved_settings sample_page_site 0 sample_ids (app_commit sample_page_site sample_ids ''t'' True sample_edited))) = ''jobs''"
proof -
  have f: "ss_token (app_saved sample_edited) = '' secret ''" "ss_tab (app_saved sample_edited) = ''jobs''"
    by (simp_all add: sample_edited_def app_saved_def)
  have t: "js_trim '' secret '' = ''secret''" "js_trim ''jobs'' = ''jobs''" by code_simp+
  show ?thesis
    using settings_survive_reload [OF sample_page_start sample_edited_run, of 0 sample_ids sample_ids "''t''" True]
    by (simp add: restored_def f t or_str_def)
qed

section \<open>Requests and answers\<close>



text \<open>
  C33. A request with the parser of the job list returns only what is a list of well-shaped jobs, and
  only from a response with a 2xx status whose body it is.
\<close>

theorem validated_responses:
  assumes "ro_parser opts = Some (as_parser parseJobs)" and "\<not> ro_allowEmpty opts"
    and "requestJson U opts binding outcome = Inr v"
  shows "list_shape job_shape v \<and> (\<exists>status text. outcome = Response status text \<and> response_ok status \<and> v = parseBody text)"
  using assms by (rule jobs_parser.request_result)

theorem validated_responses_witness: "list_shape job_shape (Arr [])"
proof -
  let ?o = "\<lparr> ro_baseUrl = Some ''http://h'', ro_path = ''/jobs'', ro_token = None, ro_init = None,
    ro_parser = Some (as_parser parseJobs), ro_allowEmpty = False \<rparr>"
  have "requestJson sample_urls ?o (bindAbortSignals None []) (Response 200 ''[]'') = Inr (Arr [])" by (rule sample_request)
  from validated_responses [OF _ _ this] show ?thesis by (simp only: RequestJsonOptions.simps simp_thms)
qed

text \<open>
  C34. The parsers accept exactly the values of the shapes they document, and return them unchanged.
\<close>

theorem parsers_exact:
  "(parseDashboardSnapshot v = Inr w \<longleftrightarrow> w = v \<and> snapshot_shape v) \<and>
   (parseJob v = Inr w \<longleftrightarrow> w = v \<and> job_shape v) \<and>
   (parseJobs v = Inr w \<longleftrightarrow> w = v \<and> list_shape job_shape v) \<and>
   (parseSchedules v = Inr w \<longleftrightarrow> w = v \<and> list_shape schedule_shape v) \<and>
   (parseWorkerStatuses v = Inr w \<longleftrightarrow> w = v \<and> list_shape worker_shape v) \<and>
   (parseJobInspection v = Inr w \<longleftrightarrow> w = v \<and> inspection_shape v) \<and>
   (parseEnqueueResult v = Inr w \<longleftrightarrow> w = v \<and> enqueue_shape v)"
  by (simp add: snapshot_parser.parse_iff job_parser.parse_iff jobs_parser.parse_iff schedules_parser.parse_iff
      workers_parser.parse_iff inspection_parser.parse_iff enqueue_parser.parse_iff)

section \<open>Toasts\<close>

text \<open>
  C36. A toast is not repeated: while it is shown, the same toast returns the id of the one shown; after
  it was dismissed it is refused until its cool-down is over, and then it is shown again.
\<close>

theorem toast_cools_down:
  assumes "toast_inv q" and "fresh_id i q" and "snd (enqueueToast t i toast q) = Some i" and "t \<noteq> 0" and "toast_key toast \<noteq> []"
  shows "enqueueToast now uid toast (fst (enqueueToast t i toast q)) = (fst (enqueueToast t i toast q), Some i) \<and>
    (let q1 = dismissToast i (fst (enqueueToast t i toast q))
     in if of_int (now - t) < nullish (ti_cooldownMs toast) 10000 then enqueueToast now uid toast q1 = (q1, None)
        else snd (enqueueToast now uid toast q1) = Some uid)"
proof -
  have "i \<noteq> []" using assms(2) by (simp add: fresh_id_def)
  then show ?thesis
    using dismissed_cools [OF assms, of now uid] active_not_repeated [OF shown_then_active(1) [OF assms(3,1,2)]]
    by (simp add: Let_def not_less)
qed

theorem toast_cools_down_witness:
  "enqueueToast 5 ''t2'' retry_toast (fst (enqueueToast 1 ''t1'' retry_toast empty_queue)) =
     (fst (enqueueToast 1 ''t1'' retry_toast empty_queue), Some ''t1'')"
  by (rule toast_cools_down [OF empty_queue_inv, THEN conjunct1])
    (simp_all add: fresh_id_def empty_queue_def toast_key_def retry_toast_def toast_of_def nullish_def enqueueToast_def Let_def truthy_def)

section \<open>Delays\<close>

section \<open>What the operator is shown\<close>

text \<open>
  C37. The view of a queue counts what it says: active, waiting, throttled and blocked jobs, dead letters
  and the policies of that queue; and on reconciled data its backlog is the number of its waiting
  jobs.
\<close>

theorem queue_view_exact:
  assumes "q \<in> set QUEUES"
  shows "qv_activeJobs (queue_view d q) = jobs_where (\<lambda>j. job_queue j = q \<and> job_state j = JS_active) (cd_jobs d) \<and>
    qv_queuedJobs (queue_view d q) = jobs_where (\<lambda>j. job_queue j = q \<and> waiting (job_state j)) (cd_jobs d) \<and>
    qv_throttled (queue_view d q) = jobs_where (\<lambda>j. job_queue j = q \<and> job_state j = JS_throttled) (cd_jobs d) \<and>
    qv_blocked (queue_view d q) = jobs_where (\<lambda>j. job_queue j = q \<and> job_state j = JS_blocked) (cd_jobs d) \<and>
    qv_deadLetters (queue_view d q) =
      of_nat (length (filter (\<lambda>item. dl_queue item = q) (sn_deadLetters (cd_snapshot d)))) \<and>
    qv_policies (queue_view d q) = filter (queue_policy q) (sn_rateLimits (cd_snapshot d)) \<and>
    qv_backlog (queue_view (reconcileConsoleData D now d) q) = qv_queuedJobs (queue_view (reconcileConsoleData D now d) q)"
  using queue_view_counts [OF assms, of d] backlog_agrees [OF assms] by simp

theorem queue_view_exact_witness:
  "qv_activeJobs (queue_view sample_demo ''default'') =
     jobs_where (\<lambda>j. job_queue j = ''default'' \<and> job_state j = JS_active) (cd_jobs sample_demo)"
  by (rule queue_view_exact [THEN conjunct1]) (simp add: QUEUES_def)



section \<open>Actions of the operator\<close>

text \<open>
  C39. A valid form in live mode sends exactly one request, a new job with a priority from 0 to 9, at
  least one attempt and no negative timeout or delay, and leaves the console data to the answer.
\<close>

theorem submitted_job_in_bounds:
  assumes "jv_errors (validateJobForm D now msg (os_jobDraft s)) = []"
    and "js_truthy (jv_payload (validateJobForm D now msg (os_jobDraft s)))"
  shows "\<exists>s' body p. submitJob D now msg True uid s = Some s' \<and> os_data s' = os_data s \<and>
    os_sent s' = os_sent s @ [\<lparr> lr_route = R_jobs, lr_body = Some (enc_job_body body) \<rparr>] \<and>
    jb_priority body = Fin p \<and> 0 \<le> p \<and> p \<le> 9 \<and>
    num_ge (jb_maxAttempts body) 1 \<and> num_ge (jb_timeoutSeconds body) 0 \<and> num_ge (jb_delaySeconds body) 0"
  using submit_sends [OF assms, of uid] by metis

theorem submitted_job_in_bounds_witness:
  "\<exists>s' body p. submitJob decimal_dates 0 (\<lambda>_. ''bad'') True ''j'' sample_ops = Some s' \<and> os_data s' = os_data sample_ops \<and>
    os_sent s' = os_sent sample_ops @ [\<lparr> lr_route = R_jobs, lr_body = Some (enc_job_body body) \<rparr>] \<and>
    jb_priority body = Fin p \<and> 0 \<le> p \<and> p \<le> 9 \<and>
    num_ge (jb_maxAttempts body) 1 \<and> num_ge (jb_timeoutSeconds body) 0 \<and> num_ge (jb_delaySeconds body) 0"
  by (rule submitted_job_in_bounds) (rule sample_draft_ok)+



text \<open>
  C18. Refreshes terminate: in every reachable state finitely many requests are in flight, and when
  each of them has settled, in any order and with any outcomes that the browser may deliver, no
  refresh and no inspection is pending and a new refresh would not be refused.
\<close>

theorem every_refresh_ends:
  assumes "live_start s0" and "(live_step D)\<^sup>*\<^sup>* s0 s" and "distinct (map (fst \<circ> snd) evs)"
    and "set (map (fst \<circ> snd) evs) = dom (br_requests s)" and "\<forall>(now, r, outcome) \<in> set evs. may_settle s r outcome"
  shows "finite (dom (br_requests s)) \<and> (live_step D)\<^sup>*\<^sup>* s (settle_all D evs s) \<and>
    br_fetches (settle_all D evs s) = [] \<and> br_inspections (settle_all D evs s) = [] \<and>
    lv_fetchPromise (settle_all D evs s) = None"
proof -
  have run: "(live_step D)\<^sup>*\<^sup>* s (settle_all D evs s)" "br_requests (settle_all D evs s) = Map.empty"
    using settle_all_run [OF assms(3,5), of D] assms(4) by simp_all
  then have "(live_step D)\<^sup>*\<^sup>* s0 (settle_all D evs s)" using assms(2) by simp
  with live_data.reachable_inv [OF assms(1)] have "live_inv (settle_all D evs s)" by blast
  then show ?thesis
    using no_request_no_refresh run finite_requests live_data.reachable_inv [OF assms(1,2)] by blast
qed

theorem every_refresh_ends_witness:
  "br_fetches (settle_all decimal_dates
     [(5, 2, Inl sample_network_error), (6, 1, Inl sample_network_error), (7, 4, Inr (Rs_workers [])), (8, 3, Inr (Rs_schedules []))] sample_live) = []"
  using every_refresh_ends [OF sample_start sample_live_run, of
    "[(5, 2, Inl sample_network_error), (6, 1, Inl sample_network_error), (7, 4, Inr (Rs_workers [])), (8, 3, Inr (Rs_schedules []))]"]
  by (simp add: sample_live_eq may_settle_def response_fits_def initial_live_def) blast


text \<open>
  C6. The hook as a whole: however renders, callbacks of old and new managers,
  settlements and timers interleave, at most one transport manager holds a timer or a connection, and
  it is the current one of a mounted, visible console that is in live mode with live updates on.
\<close>

theorem hook_one_transport:
  assumes "hook_start h0" and "(hook_step W)\<^sup>*\<^sup>* h0 h"
  shows "card {i. i < length (hk_managers h) \<and> \<not> idle (snd (hk_managers h ! i))} \<le> 1 \<and>
    (\<forall>i < length (hk_managers h). idle (snd (hk_managers h ! i)) \<or>
      hk_manager h = Some i \<and> hk_mounted h \<and> (\<exists>p. hk_ran h = Some p \<and> wants_transport p))"
proof (intro conjI allI impI)
  have inv: "hook_inv h" using live_hook.reachable_inv [OF assms] .
  show "card {i. i < length (hk_managers h) \<and> \<not> idle (snd (hk_managers h ! i))} \<le> 1" using one_manager [OF inv] .
  fix i assume i: "i < length (hk_managers h)"
  have "hk_mounted h \<and> (\<exists>p. hk_ran h = Some p \<and> wants_transport p)" if m: "hk_manager h = Some i"
  proof (cases "hk_ran h")
    case None
    then show ?thesis using inv m by (simp add: hook_inv_def quiet_def)
  next
    case (Some p)
    then show ?thesis using hook_invD(1) [OF inv Some] m by simp
  qed
  then show "idle (snd (hk_managers h ! i)) \<or>
      hk_manager h = Some i \<and> hk_mounted h \<and> (\<exists>p. hk_ran h = Some p \<and> wants_transport p)"
    using replaced_idle [OF inv i] by blast
qed

theorem hook_one_transport_witness:
  "card {i. i < length (hk_managers (sample_hook True)) \<and> \<not> idle (snd (hk_managers (sample_hook True) ! i))} \<le> 1"
  using hook_one_transport [OF sample_hook_start sample_hook_run] by simp





text \<open>
  C8. Polling never dies out: while a visible live console has an API and a polling interval above
  0, its loop awaits a pending refresh, which goes on when the refresh ends, or its timer is due
  within the interval or one minute, and when the timer fires a refresh is in flight and the loop
  awaits it.
\<close>

theorem polling_goes_on:
  assumes "hook_start h0" and "(hook_step W)\<^sup>*\<^sup>* h0 h" and "hk_mounted h" and "hk_ran h = Some p"
    and "polls p" and "0 < lo_pollIntervalMs (dp_opts p)"
  shows "case hk_loop h of
      Loop_off \<Rightarrow> False
    | Loop_waits f \<Rightarrow> f \<in> fst ` set (br_fetches (hk_live h)) \<and>
        (\<forall>r outcome. f \<in> fst ` set (br_fetches (hk_live (settle_hook W (dp_opts p) r outcome h))) \<or>
          (\<exists>t. hk_loop (settle_hook W (dp_opts p) r outcome h) = Loop_due t \<and>
             t \<le> of_int (hk_now h) + max (lo_pollIntervalMs (dp_opts p)) 60000))
    | Loop_due t \<Rightarrow> t \<le> of_int (hk_now h) + max (lo_pollIntervalMs (dp_opts p)) 60000 \<and>
        (\<exists>f. hk_loop (poll_timer W (dp_opts p) h) = Loop_waits f)"
proof -
  have inv: "hook_inv h" using live_hook.reachable_inv [OF assms(1,2)] .
  have loop: "loop_ok (dp_opts p) h" using hook_invD(4) [OF inv assms(4,3,5)] .
  show ?thesis
  proof (cases "hk_loop h")
    case Loop_off
    then show ?thesis using loop assms(6) by (simp add: loop_ok_def)
  next
    case (Loop_waits f)
    have "f \<in> fst ` set (br_fetches (hk_live (settle_hook W (dp_opts p) r outcome h))) \<or>
        (\<exists>t. hk_loop (settle_hook W (dp_opts p) r outcome h) = Loop_due t \<and>
           t \<le> of_int (hk_now h) + max (lo_pollIntervalMs (dp_opts p)) 60000)" for r outcome
    proof -
      let ?h = "update_live (settle_request (wd_dates W) (hk_now h) r outcome) h"
      have eq: "settle_hook W (dp_opts p) r outcome h =
          (if f \<in> fst ` set (br_fetches (hk_live ?h)) then ?h else schedule_loop (dp_opts p) ?h)"
        using Loop_waits by (simp add: settle_hook_def advance_loop_def update_live_def)
      show ?thesis using schedule_due [OF assms(6), of ?h] by (simp add: eq update_live_def)
    qed
    then show ?thesis using loop Loop_waits by (simp add: loop_ok_def fetch_ids_def)
  next
    case (Loop_due t)
    have "lv_fetchPromise (refreshConsole (wd_dates W) (hk_now h) (dp_opts p) True False (hk_live h)) \<noteq> None"
      using assms(5) by (intro refresh_awaited) (simp_all add: polls_def)
    then show ?thesis
      using loop Loop_due by (auto simp: loop_ok_def max_poll_delay_def poll_timer_def await_loop_def update_live_def)
  qed
qed

theorem polling_goes_on_witness: "hk_loop (sample_hook True) \<noteq> Loop_off"
  using polling_goes_on [OF sample_hook_start sample_hook_run sample_hook_mounted sample_hook_ran, of True]
  by (auto simp: rendered_def polls_def sample_options_def truthy_def)


text \<open>
  C5. Demo mode is sound in the whole console: whenever the console is in demo mode, its data is
  demo data in normal form (job ids distinct, dates valid, every list sorted and every counter of the
  overview recomputed, at most 60 events), however it came there: from a live mode with requests in
  flight, with handlers that still wait for the cluster, whose answers carry valid dates, under any
  actions, reloads of the page included, and whatever is left of the network.
\<close>

theorem demo_mode_stays_normal:
  assumes "date_ok (wd_dates (site_world S))" and "app_start S a0" and "(page_step S)\<^sup>*\<^sup>* a0 a"
    and "hk_mounted (ap_hook a)" and "hk_ran (ap_hook a) = Some p" and "\<not> lo_liveMode (dp_opts p)"
  shows "cd_source (app_data a) = Source_demo \<and> valid_data (wd_dates (site_world S)) (app_data a) \<and>
    distinct (map job_id (cd_jobs (app_data a))) \<and> reconcileConsoleData (wd_dates (site_world S)) now (app_data a) = app_data a"
proof -
  have "app_inv (wd_dates (site_world S)) a" using session.reachable_inv [where S = S] assms(1-3) by blast
  then show ?thesis using demo_mode_normal assms(4-6) by (simp add: demo_inv_def)
qed

theorem demo_mode_stays_normal_witness:
  "distinct (map job_id (cd_jobs (app_data (sample_app False)))) \<and>
   reconcileConsoleData decimal_dates 7 (app_data (sample_app False)) = app_data (sample_app False)"
proof -
  have D: "wd_dates (site_world sample_site) = decimal_dates" by (simp add: sample_site_def sample_world_def)
  show ?thesis
    using demo_mode_stays_normal [OF _ sample_app_start page_runs [OF sample_app_run] sample_app_fields(1,2), of False] decimal_dates_ok
    by (simp add: D rendered_def sample_first_fields)
qed

text \<open>
  C10. No button of the console stays disabled: a busy flag is set only while a handler with that key
  waits for its request, and the end of the handler clears it, whether the request succeeds or fails.
\<close>

theorem no_stuck_button:
  assumes "date_ok (wd_dates (site_world S))" and "app_start S a0" and "(page_step S)\<^sup>*\<^sup>* a0 a"
  shows "(\<forall>k. obj_get (os_busy (ap_ops a)) k \<noteq> None \<longrightarrow> (\<exists>i t. map_of (ap_tasks a) i = Some t \<and> task_key t = k)) \<and>
    (\<forall>opts uids i t outcome. obj_get (os_busy (ap_ops (finish_task S opts uids i t outcome a))) (task_key t) = None)"
proof (intro conjI allI impI)
  have "app_inv (wd_dates (site_world S)) a" using session.reachable_inv [where S = S] assms by blast
  then have busy: "busy_ok a" by (simp add: app_inv_def)
  show "\<exists>i t. map_of (ap_tasks a) i = Some t \<and> task_key t = k" if "obj_get (os_busy (ap_ops a)) k \<noteq> None" for k
    using busy_task [OF busy that] .
  show "obj_get (os_busy (ap_ops (finish_task S opts uids i t outcome a))) (task_key t) = None" for opts uids i t outcome
    using resume_handled(2) by (simp add: finish_task_def)
qed

theorem no_stuck_button_witness:
  "obj_get (os_busy (ap_ops sample_retrying)) ''job-retry-x'' = Some True \<and>
   (\<exists>i t. map_of (ap_tasks sample_retrying) i = Some t \<and> task_key t = ''job-retry-x'')"
proof
  have D: "date_ok (wd_dates (site_world sample_site))" by (simp add: sample_site_def sample_world_def decimal_dates_ok)
  show busy: "obj_get (os_busy (ap_ops sample_retrying)) ''job-retry-x'' = Some True"
    by (simp add: sample_retrying_def retryJob_def send_busy Let_def)
  show "\<exists>i t. map_of (ap_tasks sample_retrying) i = Some t \<and> task_key t = ''job-retry-x''"
    using no_stuck_button [OF D sample_app_start page_runs [OF sample_retrying_run]] busy by blast
qed

section \<open>The rendered page and its operator\<close>


text \<open>
  C3. However the operator uses the page (any presses, edits, settings, dismissals on the pages that are
  rendered), and whatever the network, the timers and the reloads do in between, at most one request is
  under way for the submission of a job, the demo workflow, the bulk replay, the bulk delete, and the replay
  of each job: no double click submits twice.
\<close>

theorem operator_one_request:
  assumes "screen_start S sc0" and "(operator_step S)\<^sup>*\<^sup>* sc0 sc" and "k \<in> single_keys"
  shows "length (running k (sc_app sc)) \<le> 1"
  using operator.reachable_inv [OF assms(1,2)] assms(3) by (simp add: screen_inv_def single_ok_def)

theorem operator_one_request_witness: "length (running ''seed-workflow'' (sc_app sample_seeded)) \<le> 1"
  by (rule operator_one_request [OF sample_screen_start sample_seeded_run]) (simp add: single_keys_def)

text \<open>
  C11. From every page that is rendered and loaded, whatever its tab, search and filters, the
  operator can come to retry any job that the console knows, unless its retry is under way: there is a run of
  presses and choices, each of them on the page then rendered, to a page that offers the retry of the job.
\<close>

theorem any_job_can_be_retried:
  assumes "inspected S (sc_app sc) = Some i" and "\<not> lv_loading (hk_live (ap_hook (sc_app sc)))"
    and "j \<in> job_id ` set (cd_jobs (app_data (sc_app sc)))" and "not_busy (sc_app sc) (''job-retry-'' @ j)"
  shows "\<exists>sc'. (operator_step S)\<^sup>*\<^sup>* sc sc' \<and> on_page S sc' (Ui_do (A_retry j))"
proof -
  note r = reaches_jobs [OF assms(1,2)]
  let ?a = "all_jobs_page (sc_app sc)"
  have "offers (wd_dates (site_world S)) i (sc_drawer sc) ?a (A_retry j)" using assms(3,4) by (simp add: r(3,4))
  then have "on_page S (on_app ?a sc) (Ui_do (A_retry j))"
    using r(2) by (intro on_pageI [where i = i]) (simp_all add: page_actions)
  with r(1) show ?thesis by blast
qed

theorem any_job_can_be_retried_witness:
  "\<exists>sc'. (operator_step sample_page_site)\<^sup>*\<^sup>* sample_committed sc' \<and> on_page sample_page_site sc' (Ui_do (A_retry (sample_ids 2)))"
proof (rule any_job_can_be_retried)
  show "inspected sample_page_site (sc_app sample_committed) = Some None"
    by (simp add: inspected_def selectedInspection_def sample_committed_fields)
  have "sample_ids 2 \<in> set (map job_id (demo_jobs decimal_dates 0 (demo_ids sample_ids)))"
    unfolding demo_job_ids by (simp only: set_map) simp
  then show "sample_ids 2 \<in> job_id ` set (cd_jobs (app_data (sc_app sample_committed)))"
    by (simp add: sample_committed_fields sample_demo_job_ids)
qed (simp_all add: sample_committed_loaded sample_committed_fields not_busy_def is_busy_def)

text \<open>
  C35. On every page that an operator reaches at most five toasts are shown, with distinct ids; each of them
  has a pending timer that will remove it, and exactly these can be dismissed.
\<close>

theorem page_toasts_bounded:
  assumes "screen_start S sc0" and "(operator_step S)\<^sup>*\<^sup>* sc0 sc" and "hk_mounted (ap_hook (sc_app sc))"
  shows "(let q = ap_toasts (sc_app sc)
    in length (tq_toasts q) \<le> 5 \<and> distinct (map toast_id (tq_toasts q)) \<and>
      (\<forall>t \<in> set (tq_toasts q). \<exists>h d. tq_timers q (toast_id t) = Some h \<and> tq_pending q h = Some (toast_id t, d)) \<and>
      {t. Ui_dismiss t \<in> events (console_page S L isVisible (sc_drawer sc) i (sc_app sc))} = toast_id ` set (tq_toasts q))"
proof -
  have inv: "toast_inv (ap_toasts (sc_app sc))"
    using operator.reachable_inv [OF assms(1,2)] assms(3) by (simp add: screen_inv_def page_inv_def app_inv_def)
  have "{t. Ui_dismiss t \<in> events (console_page S L isVisible (sc_drawer sc) i (sc_app sc))} = toast_id ` set (tq_toasts (ap_toasts (sc_app sc)))"
    by (simp only: page_dismisses Collect_mem_eq)
  then show ?thesis using toast_invD(1,2) [OF inv] shown_has_timer [OF inv] by (simp add: Let_def)
qed

theorem page_toasts_bounded_witness:
  "length (tq_toasts (ap_toasts (sc_app sample_committed))) \<le> 5 \<and>
   (\<forall>L. {t. Ui_dismiss t \<in> events (console_page sample_page_site L True initial_drawer None (sc_app sample_committed))} = {})"
proof -
  note w = page_toasts_bounded [OF sample_screen_start sample_committed_run sample_committed_fields(1), of _ True None]
  show ?thesis using w by (simp add: sample_committed_fields empty_queue_def Let_def)
qed

end
